(* ===== verification/Prelude.thy ===== *)
theory Prelude
  imports Main "HOL-Library.Word"
begin

text \<open>
  The vocabulary that every component of the development shares: the machine
  integer types of the C and Go sources, the theorem collections, and generic
  facts on words, sums over CPU slots and partial maps.
\<close>

type_synonym u8 = "8 word"
type_synonym u16 = "16 word"
type_synonym u32 = "32 word"
type_synonym s32 = "32 word" \<comment> \<open>read through \<open>sint\<close>\<close>
type_synonym u64 = "64 word"

text \<open>An index of a CPU, the value of \<open>bpf_get_smp_processor_id()\<close>.\<close>

type_synonym cpu = nat

named_theorems contract_simps \<open>consequences of the kernel's map contracts\<close>
named_theorems step_defs \<open>definitions of the steps of one component\<close>

section \<open>Words\<close>

lemma unat_Suc_word [simp]:
  fixes x :: "'a::len word"
  assumes "unat x + 1 < 2 ^ LENGTH('a)"
  shows "unat (x + 1) = unat x + 1"
  using assms by (simp add: unat_word_ariths)

lemma unat_add_no_wrap:
  fixes x y :: "'a::len word"
  assumes "unat x + unat y < 2 ^ LENGTH('a)"
  shows "unat (x + y) = unat x + unat y"
  using assms by (simp add: unat_word_ariths)

lemma word_mod_eq_0_iff:
  fixes x y :: "'a::len word"
  shows "x mod y = 0 \<longleftrightarrow> unat x mod unat y = 0"
  by (metis unat_eq_zero unat_mod)

lemma unat_ucast_32_64 [simp]: "unat (ucast (x::u32) :: u64) = unat x"
  by (simp add: unsigned_ucast_eq take_bit_nat_eq_self less_trans [OF unsigned_less])

lemma unat_less_u32: "unat (x::u32) < 4294967296"
proof -
  have "unat x < 2 ^ LENGTH(32)"
    by (rule unsigned_less)
  then show ?thesis by simp
qed

lemma unat_less_u64: "unat (x::u64) < 18446744073709551616"
proof -
  have "unat x < 2 ^ LENGTH(64)"
    by (rule unsigned_less)
  then show ?thesis by simp
qed

lemma u32_le_1_cases: "(x::u32) \<le> 1 \<longleftrightarrow> x = 0 \<or> x = 1"
  using order_antisym_conv word_le_sub1 by auto

section \<open>Observing a run\<close>

text \<open>
  A run folds a step over the invocations; \<open>observe\<close> lists, with the invocation
  that caused it, what an observer sees in the state each invocation starts in.
\<close>

fun run :: "('i \<Rightarrow> 's \<Rightarrow> 's) \<Rightarrow> 'i list \<Rightarrow> 's \<Rightarrow> 's" where
  "run step [] s = s"
| "run step (i # is) s = run step is (step i s)"

fun observe ::
  "('i \<Rightarrow> 's \<Rightarrow> 's) \<Rightarrow> ('i \<Rightarrow> 's \<Rightarrow> 'a option) \<Rightarrow> 'i list \<Rightarrow> 's \<Rightarrow> ('i \<times> 'a) list" where
  "observe step obs [] s = []"
| "observe step obs (i # is) s =
     (case obs i s of None \<Rightarrow> [] | Some a \<Rightarrow> [(i, a)]) @ observe step obs is (step i s)"

lemma run_append: "run step (xs @ ys) s = run step ys (run step xs s)"
  by (induction xs arbitrary: s) auto

lemma run_invariant:
  assumes "\<And>i s. P s \<Longrightarrow> i \<in> set is \<Longrightarrow> P (step i s)" and "P s"
  shows "P (run step is s)"
  using assms by (induction "is" arbitrary: s) auto

lemma run_preserves:
  assumes "\<And>i s. f (step i s) = f s"
  shows "f (run step is s) = f s"
  by (induction "is" arbitrary: s) (auto simp: assms)

text \<open>What is observed does not depend on the state where the observer does not look at it.\<close>

lemma observe_stateless:
  assumes "\<And>i s. Q s \<Longrightarrow> i \<in> set is \<Longrightarrow> Q (step i s)"
    and "\<And>i s. Q s \<Longrightarrow> i \<in> set is \<Longrightarrow> obs i s = f i" and "Q s"
  shows "observe step obs is s = concat (map (\<lambda>i. case f i of None \<Rightarrow> [] | Some a \<Rightarrow> [(i, a)]) is)"
  using assms by (induction "is" arbitrary: s) auto

text \<open>Two observers that look up at the same invocations.\<close>

lemma observe_fst_cong:
  assumes "\<And>i s. (obs i s = None) = (obs' i s = None)"
  shows "map fst (observe step obs is s) = map fst (observe step obs' is s)"
proof (induction "is" arbitrary: s)
  case Nil
  then show ?case by simp
next
  case (Cons i "is")
  then show ?case
    using assms [of i s] by (cases "obs i s"; cases "obs' i s") auto
qed

lemma length_filter_fst:
  "length (filter (\<lambda>x. P (fst x)) xs) = length (filter P (map fst xs))"
  by (induction xs) auto

lemma observe_static:
  assumes "\<And>j i s. i \<in> set is \<Longrightarrow> P j (step i s) = P j s"
  shows "map fst (observe step (\<lambda>i s. if P i s then Some () else None) is s) = filter (\<lambda>i. P i s) is"
  using assms
proof (induction "is" arbitrary: s)
  case Nil
  then show ?case by simp
next
  case (Cons i "is")
  then have "map fst (observe step (\<lambda>i s. if P i s then Some () else None) is (step i s)) =
      filter (\<lambda>j. P j (step i s)) is"
    by auto
  then show ?case using Cons.prems by simp
qed

lemma sum_list_const_filter:
  fixes d :: "'a::semiring_1"
  assumes "\<And>x. x \<in> set xs \<Longrightarrow> P x \<Longrightarrow> f x = d"
  shows "sum_list (map (\<lambda>x. if P x then f x else 0) xs) = of_nat (length (filter P xs)) * d"
  using assms by (induction xs) (auto simp: algebra_simps)

section \<open>Division by the sampling rate\<close>

text \<open>The counter \<open>n\<close> has reached a multiple of the rate \<open>r\<close>.\<close>

definition rate_hit :: "u64 \<Rightarrow> u32 \<Rightarrow> bool" where
  "rate_hit n r \<longleftrightarrow> n mod ucast r = 0"

lemma rate_hit_unat: "rate_hit n r \<longleftrightarrow> unat n mod unat r = 0"
  by (simp only: rate_hit_def word_mod_eq_0_iff unat_ucast_32_64)

lemma rate_hit_one [simp]: "rate_hit n 1"
  by (simp add: rate_hit_unat)

lemma div_Suc_step:
  fixes c r :: nat
  assumes "0 < r"
  shows "Suc c div r = c div r + (if Suc c mod r = 0 then 1 else 0)"
  using assms by (simp add: div_Suc mod_Suc)

section \<open>Sums over the CPU slots\<close>

lemma sum_fun_upd_slot:
  fixes g :: "nat \<Rightarrow> 'a::comm_monoid_add"
  assumes "c < n"
  shows "(\<Sum>i<n. (g(c := g c + d)) i) = (\<Sum>i<n. g i) + d"
proof -
  have "(\<Sum>i<n. (g(c := g c + d)) i) = (g c + d) + (\<Sum>i\<in>{..<n} - {c}. (g(c := g c + d)) i)"
    using assms by (subst sum.remove [of _ c]) auto
  also have "(\<Sum>i\<in>{..<n} - {c}. (g(c := g c + d)) i) = (\<Sum>i\<in>{..<n} - {c}. g i)"
    by (rule sum.cong) auto
  also have "(g c + d) + \<dots> = (\<Sum>i<n. g i) + d"
    using assms by (subst sum.remove [of "{..<n}" c g]) (auto simp: add_ac)
  finally show ?thesis .
qed

section \<open>Folds over keyed entries\<close>

text \<open>
  A fold over entries with distinct keys changes what it shows of one key exactly
  as the key's own entry does, when the other entries do not touch it.
\<close>

lemma fold_keyed_other:
  assumes "\<And>e s. P s \<Longrightarrow> P (f e s)" and "\<And>e s. P s \<Longrightarrow> fst e \<noteq> k \<Longrightarrow> view (f e s) = view s"
    and "k \<notin> fst ` set es" and "P s"
  shows "P (fold f es s) \<and> view (fold f es s) = view s"
  using assms(3,4)
proof (induction es arbitrary: s)
  case (Cons e es)
  then have e: "fst e \<noteq> k" "k \<notin> fst ` set es"
    by auto
  then have "P (f e s)" "view (f e s) = view s"
    using assms(1,2) Cons.prems(2) by blast+
  then show ?case
    using Cons.IH [of "f e s"] e(2) by simp
qed simp

lemma fold_keyed:
  assumes "distinct (map fst es)" and "map_of es k = Some v"
    and "\<And>e s. P s \<Longrightarrow> P (f e s)" and "\<And>e s. P s \<Longrightarrow> fst e \<noteq> k \<Longrightarrow> view (f e s) = view s"
    and "\<And>s. P s \<Longrightarrow> view (f (k, v) s) = upd (view s)" and "P s"
  shows "view (fold f es s) = upd (view s)"
  using assms(1,2,6)
proof (induction es arbitrary: s)
  case (Cons e es)
  show ?case
  proof (cases "fst e = k")
    case True
    then have e: "e = (k, v)"
      using Cons.prems(2) by (cases e) simp
    have "k \<notin> fst ` set es"
      using Cons.prems(1) True by auto
    then have "view (fold f es (f e s)) = view (f e s)"
      using fold_keyed_other [of P f k view es "f e s"] assms(3,4) Cons.prems(3) by blast
    then show ?thesis
      using assms(5) [OF Cons.prems(3)] by (simp add: e)
  next
    case False
    then show ?thesis
      using Cons.IH [of "f e s"] Cons.prems assms(3,4) [OF Cons.prems(3), of e] by (cases e) simp
  qed
qed simp

end
