(* ===== verification/Kernel.thy ===== *)
theory Kernel
  imports Prelude
begin

text \<open>
  The boundary between the BPF programs and the kernel that runs them.  The
  kernel is not part of the repository, so nothing here defines it: what a
  helper returns is a field of the \<open>task\<close> record, one record per invocation of a
  program, and the map-changing helpers are arguments (\<open>upd\<close>, \<open>del\<close>) of every
  definition that calls them.  The contents of a BPF map is a partial function;
  a per-CPU map holds one slot for each CPU.  The contracts below state what the
  kernel documents about these helpers and are the named hypotheses of the
  theorems; the executable kernels at the end satisfy them and serve the
  witnesses.
\<close>

section \<open>What the helpers return during one invocation\<close>

record task =
  t_cgid :: u64                    \<comment> \<open>\<open>bpf_get_current_cgroup_id()\<close>\<close>
  t_ancestor :: "s32 \<Rightarrow> u64"       \<comment> \<open>\<open>bpf_get_current_ancestor_cgroup_id(level)\<close>\<close>
  t_pid_tgid :: u64                \<comment> \<open>\<open>bpf_get_current_pid_tgid()\<close>\<close>
  t_ktime :: u64                   \<comment> \<open>\<open>bpf_ktime_get_ns()\<close>\<close>
  t_cpu :: cpu                     \<comment> \<open>\<open>bpf_get_smp_processor_id()\<close>\<close>
  t_comm :: "u8 list"              \<comment> \<open>\<open>bpf_get_current_comm()\<close>, 16 bytes\<close>

text \<open>The update flags of the BPF system call.\<close>

datatype bpf_flag = BPF_ANY | BPF_NOEXIST | BPF_EXIST

section \<open>Tracepoint arguments\<close>

text \<open>
  The kernel structures the programs receive, from \<open>vmlinux.h\<close>: the numeric
  payload fields (the common header \<open>ent\<close>, the task names and the flexible tail
  \<open>__data\<close> are not read by any program and left out).  \<open>pid_t\<close> and \<open>int\<close> are
  32-bit words read as signed, \<open>long int\<close> is a 64-bit word read as signed.
\<close>

record trace_event_raw_sched_switch =
  prev_pid :: s32
  prev_prio :: s32
  prev_state :: u64
  next_pid :: s32
  next_prio :: s32

record trace_event_raw_sched_wakeup_template =
  wk_pid :: s32
  wk_prio :: s32
  wk_target_cpu :: s32

record trace_event_raw_sched_stat_runtime =
  sr_pid :: s32
  sr_runtime :: u64

record trace_event_raw_sched_stat_template =
  st_pid :: s32
  st_delay :: u64

record trace_event_raw_sched_migrate_task =
  mg_pid :: s32
  mg_prio :: s32
  mg_orig_cpu :: s32
  mg_dest_cpu :: s32

record trace_event_raw_sys_enter =
  en_id :: u64
  en_args :: "u64 list"

record trace_event_raw_sys_exit =
  ex_id :: u64
  ex_ret :: u64

record trace_event_raw_mm_vmscan_reclaim_pages =
  rp_nid :: s32
  nr_scanned :: u64
  nr_reclaimed :: u64
  nr_dirty :: u64
  nr_writeback :: u64
  nr_congested :: u64
  nr_immediate :: u64
  nr_activate0 :: u32
  nr_activate1 :: u32
  nr_ref_keep :: u64
  nr_unmap_fail :: u64

record trace_event_raw_mm_page_alloc =
  pa_pfn :: u64
  pa_order :: u32
  pa_gfp_flags :: u64
  pa_migratetype :: s32

record trace_event_raw_mm_page_free =
  pf_pfn :: u64
  pf_order :: u32

section \<open>Map-changing helpers\<close>

type_synonym ('k, 'v) bmap = "'k \<rightharpoonup> 'v"
type_synonym ('k, 'v) percpu = "'k \<rightharpoonup> (cpu \<Rightarrow> 'v)"

text \<open>
  \<open>bpf_map_update_elem\<close> and \<open>bpf_map_delete_elem\<close>: the new contents and the
  return value, 0 or a negative error number.
\<close>

type_synonym ('k, 'v) upd = "bpf_flag \<Rightarrow> 'k \<Rightarrow> 'v \<Rightarrow> ('k, 'v) bmap \<Rightarrow> ('k, 'v) bmap \<times> int"
type_synonym ('k, 'v) del = "'k \<Rightarrow> ('k, 'v) bmap \<Rightarrow> ('k, 'v) bmap \<times> int"
type_synonym ('k, 'v) pupd =
  "cpu \<Rightarrow> bpf_flag \<Rightarrow> 'k \<Rightarrow> 'v \<Rightarrow> ('k, 'v) percpu \<Rightarrow> ('k, 'v) percpu \<times> int"

text \<open>
  Contracts.  A hash map either stores the value and returns 0, or returns an
  error and stays as it is; \<open>BPF_NOEXIST\<close> succeeds on an absent key only and
  \<open>BPF_EXIST\<close> on a present one only.
\<close>

definition hash_update_ok :: "('k, 'v) upd \<Rightarrow> bool" where
  "hash_update_ok upd \<longleftrightarrow> (\<forall>f k v m.
     if snd (upd f k v m) = 0
     then fst (upd f k v m) = m(k \<mapsto> v) \<and>
       (f = BPF_NOEXIST \<longrightarrow> m k = None) \<and> (f = BPF_EXIST \<longrightarrow> m k \<noteq> None)
     else fst (upd f k v m) = m)"

text \<open>An LRU hash may evict other keys whenever it is updated.\<close>

definition lru_update_ok :: "('k, 'v) upd \<Rightarrow> bool" where
  "lru_update_ok upd \<longleftrightarrow> (\<forall>f k v m.
     (if snd (upd f k v m) = 0 then fst (upd f k v m) k = Some v
      else fst (upd f k v m) k = m k \<or> fst (upd f k v m) k = None) \<and>
     (\<forall>k'. k' \<noteq> k \<longrightarrow> fst (upd f k v m) k' = m k' \<or> fst (upd f k v m) k' = None))"

definition delete_ok :: "('k, 'v) del \<Rightarrow> bool" where
  "delete_ok del \<longleftrightarrow> (\<forall>k m. fst (del k m) = m(k := None))"

text \<open>
  Creating an element of a per-CPU hash from one CPU stores the value in that
  CPU's slot and zero in all others.
\<close>

definition percpu_update_ok :: "('k, 'v::zero) pupd \<Rightarrow> bool" where
  "percpu_update_ok upd \<longleftrightarrow> (\<forall>c k v m.
     if m k = None \<and> snd (upd c BPF_NOEXIST k v m) = 0
     then fst (upd c BPF_NOEXIST k v m) = m(k \<mapsto> (\<lambda>_. 0)(c := v))
     else fst (upd c BPF_NOEXIST k v m) = m \<and> snd (upd c BPF_NOEXIST k v m) \<noteq> 0)"

text \<open>The map has room: creating an absent key succeeds.\<close>

definition accepts :: "('k, 'v) upd \<Rightarrow> bool" where
  "accepts upd \<longleftrightarrow> (\<forall>f k v m. (m k = None \<and> f \<noteq> BPF_EXIST) \<or> f = BPF_ANY \<longrightarrow> snd (upd f k v m) = 0)"

definition percpu_accepts :: "('k, 'v) pupd \<Rightarrow> bool" where
  "percpu_accepts upd \<longleftrightarrow> (\<forall>c k v m. m k = None \<longrightarrow> snd (upd c BPF_NOEXIST k v m) = 0)"

text \<open>
  An array map with one element: the element is there from the start and is
  never deleted, so a lookup of key 0 succeeds and of any other key fails.
\<close>

definition array1 :: "(u32 \<rightharpoonup> 'v) \<Rightarrow> bool" where
  "array1 m \<longleftrightarrow> dom m = {0}"

definition array1_init :: "'v \<Rightarrow> (u32 \<rightharpoonup> 'v)" where
  "array1_init v = Map.empty(0 \<mapsto> v)"

section \<open>Consequences of the contracts\<close>

lemma array1_initI [simp, intro]: "array1 (array1_init v)"
  by (simp add: array1_def array1_init_def)

lemma array1_0: "array1 m \<Longrightarrow> \<exists>v. m 0 = Some v"
  by (auto simp: array1_def dom_def)

lemma array1_other: "array1 m \<Longrightarrow> k \<noteq> 0 \<Longrightarrow> m k = None"
  by (auto simp: array1_def dom_def)

lemma array1_upd [simp, intro]: "array1 m \<Longrightarrow> array1 (m(0 \<mapsto> v))"
  by (auto simp: array1_def)

lemma hash_update_stored:
  "hash_update_ok upd \<Longrightarrow> snd (upd f k v m) = 0 \<Longrightarrow> fst (upd f k v m) = m(k \<mapsto> v)"
  unfolding hash_update_ok_def by meson

lemma hash_update_refused:
  "hash_update_ok upd \<Longrightarrow> snd (upd f k v m) \<noteq> 0 \<Longrightarrow> fst (upd f k v m) = m"
  unfolding hash_update_ok_def by meson

lemma hash_update_present:
  "hash_update_ok upd \<Longrightarrow> m k = Some w \<Longrightarrow> fst (upd BPF_NOEXIST k v m) = m"
  unfolding hash_update_ok_def by (metis option.distinct(1))

lemma hash_update_accepted [contract_simps]:
  "hash_update_ok upd \<Longrightarrow> accepts upd \<Longrightarrow> m k = None \<Longrightarrow>
   fst (upd BPF_NOEXIST k v m) = m(k \<mapsto> v)"
  by (rule hash_update_stored) (auto simp: accepts_def)

lemma hash_update_any [contract_simps]:
  "hash_update_ok upd \<Longrightarrow> accepts upd \<Longrightarrow> fst (upd BPF_ANY k v m) = m(k \<mapsto> v)"
  by (rule hash_update_stored) (auto simp: accepts_def)

lemma lru_update_other:
  "lru_update_ok upd \<Longrightarrow> k' \<noteq> k \<Longrightarrow> fst (upd f k v m) k' = m k' \<or> fst (upd f k v m) k' = None"
  unfolding lru_update_ok_def by meson

lemma lru_update_same:
  "lru_update_ok upd \<Longrightarrow> fst (upd f k v m) k \<in> {Some v, m k, None}"
  by (cases "snd (upd f k v m) = 0") (auto simp: lru_update_ok_def)

lemma lru_update_stored [contract_simps]:
  "lru_update_ok upd \<Longrightarrow> accepts upd \<Longrightarrow> fst (upd BPF_ANY k v m) k = Some v"
  by (simp add: lru_update_ok_def accepts_def)

lemma lru_update_le:
  assumes "lru_update_ok upd"
  shows "fst (upd f k v m) k' = Some w \<Longrightarrow> m k' = Some w \<or> k' = k \<and> w = v"
  using lru_update_other [OF assms, of k' k f v m] lru_update_same [OF assms, of f k v m]
  by (cases "k' = k") auto

lemma delete_fst [contract_simps]: "delete_ok del \<Longrightarrow> fst (del k m) = m(k := None)"
  by (simp add: delete_ok_def)

lemma percpu_absent:
  assumes "percpu_update_ok upd"
  shows "fst (upd c BPF_NOEXIST k v m) = m \<or>
    m k = None \<and> fst (upd c BPF_NOEXIST k v m) = m(k \<mapsto> (\<lambda>_. 0)(c := v))"
  using assms unfolding percpu_update_ok_def by meson

lemma percpu_absent_accepted [contract_simps]:
  assumes "percpu_update_ok upd" and "percpu_accepts upd" and "m k = None"
  shows "fst (upd c BPF_NOEXIST k v m) = m(k \<mapsto> (\<lambda>_. 0)(c := v))"
  using assms unfolding percpu_update_ok_def percpu_accepts_def by meson

section \<open>Executable kernels that satisfy the contracts\<close>

text \<open>A hash map with room for every key, and one that refuses every new key.\<close>

fun roomy_upd :: "('k, 'v) upd" where
  "roomy_upd f k v m =
     (case m k of
        None \<Rightarrow> if f = BPF_EXIST then (m, -2) else (m(k \<mapsto> v), 0)
      | Some _ \<Rightarrow> if f = BPF_NOEXIST then (m, -17) else (m(k \<mapsto> v), 0))"

fun full_upd :: "('k, 'v) upd" where
  "full_upd f k v m =
     (case m k of
        None \<Rightarrow> if f = BPF_EXIST then (m, -2) else (m, -7)
      | Some _ \<Rightarrow> if f = BPF_NOEXIST then (m, -17) else (m(k \<mapsto> v), 0))"

fun plain_del :: "('k, 'v) del" where
  "plain_del k m = (m(k := None), if m k = None then -2 else 0)"

fun roomy_pupd :: "('k, 'v::zero) pupd" where
  "roomy_pupd c f k v m =
     (case m k of
        None \<Rightarrow> if f = BPF_EXIST then (m, -2) else (m(k \<mapsto> (\<lambda>_. 0)(c := v)), 0)
      | Some g \<Rightarrow> if f = BPF_NOEXIST then (m, -17) else (m(k \<mapsto> g(c := v)), 0))"

lemma roomy_upd_ok [simp]: "hash_update_ok roomy_upd" "lru_update_ok roomy_upd" "accepts roomy_upd"
  by (auto simp: hash_update_ok_def lru_update_ok_def accepts_def split: option.splits)

lemma full_upd_ok [simp]: "hash_update_ok full_upd" "lru_update_ok full_upd"
  by (auto simp: hash_update_ok_def lru_update_ok_def split: option.splits)

lemma plain_del_ok [simp]: "delete_ok plain_del"
  by (simp add: delete_ok_def)

lemma roomy_pupd_ok [simp]: "percpu_update_ok roomy_pupd" "percpu_accepts roomy_pupd"
  by (auto simp: percpu_update_ok_def percpu_accepts_def split: option.splits)

end
