(* ===== verification/Obsv_Common.thy ===== *)
theory Obsv_Common
  imports Kernel
begin

text \<open>
  What the five tracing modules of \<open>gocker-obsv/bpf\<close> share: the read-only
  constants, the one-element configuration map that user space writes, the
  subtree filter, the per-CPU sampling counter (as \<open>pf.bpf.c\<close> and \<open>sched.bpf.c\<close>
  write them), and the idiom that adds to a per-CPU counter after creating it if
  it is missing (written once in \<open>sys.bpf.c\<close> as \<open>add_u64\<close>).  Two interfaces are
  stated here: \<open>sampler\<close>, what any version of \<open>pass_sample\<close> promises, and
  \<open>accounting\<close>, what a tracepoint program that charges a counter promises.
\<close>

section \<open>Data\<close>

record rodata =
  SAMPLE_RATE :: u32
  ENABLE_FILTER :: u32
  TARGET_LEVEL :: u32
  TARGET_CGID :: u64

record cfg =
  sample_rate :: u32
  enable_filter :: u32
  target_level :: u32
  target_cgid :: u64

record cg_key =
  ck_cgid :: u64
  ck_type :: u32
  ck_pad :: u32

record obsv_cfg =
  ro :: rodata
  cfg_map :: "u32 \<rightharpoonup> cfg"

record obsv_maps = obsv_cfg +
  per_cpu_cnt :: "(u32, u64) percpu"

definition key_of :: "u64 \<Rightarrow> u32 \<Rightarrow> cg_key" where
  "key_of cgid type = \<lparr>ck_cgid = cgid, ck_type = type, ck_pad = 0\<rparr>"

section \<open>Operations\<close>

text \<open>\<open>load_cfg\<close> returns (rate, en, lvl, cgid), the four output parameters.\<close>

definition load_cfg :: "('a obsv_cfg_scheme) \<Rightarrow> u32 \<times> u32 \<times> u32 \<times> u64" where
  "load_cfg s =
     (case cfg_map s 0 of
        Some c \<Rightarrow> (if sample_rate c \<noteq> 0 then sample_rate c else 1,
                   enable_filter c, target_level c, target_cgid c)
      | None \<Rightarrow> (if SAMPLE_RATE (ro s) \<noteq> 0 then SAMPLE_RATE (ro s) else 1,
                 ENABLE_FILTER (ro s), TARGET_LEVEL (ro s), TARGET_CGID (ro s)))"

definition in_target_subtree_current :: "task \<Rightarrow> ('a obsv_cfg_scheme) \<Rightarrow> bool" where
  "in_target_subtree_current t s =
     (case load_cfg s of (rate, en, lvl, cgid) \<Rightarrow>
        if en = 0 then True
        else (let anc = t_ancestor t lvl in anc \<noteq> 0 \<and> anc = cgid))"

definition pass_sample :: "task \<Rightarrow> ('a obsv_maps_scheme) \<Rightarrow> bool \<times> ('a obsv_maps_scheme)" where
  "pass_sample t s =
     (case load_cfg s of (rate, en, lvl, cgid) \<Rightarrow>
        case per_cpu_cnt s 0 of
          None \<Rightarrow> (True, s)
        | Some pc \<Rightarrow>
            (let v = pc (t_cpu t) + 1
             in (v mod ucast rate = 0,
                 s\<lparr>per_cpu_cnt := (per_cpu_cnt s)(0 \<mapsto> pc(t_cpu t := v))\<rparr>)))"

text \<open>
  \<open>add_u64\<close>: look the counter up, create it as zero if it is missing, look it up
  again, give up if it is still missing, otherwise add \<open>delta\<close> to this CPU's slot.
\<close>

definition add_u64 ::
  "('k, u64) pupd \<Rightarrow> cpu \<Rightarrow> 'k \<Rightarrow> u64 \<Rightarrow> ('k, u64) percpu \<Rightarrow> ('k, u64) percpu" where
  "add_u64 upd c k delta m =
     (case m k of
        Some g \<Rightarrow> m(k \<mapsto> g(c := g c + delta))
      | None \<Rightarrow>
          (let m1 = fst (upd c BPF_NOEXIST k 0 m)
           in case m1 k of
                None \<Rightarrow> m1
              | Some g \<Rightarrow> m1(k \<mapsto> g(c := g c + delta))))"

section \<open>Counters as user space reads them\<close>

text \<open>The slots of a key, zero where the key is missing, and their sum.\<close>

definition slots :: "('k, u64) percpu \<Rightarrow> 'k \<Rightarrow> cpu \<Rightarrow> u64" where
  "slots m k = (case m k of None \<Rightarrow> (\<lambda>_. 0) | Some g \<Rightarrow> g)"

definition total :: "cpu \<Rightarrow> ('k, u64) percpu \<Rightarrow> 'k \<Rightarrow> u64" where
  "total n m k = (\<Sum>c<n. slots m k c)"

lemma slots_upd [simp]: "slots (m(k \<mapsto> g)) k' = (if k' = k then g else slots m k')"
  by (simp add: slots_def)

lemma slots_None [simp]: "m k = None \<Longrightarrow> slots m k = (\<lambda>_. 0)"
  by (simp add: slots_def)

lemma slots_Some [simp]: "m k = Some g \<Longrightarrow> slots m k = g"
  by (simp add: slots_def)

lemma total_empty [simp]: "total n Map.empty k = 0"
  by (simp add: total_def)

text \<open>Either nothing changes because the kernel refused the key, or the slot grows.\<close>

lemma add_u64_cases:
  assumes "percpu_update_ok upd"
  shows "m k = None \<and> add_u64 upd c k d m = m \<or>
    add_u64 upd c k d m = m(k \<mapsto> (slots m k)(c := slots m k c + d))"
proof (cases "m k")
  case None
  then show ?thesis
    using percpu_absent [OF assms, of c k 0 m]
    by (auto simp: add_u64_def Let_def fun_upd_def)
next
  case (Some g)
  then show ?thesis by (simp add: add_u64_def)
qed

lemma add_u64_accepted:
  assumes "percpu_update_ok upd" and "percpu_accepts upd"
  shows "add_u64 upd c k d m = m(k \<mapsto> (slots m k)(c := slots m k c + d))"
  by (cases "m k") (auto simp: add_u64_def Let_def percpu_absent_accepted [OF assms] fun_upd_def)

lemma total_add_u64:
  assumes "percpu_update_ok upd" and "percpu_accepts upd" and "c < n"
  shows "total n (add_u64 upd c k d m) k' = total n m k' + (if k' = k then d else 0)"
  using sum_fun_upd_slot [OF assms(3), of "slots m k" d]
  by (simp add: total_def add_u64_accepted [OF assms(1,2)])

lemma total_add_u64_other:
  assumes "percpu_update_ok upd" and "k' \<noteq> k"
  shows "total n (add_u64 upd c k d m) k' = total n m k'"
  using add_u64_cases [OF assms(1), of m k c d] assms(2) by (auto simp: total_def)

lemma total_add_u64_present:
  assumes "percpu_update_ok upd" and "c < n" and "k \<in> dom m"
  shows "total n (add_u64 upd c k d m) k = total n m k + d"
proof -
  obtain g where "m k = Some g"
    using assms(3) by auto
  then show ?thesis
    using sum_fun_upd_slot [OF assms(2), of g d] by (simp add: total_def add_u64_def)
qed

lemma dom_add_u64:
  "percpu_update_ok upd \<Longrightarrow> dom m \<subseteq> dom (add_u64 upd c k d m)"
  using add_u64_cases [of upd m k c d] by auto

section \<open>Interface: a sampler\<close>

text \<open>
  Any version of \<open>pass_sample\<close> lets an event through when the sampling rate is 1
  or when its CPU's counter reaches a multiple of the rate.
\<close>

locale sampler =
  fixes sample :: "'i \<Rightarrow> 's \<Rightarrow> bool \<times> 's"
    and cpu_of :: "'i \<Rightarrow> cpu"
    and count :: "'s \<Rightarrow> cpu \<Rightarrow> u64"
    and rate :: "'s \<Rightarrow> u32"
    and wf :: "'s \<Rightarrow> bool"
  assumes rate_pos: "0 < rate s"
    and wf_sample: "wf s \<Longrightarrow> wf (snd (sample i s))"
    and rate_sample: "wf s \<Longrightarrow> rate (snd (sample i s)) = rate s"
    and sample_iff: "wf s \<Longrightarrow>
      fst (sample i s) \<longleftrightarrow> rate s = 1 \<or> rate_hit (count s (cpu_of i) + 1) (rate s)"
    and count_sample: "wf s \<Longrightarrow> rate s \<noteq> 1 \<Longrightarrow>
      count (snd (sample i s)) = (count s)(cpu_of i := count s (cpu_of i) + 1)"
begin

lemma rate_one_passes: "wf s \<Longrightarrow> rate s = 1 \<Longrightarrow> fst (sample i s)"
  by (simp add: sample_iff)

text \<open>One trial moves the quotient of the counter by the rate exactly when it passes.\<close>

lemma sample_div:
  assumes "wf s" and "rate s \<noteq> 1" and "unat (count s (cpu_of i)) + 1 < 2 ^ 64"
  shows "unat (count (snd (sample i s)) (cpu_of i)) div unat (rate s) =
    unat (count s (cpu_of i)) div unat (rate s) + (if fst (sample i s) then 1 else 0)"
proof -
  have r: "0 < unat (rate s)"
    using rate_pos [of s] by (simp add: word_less_nat_alt)
  have c: "unat (count s (cpu_of i) + 1) = Suc (unat (count s (cpu_of i)))"
    using assms(3) by simp
  show ?thesis
    using div_Suc_step [OF r, of "unat (count s (cpu_of i))"]
    by (simp add: count_sample assms(1,2) sample_iff rate_hit_unat c)
qed

end

text \<open>
  A program that samples the events that pass a gate: over any interleaving of
  CPUs, the events of one CPU that pass are those the rate allows.
\<close>

locale sampled = sampler sample cpu_of count rate wf
  for sample :: "'i \<Rightarrow> 's \<Rightarrow> bool \<times> 's" and cpu_of and count and rate and wf +
  fixes step :: "'i \<Rightarrow> 's \<Rightarrow> 's"
    and gate :: "'i \<Rightarrow> 's \<Rightarrow> bool"
    and pre :: "'i \<Rightarrow> 's \<Rightarrow> 's"  \<comment> \<open>the state in which the sampler is called\<close>
  assumes wf_step: "wf s \<Longrightarrow> wf (step i s)"
    and rate_step: "wf s \<Longrightarrow> rate (step i s) = rate s"
    and wf_pre: "wf s \<Longrightarrow> wf (pre i s)"
    and rate_pre: "rate (pre i s) = rate s"
    and count_pre: "count (pre i s) = count s"
    and count_step: "wf s \<Longrightarrow>
      count (step i s) = (if gate i s then count (snd (sample i (pre i s))) else count s)"
begin

lemma passed_rate_one:
  assumes "wf s" and "rate s = 1"
  shows "observe step (\<lambda>i s. if gate i s \<and> fst (sample i (pre i s)) then Some () else None) is s =
    observe step (\<lambda>i s. if gate i s then Some () else None) is s"
  using assms
proof (induction "is" arbitrary: s)
  case Nil
  then show ?case by simp
next
  case (Cons i "is")
  then have "fst (sample i (pre i s))"
    by (intro rate_one_passes) (auto simp: wf_pre rate_pre)
  with Cons show ?case by (simp add: wf_step rate_step)
qed

lemma passed_count:
  assumes "wf s" and "rate s \<noteq> 1"
    and "unat (count s c) +
      length (filter (\<lambda>x. cpu_of (fst x) = c)
        (observe step (\<lambda>i s. if gate i s then Some () else None) is s)) < 2 ^ 64"
  shows "length (filter (\<lambda>x. cpu_of (fst x) = c)
      (observe step (\<lambda>i s. if gate i s \<and> fst (sample i (pre i s)) then Some () else None) is s)) =
    (unat (count s c) + length (filter (\<lambda>x. cpu_of (fst x) = c)
      (observe step (\<lambda>i s. if gate i s then Some () else None) is s))) div unat (rate s)
    - unat (count s c) div unat (rate s)"
  using assms
proof (induction "is" arbitrary: s)
  case Nil
  then show ?case by simp
next
  case (Cons i "is")
  let ?r = "unat (rate s)"
  let ?N = "\<lambda>is s. length (filter (\<lambda>x. cpu_of (fst x) = c)
      (observe step (\<lambda>i s. if gate i s then Some () else None) is s))"
  let ?P = "\<lambda>is s. length (filter (\<lambda>x. cpu_of (fst x) = c)
      (observe step (\<lambda>i s. if gate i s \<and> fst (sample i (pre i s)) then Some () else None) is s))"
  have IH: "?P is (step i s) = (unat (count (step i s) c) + ?N is (step i s)) div ?r
      - unat (count (step i s) c) div ?r"
    if "unat (count (step i s) c) + ?N is (step i s) < 2 ^ 64"
    using Cons.IH [of "step i s"] that Cons.prems(1,2) by (simp add: wf_step rate_step)
  have cnt: "count (step i s) = (if gate i s then (count s)(cpu_of i := count s (cpu_of i) + 1) else count s)"
    using Cons.prems(1,2) by (simp add: count_step count_sample wf_pre rate_pre count_pre)
  show ?case
  proof (cases "gate i s \<and> cpu_of i = c")
    case False
    then have "count (step i s) c = count s c"
      by (auto simp: cnt)
    with False IH Cons.prems(3) show ?thesis by (auto split: if_splits)
  next
    case True
    let ?b = "if fst (sample i (pre i s)) then 1 else 0 :: nat"
    have bound: "unat (count s c) + 1 < 2 ^ 64"
      using Cons.prems(3) True by simp
    then have up: "unat (count s c + 1) = unat (count s c) + 1"
      by simp
    have "unat (count s c + 1) div ?r = unat (count s c) div ?r + ?b"
      using sample_div [of "pre i s" i] Cons.prems(1,2) bound True
      by (simp add: wf_pre rate_pre count_pre count_sample)
    moreover have "?P is (step i s) =
        (unat (count s c) + 1 + ?N is (step i s)) div ?r - unat (count s c + 1) div ?r"
      using IH Cons.prems(3) True up by (simp add: cnt)
    moreover have "unat (count s c + 1) div ?r \<le> (unat (count s c) + 1 + ?N is (step i s)) div ?r"
      unfolding up by (rule div_le_mono) simp
    ultimately show ?thesis
      using True by (simp add: algebra_simps)
  qed
qed

text \<open>The same for an observer that sees exactly the events that pass.\<close>

lemma observed_count:
  assumes "\<And>i s. (obs i s = None) = (\<not> (gate i s \<and> fst (sample i (pre i s))))"
    and "\<And>i j s. gate j (step i s) = gate j s"
    and "wf s" and "unat (count s c) + length (filter (\<lambda>i. cpu_of i = c \<and> gate i s) is) < 2 ^ 64"
  shows "length (filter (\<lambda>i. cpu_of i = c) (map fst (observe step obs is s))) =
    (if rate s = 1 then length (filter (\<lambda>i. cpu_of i = c \<and> gate i s) is)
     else (unat (count s c) + length (filter (\<lambda>i. cpu_of i = c \<and> gate i s) is)) div unat (rate s)
       - unat (count s c) div unat (rate s))"
proof -
  let ?P = "\<lambda>i s. if gate i s \<and> fst (sample i (pre i s)) then Some () else None"
  let ?G = "\<lambda>i s. if gate i s then Some () else None"
  have obs: "map fst (observe step obs is s) = map fst (observe step ?P is s)"
    by (rule observe_fst_cong) (use assms(1) in auto)
  have "filter (\<lambda>i. cpu_of i = c) (map fst (observe step ?G is s)) =
      filter (\<lambda>i. cpu_of i = c) (filter (\<lambda>i. gate i s) is)"
    by (simp only: observe_static [of "is" gate step s, OF assms(2)])
  then have N: "length (filter (\<lambda>x. cpu_of (fst x) = c) (observe step ?G is s)) =
      length (filter (\<lambda>i. cpu_of i = c \<and> gate i s) is)"
    by (simp add: length_filter_fst [of "\<lambda>i. cpu_of i = c"] conj_commute)
  show ?thesis
  proof (cases "rate s = 1")
    case True
    then show ?thesis
      using passed_rate_one [OF assms(3), of "is"] N
      by (simp only: obs length_filter_fst [of "\<lambda>i. cpu_of i = c", symmetric] if_True refl)
  next
    case False
    then show ?thesis
      using passed_count [OF assms(3) False, of c "is"] assms(4)
      by (simp only: obs N length_filter_fst [of "\<lambda>i. cpu_of i = c", symmetric] if_False)
  qed
qed

end

section \<open>Interface: accounting\<close>

text \<open>
  A program that charges a per-CPU counter map: each invocation either leaves the
  map alone or adds an amount to one key through the create-if-missing idiom.
  What user space reads afterwards is what it read before plus the charges.
\<close>

locale accounting =
  fixes step :: "'i \<Rightarrow> 's \<Rightarrow> 's"
    and view :: "'s \<Rightarrow> ('k, u64) percpu"
    and upd :: "'i \<Rightarrow> ('k, u64) pupd"
    and cpu_of :: "'i \<Rightarrow> cpu"
    and charge :: "'i \<Rightarrow> 's \<Rightarrow> ('k \<times> u64) option"
  assumes view_step: "view (step i s) =
    (case charge i s of
       None \<Rightarrow> view s
     | Some (k, d) \<Rightarrow> add_u64 (upd i) (cpu_of i) k d (view s))"
begin

lemma total_step:
  assumes "percpu_update_ok (upd i)" and "percpu_accepts (upd i)" and "cpu_of i < n"
  shows "total n (view (step i s)) k =
    total n (view s) k + (case charge i s of None \<Rightarrow> 0 | Some (k', d) \<Rightarrow> if k = k' then d else 0)"
  by (auto simp: view_step total_add_u64 [OF assms] split: option.split)

theorem total_run:
  assumes "\<forall>i \<in> set is. percpu_update_ok (upd i) \<and> percpu_accepts (upd i) \<and> cpu_of i < n"
  shows "total n (view (run step is s)) k =
    total n (view s) k + sum_list (map (\<lambda>x. if k = fst (snd x) then snd (snd x) else 0) (observe step charge is s))"
  using assms
  by (induction "is" arbitrary: s) (auto simp: total_step add.assoc split: option.splits)

text \<open>A counter that exists is exact and never dropped, whatever the kernel answers.\<close>

lemma total_run_present:
  assumes "\<forall>i \<in> set is. percpu_update_ok (upd i) \<and> cpu_of i < n" and "k \<in> dom (view s)"
  shows "total n (view (run step is s)) k =
    total n (view s) k + sum_list (map (\<lambda>x. if k = fst (snd x) then snd (snd x) else 0) (observe step charge is s))"
  using assms
proof (induction "is" arbitrary: s)
  case Nil
  then show ?case by simp
next
  case (Cons i "is")
  have "k \<in> dom (view (step i s))"
    using Cons.prems subsetD [OF dom_add_u64, of "upd i" k "view s"]
    by (cases "charge i s") (auto simp: view_step)
  moreover have "total n (view (step i s)) k = total n (view s) k +
      (case charge i s of None \<Rightarrow> 0 | Some (k', d) \<Rightarrow> if k = k' then d else 0)"
    using Cons.prems total_add_u64_present [of "upd i" "cpu_of i" n k "view s"]
      total_add_u64_other [of "upd i" k _ n "cpu_of i" _ "view s"]
    by (cases "charge i s") (auto simp: view_step)
  ultimately show ?case
    using Cons by (auto simp: add.assoc split: option.splits)
qed

lemma dom_run:
  assumes "\<forall>i \<in> set is. percpu_update_ok (upd i)"
  shows "dom (view s) \<subseteq> dom (view (run step is s))"
  using assms
proof (induction "is" arbitrary: s)
  case Nil
  then show ?case by simp
next
  case (Cons i "is")
  have "dom (view s) \<subseteq> dom (view (step i s))"
    using Cons.prems by (cases "charge i s") (auto simp: view_step dest: dom_add_u64)
  also have "\<dots> \<subseteq> dom (view (run step is (step i s)))"
    using Cons by simp
  finally show ?case by simp
qed

end

section \<open>The configuration\<close>

text \<open>The two one-element array maps exist from load time and are never deleted.\<close>

definition maps_wf :: "('a obsv_maps_scheme) \<Rightarrow> bool" where
  "maps_wf s \<longleftrightarrow> array1 (cfg_map s) \<and> array1 (per_cpu_cnt s)"

definition cfg_rate :: "('a obsv_cfg_scheme) \<Rightarrow> u32" where
  "cfg_rate s = fst (load_cfg s)"

definition sample_count :: "('a obsv_maps_scheme) \<Rightarrow> cpu \<Rightarrow> u64" where
  "sample_count s = slots (per_cpu_cnt s) 0"

lemma load_cfg_cong:
  "cfg_map s = cfg_map s' \<Longrightarrow> ro s = ro s' \<Longrightarrow> load_cfg s = load_cfg s'"
  by (auto simp: load_cfg_def split: option.split)

lemma in_target_cong:
  "cfg_map s = cfg_map s' \<Longrightarrow> ro s = ro s' \<Longrightarrow>
   in_target_subtree_current t s = in_target_subtree_current t s'"
  using load_cfg_cong [of s s'] by (simp add: in_target_subtree_current_def)

lemma cfg_rate_pos: "0 < cfg_rate s"
  by (auto simp: cfg_rate_def load_cfg_def word_gt_0 split: option.split)

lemma pass_sample_frame [simp]:
  "ro (snd (pass_sample t s)) = ro s" "cfg_map (snd (pass_sample t s)) = cfg_map s"
  by (auto simp: pass_sample_def Let_def split: prod.splits option.splits)

lemma pass_sample_more [simp]:
  "obsv_maps.more (snd (pass_sample t s)) = obsv_maps.more s"
  by (auto simp: pass_sample_def Let_def split: prod.splits option.splits)

interpretation tp: sampler pass_sample t_cpu sample_count cfg_rate maps_wf
proof unfold_locales
  fix s :: "'a obsv_maps_scheme" and t
  show "0 < cfg_rate s" by (rule cfg_rate_pos)
  assume wf: "maps_wf s"
  then obtain pc where pc: "per_cpu_cnt s 0 = Some pc"
    unfolding maps_wf_def by (blast dest: array1_0)
  have v: "pass_sample t s = (rate_hit (pc (t_cpu t) + 1) (cfg_rate s),
      s\<lparr>per_cpu_cnt := (per_cpu_cnt s)(0 \<mapsto> pc(t_cpu t := pc (t_cpu t) + 1))\<rparr>)"
    by (simp add: pass_sample_def pc Let_def cfg_rate_def rate_hit_def split: prod.split)
  show "maps_wf (snd (pass_sample t s))"
    using wf by (auto simp: v maps_wf_def)
  show "cfg_rate (snd (pass_sample t s)) = cfg_rate s"
    by (simp add: cfg_rate_def load_cfg_cong [of "snd (pass_sample t s)" s])
  show "fst (pass_sample t s) \<longleftrightarrow>
      cfg_rate s = 1 \<or> rate_hit (sample_count s (t_cpu t) + 1) (cfg_rate s)"
    by (cases "cfg_rate s = 1") (simp_all add: v sample_count_def pc)
  show "sample_count (snd (pass_sample t s)) = (sample_count s)(t_cpu t := sample_count s (t_cpu t) + 1)"
    by (simp add: v sample_count_def pc)
qed

lemma pass_sample_rate_one: "cfg_rate s = 1 \<Longrightarrow> fst (pass_sample t s)"
  using rate_hit_one
  by (auto simp: pass_sample_def cfg_rate_def rate_hit_def Let_def split: prod.split option.split)

section \<open>Interface: an LRU cache\<close>

text \<open>
  A program that remembers something in an LRU map: each invocation may learn one
  pair and may forget one key.  The ideal cache never evicts; the real one is
  always a part of it.
\<close>

definition ideal_step ::
  "('k \<times> 'v) option \<Rightarrow> 'k option \<Rightarrow> ('k \<rightharpoonup> 'v) \<Rightarrow> ('k \<rightharpoonup> 'v)" where
  "ideal_step l f m =
     (let m1 = (case l of None \<Rightarrow> m | Some (p, g) \<Rightarrow> m(p \<mapsto> g))
      in case f of None \<Rightarrow> m1 | Some p \<Rightarrow> m1(p := None))"

fun ideal_cache ::
  "('i \<Rightarrow> 's \<Rightarrow> 's) \<Rightarrow> ('i \<Rightarrow> 's \<Rightarrow> ('k \<times> 'v) option) \<Rightarrow> ('i \<Rightarrow> 'k option) \<Rightarrow>
   'i list \<Rightarrow> 's \<Rightarrow> ('k \<rightharpoonup> 'v) \<Rightarrow> ('k \<rightharpoonup> 'v)" where
  "ideal_cache step learns forgets [] s m = m"
| "ideal_cache step learns forgets (i # is) s m =
     ideal_cache step learns forgets is (step i s) (ideal_step (learns i s) (forgets i) m)"

lemma ideal_step_mono: "m \<subseteq>\<^sub>m m' \<Longrightarrow> ideal_step l f m \<subseteq>\<^sub>m ideal_step l f m'"
  by (auto simp: ideal_step_def map_le_def Let_def split: option.splits)

lemma ideal_step_untouched:
  assumes "\<And>g. l \<noteq> Some (k, g)" and "f \<noteq> Some k"
  shows "ideal_step l f m k = m k"
  using assms by (auto simp: ideal_step_def Let_def split: option.split)

lemma ideal_cache_untouched:
  assumes "\<And>i s g. i \<in> set is \<Longrightarrow> learns i s \<noteq> Some (k, g)"
    and "\<And>i. i \<in> set is \<Longrightarrow> forgets i \<noteq> Some k"
  shows "ideal_cache step learns forgets is s m k = m k"
  using assms by (induction "is" arbitrary: s m) (auto simp: ideal_step_untouched)

lemma lru_update_ideal:
  assumes "lru_update_ok upd" and "accepts upd"
  shows "fst (upd BPF_ANY p g m) \<subseteq>\<^sub>m m(p \<mapsto> g)"
  unfolding map_le_def
proof
  fix k assume "k \<in> dom (fst (upd BPF_ANY p g m))"
  then show "fst (upd BPF_ANY p g m) k = (m(p \<mapsto> g)) k"
    using lru_update_other [OF assms(1), of k p BPF_ANY g m] lru_update_stored [OF assms, of p g m]
    by (cases "k = p") auto
qed

locale lru_cache =
  fixes step :: "'i \<Rightarrow> 's \<Rightarrow> 's"
    and cache :: "'s \<Rightarrow> ('k \<rightharpoonup> 'v)"
    and ok :: "'i \<Rightarrow> bool"
    and learns :: "'i \<Rightarrow> 's \<Rightarrow> ('k \<times> 'v) option"
    and forgets :: "'i \<Rightarrow> 'k option"
  assumes cache_step: "ok i \<Longrightarrow> cache (step i s) \<subseteq>\<^sub>m ideal_step (learns i s) (forgets i) (cache s)"
begin

theorem cache_le_ideal:
  assumes "\<forall>i \<in> set is. ok i" and "cache s \<subseteq>\<^sub>m m"
  shows "cache (run step is s) \<subseteq>\<^sub>m ideal_cache step learns forgets is s m"
  using assms
proof (induction "is" arbitrary: s m)
  case Nil
  then show ?case by simp
next
  case (Cons i "is")
  have "cache (step i s) \<subseteq>\<^sub>m ideal_step (learns i s) (forgets i) m"
    using cache_step [of i s] ideal_step_mono [OF Cons.prems(2)] Cons.prems(1)
    by (auto intro: map_le_trans)
  then show ?case using Cons by simp
qed

end

section \<open>Concrete inputs for the witnesses\<close>

text \<open>A task in cgroup \<open>g\<close> on CPU \<open>c\<close>, whose ancestor at every level is 7.\<close>

definition demo_task :: "cpu \<Rightarrow> u64 \<Rightarrow> task" where
  "demo_task c g = \<lparr>t_cgid = g, t_ancestor = (\<lambda>_. 7), t_pid_tgid = 0x500000006,
     t_ktime = 1000, t_cpu = c, t_comm = replicate 16 0\<rparr>"

definition demo_cfg :: "u32 \<Rightarrow> cfg" where
  "demo_cfg r = \<lparr>sample_rate = r, enable_filter = 1, target_level = 1, target_cgid = 7\<rparr>"

definition demo_ro :: rodata where
  "demo_ro = \<lparr>SAMPLE_RATE = 1, ENABLE_FILTER = 1, TARGET_LEVEL = 1, TARGET_CGID = 7\<rparr>"

lemmas demo_defs = demo_task_def demo_cfg_def demo_ro_def key_of_def
  load_cfg_def cfg_rate_def in_target_subtree_current_def maps_wf_def array1_init_def array1_def
  sample_count_def slots_def

end
