(* ===== verification/Obsv_Pf.thy ===== *)
theory Obsv_Pf
  imports Obsv_Common
begin

text \<open>
  \<open>gocker-obsv/bpf/pf.bpf.c\<close>: the page-fault module.  Its state is the shared
  maps and \<open>cg_pf_cnt\<close>; its two tracepoint programs count the faults of the tasks
  inside the target subtree, per cgroup and fault type.
\<close>

section \<open>State and operations\<close>

datatype pf_type = PF_USER | PF_KERNEL

fun pf_code :: "pf_type \<Rightarrow> u32" where
  "pf_code PF_USER = 1"
| "pf_code PF_KERNEL = 2"

record pf_state = obsv_maps +
  cg_pf_cnt :: "(cg_key, u64) percpu"

definition bump_pf :: "(cg_key, u64) pupd \<Rightarrow> task \<Rightarrow> u32 \<Rightarrow> pf_state \<Rightarrow> s32 \<times> pf_state" where
  "bump_pf upd t type s =
     (if \<not> in_target_subtree_current t s then (0, s)
      else (case pass_sample t s of (ok, s1) \<Rightarrow>
        if \<not> ok then (0, s1)
        else (let key = key_of (t_cgid t) type
              in (0, s1\<lparr>cg_pf_cnt := add_u64 upd (t_cpu t) key 1 (cg_pf_cnt s1)\<rparr>))))"

definition tp_page_fault_user :: "(cg_key, u64) pupd \<Rightarrow> task \<Rightarrow> pf_state \<Rightarrow> s32 \<times> pf_state" where
  "tp_page_fault_user upd t s = bump_pf upd t (pf_code PF_USER) s"

definition tp_page_fault_kernel :: "(cg_key, u64) pupd \<Rightarrow> task \<Rightarrow> pf_state \<Rightarrow> s32 \<times> pf_state" where
  "tp_page_fault_kernel upd t s = bump_pf upd t (pf_code PF_KERNEL) s"

text \<open>An invocation: the kernel that serves it, the current task, the tracepoint hit.\<close>

type_synonym pf_call = "(cg_key, u64) pupd \<times> task \<times> pf_type"

fun pf_step :: "pf_call \<Rightarrow> pf_state \<Rightarrow> pf_state" where
  "pf_step (upd, t, PF_USER) s = snd (tp_page_fault_user upd t s)"
| "pf_step (upd, t, PF_KERNEL) s = snd (tp_page_fault_kernel upd t s)"

section \<open>What an invocation charges\<close>

definition pf_gate :: "pf_call \<Rightarrow> pf_state \<Rightarrow> bool" where
  "pf_gate i s = in_target_subtree_current (fst (snd i)) s"

definition pf_sample :: "pf_call \<Rightarrow> pf_state \<Rightarrow> bool \<times> pf_state" where
  "pf_sample i s = pass_sample (fst (snd i)) s"

definition pf_cpu :: "pf_call \<Rightarrow> cpu" where
  "pf_cpu i = t_cpu (fst (snd i))"

definition pf_key :: "pf_call \<Rightarrow> cg_key" where
  "pf_key i = key_of (t_cgid (fst (snd i))) (pf_code (snd (snd i)))"

definition pf_charge :: "pf_call \<Rightarrow> pf_state \<Rightarrow> (cg_key \<times> u64) option" where
  "pf_charge i s = (if pf_gate i s \<and> fst (pf_sample i s) then Some (pf_key i, 1) else None)"

lemmas pf_view_defs = pf_gate_def pf_sample_def pf_cpu_def pf_key_def

lemma pf_step_eq:
  "pf_step i s =
     (if \<not> pf_gate i s then s
      else let s1 = snd (pf_sample i s)
           in if fst (pf_sample i s)
              then s1\<lparr>cg_pf_cnt := add_u64 (fst i) (pf_cpu i) (pf_key i) 1 (cg_pf_cnt s1)\<rparr>
              else s1)"
  by (cases "(i, s)" rule: pf_step.cases)
     (auto simp: pf_view_defs tp_page_fault_user_def tp_page_fault_kernel_def bump_pf_def Let_def
       split: prod.splits)

lemma pf_sample_cnt [simp]: "cg_pf_cnt (snd (pf_sample i s)) = cg_pf_cnt s"
  by (auto simp: pf_sample_def pass_sample_def Let_def split: prod.splits option.splits)

lemma pf_step_cfg [simp]: "cfg_map (pf_step i s) = cfg_map s" "ro (pf_step i s) = ro s"
  by (auto simp: pf_step_eq Let_def pf_sample_def)

lemma pf_step_per_cpu:
  "per_cpu_cnt (pf_step i s) = (if pf_gate i s then per_cpu_cnt (snd (pf_sample i s)) else per_cpu_cnt s)"
  by (simp add: pf_step_eq Let_def)

interpretation pf: accounting pf_step cg_pf_cnt fst pf_cpu pf_charge
  by unfold_locales (simp add: pf_step_eq pf_charge_def Let_def)

lemma pf_step_wf [simp]: "maps_wf s \<Longrightarrow> maps_wf (pf_step i s)"
  using tp.wf_sample [of s "fst (snd i)"]
  by (simp add: maps_wf_def pf_step_per_cpu pf_sample_def)

lemma pf_step_rate [simp]: "cfg_rate (pf_step i s) = cfg_rate s"
  by (simp add: cfg_rate_def load_cfg_cong [of "pf_step i s" s])

interpretation pf: sampled pf_sample pf_cpu sample_count cfg_rate maps_wf pf_step pf_gate "\<lambda>i s. s"
  by unfold_locales
    (auto simp: pf_sample_def pf_cpu_def sample_count_def pf_step_per_cpu cfg_rate_pos
      tp.wf_sample tp.rate_sample tp.sample_iff tp.count_sample [unfolded sample_count_def])

lemma pf_step_gate [simp]: "pf_gate j (pf_step i s) = pf_gate j s"
  by (simp add: pf_gate_def in_target_cong [of "pf_step i s" s])

section \<open>Properties\<close>

text \<open>The invocations that end in a count.\<close>

definition pf_counted :: "pf_call list \<Rightarrow> pf_state \<Rightarrow> pf_call list" where
  "pf_counted is s = map fst (observe pf_step pf_charge is s)"

definition pf_kernel_ok :: "cpu \<Rightarrow> pf_call list \<Rightarrow> bool" where
  "pf_kernel_ok n is \<longleftrightarrow>
     (\<forall>i \<in> set is. percpu_update_ok (fst i) \<and> percpu_accepts (fst i) \<and> pf_cpu i < n)"

lemma pf_observe_charge:
  "x \<in> set (observe pf_step pf_charge is s) \<Longrightarrow> snd x = (pf_key (fst x), 1)"
  by (induction "is" arbitrary: s) (auto simp: pf_charge_def split: if_splits)

lemma pf_counted_rate_one:
  assumes "maps_wf s" and "cfg_rate s = 1"
  shows "pf_counted is s = filter (\<lambda>i. pf_gate i s) is"
proof -
  have "pf_counted is s =
      map fst (observe pf_step (\<lambda>i s. if pf_gate i s \<and> fst (pf_sample i s) then Some () else None) is s)"
    unfolding pf_counted_def by (rule observe_fst_cong) (simp add: pf_charge_def)
  also have "\<dots> = map fst (observe pf_step (\<lambda>i s. if pf_gate i s then Some () else None) is s)"
    by (simp only: pf.passed_rate_one [OF assms])
  also have "\<dots> = filter (\<lambda>i. pf_gate i s) is"
    by (rule observe_static) simp
  finally show ?thesis .
qed

text \<open>
  C1: over any sequence of page faults on any CPUs, the count that user space
  reads for a cgroup and fault type (the sum of the CPU slots) grows by exactly
  the number of counted faults with that cgroup and type, provided the map has
  room; no fault is counted twice, lost, or charged to another key.
\<close>

theorem pf_total_counted:
  assumes "pf_kernel_ok n is"
  shows "total n (cg_pf_cnt (run pf_step is s)) k =
    total n (cg_pf_cnt s) k + of_nat (length (filter (\<lambda>i. pf_key i = k) (pf_counted is s)))"
proof -
  let ?o = "observe pf_step pf_charge is s"
  have "sum_list (map (\<lambda>x. if k = fst (snd x) then snd (snd x) else 0) ?o) =
      of_nat (length (filter (\<lambda>x. k = fst (snd x)) ?o)) * 1"
    by (rule sum_list_const_filter) (simp add: pf_observe_charge)
  moreover have "filter (\<lambda>x. k = fst (snd x)) ?o = filter (\<lambda>x. pf_key (fst x) = k) ?o"
    by (rule filter_cong) (auto simp: pf_observe_charge)
  ultimately show ?thesis
    using pf.total_run [of "is" n s k] assms
    by (simp add: pf_kernel_ok_def pf_counted_def length_filter_fst [of "\<lambda>i. pf_key i = k"])
qed

text \<open>
  C2: the faults counted on a CPU are exactly those the sampling rate allows.
  If the CPU's counter starts at \<open>c0\<close> and \<open>N\<close> faults of tasks inside the target
  subtree hit that CPU, interleaved in any way with faults elsewhere, then
  \<open>(c0 + N) div rate - c0 div rate\<close> of them are counted (all of them at rate 1),
  as long as the 64-bit counter does not wrap.
\<close>

theorem pf_sampling_rate:
  assumes "maps_wf s"
    and "unat (sample_count s c) + length (filter (\<lambda>i. pf_cpu i = c \<and> pf_gate i s) is) < 2 ^ 64"
  shows "length (filter (\<lambda>i. pf_cpu i = c) (pf_counted is s)) =
    (unat (sample_count s c) + length (filter (\<lambda>i. pf_cpu i = c \<and> pf_gate i s) is)) div unat (cfg_rate s)
    - unat (sample_count s c) div unat (cfg_rate s)"
  using pf.observed_count [of pf_charge, OF _ _ assms]
  by (auto simp: pf_counted_def pf_charge_def)

section \<open>Witnesses\<close>

definition demo_pf :: "u32 \<Rightarrow> pf_state" where
  "demo_pf r = \<lparr>ro = demo_ro, cfg_map = array1_init (demo_cfg r),
     per_cpu_cnt = array1_init (\<lambda>_. 0), cg_pf_cnt = Map.empty\<rparr>"

definition demo_faults :: "pf_call list" where
  "demo_faults = [(roomy_pupd, demo_task 0 9, PF_USER), (roomy_pupd, demo_task 1 9, PF_KERNEL),
     (roomy_pupd, demo_task 0 9, PF_USER)]"

theorem pf_total_counted_witness:
  "pf_kernel_ok 2 demo_faults \<and>
   total 2 (cg_pf_cnt (run pf_step demo_faults (demo_pf 2))) (key_of 9 1) = 1"
proof -
  have ok: "pf_kernel_ok 2 demo_faults"
    by (simp add: pf_kernel_ok_def demo_faults_def pf_cpu_def demo_task_def)
  show ?thesis
    using ok pf_total_counted [OF ok, of "demo_pf 2" "key_of 9 1"]
    by (simp add: pf_counted_def demo_faults_def demo_pf_def pf_charge_def pf_view_defs pf_step_eq
        pass_sample_def Let_def demo_defs)
qed

theorem pf_sampling_rate_witness:
  "maps_wf (demo_pf 2) \<and> length (filter (\<lambda>i. pf_cpu i = 0) (pf_counted demo_faults (demo_pf 2))) = 1"
proof -
  have wf: "maps_wf (demo_pf 2)"
    by (simp add: demo_pf_def maps_wf_def)
  have N: "length (filter (\<lambda>i. pf_cpu i = 0 \<and> pf_gate i (demo_pf 2)) demo_faults) = 2"
    by (simp add: demo_faults_def demo_pf_def pf_view_defs demo_defs)
  have c0: "unat (sample_count (demo_pf 2) 0) = 0" and r: "unat (cfg_rate (demo_pf 2)) = 2"
    by (simp_all add: demo_pf_def demo_defs)
  show ?thesis
    using wf pf_sampling_rate [OF wf, of 0 demo_faults] by (simp add: N c0 r)
qed

end
