(* ===== verification/Obsv_Sched.thy ===== *)
theory Obsv_Sched
  imports Obsv_Common
begin

text \<open>
  \<open>gocker-obsv/bpf/sched.bpf.c\<close>: switch-ins and wakeups per cgroup.  At a context
  switch only the cgroup of the outgoing task is known, so the module remembers
  it by process id in the LRU map \<open>pid_cgid\<close> and charges the incoming task, and
  the woken task of a wakeup, through that map.
\<close>

section \<open>State and operations\<close>

datatype sc_type = EVT_SWITCH_IN | EVT_WAKEUP

fun sc_code :: "sc_type \<Rightarrow> u32" where
  "sc_code EVT_SWITCH_IN = 1"
| "sc_code EVT_WAKEUP = 2"

record sched_state = obsv_maps +
  cg_sched_cnt :: "(cg_key, u64) percpu"
  sc_pid_cgid :: "u32 \<rightharpoonup> u64"

text \<open>The kernel that serves an invocation: the counter map and the LRU map.\<close>

record sched_kernel =
  sk_cnt :: "(cg_key, u64) pupd"
  sk_pid_upd :: "(u32, u64) upd"
  sk_pid_del :: "(u32, u64) del"

definition sched_load_cfg :: "sched_state \<Rightarrow> u32 \<times> u32 \<times> u32 \<times> u64" where
  "sched_load_cfg s =
     (case cfg_map s 0 of
        Some c \<Rightarrow> (if sample_rate c \<noteq> 0 then sample_rate c else 1,
                   enable_filter c, target_level c, target_cgid c)
      | None \<Rightarrow> (if SAMPLE_RATE (ro s) \<noteq> 0 then SAMPLE_RATE (ro s) else 1,
                 ENABLE_FILTER (ro s), TARGET_LEVEL (ro s), TARGET_CGID (ro s)))"

definition sched_in_target_subtree_current :: "task \<Rightarrow> sched_state \<Rightarrow> bool" where
  "sched_in_target_subtree_current t s =
     (case sched_load_cfg s of (rate, en, lvl, cgid) \<Rightarrow>
        if en = 0 then True
        else (let anc = t_ancestor t lvl in anc \<noteq> 0 \<and> anc = cgid))"

definition sched_pass_sample :: "task \<Rightarrow> sched_state \<Rightarrow> bool \<times> sched_state" where
  "sched_pass_sample t s =
     (case sched_load_cfg s of (rate, en, lvl, cgid) \<Rightarrow>
        case per_cpu_cnt s 0 of
          None \<Rightarrow> (True, s)
        | Some pc \<Rightarrow>
            (let v = pc (t_cpu t) + 1
             in (v mod ucast rate = 0,
                 s\<lparr>per_cpu_cnt := (per_cpu_cnt s)(0 \<mapsto> pc(t_cpu t := v))\<rparr>)))"

definition bump_sched ::
  "sched_kernel \<Rightarrow> task \<Rightarrow> u64 \<Rightarrow> u32 \<Rightarrow> sched_state \<Rightarrow> s32 \<times> sched_state" where
  "bump_sched K t cgid type s =
     (case sched_pass_sample t s of (ok, s1) \<Rightarrow>
        if \<not> ok then (0, s1)
        else (let key = key_of cgid type
              in (0, s1\<lparr>cg_sched_cnt := add_u64 (sk_cnt K) (t_cpu t) key 1 (cg_sched_cnt s1)\<rparr>)))"

definition tp_sched_switch ::
  "sched_kernel \<Rightarrow> task \<Rightarrow> trace_event_raw_sched_switch \<Rightarrow> sched_state \<Rightarrow> s32 \<times> sched_state" where
  "tp_sched_switch K t ctx s =
     (let s1 = (if sched_in_target_subtree_current t s
                then (let prev = prev_pid ctx; prev_cgid = t_cgid t
                      in s\<lparr>sc_pid_cgid := fst (sk_pid_upd K BPF_ANY prev prev_cgid (sc_pid_cgid s))\<rparr>)
                else s);
          next = next_pid ctx
      in case sc_pid_cgid s1 next of
           None \<Rightarrow> (0, s1)
         | Some next_cgid \<Rightarrow> bump_sched K t next_cgid (sc_code EVT_SWITCH_IN) s1)"

definition tp_sched_wakeup ::
  "sched_kernel \<Rightarrow> task \<Rightarrow> trace_event_raw_sched_wakeup_template \<Rightarrow> sched_state \<Rightarrow> s32 \<times> sched_state" where
  "tp_sched_wakeup K t ctx s =
     (let pid = wk_pid ctx
      in case sc_pid_cgid s pid of
           None \<Rightarrow> (0, s)
         | Some cgid \<Rightarrow> bump_sched K t cgid (sc_code EVT_WAKEUP) s)"

definition tp_sched_exit :: "sched_kernel \<Rightarrow> task \<Rightarrow> sched_state \<Rightarrow> s32 \<times> sched_state" where
  "tp_sched_exit K t s =
     (let pid = ucast (t_pid_tgid t)
      in (0, s\<lparr>sc_pid_cgid := fst (sk_pid_del K pid (sc_pid_cgid s))\<rparr>))"

datatype sched_tp =
    Sched_switch trace_event_raw_sched_switch
  | Sched_wakeup trace_event_raw_sched_wakeup_template
  | Sched_process_exit

type_synonym sched_call = "sched_kernel \<times> task \<times> sched_tp"

fun sched_step :: "sched_call \<Rightarrow> sched_state \<Rightarrow> sched_state" where
  "sched_step (K, t, Sched_switch ctx) s = snd (tp_sched_switch K t ctx s)"
| "sched_step (K, t, Sched_wakeup ctx) s = snd (tp_sched_wakeup K t ctx s)"
| "sched_step (K, t, Sched_process_exit) s = snd (tp_sched_exit K t s)"

section \<open>The shared configuration code\<close>

lemma sched_load_cfg_eq: "sched_load_cfg s = load_cfg s"
  by (simp add: sched_load_cfg_def load_cfg_def)

lemma sched_in_target_eq:
  "sched_in_target_subtree_current t s = in_target_subtree_current t s"
  by (simp add: sched_in_target_subtree_current_def in_target_subtree_current_def sched_load_cfg_eq)

lemma sched_pass_sample_eq: "sched_pass_sample t s = pass_sample t s"
  by (simp add: sched_pass_sample_def pass_sample_def sched_load_cfg_eq)

lemmas sched_copies = sched_load_cfg_eq sched_in_target_eq sched_pass_sample_eq

section \<open>What an invocation learns, forgets and charges\<close>

fun sched_learns :: "sched_call \<Rightarrow> sched_state \<Rightarrow> (u32 \<times> u64) option" where
  "sched_learns (K, t, Sched_switch ctx) s =
     (if in_target_subtree_current t s then Some (prev_pid ctx, t_cgid t) else None)"
| "sched_learns _ s = None"

fun sched_forgets :: "sched_call \<Rightarrow> u32 option" where
  "sched_forgets (K, t, Sched_process_exit) = Some (ucast (t_pid_tgid t))"
| "sched_forgets _ = None"

definition sched_cpu :: "sched_call \<Rightarrow> cpu" where
  "sched_cpu i = t_cpu (fst (snd i))"

definition sched_sample :: "sched_call \<Rightarrow> sched_state \<Rightarrow> bool \<times> sched_state" where
  "sched_sample i s = pass_sample (fst (snd i)) s"

text \<open>The state in which the counted process is looked up.\<close>

definition sched_pre :: "sched_call \<Rightarrow> sched_state \<Rightarrow> sched_state" where
  "sched_pre i s =
     (case sched_learns i s of
        None \<Rightarrow> s
      | Some (p, g) \<Rightarrow> s\<lparr>sc_pid_cgid := fst (sk_pid_upd (fst i) BPF_ANY p g (sc_pid_cgid s))\<rparr>)"

fun sched_subject :: "sched_call \<Rightarrow> (u32 \<times> u32) option" where
  "sched_subject (K, t, Sched_switch ctx) = Some (next_pid ctx, sc_code EVT_SWITCH_IN)"
| "sched_subject (K, t, Sched_wakeup ctx) = Some (wk_pid ctx, sc_code EVT_WAKEUP)"
| "sched_subject (K, t, Sched_process_exit) = None"

definition sched_gate :: "sched_call \<Rightarrow> sched_state \<Rightarrow> cg_key option" where
  "sched_gate i s =
     (case sched_subject i of
        None \<Rightarrow> None
      | Some (p, ty) \<Rightarrow> map_option (\<lambda>g. key_of g ty) (sc_pid_cgid (sched_pre i s) p))"

definition sched_charge :: "sched_call \<Rightarrow> sched_state \<Rightarrow> (cg_key \<times> u64) option" where
  "sched_charge i s =
     (case sched_gate i s of
        None \<Rightarrow> None
      | Some k \<Rightarrow> if fst (sched_sample i (sched_pre i s)) then Some (k, 1) else None)"

lemma sched_sample_fields [simp]:
  "cg_sched_cnt (snd (sched_sample i s)) = cg_sched_cnt s"
  "sc_pid_cgid (snd (sched_sample i s)) = sc_pid_cgid s"
  "cfg_map (snd (sched_sample i s)) = cfg_map s" "ro (snd (sched_sample i s)) = ro s"
  by (auto simp: sched_sample_def pass_sample_def Let_def split: prod.splits option.splits)

lemma sched_pre_fields [simp]:
  "cg_sched_cnt (sched_pre i s) = cg_sched_cnt s" "per_cpu_cnt (sched_pre i s) = per_cpu_cnt s"
  "cfg_map (sched_pre i s) = cfg_map s" "ro (sched_pre i s) = ro s"
  by (auto simp: sched_pre_def split: option.split)

text \<open>Every invocation in one equation: learn, look up, sample, charge, forget.\<close>

lemma bump_sched_eq:
  "snd (bump_sched K t g ty s) =
     (let s1 = snd (pass_sample t s)
      in if fst (pass_sample t s)
         then s1\<lparr>cg_sched_cnt := add_u64 (sk_cnt K) (t_cpu t) (key_of g ty) 1 (cg_sched_cnt s1)\<rparr>
         else s1)"
  by (auto simp: bump_sched_def sched_copies Let_def split: prod.split)

lemma sched_step_eq:
  "sched_step i s =
     (case sched_forgets i of
        Some p \<Rightarrow> s\<lparr>sc_pid_cgid := fst (sk_pid_del (fst i) p (sc_pid_cgid s))\<rparr>
      | None \<Rightarrow>
          (case sched_gate i s of
             None \<Rightarrow> sched_pre i s
           | Some k \<Rightarrow>
               (let s1 = snd (sched_sample i (sched_pre i s))
                in if fst (sched_sample i (sched_pre i s))
                   then s1\<lparr>cg_sched_cnt := add_u64 (sk_cnt (fst i)) (sched_cpu i) k 1 (cg_sched_cnt s1)\<rparr>
                   else s1)))"
  by (cases "(i, s)" rule: sched_step.cases)
     (auto simp: tp_sched_switch_def tp_sched_wakeup_def tp_sched_exit_def bump_sched_eq sched_copies
       sched_gate_def sched_pre_def sched_sample_def sched_cpu_def Let_def split: option.splits)

lemma sched_forget_gate [simp]: "sched_forgets i = Some p \<Longrightarrow> sched_gate i s = None"
  by (cases "(i, s)" rule: sched_step.cases) (auto simp: sched_gate_def)

lemma sched_step_fields [simp]:
  "cfg_map (sched_step i s) = cfg_map s" "ro (sched_step i s) = ro s"
  by (auto simp: sched_step_eq Let_def split: option.split)

lemma sched_step_per_cpu:
  "per_cpu_cnt (sched_step i s) =
     (if sched_gate i s \<noteq> None then per_cpu_cnt (snd (sched_sample i (sched_pre i s))) else per_cpu_cnt s)"
  by (auto simp: sched_step_eq Let_def split: option.split)

interpretation sched: accounting sched_step cg_sched_cnt "\<lambda>i. sk_cnt (fst i)" sched_cpu sched_charge
  by unfold_locales (auto simp: sched_step_eq sched_charge_def Let_def split: option.split)

lemma sched_step_rate [simp]: "cfg_rate (sched_step i s) = cfg_rate s"
  by (simp add: cfg_rate_def load_cfg_cong [of "sched_step i s" s])

lemma sched_pre_rate [simp]: "cfg_rate (sched_pre i s) = cfg_rate s"
  by (simp add: cfg_rate_def load_cfg_cong [of "sched_pre i s" s])

lemma sched_pre_wf [simp]: "maps_wf (sched_pre i s) = maps_wf s"
  by (simp add: maps_wf_def)

lemma sched_step_wf [simp]: "maps_wf s \<Longrightarrow> maps_wf (sched_step i s)"
  using tp.wf_sample [of "sched_pre i s" "fst (snd i)"]
  by (simp add: maps_wf_def sched_step_per_cpu sched_sample_def)

interpretation sched: sampled sched_sample sched_cpu sample_count cfg_rate maps_wf sched_step
  "\<lambda>i s. sched_gate i s \<noteq> None" sched_pre
  by unfold_locales
    (auto simp: sched_sample_def sched_cpu_def sample_count_def sched_step_per_cpu cfg_rate_pos
      tp.wf_sample tp.rate_sample tp.sample_iff tp.count_sample [unfolded sample_count_def])

definition sched_lru_ok :: "sched_call \<Rightarrow> bool" where
  "sched_lru_ok i \<longleftrightarrow> lru_update_ok (sk_pid_upd (fst i)) \<and> accepts (sk_pid_upd (fst i)) \<and>
     delete_ok (sk_pid_del (fst i))"

lemma sched_forget_learn: "sched_forgets i = Some p \<Longrightarrow> sched_learns i s = None"
  by (cases "(i, s)" rule: sched_step.cases) auto

lemma sched_cache_pre:
  "sched_forgets i = None \<Longrightarrow> sc_pid_cgid (sched_step i s) = sc_pid_cgid (sched_pre i s)"
  by (auto simp: sched_step_eq Let_def split: option.split)

lemma sched_pre_cache:
  assumes "sched_lru_ok i"
  shows "sc_pid_cgid (sched_pre i s) \<subseteq>\<^sub>m ideal_step (sched_learns i s) None (sc_pid_cgid s)"
  using assms lru_update_ideal
  by (fastforce simp: sched_pre_def ideal_step_def sched_lru_ok_def split: option.split)

interpretation sched: lru_cache sched_step sc_pid_cgid sched_lru_ok sched_learns sched_forgets
proof unfold_locales
  fix i s
  assume ok: "sched_lru_ok i"
  show "sc_pid_cgid (sched_step i s) \<subseteq>\<^sub>m ideal_step (sched_learns i s) (sched_forgets i) (sc_pid_cgid s)"
  proof (cases "sched_forgets i")
    case None
    then show ?thesis using sched_pre_cache [OF ok] by (simp add: sched_cache_pre)
  next
    case (Some p)
    then show ?thesis
      using ok by (simp add: sched_step_eq sched_lru_ok_def delete_fst ideal_step_def sched_forget_learn)
  qed
qed

section \<open>Properties\<close>

definition sched_kernel_ok :: "cpu \<Rightarrow> sched_call list \<Rightarrow> bool" where
  "sched_kernel_ok n is \<longleftrightarrow> (\<forall>i \<in> set is. percpu_update_ok (sk_cnt (fst i)) \<and>
     percpu_accepts (sk_cnt (fst i)) \<and> sched_cpu i < n)"

lemma sched_observe_charge: "x \<in> set (observe sched_step sched_charge is s) \<Longrightarrow> snd (snd x) = 1"
  by (induction "is" arbitrary: s) (auto simp: sched_charge_def split: option.splits if_splits)

lemma sched_cache_ideal:
  assumes "\<forall>i \<in> set is. sched_lru_ok i" and "sc_pid_cgid s \<subseteq>\<^sub>m m"
  shows "sc_pid_cgid (run sched_step is s) \<subseteq>\<^sub>m
    ideal_cache sched_step sched_learns sched_forgets is s m"
  using assms by (rule sched.cache_le_ideal)

text \<open>
  C3: over any sequence of switches, wakeups and exits, the count user space
  reads for a cgroup and event type grows by exactly the number of charges made
  to that key; every charge is one event.
\<close>

theorem sched_total_counted:
  assumes "sched_kernel_ok n is"
  shows "total n (cg_sched_cnt (run sched_step is s)) k = total n (cg_sched_cnt s) k +
    of_nat (length (filter (\<lambda>x. fst (snd x) = k) (observe sched_step sched_charge is s)))"
proof -
  let ?o = "observe sched_step sched_charge is s"
  have "sum_list (map (\<lambda>x. if k = fst (snd x) then snd (snd x) else 0) ?o) =
      of_nat (length (filter (\<lambda>x. k = fst (snd x)) ?o)) * 1"
    by (rule sum_list_const_filter) (simp add: sched_observe_charge)
  then show ?thesis
    using sched.total_run [of "is" n s k] assms
    by (simp add: sched_kernel_ok_def eq_commute [of k])
qed


section \<open>Witnesses\<close>

definition demo_sched_kernel :: sched_kernel where
  "demo_sched_kernel = \<lparr>sk_cnt = roomy_pupd, sk_pid_upd = roomy_upd, sk_pid_del = plain_del\<rparr>"

definition demo_sched :: sched_state where
  "demo_sched = \<lparr>ro = demo_ro, cfg_map = array1_init (demo_cfg 1), per_cpu_cnt = array1_init (\<lambda>_. 0),
     cg_sched_cnt = Map.empty, sc_pid_cgid = Map.empty\<rparr>"

definition demo_switch :: "s32 \<Rightarrow> s32 \<Rightarrow> u64 \<Rightarrow> sched_call" where
  "demo_switch p q g = (demo_sched_kernel, demo_task 0 g,
     Sched_switch \<lparr>prev_pid = p, prev_prio = 0, prev_state = 0, next_pid = q, next_prio = 0\<rparr>)"

lemmas demo_sched_defs = demo_sched_kernel_def demo_sched_def demo_switch_def

theorem sched_total_counted_witness:
  "sched_kernel_ok 1 [demo_switch 5 6 9, demo_switch 6 5 10] \<and>
   total 1 (cg_sched_cnt (run sched_step [demo_switch 5 6 9, demo_switch 6 5 10] demo_sched)) (key_of 9 1) = 1"
proof -
  have ok: "sched_kernel_ok 1 [demo_switch 5 6 9, demo_switch 6 5 10]"
    by (simp add: sched_kernel_ok_def demo_sched_defs sched_cpu_def demo_task_def)
  show ?thesis
    using ok sched_total_counted [OF ok, of demo_sched "key_of 9 1"]
    by (simp add: demo_sched_defs sched_charge_def sched_gate_def sched_pre_def sched_sample_def
      sched_step_eq pass_sample_def Let_def demo_defs sched_cpu_def)
qed


end
