(* ===== verification/Obsv_Cpu.thy ===== *)
theory Obsv_Cpu
  imports Obsv_Common
begin

text \<open>
  \<open>gocker-obsv/bpf/cpu.bpf.c\<close>: run, wait and I/O-wait time per cgroup in
  nanoseconds.  The scheduler's wait events carry only a process id, so the
  module remembers the cgroup of each process it sees inside the target subtree
  in the LRU map \<open>pid_cgid\<close> and charges the waits through it.
\<close>

section \<open>State and operations\<close>

datatype cpu_type = CPU_RUNTIME | CPU_WAIT | CPU_IOWAIT

fun cpu_code :: "cpu_type \<Rightarrow> u32" where
  "cpu_code CPU_RUNTIME = 1"
| "cpu_code CPU_WAIT = 2"
| "cpu_code CPU_IOWAIT = 3"

record cpu_state = obsv_maps +
  cg_cpu_ns :: "(cg_key, u64) percpu"
  cpu_pid_cgid :: "u32 \<rightharpoonup> u64"

record cpu_kernel =
  ck_ns :: "(cg_key, u64) pupd"
  ck_pid_upd :: "(u32, u64) upd"
  ck_pid_del :: "(u32, u64) del"

definition cpu_load_cfg :: "cpu_state \<Rightarrow> u32 \<times> u32 \<times> u32 \<times> u64" where
  "cpu_load_cfg s =
     (case cfg_map s 0 of
        Some c \<Rightarrow> (if sample_rate c \<noteq> 0 then sample_rate c else 1,
                   enable_filter c, target_level c, target_cgid c)
      | None \<Rightarrow> (if SAMPLE_RATE (ro s) \<noteq> 0 then SAMPLE_RATE (ro s) else 1,
                 ENABLE_FILTER (ro s), TARGET_LEVEL (ro s), TARGET_CGID (ro s)))"

definition cpu_in_target_subtree_current :: "task \<Rightarrow> cpu_state \<Rightarrow> bool" where
  "cpu_in_target_subtree_current t s =
     (case cpu_load_cfg s of (rate, en, lvl, cgid) \<Rightarrow>
        if en = 0 then True
        else (let anc = t_ancestor t lvl in anc \<noteq> 0 \<and> anc = cgid))"

text \<open>This copy counts first and then lets everything through at rate 0 or 1.\<close>

definition cpu_pass_sample :: "task \<Rightarrow> cpu_state \<Rightarrow> bool \<times> cpu_state" where
  "cpu_pass_sample t s =
     (case cpu_load_cfg s of (rate, en, lvl, cgid) \<Rightarrow>
        case per_cpu_cnt s 0 of
          None \<Rightarrow> (True, s)
        | Some pc \<Rightarrow>
            (let v = pc (t_cpu t) + 1;
                 s1 = s\<lparr>per_cpu_cnt := (per_cpu_cnt s)(0 \<mapsto> pc(t_cpu t := v))\<rparr>
             in if rate \<le> 1 then (True, s1) else (v mod ucast rate = 0, s1)))"

definition remember_pid :: "cpu_kernel \<Rightarrow> u32 \<Rightarrow> u64 \<Rightarrow> cpu_state \<Rightarrow> cpu_state" where
  "remember_pid K pid cgid s =
     (if pid = 0 \<or> cgid = 0 then s
      else s\<lparr>cpu_pid_cgid := fst (ck_pid_upd K BPF_ANY pid cgid (cpu_pid_cgid s))\<rparr>)"

definition pid_to_cgid :: "u32 \<Rightarrow> cpu_state \<Rightarrow> u64 option" where
  "pid_to_cgid pid s = (case cpu_pid_cgid s pid of None \<Rightarrow> None | Some val \<Rightarrow> Some val)"

definition add_cpu_ns ::
  "cpu_kernel \<Rightarrow> task \<Rightarrow> u64 \<Rightarrow> u32 \<Rightarrow> u64 \<Rightarrow> cpu_state \<Rightarrow> s32 \<times> cpu_state" where
  "add_cpu_ns K t cgid type delta s =
     (if cgid = 0 \<or> delta = 0 then (0, s)
      else (let key = key_of cgid type
            in (0, s\<lparr>cg_cpu_ns := add_u64 (ck_ns K) (t_cpu t) key delta (cg_cpu_ns s)\<rparr>)))"

definition tp_sched_switch_cpu ::
  "cpu_kernel \<Rightarrow> task \<Rightarrow> trace_event_raw_sched_switch \<Rightarrow> cpu_state \<Rightarrow> s32 \<times> cpu_state" where
  "tp_sched_switch_cpu K t ctx s =
     (if \<not> cpu_in_target_subtree_current t s then (0, s)
      else (let cur_cgid = t_cgid t
            in (0, remember_pid K (prev_pid ctx) cur_cgid s)))"

definition tp_sched_exit_cpu :: "cpu_kernel \<Rightarrow> task \<Rightarrow> cpu_state \<Rightarrow> s32 \<times> cpu_state" where
  "tp_sched_exit_cpu K t s =
     (let pid = ucast (t_pid_tgid t)
      in (0, s\<lparr>cpu_pid_cgid := fst (ck_pid_del K pid (cpu_pid_cgid s))\<rparr>))"

definition tp_sched_stat_runtime ::
  "cpu_kernel \<Rightarrow> task \<Rightarrow> trace_event_raw_sched_stat_runtime \<Rightarrow> cpu_state \<Rightarrow> s32 \<times> cpu_state" where
  "tp_sched_stat_runtime K t ctx s =
     (let pid = sr_pid ctx
      in case (if cpu_in_target_subtree_current t s
               then (let cgid = t_cgid t in Some (cgid, remember_pid K pid cgid s))
               else map_option (\<lambda>cgid. (cgid, s)) (pid_to_cgid pid s)) of
           None \<Rightarrow> (0, s)
         | Some (cgid, s1) \<Rightarrow>
             (case cpu_pass_sample t s1 of (ok, s2) \<Rightarrow>
                if \<not> ok then (0, s2)
                else add_cpu_ns K t cgid (cpu_code CPU_RUNTIME) (sr_runtime ctx) s2))"

definition handle_delay_event ::
  "cpu_kernel \<Rightarrow> task \<Rightarrow> u32 \<Rightarrow> u64 \<Rightarrow> u32 \<Rightarrow> cpu_state \<Rightarrow> s32 \<times> cpu_state" where
  "handle_delay_event K t pid delay type s =
     (case pid_to_cgid pid s of
        None \<Rightarrow> (0, s)
      | Some cgid \<Rightarrow>
          (case cpu_pass_sample t s of (ok, s1) \<Rightarrow>
             if \<not> ok then (0, s1) else add_cpu_ns K t cgid type delay s1))"

definition tp_sched_stat_wait ::
  "cpu_kernel \<Rightarrow> task \<Rightarrow> trace_event_raw_sched_stat_template \<Rightarrow> cpu_state \<Rightarrow> s32 \<times> cpu_state" where
  "tp_sched_stat_wait K t ctx s =
     handle_delay_event K t (st_pid ctx) (st_delay ctx) (cpu_code CPU_WAIT) s"

definition tp_sched_stat_iowait ::
  "cpu_kernel \<Rightarrow> task \<Rightarrow> trace_event_raw_sched_stat_template \<Rightarrow> cpu_state \<Rightarrow> s32 \<times> cpu_state" where
  "tp_sched_stat_iowait K t ctx s =
     handle_delay_event K t (st_pid ctx) (st_delay ctx) (cpu_code CPU_IOWAIT) s"

datatype cpu_tp =
    Cpu_switch trace_event_raw_sched_switch
  | Cpu_process_exit
  | Cpu_runtime trace_event_raw_sched_stat_runtime
  | Cpu_wait trace_event_raw_sched_stat_template
  | Cpu_iowait trace_event_raw_sched_stat_template

type_synonym cpu_call = "cpu_kernel \<times> task \<times> cpu_tp"

fun cpu_step :: "cpu_call \<Rightarrow> cpu_state \<Rightarrow> cpu_state" where
  "cpu_step (K, t, Cpu_switch ctx) s = snd (tp_sched_switch_cpu K t ctx s)"
| "cpu_step (K, t, Cpu_process_exit) s = snd (tp_sched_exit_cpu K t s)"
| "cpu_step (K, t, Cpu_runtime ctx) s = snd (tp_sched_stat_runtime K t ctx s)"
| "cpu_step (K, t, Cpu_wait ctx) s = snd (tp_sched_stat_wait K t ctx s)"
| "cpu_step (K, t, Cpu_iowait ctx) s = snd (tp_sched_stat_iowait K t ctx s)"

section \<open>The shared configuration code\<close>

lemma cpu_load_cfg_eq: "cpu_load_cfg s = load_cfg s"
  by (simp add: cpu_load_cfg_def load_cfg_def)

lemma cpu_in_target_eq: "cpu_in_target_subtree_current t s = in_target_subtree_current t s"
  by (simp add: cpu_in_target_subtree_current_def in_target_subtree_current_def cpu_load_cfg_eq)

lemma cpu_pass_sample_eq: "cpu_pass_sample t s = pass_sample t s"
proof -
  obtain rate en lvl cgid where l: "load_cfg s = (rate, en, lvl, cgid)"
    by (cases "load_cfg s")
  have "rate \<noteq> 0"
    using cfg_rate_pos [of s] by (auto simp: cfg_rate_def l)
  then have "rate \<le> 1 \<Longrightarrow> v mod ucast rate = 0" for v :: u64
    using rate_hit_one [of v] by (auto simp: u32_le_1_cases rate_hit_def)
  then show ?thesis
    by (auto simp: cpu_pass_sample_def pass_sample_def cpu_load_cfg_eq l Let_def split: option.split)
qed

lemmas cpu_copies = cpu_load_cfg_eq cpu_in_target_eq cpu_pass_sample_eq

section \<open>What an invocation learns, forgets and charges\<close>

definition learn_pair :: "u32 \<Rightarrow> u64 \<Rightarrow> (u32 \<times> u64) option" where
  "learn_pair pid cgid = (if pid = 0 \<or> cgid = 0 then None else Some (pid, cgid))"

fun cpu_learns :: "cpu_call \<Rightarrow> cpu_state \<Rightarrow> (u32 \<times> u64) option" where
  "cpu_learns (K, t, Cpu_switch ctx) s =
     (if in_target_subtree_current t s then learn_pair (prev_pid ctx) (t_cgid t) else None)"
| "cpu_learns (K, t, Cpu_runtime ctx) s =
     (if in_target_subtree_current t s then learn_pair (sr_pid ctx) (t_cgid t) else None)"
| "cpu_learns _ s = None"

fun cpu_forgets :: "cpu_call \<Rightarrow> u32 option" where
  "cpu_forgets (K, t, Cpu_process_exit) = Some (ucast (t_pid_tgid t))"
| "cpu_forgets _ = None"

definition cpu_of_call :: "cpu_call \<Rightarrow> cpu" where
  "cpu_of_call i = t_cpu (fst (snd i))"

definition cpu_sample :: "cpu_call \<Rightarrow> cpu_state \<Rightarrow> bool \<times> cpu_state" where
  "cpu_sample i s = pass_sample (fst (snd i)) s"

definition cpu_pre :: "cpu_call \<Rightarrow> cpu_state \<Rightarrow> cpu_state" where
  "cpu_pre i s =
     (case cpu_learns i s of
        None \<Rightarrow> s
      | Some (p, g) \<Rightarrow> s\<lparr>cpu_pid_cgid := fst (ck_pid_upd (fst i) BPF_ANY p g (cpu_pid_cgid s))\<rparr>)"

text \<open>The (cgroup, type, amount) an event would add if it is sampled.\<close>

fun cpu_gate :: "cpu_call \<Rightarrow> cpu_state \<Rightarrow> (u64 \<times> u32 \<times> u64) option" where
  "cpu_gate (K, t, Cpu_runtime ctx) s =
     map_option (\<lambda>g. (g, cpu_code CPU_RUNTIME, sr_runtime ctx))
       (if in_target_subtree_current t s then Some (t_cgid t) else cpu_pid_cgid s (sr_pid ctx))"
| "cpu_gate (K, t, Cpu_wait ctx) s =
     map_option (\<lambda>g. (g, cpu_code CPU_WAIT, st_delay ctx)) (cpu_pid_cgid s (st_pid ctx))"
| "cpu_gate (K, t, Cpu_iowait ctx) s =
     map_option (\<lambda>g. (g, cpu_code CPU_IOWAIT, st_delay ctx)) (cpu_pid_cgid s (st_pid ctx))"
| "cpu_gate _ s = None"

definition cpu_charge :: "cpu_call \<Rightarrow> cpu_state \<Rightarrow> (cg_key \<times> u64) option" where
  "cpu_charge i s =
     (case cpu_gate i s of
        None \<Rightarrow> None
      | Some (g, ty, d) \<Rightarrow>
          if fst (cpu_sample i (cpu_pre i s)) \<and> g \<noteq> 0 \<and> d \<noteq> 0 then Some (key_of g ty, d) else None)"

lemma cpu_sample_fields [simp]:
  "cg_cpu_ns (snd (cpu_sample i s)) = cg_cpu_ns s"
  "cpu_pid_cgid (snd (cpu_sample i s)) = cpu_pid_cgid s"
  "cfg_map (snd (cpu_sample i s)) = cfg_map s" "ro (snd (cpu_sample i s)) = ro s"
  by (auto simp: cpu_sample_def pass_sample_def Let_def split: prod.splits option.splits)

lemma cpu_pre_fields [simp]:
  "cg_cpu_ns (cpu_pre i s) = cg_cpu_ns s" "per_cpu_cnt (cpu_pre i s) = per_cpu_cnt s"
  "cfg_map (cpu_pre i s) = cfg_map s" "ro (cpu_pre i s) = ro s"
  by (auto simp: cpu_pre_def split: option.split)

lemma add_cpu_ns_eq:
  "snd (add_cpu_ns K t g ty d s) =
     (if g \<noteq> 0 \<and> d \<noteq> 0
      then s\<lparr>cg_cpu_ns := add_u64 (ck_ns K) (t_cpu t) (key_of g ty) d (cg_cpu_ns s)\<rparr> else s)"
  by (simp add: add_cpu_ns_def Let_def)

lemma remember_pid_eq:
  "remember_pid K p g s =
     (case learn_pair p g of
        None \<Rightarrow> s
      | Some (p, g) \<Rightarrow> s\<lparr>cpu_pid_cgid := fst (ck_pid_upd K BPF_ANY p g (cpu_pid_cgid s))\<rparr>)"
  by (simp add: remember_pid_def learn_pair_def)

lemma handle_delay_event_eq:
  "snd (handle_delay_event K t p d ty s) =
     (case cpu_pid_cgid s p of
        None \<Rightarrow> s
      | Some g \<Rightarrow>
          (let s1 = snd (pass_sample t s)
           in if fst (pass_sample t s) then snd (add_cpu_ns K t g ty d s1) else s1))"
  by (simp add: handle_delay_event_def pid_to_cgid_def cpu_pass_sample_eq case_prod_beta Let_def
      split: option.split)

lemma tp_sched_stat_runtime_eq:
  "snd (tp_sched_stat_runtime K t ctx s) =
     (case (if in_target_subtree_current t s
            then Some (t_cgid t, remember_pid K (sr_pid ctx) (t_cgid t) s)
            else map_option (\<lambda>g. (g, s)) (cpu_pid_cgid s (sr_pid ctx))) of
        None \<Rightarrow> s
      | Some (g, s1) \<Rightarrow>
          (let s2 = snd (pass_sample t s1)
           in if fst (pass_sample t s1)
              then snd (add_cpu_ns K t g (cpu_code CPU_RUNTIME) (sr_runtime ctx) s2) else s2))"
  by (simp add: tp_sched_stat_runtime_def pid_to_cgid_def cpu_copies case_prod_beta Let_def
      split: option.split)

lemmas cpu_step_parts = tp_sched_switch_cpu_def tp_sched_exit_cpu_def tp_sched_stat_runtime_eq
  tp_sched_stat_wait_def tp_sched_stat_iowait_def handle_delay_event_eq remember_pid_eq cpu_copies
  cpu_pre_def cpu_sample_def cpu_of_call_def

lemma cpu_step_eq:
  "cpu_step i s =
     (case cpu_forgets i of
        Some p \<Rightarrow> s\<lparr>cpu_pid_cgid := fst (ck_pid_del (fst i) p (cpu_pid_cgid s))\<rparr>
      | None \<Rightarrow>
          (case cpu_gate i s of
             None \<Rightarrow> cpu_pre i s
           | Some (g, ty, d) \<Rightarrow>
               (let s1 = snd (cpu_sample i (cpu_pre i s))
                in if fst (cpu_sample i (cpu_pre i s)) \<and> g \<noteq> 0 \<and> d \<noteq> 0
                   then s1\<lparr>cg_cpu_ns := add_u64 (ck_ns (fst i)) (cpu_of_call i) (key_of g ty) d (cg_cpu_ns s1)\<rparr>
                   else s1)))"
  by (cases "(i, s)" rule: cpu_step.cases)
     (simp_all add: cpu_step_parts add_cpu_ns_eq Let_def split: option.split)

lemma cpu_forget_gate [simp]: "cpu_forgets i = Some p \<Longrightarrow> cpu_gate i s = None"
  by (cases "(i, s)" rule: cpu_step.cases) auto

lemma cpu_step_fields [simp]: "cfg_map (cpu_step i s) = cfg_map s" "ro (cpu_step i s) = ro s"
  by (simp_all add: cpu_step_eq Let_def split: option.split)

lemma cpu_step_per_cpu:
  "per_cpu_cnt (cpu_step i s) =
     (if cpu_gate i s \<noteq> None then per_cpu_cnt (snd (cpu_sample i (cpu_pre i s))) else per_cpu_cnt s)"
  by (auto simp: cpu_step_eq Let_def split: option.split)

interpretation cpu: accounting cpu_step cg_cpu_ns "\<lambda>i. ck_ns (fst i)" cpu_of_call cpu_charge
  by unfold_locales (auto simp: cpu_step_eq cpu_charge_def Let_def split: option.split)

lemma cpu_step_rate [simp]: "cfg_rate (cpu_step i s) = cfg_rate s"
  by (simp add: cfg_rate_def load_cfg_cong [of "cpu_step i s" s])

lemma cpu_pre_rate [simp]: "cfg_rate (cpu_pre i s) = cfg_rate s"
  by (simp add: cfg_rate_def load_cfg_cong [of "cpu_pre i s" s])

lemma cpu_pre_wf [simp]: "maps_wf (cpu_pre i s) = maps_wf s"
  by (simp add: maps_wf_def)

lemma cpu_step_wf [simp]: "maps_wf s \<Longrightarrow> maps_wf (cpu_step i s)"
  using tp.wf_sample [of "cpu_pre i s" "fst (snd i)"]
  by (simp add: maps_wf_def cpu_step_per_cpu cpu_sample_def)

interpretation cpu: sampled cpu_sample cpu_of_call sample_count cfg_rate maps_wf cpu_step
  "\<lambda>i s. cpu_gate i s \<noteq> None" cpu_pre
  by unfold_locales
    (auto simp: cpu_sample_def cpu_of_call_def sample_count_def cpu_step_per_cpu cfg_rate_pos
      tp.wf_sample tp.rate_sample tp.sample_iff tp.count_sample [unfolded sample_count_def])

definition cpu_lru_ok :: "cpu_call \<Rightarrow> bool" where
  "cpu_lru_ok i \<longleftrightarrow> lru_update_ok (ck_pid_upd (fst i)) \<and> accepts (ck_pid_upd (fst i)) \<and>
     delete_ok (ck_pid_del (fst i))"

lemma cpu_forget_learn: "cpu_forgets i = Some p \<Longrightarrow> cpu_learns i s = None"
  by (cases "(i, s)" rule: cpu_step.cases) auto

lemma cpu_cache_pre:
  "cpu_forgets i = None \<Longrightarrow> cpu_pid_cgid (cpu_step i s) = cpu_pid_cgid (cpu_pre i s)"
  by (auto simp: cpu_step_eq Let_def split: option.split)

lemma cpu_pre_cache:
  assumes "cpu_lru_ok i"
  shows "cpu_pid_cgid (cpu_pre i s) \<subseteq>\<^sub>m ideal_step (cpu_learns i s) None (cpu_pid_cgid s)"
  using assms lru_update_ideal
  by (fastforce simp: cpu_pre_def ideal_step_def cpu_lru_ok_def split: option.split)

interpretation cpu: lru_cache cpu_step cpu_pid_cgid cpu_lru_ok cpu_learns cpu_forgets
proof unfold_locales
  fix i s
  assume ok: "cpu_lru_ok i"
  show "cpu_pid_cgid (cpu_step i s) \<subseteq>\<^sub>m ideal_step (cpu_learns i s) (cpu_forgets i) (cpu_pid_cgid s)"
  proof (cases "cpu_forgets i")
    case None
    then show ?thesis using cpu_pre_cache [OF ok] by (simp add: cpu_cache_pre)
  next
    case (Some p)
    then show ?thesis
      using ok by (simp add: cpu_step_eq cpu_lru_ok_def delete_fst ideal_step_def cpu_forget_learn)
  qed
qed

section \<open>Properties\<close>

definition cpu_kernel_ok :: "cpu \<Rightarrow> cpu_call list \<Rightarrow> bool" where
  "cpu_kernel_ok n is \<longleftrightarrow> (\<forall>i \<in> set is. percpu_update_ok (ck_ns (fst i)) \<and>
     percpu_accepts (ck_ns (fst i)) \<and> cpu_of_call i < n)"

text \<open>The process whose time an event reports.\<close>

fun cpu_subject :: "cpu_tp \<Rightarrow> u32" where
  "cpu_subject (Cpu_runtime ctx) = sr_pid ctx"
| "cpu_subject (Cpu_wait ctx) = st_pid ctx"
| "cpu_subject (Cpu_iowait ctx) = st_pid ctx"
| "cpu_subject _ = 0"

lemma cpu_gate_cases:
  assumes "cpu_gate i s = Some (g, ty, d)"
  shows "(\<exists>ctx. snd (snd i) = Cpu_runtime ctx \<and> in_target_subtree_current (fst (snd i)) s \<and>
      g = t_cgid (fst (snd i))) \<or> cpu_pid_cgid s (cpu_subject (snd (snd i))) = Some g"
  using assms by (cases "(i, s)" rule: cpu_gate.cases) (auto split: if_splits)

lemma cpu_cache_ideal:
  assumes "\<forall>i \<in> set is. cpu_lru_ok i" and "cpu_pid_cgid s \<subseteq>\<^sub>m m"
  shows "cpu_pid_cgid (run cpu_step is s) \<subseteq>\<^sub>m ideal_cache cpu_step cpu_learns cpu_forgets is s m"
  using assms by (rule cpu.cache_le_ideal)

text \<open>
  Over any sequence of scheduler events the nanoseconds user space reads for
  a cgroup and time type grow by exactly the sum of the amounts charged to that
  key (modulo 2^64, as the counters are).
\<close>

lemma cpu_total_charged:
  assumes "cpu_kernel_ok n is"
  shows "total n (cg_cpu_ns (run cpu_step is s)) k = total n (cg_cpu_ns s) k +
    sum_list (map (\<lambda>x. if k = fst (snd x) then snd (snd x) else 0) (observe cpu_step cpu_charge is s))"
  by (rule cpu.total_run) (use assms in \<open>simp add: cpu_kernel_ok_def\<close>)


text \<open>
  The clean-up at process exit does not last.  The exit event removes the
  process id from the cache, but the exiting task is still switched out once
  more, and that switch puts the id back; when the kernel reuses the id for a
  process outside the target subtree, its run time is charged to the old cgroup.
\<close>

lemma cpu_exit_entry_returns:
  assumes "cpu_lru_ok (K, t, Cpu_process_exit)"
    and "in_target_subtree_current t s" and "t_cgid t \<noteq> 0"
    and "prev_pid ctx = ucast (t_pid_tgid t)" and "prev_pid ctx \<noteq> 0"
    and "s' = run cpu_step [(K, t, Cpu_process_exit), (K, t, Cpu_switch ctx)] s"
    and "\<not> in_target_subtree_current t' s'" and "sr_pid rt = prev_pid ctx"
  shows "cpu_pid_cgid s' (prev_pid ctx) = Some (t_cgid t) \<and>
    cpu_gate (K', t', Cpu_runtime rt) s' = Some (t_cgid t, cpu_code CPU_RUNTIME, sr_runtime rt)"
proof -
  let ?s1 = "cpu_step (K, t, Cpu_process_exit) s"
  have tgt: "in_target_subtree_current t ?s1"
    using assms(2) in_target_cong [of ?s1 s t] by (simp del: cpu_step.simps)
  then have "cpu_pid_cgid s' (prev_pid ctx) = Some (t_cgid t)"
    using assms(1,3,5)
    by (simp add: assms(6) lru_update_stored cpu_step_eq [of "(K, t, Cpu_switch ctx)"] cpu_pre_def learn_pair_def
        cpu_lru_ok_def del: cpu_step.simps)
  then show ?thesis using assms(7,8) by simp
qed

section \<open>Witnesses\<close>

definition demo_cpu_kernel :: cpu_kernel where
  "demo_cpu_kernel = \<lparr>ck_ns = roomy_pupd, ck_pid_upd = roomy_upd, ck_pid_del = plain_del\<rparr>"

definition demo_cpu :: cpu_state where
  "demo_cpu = \<lparr>ro = demo_ro, cfg_map = array1_init (demo_cfg 1), per_cpu_cnt = array1_init (\<lambda>_. 0),
     cg_cpu_ns = Map.empty, cpu_pid_cgid = Map.empty\<rparr>"

definition demo_runtime :: "s32 \<Rightarrow> u64 \<Rightarrow> cpu_call" where
  "demo_runtime p r = (demo_cpu_kernel, demo_task 0 9, Cpu_runtime \<lparr>sr_pid = p, sr_runtime = r\<rparr>)"

definition demo_wait :: "s32 \<Rightarrow> u64 \<Rightarrow> cpu_call" where
  "demo_wait p d = (demo_cpu_kernel, demo_task 1 3, Cpu_wait \<lparr>st_pid = p, st_delay = d\<rparr>)"

lemmas demo_cpu_defs = demo_cpu_kernel_def demo_cpu_def demo_runtime_def demo_wait_def
  cpu_charge_def cpu_pre_def cpu_sample_def cpu_step_eq learn_pair_def pass_sample_def Let_def
  demo_defs cpu_of_call_def




end
