(* ===== verification/Obsv_Mem.thy ===== *)
theory Obsv_Mem
  imports Obsv_Common
begin

text \<open>
  \<open>gocker-obsv/bpf/mem.bpf.c\<close>: direct reclaims, reclaimed pages and bytes
  allocated and freed per cgroup, and the system-wide number of kswapd wakeups.
  All five programs draw on one sampling counter.
\<close>

section \<open>State and operations\<close>

definition PAGE_SHIFT :: nat where
  "PAGE_SHIFT = 12"

definition MEM_EVT_DIRECT :: u32 where
  "MEM_EVT_DIRECT = 1"

definition MEM_PAGES_RECLAIM :: u32 where
  "MEM_PAGES_RECLAIM = 1"

datatype mem_bytes_type = MEM_BYTES_ALLOC | MEM_BYTES_FREE

fun mem_bytes_code :: "mem_bytes_type \<Rightarrow> u32" where
  "mem_bytes_code MEM_BYTES_ALLOC = 1"
| "mem_bytes_code MEM_BYTES_FREE = 2"

record mem_state = obsv_maps +
  cg_mem_evt :: "(cg_key, u64) percpu"
  cg_mem_pages :: "(cg_key, u64) percpu"
  cg_mem_bytes :: "(cg_key, u64) percpu"
  kswapd_cnt :: "(u32, u64) percpu"

record mem_kernel =
  mk_evt :: "(cg_key, u64) pupd"
  mk_pages :: "(cg_key, u64) pupd"
  mk_bytes :: "(cg_key, u64) pupd"

definition mem_load_cfg :: "mem_state \<Rightarrow> u32 \<times> u32 \<times> u32 \<times> u64" where
  "mem_load_cfg s =
     (case cfg_map s 0 of
        Some c \<Rightarrow> (if sample_rate c \<noteq> 0 then sample_rate c else 1,
                   enable_filter c, target_level c, target_cgid c)
      | None \<Rightarrow> (if SAMPLE_RATE (ro s) \<noteq> 0 then SAMPLE_RATE (ro s) else 1,
                 ENABLE_FILTER (ro s), TARGET_LEVEL (ro s), TARGET_CGID (ro s)))"

definition mem_in_target_subtree_current :: "task \<Rightarrow> mem_state \<Rightarrow> bool" where
  "mem_in_target_subtree_current t s =
     (case mem_load_cfg s of (rate, en, lvl, cgid) \<Rightarrow>
        if en = 0 then True
        else (let anc = t_ancestor t lvl in anc \<noteq> 0 \<and> anc = cgid))"

text \<open>This copy returns before it counts at rate 0 or 1.\<close>

definition mem_pass_sample :: "task \<Rightarrow> mem_state \<Rightarrow> bool \<times> mem_state" where
  "mem_pass_sample t s =
     (case mem_load_cfg s of (rate, en, lvl, cgid) \<Rightarrow>
        if rate \<le> 1 then (True, s)
        else (case per_cpu_cnt s 0 of
                None \<Rightarrow> (True, s)
              | Some pc \<Rightarrow>
                  (let v = pc (t_cpu t) + 1
                   in (v mod ucast rate = 0,
                       s\<lparr>per_cpu_cnt := (per_cpu_cnt s)(0 \<mapsto> pc(t_cpu t := v))\<rparr>))))"

definition add_cg_u64 ::
  "(cg_key, u64) pupd \<Rightarrow> task \<Rightarrow> u64 \<Rightarrow> u32 \<Rightarrow> u64 \<Rightarrow> (cg_key, u64) percpu \<Rightarrow> (cg_key, u64) percpu" where
  "add_cg_u64 upd t cgid type delta m =
     (if cgid = 0 \<or> delta = 0 then m
      else (let key = key_of cgid type
            in case m key of
                 Some g \<Rightarrow> m(key \<mapsto> g(t_cpu t := g (t_cpu t) + delta))
               | None \<Rightarrow>
                   (let m1 = fst (upd (t_cpu t) BPF_NOEXIST key 0 m)
                    in case m1 key of
                         None \<Rightarrow> m1
                       | Some g \<Rightarrow> m1(key \<mapsto> g(t_cpu t := g (t_cpu t) + delta)))))"

definition inc_kswapd :: "task \<Rightarrow> mem_state \<Rightarrow> s32 \<times> mem_state" where
  "inc_kswapd t s =
     (case kswapd_cnt s 0 of
        None \<Rightarrow> (0, s)
      | Some g \<Rightarrow> (0, s\<lparr>kswapd_cnt := (kswapd_cnt s)(0 \<mapsto> g(t_cpu t := g (t_cpu t) + 1))\<rparr>))"

definition order_to_bytes :: "u32 \<Rightarrow> u64" where
  "order_to_bytes order =
     (let order = (if order \<ge> 32 then 31 else order);
          pages = push_bit (unat order) (1 :: u64)
      in push_bit PAGE_SHIFT pages)"

definition tp_mm_vmscan_kswapd_wake :: "task \<Rightarrow> mem_state \<Rightarrow> s32 \<times> mem_state" where
  "tp_mm_vmscan_kswapd_wake t s =
     (case mem_pass_sample t s of (ok, s1) \<Rightarrow> if \<not> ok then (0, s1) else inc_kswapd t s1)"

definition tp_mm_vmscan_direct_reclaim_begin :: "mem_kernel \<Rightarrow> task \<Rightarrow> mem_state \<Rightarrow> s32 \<times> mem_state" where
  "tp_mm_vmscan_direct_reclaim_begin K t s =
     (if \<not> mem_in_target_subtree_current t s then (0, s)
      else (case mem_pass_sample t s of (ok, s1) \<Rightarrow>
        if \<not> ok then (0, s1)
        else (let cgid = t_cgid t
              in (0, s1\<lparr>cg_mem_evt := add_cg_u64 (mk_evt K) t cgid MEM_EVT_DIRECT 1 (cg_mem_evt s1)\<rparr>))))"

definition tp_mm_vmscan_reclaim_pages ::
  "mem_kernel \<Rightarrow> task \<Rightarrow> trace_event_raw_mm_vmscan_reclaim_pages \<Rightarrow> mem_state \<Rightarrow> s32 \<times> mem_state" where
  "tp_mm_vmscan_reclaim_pages K t ctx s =
     (if \<not> mem_in_target_subtree_current t s then (0, s)
      else (case mem_pass_sample t s of (ok, s1) \<Rightarrow>
        if \<not> ok then (0, s1)
        else (let cgid = t_cgid t; reclaimed = nr_reclaimed ctx
              in (0, s1\<lparr>cg_mem_pages :=
                    add_cg_u64 (mk_pages K) t cgid MEM_PAGES_RECLAIM reclaimed (cg_mem_pages s1)\<rparr>))))"

definition tp_mm_page_alloc ::
  "mem_kernel \<Rightarrow> task \<Rightarrow> trace_event_raw_mm_page_alloc \<Rightarrow> mem_state \<Rightarrow> s32 \<times> mem_state" where
  "tp_mm_page_alloc K t ctx s =
     (if \<not> mem_in_target_subtree_current t s then (0, s)
      else (case mem_pass_sample t s of (ok, s1) \<Rightarrow>
        if \<not> ok then (0, s1)
        else (let cgid = t_cgid t; bytes = order_to_bytes (pa_order ctx)
              in if bytes = 0 then (0, s1)
                 else (0, s1\<lparr>cg_mem_bytes :=
                    add_cg_u64 (mk_bytes K) t cgid (mem_bytes_code MEM_BYTES_ALLOC) bytes (cg_mem_bytes s1)\<rparr>))))"

definition tp_mm_page_free ::
  "mem_kernel \<Rightarrow> task \<Rightarrow> trace_event_raw_mm_page_free \<Rightarrow> mem_state \<Rightarrow> s32 \<times> mem_state" where
  "tp_mm_page_free K t ctx s =
     (if \<not> mem_in_target_subtree_current t s then (0, s)
      else (case mem_pass_sample t s of (ok, s1) \<Rightarrow>
        if \<not> ok then (0, s1)
        else (let cgid = t_cgid t; bytes = order_to_bytes (pf_order ctx)
              in if bytes = 0 then (0, s1)
                 else (0, s1\<lparr>cg_mem_bytes :=
                    add_cg_u64 (mk_bytes K) t cgid (mem_bytes_code MEM_BYTES_FREE) bytes (cg_mem_bytes s1)\<rparr>))))"

datatype mem_tp =
    Mem_kswapd_wake
  | Mem_direct_reclaim
  | Mem_reclaim_pages trace_event_raw_mm_vmscan_reclaim_pages
  | Mem_page_alloc trace_event_raw_mm_page_alloc
  | Mem_page_free trace_event_raw_mm_page_free

type_synonym mem_call = "mem_kernel \<times> task \<times> mem_tp"

fun mem_step :: "mem_call \<Rightarrow> mem_state \<Rightarrow> mem_state" where
  "mem_step (K, t, Mem_kswapd_wake) s = snd (tp_mm_vmscan_kswapd_wake t s)"
| "mem_step (K, t, Mem_direct_reclaim) s = snd (tp_mm_vmscan_direct_reclaim_begin K t s)"
| "mem_step (K, t, Mem_reclaim_pages ctx) s = snd (tp_mm_vmscan_reclaim_pages K t ctx s)"
| "mem_step (K, t, Mem_page_alloc ctx) s = snd (tp_mm_page_alloc K t ctx s)"
| "mem_step (K, t, Mem_page_free ctx) s = snd (tp_mm_page_free K t ctx s)"

section \<open>Pages to bytes\<close>

lemma order_to_bytes_power: "order_to_bytes order = of_nat (2 ^ (12 + min (unat order) 31))"
  by (auto simp: order_to_bytes_def PAGE_SHIFT_def Let_def word_le_nat_alt min_def
      push_bit_eq_mult power_add)

lemma order_to_bytes_unat: "unat (order_to_bytes order) = 2 ^ (12 + min (unat order) 31)"
proof -
  have "(2::nat) ^ (12 + min (unat order) 31) < 2 ^ 64"
    by (rule power_strict_increasing) simp_all
  then show ?thesis
    by (simp only: order_to_bytes_power unat_of_nat len_bit0 len_num1) simp
qed

lemma order_to_bytes_neq_0 [simp]: "order_to_bytes order \<noteq> 0"
proof
  assume "order_to_bytes order = 0"
  then have "unat (order_to_bytes order) = 0" by simp
  then show False by (simp add: order_to_bytes_unat)
qed

section \<open>The shared configuration code\<close>

lemma mem_load_cfg_eq: "mem_load_cfg s = load_cfg s"
  by (simp add: mem_load_cfg_def load_cfg_def)

lemma mem_in_target_eq: "mem_in_target_subtree_current t s = in_target_subtree_current t s"
  by (simp add: mem_in_target_subtree_current_def in_target_subtree_current_def mem_load_cfg_eq)

lemma cfg_rate_le_1: "cfg_rate s \<le> 1 \<longleftrightarrow> cfg_rate s = 1"
  using cfg_rate_pos [of s] by (auto simp: u32_le_1_cases)

lemma mem_pass_sample_eq:
  "mem_pass_sample t s = (if cfg_rate s = 1 then (True, s) else pass_sample t s)"
  using cfg_rate_le_1 [of s]
  by (auto simp: mem_pass_sample_def pass_sample_def mem_load_cfg_eq cfg_rate_def split: prod.split)

lemma mem_pass_sample_fields [simp]:
  "cg_mem_evt (snd (mem_pass_sample t s)) = cg_mem_evt s"
  "cg_mem_pages (snd (mem_pass_sample t s)) = cg_mem_pages s"
  "cg_mem_bytes (snd (mem_pass_sample t s)) = cg_mem_bytes s"
  "kswapd_cnt (snd (mem_pass_sample t s)) = kswapd_cnt s"
  "cfg_map (snd (mem_pass_sample t s)) = cfg_map s" "ro (snd (mem_pass_sample t s)) = ro s"
  by (auto simp: mem_pass_sample_def Let_def split: prod.splits option.splits)

section \<open>What an invocation charges\<close>

definition mem_task :: "mem_call \<Rightarrow> task" where
  "mem_task i = fst (snd i)"

definition mem_cpu :: "mem_call \<Rightarrow> cpu" where
  "mem_cpu i = t_cpu (mem_task i)"

definition mem_gate :: "mem_call \<Rightarrow> mem_state \<Rightarrow> bool" where
  "mem_gate i s \<longleftrightarrow> snd (snd i) = Mem_kswapd_wake \<or> in_target_subtree_current (mem_task i) s"

definition mem_sample :: "mem_call \<Rightarrow> mem_state \<Rightarrow> bool \<times> mem_state" where
  "mem_sample i s = mem_pass_sample (mem_task i) s"

definition mem_passes :: "mem_call \<Rightarrow> mem_state \<Rightarrow> bool" where
  "mem_passes i s \<longleftrightarrow> mem_gate i s \<and> fst (mem_sample i s)"

text \<open>The key and amount of an event in each of the three per-cgroup maps.\<close>

fun mem_evt_amount :: "mem_tp \<Rightarrow> (u32 \<times> u64) option" where
  "mem_evt_amount Mem_direct_reclaim = Some (MEM_EVT_DIRECT, 1)"
| "mem_evt_amount _ = None"

fun mem_pages_amount :: "mem_tp \<Rightarrow> (u32 \<times> u64) option" where
  "mem_pages_amount (Mem_reclaim_pages ctx) = Some (MEM_PAGES_RECLAIM, nr_reclaimed ctx)"
| "mem_pages_amount _ = None"

fun mem_bytes_amount :: "mem_tp \<Rightarrow> (u32 \<times> u64) option" where
  "mem_bytes_amount (Mem_page_alloc ctx) = Some (mem_bytes_code MEM_BYTES_ALLOC, order_to_bytes (pa_order ctx))"
| "mem_bytes_amount (Mem_page_free ctx) = Some (mem_bytes_code MEM_BYTES_FREE, order_to_bytes (pf_order ctx))"
| "mem_bytes_amount _ = None"

definition mem_charge ::
  "(mem_tp \<Rightarrow> (u32 \<times> u64) option) \<Rightarrow> mem_call \<Rightarrow> mem_state \<Rightarrow> (cg_key \<times> u64) option" where
  "mem_charge amount i s =
     (case amount (snd (snd i)) of
        None \<Rightarrow> None
      | Some (ty, d) \<Rightarrow>
          if mem_passes i s \<and> t_cgid (mem_task i) \<noteq> 0 \<and> d \<noteq> 0
          then Some (key_of (t_cgid (mem_task i)) ty, d) else None)"

definition kswapd_charge :: "mem_call \<Rightarrow> mem_state \<Rightarrow> (u32 \<times> u64) option" where
  "kswapd_charge i s = (if snd (snd i) = Mem_kswapd_wake \<and> mem_passes i s then Some (0, 1) else None)"

text \<open>The kernel never creates an array element: a missing one stays missing.\<close>

definition no_create :: "('k, u64) pupd" where
  "no_create c f k v m = (m, -7)"

lemma add_cg_u64_eq:
  "add_cg_u64 upd t g ty d m = (if g = 0 \<or> d = 0 then m else add_u64 upd (t_cpu t) (key_of g ty) d m)"
  by (simp add: add_cg_u64_def add_u64_def Let_def)

lemma inc_kswapd_eq:
  "snd (inc_kswapd t s) = s\<lparr>kswapd_cnt := add_u64 no_create (t_cpu t) 0 1 (kswapd_cnt s)\<rparr>"
  by (simp add: inc_kswapd_def add_u64_def no_create_def Let_def split: option.split)

lemmas mem_step_defs = tp_mm_vmscan_kswapd_wake_def tp_mm_vmscan_direct_reclaim_begin_def
  tp_mm_vmscan_reclaim_pages_def tp_mm_page_alloc_def tp_mm_page_free_def mem_in_target_eq
  add_cg_u64_eq inc_kswapd_eq

lemmas mem_view_defs = mem_task_def mem_cpu_def mem_gate_def mem_sample_def mem_passes_def

interpretation mem_evt: accounting mem_step cg_mem_evt "\<lambda>i. mk_evt (fst i)" mem_cpu "mem_charge mem_evt_amount"
proof unfold_locales
  fix i s
  show "cg_mem_evt (mem_step i s) = (case mem_charge mem_evt_amount i s of None \<Rightarrow> cg_mem_evt s
      | Some (k, d) \<Rightarrow> add_u64 (mk_evt (fst i)) (mem_cpu i) k d (cg_mem_evt s))"
    by (cases "(i, s)" rule: mem_step.cases)
       (simp_all add: mem_step_defs mem_view_defs mem_charge_def case_prod_beta Let_def MEM_EVT_DIRECT_def)
qed

interpretation mem_pages: accounting mem_step cg_mem_pages "\<lambda>i. mk_pages (fst i)" mem_cpu "mem_charge mem_pages_amount"
proof unfold_locales
  fix i s
  show "cg_mem_pages (mem_step i s) = (case mem_charge mem_pages_amount i s of None \<Rightarrow> cg_mem_pages s
      | Some (k, d) \<Rightarrow> add_u64 (mk_pages (fst i)) (mem_cpu i) k d (cg_mem_pages s))"
    by (cases "(i, s)" rule: mem_step.cases)
       (simp_all add: mem_step_defs mem_view_defs mem_charge_def case_prod_beta Let_def)
qed

interpretation mem_bytes: accounting mem_step cg_mem_bytes "\<lambda>i. mk_bytes (fst i)" mem_cpu "mem_charge mem_bytes_amount"
proof unfold_locales
  fix i s
  show "cg_mem_bytes (mem_step i s) = (case mem_charge mem_bytes_amount i s of None \<Rightarrow> cg_mem_bytes s
      | Some (k, d) \<Rightarrow> add_u64 (mk_bytes (fst i)) (mem_cpu i) k d (cg_mem_bytes s))"
    by (cases "(i, s)" rule: mem_step.cases)
       (simp_all add: mem_step_defs mem_view_defs mem_charge_def case_prod_beta Let_def)
qed

interpretation kswapd: accounting mem_step kswapd_cnt "\<lambda>_. no_create" mem_cpu kswapd_charge
proof unfold_locales
  fix i s
  show "kswapd_cnt (mem_step i s) = (case kswapd_charge i s of None \<Rightarrow> kswapd_cnt s
      | Some (k, d) \<Rightarrow> add_u64 no_create (mem_cpu i) k d (kswapd_cnt s))"
    by (cases "(i, s)" rule: mem_step.cases)
       (simp_all add: mem_step_defs mem_view_defs kswapd_charge_def case_prod_beta Let_def)
qed

lemma mem_step_fields [simp]: "cfg_map (mem_step i s) = cfg_map s" "ro (mem_step i s) = ro s"
  by (cases "(i, s)" rule: mem_step.cases, simp_all add: mem_step_defs case_prod_beta Let_def)+

lemma mem_step_per_cpu:
  "per_cpu_cnt (mem_step i s) = (if mem_gate i s then per_cpu_cnt (snd (mem_sample i s)) else per_cpu_cnt s)"
  by (cases "(i, s)" rule: mem_step.cases)
     (simp_all add: mem_step_defs mem_view_defs case_prod_beta Let_def)

lemma mem_step_rate [simp]: "cfg_rate (mem_step i s) = cfg_rate s"
  by (simp add: cfg_rate_def load_cfg_cong [of "mem_step i s" s])

lemma mem_step_gate [simp]: "mem_gate j (mem_step i s) = mem_gate j s"
  by (simp add: mem_gate_def in_target_cong [of "mem_step i s" s])

lemma mem_sample_wf: "maps_wf s \<Longrightarrow> maps_wf (snd (mem_pass_sample t s))"
  by (simp add: mem_pass_sample_eq tp.wf_sample)

lemma mem_step_wf [simp]: "maps_wf s \<Longrightarrow> maps_wf (mem_step i s)"
  using mem_sample_wf [of s "mem_task i"] by (simp add: maps_wf_def mem_step_per_cpu mem_sample_def)

interpretation mem: sampled mem_sample mem_cpu sample_count cfg_rate maps_wf mem_step mem_gate "\<lambda>i s. s"
  by unfold_locales
    (auto simp: mem_sample_def mem_cpu_def sample_count_def mem_step_per_cpu cfg_rate_pos mem_pass_sample_eq
      tp.wf_sample tp.rate_sample tp.sample_iff tp.count_sample [unfolded sample_count_def])

section \<open>Properties\<close>

definition mem_kernel_ok :: "cpu \<Rightarrow> mem_call list \<Rightarrow> bool" where
  "mem_kernel_ok n is \<longleftrightarrow> (\<forall>i \<in> set is. mem_cpu i < n \<and>
     percpu_update_ok (mk_evt (fst i)) \<and> percpu_accepts (mk_evt (fst i)) \<and>
     percpu_update_ok (mk_pages (fst i)) \<and> percpu_accepts (mk_pages (fst i)) \<and>
     percpu_update_ok (mk_bytes (fst i)) \<and> percpu_accepts (mk_bytes (fst i)))"

text \<open>The sum of the charges to a key along a run.\<close>

definition mem_sum :: "(mem_call \<Rightarrow> mem_state \<Rightarrow> ('k \<times> u64) option) \<Rightarrow> mem_call list \<Rightarrow> mem_state \<Rightarrow> 'k \<Rightarrow> u64" where
  "mem_sum charge is s k =
     sum_list (map (\<lambda>x. if k = fst (snd x) then snd (snd x) else 0) (observe mem_step charge is s))"

lemma no_create_ok: "percpu_update_ok no_create"
  by (simp add: percpu_update_ok_def no_create_def)

text \<open>
  C7: the four counters of the memory module.  Over any sequence of events, what
  user space reads grows by exactly the charges: one per sampled direct reclaim,
  the reclaimed pages, the bytes of each sampled allocation and free, per cgroup,
  and one per sampled kswapd wakeup whatever the cgroup filter says.
\<close>

theorem mem_totals_charged:
  assumes "mem_kernel_ok n is" and "array1 (kswapd_cnt s)"
  shows "total n (cg_mem_evt (run mem_step is s)) k =
      total n (cg_mem_evt s) k + mem_sum (mem_charge mem_evt_amount) is s k \<and>
    total n (cg_mem_pages (run mem_step is s)) k =
      total n (cg_mem_pages s) k + mem_sum (mem_charge mem_pages_amount) is s k \<and>
    total n (cg_mem_bytes (run mem_step is s)) k =
      total n (cg_mem_bytes s) k + mem_sum (mem_charge mem_bytes_amount) is s k \<and>
    total n (kswapd_cnt (run mem_step is s)) 0 =
      total n (kswapd_cnt s) 0 + mem_sum kswapd_charge is s 0"
proof (intro conjI)
  show "total n (kswapd_cnt (run mem_step is s)) 0 =
      total n (kswapd_cnt s) 0 + mem_sum kswapd_charge is s 0"
    unfolding mem_sum_def
    by (rule kswapd.total_run_present) (use assms in \<open>simp_all add: mem_kernel_ok_def no_create_ok array1_def\<close>)
qed (use assms in \<open>simp_all add: mem_sum_def mem_kernel_ok_def mem_evt.total_run mem_pages.total_run mem_bytes.total_run\<close>)

text \<open>
  The conversion of an allocation order to bytes is exact for every order up
  to 31 and clamps larger ones to order 31; it never overflows 64 bits and never
  yields 0, so the guard \<open>if (!bytes) return 0\<close> of its two callers never fires.
\<close>

lemma order_to_bytes_exact:
  "unat (order_to_bytes order) = 4096 * 2 ^ (if unat order < 32 then unat order else 31)"
  by (simp add: order_to_bytes_unat min_def power_add)

text \<open>
  All memory events of a CPU share one sampling counter.  Of \<open>N\<close> events that
  reach the sampler on that CPU (kswapd wakeups of any task, the other events of
  tasks inside the target subtree), exactly the share the rate allows passes.
\<close>

lemma mem_sampling_rate:
  assumes "maps_wf s"
    and "unat (sample_count s c) + length (filter (\<lambda>i. mem_cpu i = c \<and> mem_gate i s) is) < 2 ^ 64"
  shows "length (filter (\<lambda>i. mem_cpu i = c)
      (map fst (observe mem_step (\<lambda>i s. if mem_passes i s then Some () else None) is s))) =
    (unat (sample_count s c) + length (filter (\<lambda>i. mem_cpu i = c \<and> mem_gate i s) is)) div unat (cfg_rate s)
    - unat (sample_count s c) div unat (cfg_rate s)"
  using mem.observed_count [of "\<lambda>i s. if mem_passes i s then Some () else None", OF _ _ assms]
  by (auto simp: mem_passes_def)

section \<open>Witnesses\<close>

definition demo_mem_kernel :: mem_kernel where
  "demo_mem_kernel = \<lparr>mk_evt = roomy_pupd, mk_pages = roomy_pupd, mk_bytes = roomy_pupd\<rparr>"

definition demo_mem :: "u32 \<Rightarrow> mem_state" where
  "demo_mem r = \<lparr>ro = demo_ro, cfg_map = array1_init (demo_cfg r), per_cpu_cnt = array1_init (\<lambda>_. 0),
     cg_mem_evt = Map.empty, cg_mem_pages = Map.empty, cg_mem_bytes = Map.empty,
     kswapd_cnt = array1_init (\<lambda>_. 0)\<rparr>"

definition demo_mem_calls :: "mem_call list" where
  "demo_mem_calls =
     [(demo_mem_kernel, demo_task 0 9, Mem_page_alloc \<lparr>pa_pfn = 1, pa_order = 1, pa_gfp_flags = 0, pa_migratetype = 0\<rparr>),
      (demo_mem_kernel, demo_task 1 9, Mem_page_alloc \<lparr>pa_pfn = 5, pa_order = 0, pa_gfp_flags = 0, pa_migratetype = 0\<rparr>)]"

lemmas demo_mem_defs = demo_mem_kernel_def demo_mem_def demo_mem_calls_def

theorem mem_totals_charged_witness:
  "mem_kernel_ok 2 demo_mem_calls \<and>
   total 2 (cg_mem_bytes (run mem_step demo_mem_calls (demo_mem 1))) (key_of 9 1) = 12288"
proof -
  have ok: "mem_kernel_ok 2 demo_mem_calls" and a: "array1 (kswapd_cnt (demo_mem 1))"
    by (simp_all add: mem_kernel_ok_def demo_mem_defs mem_view_defs demo_task_def)
  have r: "cfg_rate (demo_mem 1) = 1" and g: "mem_gate (k, demo_task c 9, e) (demo_mem 1)" for k c e
    by (simp_all add: demo_mem_def mem_view_defs demo_defs)
  have bytes: "order_to_bytes 1 = 8192" "order_to_bytes 0 = 4096"
    by (simp_all add: order_to_bytes_power min_def)
  have cg: "t_cgid (demo_task c 9) = 9" for c
    by (simp add: demo_task_def)
  have "mem_sum (mem_charge mem_bytes_amount) demo_mem_calls (demo_mem 1) (key_of 9 1) = 12288"
    by (simp add: mem_sum_def demo_mem_calls_def mem_charge_def mem_passes_def mem_sample_def
        mem_pass_sample_eq mem_task_def r g bytes cg del: mem_step.simps)
  moreover have "total 2 (cg_mem_bytes (demo_mem 1)) (key_of 9 1) = 0"
    by (simp add: demo_mem_def)
  ultimately show ?thesis
    using ok mem_totals_charged [OF ok a, of "key_of 9 1"] by simp
qed


end
