(* ===== verification/Obsv_Sys.thy ===== *)
theory Obsv_Sys
  imports Obsv_Common
begin

text \<open>
  \<open>gocker-obsv/bpf/sys.bpf.c\<close>: calls and total latency per cgroup and system
  call.  The entry of a system call leaves its start time and cgroup in an LRU map
  under (process id, system call); its exit takes them out and charges both
  counters.  The module has no sampling.
\<close>

section \<open>State and operations\<close>

record start_key =
  sk_pid :: u32
  sk_sys :: u32

record start_val =
  sv_ts_ns :: u64
  sv_cgid :: u64

record sys_state = obsv_cfg +
  cg_sys_cnt :: "(cg_key, u64) percpu"
  cg_sys_lat_ns :: "(cg_key, u64) percpu"
  sys_enter_start :: "start_key \<rightharpoonup> start_val"

record sys_kernel =
  yk_cnt :: "(cg_key, u64) pupd"
  yk_lat :: "(cg_key, u64) pupd"
  yk_start_upd :: "(start_key, start_val) upd"
  yk_start_del :: "(start_key, start_val) del"

definition sys_load_cfg :: "sys_state \<Rightarrow> u32 \<times> u32 \<times> u32 \<times> u64" where
  "sys_load_cfg s =
     (case cfg_map s 0 of
        Some c \<Rightarrow> (if sample_rate c \<noteq> 0 then sample_rate c else 1,
                   enable_filter c, target_level c, target_cgid c)
      | None \<Rightarrow> (if SAMPLE_RATE (ro s) \<noteq> 0 then SAMPLE_RATE (ro s) else 1,
                 ENABLE_FILTER (ro s), TARGET_LEVEL (ro s), TARGET_CGID (ro s)))"

definition tp_sys_enter ::
  "sys_kernel \<Rightarrow> task \<Rightarrow> trace_event_raw_sys_enter \<Rightarrow> sys_state \<Rightarrow> s32 \<times> sys_state" where
  "tp_sys_enter K t ctx s =
     (case sys_load_cfg s of (rate, en, lvl, cgid) \<Rightarrow>
        if en \<noteq> 0 \<and> \<not> (let anc = t_ancestor t lvl in anc \<noteq> 0 \<and> anc = cgid) then (0, s)
        else (let k = \<lparr>sk_pid = ucast (t_pid_tgid t), sk_sys = ucast (en_id ctx)\<rparr>;
                  v = \<lparr>sv_ts_ns = t_ktime t, sv_cgid = t_cgid t\<rparr>
              in (0, s\<lparr>sys_enter_start := fst (yk_start_upd K BPF_ANY k v (sys_enter_start s))\<rparr>)))"

definition tp_sys_exit ::
  "sys_kernel \<Rightarrow> task \<Rightarrow> trace_event_raw_sys_exit \<Rightarrow> sys_state \<Rightarrow> s32 \<times> sys_state" where
  "tp_sys_exit K t ctx s =
     (let k = \<lparr>sk_pid = ucast (t_pid_tgid t), sk_sys = ucast (ex_id ctx)\<rparr>
      in case sys_enter_start s k of
           None \<Rightarrow> (0, s)
         | Some sv \<Rightarrow>
             (let now = t_ktime t;
                  dt = (if now > sv_ts_ns sv then now - sv_ts_ns sv else 0);
                  agg = key_of (sv_cgid sv) (sk_sys k);
                  s1 = s\<lparr>cg_sys_cnt := add_u64 (yk_cnt K) (t_cpu t) agg 1 (cg_sys_cnt s)\<rparr>;
                  s2 = s1\<lparr>cg_sys_lat_ns := add_u64 (yk_lat K) (t_cpu t) agg dt (cg_sys_lat_ns s1)\<rparr>;
                  s3 = s2\<lparr>sys_enter_start := fst (yk_start_del K k (sys_enter_start s2))\<rparr>
              in (0, s3)))"

datatype sys_tp =
    Sys_enter trace_event_raw_sys_enter
  | Sys_exit trace_event_raw_sys_exit

type_synonym sys_call = "sys_kernel \<times> task \<times> sys_tp"

fun sys_step :: "sys_call \<Rightarrow> sys_state \<Rightarrow> sys_state" where
  "sys_step (K, t, Sys_enter ctx) s = snd (tp_sys_enter K t ctx s)"
| "sys_step (K, t, Sys_exit ctx) s = snd (tp_sys_exit K t ctx s)"

lemma sys_load_cfg_eq: "sys_load_cfg s = load_cfg s"
  by (simp add: sys_load_cfg_def load_cfg_def)

section \<open>What an invocation learns, forgets and charges\<close>

fun sys_key :: "sys_call \<Rightarrow> start_key" where
  "sys_key (K, t, Sys_enter ctx) = \<lparr>sk_pid = ucast (t_pid_tgid t), sk_sys = ucast (en_id ctx)\<rparr>"
| "sys_key (K, t, Sys_exit ctx) = \<lparr>sk_pid = ucast (t_pid_tgid t), sk_sys = ucast (ex_id ctx)\<rparr>"

definition sys_cpu :: "sys_call \<Rightarrow> cpu" where
  "sys_cpu i = t_cpu (fst (snd i))"

fun sys_learns :: "sys_call \<Rightarrow> sys_state \<Rightarrow> (start_key \<times> start_val) option" where
  "sys_learns (K, t, Sys_enter ctx) s =
     (if in_target_subtree_current t s
      then Some (sys_key (K, t, Sys_enter ctx), \<lparr>sv_ts_ns = t_ktime t, sv_cgid = t_cgid t\<rparr>) else None)"
| "sys_learns (K, t, Sys_exit ctx) s = None"

fun sys_forgets :: "sys_call \<Rightarrow> start_key option" where
  "sys_forgets (K, t, Sys_enter ctx) = None"
| "sys_forgets (K, t, Sys_exit ctx) = Some (sys_key (K, t, Sys_exit ctx))"

text \<open>The start record an exit finds, and the latency it computes.\<close>

definition sys_found :: "sys_call \<Rightarrow> sys_state \<Rightarrow> start_val option" where
  "sys_found i s = (case sys_forgets i of None \<Rightarrow> None | Some k \<Rightarrow> sys_enter_start s k)"

definition sys_latency :: "u64 \<Rightarrow> u64 \<Rightarrow> u64" where
  "sys_latency now ts = (if now > ts then now - ts else 0)"

definition sys_cnt_charge :: "sys_call \<Rightarrow> sys_state \<Rightarrow> (cg_key \<times> u64) option" where
  "sys_cnt_charge i s =
     map_option (\<lambda>sv. (key_of (sv_cgid sv) (sk_sys (sys_key i)), 1)) (sys_found i s)"

definition sys_lat_charge :: "sys_call \<Rightarrow> sys_state \<Rightarrow> (cg_key \<times> u64) option" where
  "sys_lat_charge i s =
     map_option (\<lambda>sv. (key_of (sv_cgid sv) (sk_sys (sys_key i)),
       sys_latency (t_ktime (fst (snd i))) (sv_ts_ns sv))) (sys_found i s)"

lemma tp_sys_enter_eq:
  "snd (tp_sys_enter K t ctx s) =
     (if in_target_subtree_current t s
      then s\<lparr>sys_enter_start := fst (yk_start_upd K BPF_ANY (sys_key (K, t, Sys_enter ctx))
          \<lparr>sv_ts_ns = t_ktime t, sv_cgid = t_cgid t\<rparr> (sys_enter_start s))\<rparr>
      else s)"
  by (auto simp: tp_sys_enter_def in_target_subtree_current_def sys_load_cfg_eq Let_def
      split: prod.split)

lemma tp_sys_exit_eq:
  "snd (tp_sys_exit K t ctx s) =
     (case sys_enter_start s (sys_key (K, t, Sys_exit ctx)) of
        None \<Rightarrow> s
      | Some sv \<Rightarrow>
          (let agg = key_of (sv_cgid sv) (sk_sys (sys_key (K, t, Sys_exit ctx)))
           in s\<lparr>cg_sys_cnt := add_u64 (yk_cnt K) (t_cpu t) agg 1 (cg_sys_cnt s),
                cg_sys_lat_ns := add_u64 (yk_lat K) (t_cpu t) agg
                  (sys_latency (t_ktime t) (sv_ts_ns sv)) (cg_sys_lat_ns s),
                sys_enter_start := fst (yk_start_del K (sys_key (K, t, Sys_exit ctx)) (sys_enter_start s))\<rparr>))"
  by (simp add: tp_sys_exit_def sys_latency_def Let_def split: option.split)

lemmas sys_step_defs = tp_sys_enter_eq tp_sys_exit_eq sys_found_def sys_cpu_def

interpretation sys_cnt: accounting sys_step cg_sys_cnt "\<lambda>i. yk_cnt (fst i)" sys_cpu sys_cnt_charge
proof unfold_locales
  fix i s
  show "cg_sys_cnt (sys_step i s) = (case sys_cnt_charge i s of None \<Rightarrow> cg_sys_cnt s
      | Some (k, d) \<Rightarrow> add_u64 (yk_cnt (fst i)) (sys_cpu i) k d (cg_sys_cnt s))"
    by (cases "(i, s)" rule: sys_step.cases)
       (simp_all add: sys_step_defs sys_cnt_charge_def Let_def split: option.split)
qed

interpretation sys_lat: accounting sys_step cg_sys_lat_ns "\<lambda>i. yk_lat (fst i)" sys_cpu sys_lat_charge
proof unfold_locales
  fix i s
  show "cg_sys_lat_ns (sys_step i s) = (case sys_lat_charge i s of None \<Rightarrow> cg_sys_lat_ns s
      | Some (k, d) \<Rightarrow> add_u64 (yk_lat (fst i)) (sys_cpu i) k d (cg_sys_lat_ns s))"
    by (cases "(i, s)" rule: sys_step.cases)
       (simp_all add: sys_step_defs sys_lat_charge_def Let_def split: option.split)
qed

definition sys_lru_ok :: "sys_call \<Rightarrow> bool" where
  "sys_lru_ok i \<longleftrightarrow> lru_update_ok (yk_start_upd (fst i)) \<and> accepts (yk_start_upd (fst i)) \<and>
     delete_ok (yk_start_del (fst i))"

interpretation sys: lru_cache sys_step sys_enter_start sys_lru_ok sys_learns sys_forgets
proof unfold_locales
  fix i s
  assume ok: "sys_lru_ok i"
  show "sys_enter_start (sys_step i s) \<subseteq>\<^sub>m ideal_step (sys_learns i s) (sys_forgets i) (sys_enter_start s)"
  proof (cases "(i, s)" rule: sys_step.cases)
    case (1 K t ctx s)
    then show ?thesis
      using ok lru_update_ideal
      by (fastforce simp: sys_step_defs ideal_step_def sys_lru_ok_def)
  next
    case (2 K t ctx s)
    then show ?thesis
      using ok
      by (auto simp: sys_step_defs ideal_step_def sys_lru_ok_def delete_fst Let_def map_le_def
          split: option.split)
  qed
qed

section \<open>Properties\<close>

definition sys_kernel_ok :: "cpu \<Rightarrow> sys_call list \<Rightarrow> bool" where
  "sys_kernel_ok n is \<longleftrightarrow> (\<forall>i \<in> set is. sys_cpu i < n \<and>
     percpu_update_ok (yk_cnt (fst i)) \<and> percpu_accepts (yk_cnt (fst i)) \<and>
     percpu_update_ok (yk_lat (fst i)) \<and> percpu_accepts (yk_lat (fst i)))"

text \<open>The calls a history completes: the exits that find the record of their entry.\<close>

definition sys_completed :: "sys_call list \<Rightarrow> sys_state \<Rightarrow> (sys_call \<times> start_val) list" where
  "sys_completed is s = observe sys_step sys_found is s"

definition sys_agg :: "sys_call \<times> start_val \<Rightarrow> cg_key" where
  "sys_agg x = key_of (sv_cgid (snd x)) (sk_sys (sys_key (fst x)))"

definition sys_took :: "sys_call \<times> start_val \<Rightarrow> u64" where
  "sys_took x = sys_latency (t_ktime (fst (snd (fst x)))) (sv_ts_ns (snd x))"

lemma sys_observe_charges:
  "observe sys_step sys_cnt_charge is s =
     map (\<lambda>x. (fst x, sys_agg x, 1)) (sys_completed is s)"
  "observe sys_step sys_lat_charge is s =
     map (\<lambda>x. (fst x, sys_agg x, sys_took x)) (sys_completed is s)"
  unfolding sys_completed_def
  by (induction "is" arbitrary: s)
    (auto simp: sys_cnt_charge_def sys_lat_charge_def sys_agg_def sys_took_def split: option.split)

lemma sys_forgets_key: "sys_forgets i = Some k \<Longrightarrow> k = sys_key i"
  by (cases i rule: sys_key.cases) auto

lemma sys_learns_key: "sys_learns i s = Some (k, v) \<Longrightarrow> k = sys_key i"
  by (cases "(i, s)" rule: sys_learns.cases) (auto split: if_splits)

lemma sys_latency_unat:
  "unat (sys_latency now ts) = unat now - unat ts"
  by (auto simp: sys_latency_def word_less_nat_alt unat_sub_if')

text \<open>
  Over any sequence of entries and exits, the call count and the latency
  that user space reads for a cgroup and system call grow by exactly the number
  of completed calls with that key and by the sum of their latencies; the two
  counters always move together.
\<close>

lemma sys_totals_charged:
  assumes "sys_kernel_ok n is"
  shows "total n (cg_sys_cnt (run sys_step is s)) k = total n (cg_sys_cnt s) k +
      of_nat (length (filter (\<lambda>x. sys_agg x = k) (sys_completed is s))) \<and>
    total n (cg_sys_lat_ns (run sys_step is s)) k = total n (cg_sys_lat_ns s) k +
      sum_list (map sys_took (filter (\<lambda>x. sys_agg x = k) (sys_completed is s)))"
proof
  have cnt: "sum_list (map (\<lambda>x. if k = sys_agg x then 1 else 0) xs) =
      (of_nat (length (filter (\<lambda>x. sys_agg x = k) xs)) :: u64)" for xs
    by (induction xs) auto
  have lat: "sum_list (map (\<lambda>x. if k = sys_agg x then sys_took x else 0) xs) =
      sum_list (map sys_took (filter (\<lambda>x. sys_agg x = k) xs))" for xs
    by (induction xs) auto
  show "total n (cg_sys_cnt (run sys_step is s)) k = total n (cg_sys_cnt s) k +
      of_nat (length (filter (\<lambda>x. sys_agg x = k) (sys_completed is s)))"
    using sys_cnt.total_run [of "is" n s k] assms
    by (simp add: sys_kernel_ok_def sys_observe_charges comp_def cnt cong: if_cong)
  show "total n (cg_sys_lat_ns (run sys_step is s)) k = total n (cg_sys_lat_ns s) k +
      sum_list (map sys_took (filter (\<lambda>x. sys_agg x = k) (sys_completed is s)))"
    using sys_lat.total_run [of "is" n s k] assms
    by (simp add: sys_kernel_ok_def sys_observe_charges comp_def lat cong: if_cong)
qed


section \<open>Witnesses\<close>

definition demo_sys_kernel :: sys_kernel where
  "demo_sys_kernel = \<lparr>yk_cnt = roomy_pupd, yk_lat = roomy_pupd, yk_start_upd = roomy_upd,
     yk_start_del = plain_del\<rparr>"

definition demo_sys :: sys_state where
  "demo_sys = \<lparr>ro = demo_ro, cfg_map = array1_init (demo_cfg 1), cg_sys_cnt = Map.empty,
     cg_sys_lat_ns = Map.empty, sys_enter_start = Map.empty\<rparr>"

definition demo_enter :: "u64 \<Rightarrow> sys_call" where
  "demo_enter n = (demo_sys_kernel, demo_task 0 9, Sys_enter \<lparr>en_id = n, en_args = []\<rparr>)"

definition demo_exit :: "u64 \<Rightarrow> u64 \<Rightarrow> sys_call" where
  "demo_exit n now =
     (demo_sys_kernel, (demo_task 1 9)\<lparr>t_ktime := now\<rparr>, Sys_exit \<lparr>ex_id = n, ex_ret = 0\<rparr>)"

lemmas demo_sys_defs = demo_sys_kernel_def demo_sys_def demo_enter_def demo_exit_def
  sys_found_def sys_completed_def sys_agg_def sys_took_def sys_latency_def
  tp_sys_enter_eq tp_sys_exit_eq Let_def demo_defs



end
