(* ===== verification/C_Layout.thy ===== *)
theory C_Layout
  imports Prelude
begin

text \<open>
  Bytes between the two halves of a monitor: how the C compiler lays out a struct
  in memory (each scalar aligned to its size, the struct padded to its strictest
  alignment, little endian), and how Go's \<open>binary.Read\<close> decodes a struct (fields
  one after the other, little endian, no padding).
\<close>

section \<open>Little-endian numbers\<close>

fun le_bytes :: "nat \<Rightarrow> nat \<Rightarrow> u8 list" where
  "le_bytes 0 v = []"
| "le_bytes (Suc n) v = of_nat (v mod 256) # le_bytes n (v div 256)"

fun le_value :: "u8 list \<Rightarrow> nat" where
  "le_value [] = 0"
| "le_value (b # bs) = unat b + 256 * le_value bs"

lemma length_le_bytes [simp]: "length (le_bytes n v) = n"
  by (induction n v rule: le_bytes.induct) auto

lemma unat_byte [simp]: "unat (of_nat (v mod 256) :: u8) = v mod 256"
  by (simp add: unat_of_nat)

lemma le_value_bytes: "le_value (le_bytes n v) = v mod 256 ^ n"
proof (induction n v rule: le_bytes.induct)
  case (2 n v)
  have "v mod 256 ^ Suc n = v mod 256 + 256 * (v div 256 mod 256 ^ n)"
    using mod_mult2_eq [of v 256 "256 ^ n"] by simp
  then show ?case using 2 by simp
qed simp

lemma le_value_bytes_small: "v < 256 ^ n \<Longrightarrow> le_value (le_bytes n v) = v"
  by (simp add: le_value_bytes)

lemma le_value_append: "le_value (xs @ ys) = le_value xs + 256 ^ length xs * le_value ys"
  by (induction xs) (auto simp: algebra_simps)

lemma le_bytes_add: "le_bytes (m + n) v = le_bytes m v @ le_bytes n (v div 256 ^ m)"
  by (induction m arbitrary: v) (auto simp: div_mult2_eq)

lemma le_value_less: "le_value bs < 256 ^ length bs"
proof (induction bs)
  case (Cons b bs)
  have "unat b < 256"
    using unsigned_less [of b] by simp
  then have "unat b + 256 * le_value bs < 256 * (1 + le_value bs)"
    by simp
  also have "\<dots> \<le> 256 * 256 ^ length bs"
    using Cons by (intro mult_left_mono) auto
  finally show ?case by simp
qed simp

lemma le_bytes_value: "le_bytes (length bs) (le_value bs) = bs"
proof (induction bs)
  case (Cons b bs)
  have "unat b < 256"
    using unsigned_less [of b] by simp
  then have "(unat b + 256 * le_value bs) mod 256 = unat b" and "(unat b + 256 * le_value bs) div 256 = le_value bs"
    by simp_all
  then show ?case using Cons by simp
qed simp

section \<open>C types\<close>

text \<open>
  Types by size in bytes: a scalar, an array, a bit-field with the size of its
  declared type and its width, a struct or union with its members in order (an
  empty name is an anonymous member), and a type with a stricter alignment.
\<close>

datatype ctype =
    Scalar nat
  | Arr nat ctype
  | Bits nat nat
  | Struct "cfield list"
  | Union "cfield list"
  | Aligned nat ctype
and cfield = F string ctype

definition align_up :: "nat \<Rightarrow> nat \<Rightarrow> nat" where
  "align_up n a = (n + a - 1) div a * a"

text \<open>An unnamed bit-field does not raise the alignment of its struct.\<close>

definition member_align :: "string \<Rightarrow> ctype \<Rightarrow> nat \<Rightarrow> nat" where
  "member_align nm t a = (case t of Bits n w \<Rightarrow> if nm = '''' then 1 else n | _ \<Rightarrow> a)"

fun calign :: "ctype \<Rightarrow> nat" and calign_fields :: "cfield list \<Rightarrow> nat" where
  "calign (Scalar n) = n"
| "calign (Arr n t) = calign t"
| "calign (Bits n w) = n"
| "calign (Struct fs) = calign_fields fs"
| "calign (Union fs) = calign_fields fs"
| "calign (Aligned n t) = max n (calign t)"
| "calign_fields [] = 1"
| "calign_fields (F nm t # fs) = max (member_align nm t (calign t)) (calign_fields fs)"

text \<open>
  The bit at which a member goes when the bits before \<open>pos\<close> are taken: a bit-field
  stays in the current unit of its declared type if it fits there and starts the
  next unit otherwise (always with width 0); anything else goes to the next
  aligned byte.
\<close>

definition place :: "nat \<Rightarrow> ctype \<Rightarrow> nat" where
  "place pos t =
     (case t of
        Bits n w \<Rightarrow>
          if w \<noteq> 0 \<and> pos div (8 * n) = (pos + w - 1) div (8 * n) then pos else align_up pos (8 * n)
      | _ \<Rightarrow> align_up pos (8 * calign t))"

definition member_bits :: "ctype \<Rightarrow> nat \<Rightarrow> nat" where
  "member_bits t sz = (case t of Bits n w \<Rightarrow> w | _ \<Rightarrow> 8 * sz)"

fun csize :: "ctype \<Rightarrow> nat" and end_fields :: "nat \<Rightarrow> cfield list \<Rightarrow> nat" and max_fields :: "cfield list \<Rightarrow> nat" where
  "csize (Scalar n) = n"
| "csize (Arr n t) = n * csize t"
| "csize (Bits n w) = n"
| "csize (Struct fs) = align_up (align_up (end_fields 0 fs) 8 div 8) (calign_fields fs)"
| "csize (Union fs) = align_up (max_fields fs) (calign_fields fs)"
| "csize (Aligned n t) = align_up (csize t) (max n (calign t))"
| "end_fields pos [] = pos"
| "end_fields pos (F nm t # fs) = end_fields (place pos t + member_bits t (csize t)) fs"
| "max_fields [] = 0"
| "max_fields (F nm t # fs) = max (csize t) (max_fields fs)"

text \<open>
  The bit offset and the type of a member, looked for in anonymous members too.
\<close>

fun member :: "string \<Rightarrow> ctype \<Rightarrow> (nat \<times> ctype) option"
  and member_struct :: "string \<Rightarrow> nat \<Rightarrow> cfield list \<Rightarrow> (nat \<times> ctype) option"
  and member_union :: "string \<Rightarrow> cfield list \<Rightarrow> (nat \<times> ctype) option" where
  "member nm (Struct fs) = member_struct nm 0 fs"
| "member nm (Union fs) = member_union nm fs"
| "member nm (Aligned n t) = member nm t"
| "member nm _ = None"
| "member_struct nm pos [] = None"
| "member_struct nm pos (F n t # fs) =
     (if n = nm then Some (place pos t, t)
      else case (if n = '''' then member nm t else None) of
             Some (off, u) \<Rightarrow> Some (place pos t + off, u)
           | None \<Rightarrow> member_struct nm (place pos t + member_bits t (csize t)) fs)"
| "member_union nm [] = None"
| "member_union nm (F n t # fs) =
     (if n = nm then Some (0, t)
      else case (if n = '''' then member nm t else None) of
             Some r \<Rightarrow> Some r
           | None \<Rightarrow> member_union nm fs)"

text \<open>C's \<open>offsetof\<close> and the size of the member, in bytes.\<close>

definition offset_size :: "ctype \<Rightarrow> string \<Rightarrow> (nat \<times> nat) option" where
  "offset_size t nm = map_option (\<lambda>(off, u). (off div 8, csize u)) (member nm t)"

lemmas layout_simps = align_up_def member_align_def place_def member_bits_def

text \<open>The offset and size of every scalar in a value of a type placed at an offset.\<close>

fun leaves :: "nat \<Rightarrow> ctype \<Rightarrow> (nat \<times> nat) list" and leaves_fields :: "nat \<Rightarrow> nat \<Rightarrow> cfield list \<Rightarrow> (nat \<times> nat) list" where
  "leaves base (Scalar n) = [(base, n)]"
| "leaves base (Arr n t) = concat (map (\<lambda>i. leaves (base + i * csize t) t) [0..<n])"
| "leaves base (Struct fs) = leaves_fields base 0 fs"
| "leaves base (Aligned n t) = leaves base t"
| "leaves base _ = []"
| "leaves_fields base pos [] = []"
| "leaves_fields base pos (F nm t # fs) =
     leaves (base + place pos t div 8) t @ leaves_fields base (place pos t + member_bits t (csize t)) fs"

text \<open>
  The memory of a struct: the scalars' bytes at their offsets; the bytes between
  them and after the last one are not written and keep what memory held, \<open>pad\<close>.
\<close>

fun emit :: "(nat \<Rightarrow> u8) \<Rightarrow> nat \<Rightarrow> nat \<Rightarrow> (nat \<times> nat) list \<Rightarrow> nat list \<Rightarrow> u8 list" where
  "emit pad sz pos ((off, n) # ls) (v # vs) =
     map pad [pos..<off] @ le_bytes n v @ emit pad sz (off + n) ls vs"
| "emit pad sz pos _ _ = map pad [pos..<sz]"

definition c_memory :: "(nat \<Rightarrow> u8) \<Rightarrow> ctype \<Rightarrow> nat list \<Rightarrow> u8 list" where
  "c_memory pad t vs = emit pad (csize t) 0 (leaves 0 t) vs"

section \<open>Go's decoder\<close>

text \<open>The sizes of the fields in order; \<open>None\<close> is the error of a short input.\<close>

fun go_decode :: "nat list \<Rightarrow> u8 list \<Rightarrow> nat list option" where
  "go_decode [] bs = Some []"
| "go_decode (n # ns) bs =
     (if length bs < n then None else map_option (\<lambda>vs. le_value (take n bs) # vs) (go_decode ns (drop n bs)))"

text \<open>Scalars that follow each other without a gap.\<close>

fun gapless :: "nat \<Rightarrow> (nat \<times> nat) list \<Rightarrow> bool" where
  "gapless pos [] \<longleftrightarrow> True"
| "gapless pos ((off, n) # ls) \<longleftrightarrow> off = pos \<and> gapless (off + n) ls"

lemma go_decode_chunk:
  "length xs = n \<Longrightarrow> go_decode (n # ns) (xs @ bs) = map_option (\<lambda>vs. le_value xs # vs) (go_decode ns bs)"
  by simp

lemma go_decode_append_bytes [simp]:
  "go_decode (n # ns) (le_bytes n v @ bs) = map_option (\<lambda>vs. v mod 256 ^ n # vs) (go_decode ns bs)"
  by (simp add: le_value_bytes)

text \<open>Where the layout has no gap before a field, Go reads what C wrote.\<close>

lemma go_decode_emit:
  assumes "gapless pos ls" and "length vs = length ls"
  shows "go_decode (map snd ls) (emit pad sz pos ls vs) =
    Some (map (\<lambda>(l, v). v mod 256 ^ snd l) (zip ls vs))"
  using assms
proof (induction ls arbitrary: pos vs)
  case (Cons l ls)
  obtain off n v vs' where "l = (off, n)" "vs = v # vs'"
    using Cons.prems by (cases l; cases vs) auto
  then show ?case
    using Cons.IH [of "off + n" vs'] Cons.prems by (auto simp del: go_decode.simps)
qed simp

lemma length_emit:
  assumes "gapless pos ls" and "length vs = length ls" and "pos + sum_list (map snd ls) \<le> sz"
  shows "length (emit pad sz pos ls vs) = sz - pos"
  using assms
proof (induction ls arbitrary: pos vs)
  case (Cons l ls)
  obtain off n v vs' where "l = (off, n)" "vs = v # vs'"
    using Cons.prems by (cases l; cases vs) auto
  then show ?case
    using Cons.IH [of "off + n" vs'] Cons.prems by auto
qed simp

lemma go_decode_enough: "sum_list ns \<le> length bs \<Longrightarrow> \<exists>vs. go_decode ns bs = Some vs"
  by (induction ns bs rule: go_decode.induct) auto

text \<open>A byte array.\<close>

lemma byte_unat [simp]: "(of_nat (unat b mod 256) :: u8) = b"
proof -
  have "unat b < 256"
    using unsigned_less [of b] by simp
  then show ?thesis by simp
qed

lemma emit_byte_array:
  "emit pad sz pos (map (\<lambda>i. (pos + i, 1)) [0..<length bs]) (map unat bs) = bs @ map pad [pos + length bs..<sz]"
proof (induction bs arbitrary: pos)
  case (Cons b bs)
  have "map (\<lambda>i. (pos + i, 1::nat)) [0..<length (b # bs)] =
      (pos, 1) # map (\<lambda>i. (Suc pos + i, 1)) [0..<length bs]"
    by (simp only: list.size add_Suc_right add_0_right map_upt_Suc) simp
  then show ?case
    using Cons [of "Suc pos"] by (simp del: upt_Suc)
qed simp

lemma leaves_byte_array: "leaves off (Arr n (Scalar 1)) = map (\<lambda>i. (off + i, 1)) [0..<n]"
  by simp

end
