(* ===== verification/Go_Text.thy ===== *)
theory Go_Text
  imports Prelude
begin

text \<open>
  Decimal text as the Go parts of the repository print and parse it (\<open>%d\<close>,
  \<open>strconv\<close>), with the round trip between the two.
\<close>

definition digit_char :: "nat \<Rightarrow> char" where
  "digit_char d = char_of (48 + d)"

definition is_digit :: "char \<Rightarrow> bool" where
  "is_digit c \<longleftrightarrow> 48 \<le> (of_char c :: nat) \<and> (of_char c :: nat) \<le> 57"

definition digit_value :: "char \<Rightarrow> nat" where
  "digit_value c = of_char c - 48"

fun dec :: "nat \<Rightarrow> string" where
  "dec n = (if n < 10 then [digit_char n] else dec (n div 10) @ [digit_char (n mod 10)])"

declare dec.simps [simp del]

definition dec_value :: "string \<Rightarrow> nat" where
  "dec_value s = foldl (\<lambda>v c. 10 * v + digit_value c) 0 s"

text \<open>A nonempty string of digits is a number; anything else is an error.\<close>

definition parse_dec :: "string \<Rightarrow> nat option" where
  "parse_dec s = (if s \<noteq> [] \<and> list_all is_digit s then Some (dec_value s) else None)"

lemma digit_char [simp]:
  assumes "d < 10"
  shows "is_digit (digit_char d)" and "digit_value (digit_char d) = d"
  using assms by (simp_all add: is_digit_def digit_char_def digit_value_def)

lemma dec_small: "n < 10 \<Longrightarrow> dec n = [digit_char n]"
  by (simp add: dec.simps [of n])

lemma dec_large: "10 \<le> n \<Longrightarrow> dec n = dec (n div 10) @ [digit_char (n mod 10)]"
  by (simp add: dec.simps [of n])

lemma dec_nonempty [simp]: "dec n \<noteq> []"
  by (cases "n < 10") (auto simp: dec_small dec_large)

lemma dec_digits: "list_all is_digit (dec n)"
proof (induction n rule: dec.induct)
  case (1 n)
  then show ?case by (cases "n < 10") (auto simp: dec_small dec_large)
qed

lemma dec_value_dec [simp]: "dec_value (dec n) = n"
proof (induction n rule: dec.induct)
  case (1 n)
  then show ?case by (cases "n < 10") (auto simp: dec_small dec_large dec_value_def)
qed

lemma parse_dec_dec [simp]: "parse_dec (dec n) = Some n"
  by (simp add: parse_dec_def dec_digits)

lemma dec_inj [simp]: "dec m = dec n \<longleftrightarrow> m = n"
  by (metis dec_value_dec)

lemma dec_no_char: "\<not> is_digit c \<Longrightarrow> c \<notin> set (dec n)"
  using dec_digits [of n] by (auto simp: list_all_iff)

text \<open>\<open>strings.Split\<close> with a one-character separator.\<close>

fun split_on :: "char \<Rightarrow> string \<Rightarrow> string list" where
  "split_on c [] = [[]]"
| "split_on c (x # xs) =
     (if x = c then [] # split_on c xs
      else (case split_on c xs of [] \<Rightarrow> [[x]] | p # ps \<Rightarrow> (x # p) # ps))"

lemma split_on_none: "c \<notin> set s \<Longrightarrow> split_on c s = [s]"
  by (induction s) auto

lemma split_on_nonempty [simp]: "split_on c s \<noteq> []"
  by (induction s) (auto split: list.split)

lemma split_on_append: "c \<notin> set s \<Longrightarrow> split_on c (s @ c # t) = s # split_on c t"
  by (induction s) auto

text \<open>\<open>strings.Join\<close> with a one-character separator.\<close>

fun join_on :: "char \<Rightarrow> string list \<Rightarrow> string" where
  "join_on c [] = []"
| "join_on c [s] = s"
| "join_on c (s # t # ss) = s @ c # join_on c (t # ss)"

lemma join_split [simp]: "join_on c (split_on c s) = s"
proof (induction s)
  case (Cons x s)
  obtain p ps where "split_on c s = p # ps"
    by (cases "split_on c s") auto
  then show ?case
    using Cons by (cases ps) auto
qed simp

lemma split_join: "ss \<noteq> [] \<Longrightarrow> \<forall>s \<in> set ss. c \<notin> set s \<Longrightarrow> split_on c (join_on c ss) = ss"
  by (induction c ss rule: join_on.induct) (auto simp: split_on_none split_on_append)

section \<open>Words, lines and numbers of a text file\<close>

text \<open>The blanks of ASCII text, without and with the end of a line.\<close>

definition is_blank :: "char \<Rightarrow> bool" where
  "is_blank c \<longleftrightarrow> c \<in> {CHR '' '', CHR 0x09, CHR 0x0B, CHR 0x0C, CHR 0x0D}"

definition newline :: char where
  "newline = CHR 0x0A"

definition is_space :: "char \<Rightarrow> bool" where
  "is_space c \<longleftrightarrow> is_blank c \<or> c = newline"

text \<open>\<open>strings.TrimSpace\<close>\<close>

definition trim_space :: "string \<Rightarrow> string" where
  "trim_space s = rev (dropWhile is_space (rev (dropWhile is_space s)))"

text \<open>\<open>strings.Fields\<close>: the words between the blanks.\<close>

function Fields :: "string \<Rightarrow> string list" where
  "Fields [] = []"
| "Fields (c # s) =
     (if is_space c then Fields s
      else (c # takeWhile (\<lambda>x. \<not> is_space x) s) # Fields (dropWhile (\<lambda>x. \<not> is_space x) s))"
  by pat_completeness auto

termination
  by (relation "measure length") (simp_all add: less_Suc_eq_le length_dropWhile_le)

text \<open>\<open>strconv.ParseUint\<close> with base 10 and 64 bits.\<close>

definition ParseUint :: "string \<Rightarrow> nat option" where
  "ParseUint s = (case parse_dec s of None \<Rightarrow> None | Some v \<Rightarrow> if v < 2 ^ 64 then Some v else None)"

text \<open>
  \<open>bufio.Scanner\<close>: the lines without their ends (\<open>\n\<close> or \<open>\r\n\<close>), a last line with no
  end only if it is not empty, and an error when a line does not fit in 64 KiB.
\<close>

definition drop_cr :: "string \<Rightarrow> string" where
  "drop_cr l = (if l \<noteq> [] \<and> List.last l = CHR 0x0D then butlast l else l)"

definition scan_lines :: "string \<Rightarrow> string list option" where
  "scan_lines s =
     (let ls = split_on newline s
      in if \<exists>l \<in> set ls. 65536 \<le> length l then None
         else Some (map drop_cr (if List.last ls = [] then butlast ls else ls)))"

text \<open>A word has no blanks; a line of words has one blank between them.\<close>

definition is_word :: "string \<Rightarrow> bool" where
  "is_word w \<longleftrightarrow> w \<noteq> [] \<and> (\<forall>c \<in> set w. \<not> is_space c)"

definition line_of :: "string list \<Rightarrow> string" where
  "line_of ws = join_on CHR '' '' ws"

definition text_of :: "string list list \<Rightarrow> string" where
  "text_of wss = concat (map (\<lambda>ws. line_of ws @ [newline]) wss)"

lemma Fields_word: "is_word w \<Longrightarrow> Fields w = [w]"
  by (cases w) (auto simp: is_word_def takeWhile_eq_all_conv [THEN iffD2] dropWhile_eq_Nil_conv [THEN iffD2])

lemma Fields_word_blank: "is_word w \<Longrightarrow> Fields (w @ CHR '' '' # s) = w # Fields s"
  by (cases w) (auto simp: is_word_def is_space_def is_blank_def takeWhile_append2 dropWhile_append2)

lemma Fields_line_of: "\<forall>w \<in> set ws. is_word w \<Longrightarrow> Fields (line_of ws) = ws"
  unfolding line_of_def
  by (induction "CHR '' ''" ws rule: join_on.induct) (simp_all add: Fields_word Fields_word_blank)

lemma set_join_on: "x \<in> set (join_on c ws) \<Longrightarrow> x = c \<or> (\<exists>w \<in> set ws. x \<in> set w)"
  by (induction c ws rule: join_on.induct) auto

lemma line_of_blanks:
  assumes "\<forall>w \<in> set ws. is_word w" and "is_space c" and "c \<noteq> CHR '' ''"
  shows "c \<notin> set (line_of ws)"
  using set_join_on [of c "CHR '' ''" ws] assms by (auto simp: line_of_def is_word_def)

lemma line_of_no_newline: "\<forall>w \<in> set ws. is_word w \<Longrightarrow> newline \<notin> set (line_of ws)"
  by (rule line_of_blanks) (simp_all add: is_space_def newline_def)

lemma line_of_no_cr:
  assumes "\<forall>w \<in> set ws. is_word w"
  shows "drop_cr (line_of ws) = line_of ws"
proof -
  have "CHR 0x0D \<notin> set (line_of ws)"
    using assms by (rule line_of_blanks) (simp_all add: is_space_def is_blank_def)
  then show ?thesis
    unfolding drop_cr_def by (metis List.last_in_set)
qed

lemma split_text_of:
  "\<forall>ws \<in> set wss. newline \<notin> set (line_of ws) \<Longrightarrow> split_on newline (text_of wss) = map line_of wss @ [[]]"
  by (induction wss) (auto simp: text_of_def split_on_append)

lemma scan_lines_text:
  assumes "\<forall>ws \<in> set wss. (\<forall>w \<in> set ws. is_word w) \<and> length (line_of ws) < 65536"
  shows "scan_lines (text_of wss) = Some (map line_of wss)"
proof -
  have "split_on newline (text_of wss) = map line_of wss @ [[]]"
    using assms line_of_no_newline by (intro split_text_of) blast
  moreover have "map drop_cr (map line_of wss) = map line_of wss"
    using assms line_of_no_cr by (simp add: map_idI)
  moreover have "\<not> (\<exists>l \<in> set (map line_of wss @ [[]]). 65536 \<le> length l)"
    using assms by (auto simp: not_le)
  ultimately show ?thesis
    by (simp add: scan_lines_def)
qed

lemma digit_not_space: "is_digit c \<Longrightarrow> \<not> is_space c"
  by (auto simp: is_space_def is_blank_def newline_def is_digit_def)

lemma is_word_dec: "is_word (dec n)"
  using dec_digits [of n] by (cases "n < 10") (auto simp: is_word_def list_all_iff dec_small dec_large digit_not_space)

lemma ParseUint_dec: "n < 2 ^ 64 \<Longrightarrow> ParseUint (dec n) = Some n"
  by (simp add: ParseUint_def)

end
