(* ===== verification/Go_Path.thy ===== *)
theory Go_Path
  imports Go_Text
begin

text \<open>
  What the repository uses of Go's \<open>path/filepath\<close>: \<open>Clean\<close>, \<open>Join\<close> and \<open>Rel\<close> on
  slash-separated paths, by their documented rules.
\<close>

definition sep :: char where
  "sep = CHR ''/''"

definition rooted :: "string \<Rightarrow> bool" where
  "rooted p \<longleftrightarrow> p \<noteq> [] \<and> hd p = sep"

text \<open>
  The elements of a path, without empty elements and \<open>.\<close>, and with each \<open>..\<close> taken
  back from what is before it; the second argument holds the elements so far, last
  first.
\<close>

fun clean_elems :: "bool \<Rightarrow> string list \<Rightarrow> string list \<Rightarrow> string list" where
  "clean_elems r acc [] = rev acc"
| "clean_elems r acc (s # ss) =
     (if s = [] \<or> s = ''.'' then clean_elems r acc ss
      else if s = ''..'' then
        (case acc of
           [] \<Rightarrow> clean_elems r (if r then [] else [''..'']) ss
         | a # as \<Rightarrow> if a = ''..'' then clean_elems r (''..'' # acc) ss else clean_elems r as ss)
      else clean_elems r (s # acc) ss)"

definition elems :: "string \<Rightarrow> string list" where
  "elems p = clean_elems (rooted p) [] (split_on sep p)"

definition Clean :: "string \<Rightarrow> string" where
  "Clean p = (if rooted p then sep # join_on sep (elems p)
     else if elems p = [] then ''.'' else join_on sep (elems p))"

definition Join :: "string list \<Rightarrow> string" where
  "Join ps = (let qs = dropWhile (\<lambda>p. p = []) ps in if qs = [] then [] else Clean (join_on sep qs))"

text \<open>\<open>Dir\<close>: all but the last element.\<close>

definition Dir :: "string \<Rightarrow> string" where
  "Dir p = Clean (rev (dropWhile (\<lambda>c. c \<noteq> sep) (rev p)))"

text \<open>\<open>Rel\<close>: the common elements are dropped, each element left of the base is a \<open>..\<close>.\<close>

fun drop_common :: "string list \<Rightarrow> string list \<Rightarrow> string list \<times> string list" where
  "drop_common (b # bs) (t # ts) = (if b = t then drop_common bs ts else (b # bs, t # ts))"
| "drop_common bs ts = (bs, ts)"

definition Rel :: "string \<Rightarrow> string \<Rightarrow> string option" where
  "Rel base targ =
     (if Clean targ = Clean base then Some ''.''
      else if rooted base \<noteq> rooted targ then None
      else (let (bs, ts) = drop_common (elems base) (if elems targ = [] \<and> \<not> rooted targ then [''.''] else elems targ)
            in case bs of
                 [] \<Rightarrow> Some (join_on sep ts)
               | b # _ \<Rightarrow> if b = ''..'' then None else Some (join_on sep (replicate (length bs) ''..'' @ ts))))"

text \<open>A plain name is what a directory entry can be called.\<close>

definition plain :: "string \<Rightarrow> bool" where
  "plain s \<longleftrightarrow> s \<noteq> [] \<and> s \<noteq> ''.'' \<and> s \<noteq> ''..'' \<and> sep \<notin> set s"

definition abs_path :: "string list \<Rightarrow> string" where
  "abs_path ns = sep # join_on sep ns"

lemma clean_elems_plain: "\<forall>s \<in> set ss. plain s \<Longrightarrow> clean_elems r acc ss = rev acc @ ss"
  by (induction ss arbitrary: acc) (auto simp: plain_def)

lemma rooted_abs_path [simp]: "rooted (abs_path ns)"
  by (simp add: rooted_def abs_path_def)

lemma split_abs_path:
  assumes "\<forall>s \<in> set ns. plain s"
  shows "split_on sep (abs_path ns) = [] # (if ns = [] then [[]] else ns)"
  using split_on_append [of sep "[]" "join_on sep ns"] split_join [of ns sep] assms
  by (auto simp: abs_path_def plain_def)

lemma elems_abs_path: "\<forall>s \<in> set ns. plain s \<Longrightarrow> elems (abs_path ns) = ns"
  by (simp add: elems_def split_abs_path clean_elems_plain)

lemma Clean_abs_path: "\<forall>s \<in> set ns. plain s \<Longrightarrow> Clean (abs_path ns) = abs_path ns"
  by (simp add: Clean_def elems_abs_path) (simp add: abs_path_def)

text \<open>
  Joining a name to an absolute directory: each leading \<open>..\<close> of the name takes the last
  name of the directory away, at the root it is dropped.
\<close>

definition path_names :: "string \<Rightarrow> string list" where
  "path_names p = filter (\<lambda>s. s \<noteq> [] \<and> s \<noteq> ''.'') (split_on sep p)"

lemma clean_elems_names: "clean_elems r acc ss = clean_elems r acc (filter (\<lambda>s. s \<noteq> [] \<and> s \<noteq> ''.'') ss)"
  by (induction r acc ss rule: clean_elems.induct) (auto split: list.split)

lemma clean_elems_prefix:
  "\<forall>s \<in> set xs. plain s \<Longrightarrow> clean_elems r acc (xs @ ys) = clean_elems r (rev xs @ acc) ys"
  by (induction xs arbitrary: acc) (auto simp: plain_def)

lemma clean_elems_up:
  "\<forall>s \<in> set ds. plain s \<Longrightarrow>
    clean_elems True (rev ds) (replicate k ''..'' @ ys) = clean_elems True (rev (take (length ds - k) ds)) ys"
proof (induction k arbitrary: ds)
  case (Suc k)
  show ?case
  proof (cases ds rule: rev_cases)
    case (snoc es d)
    then have "d \<noteq> ''..''" "\<forall>s \<in> set es. plain s"
      using Suc.prems by (auto simp: plain_def)
    then show ?thesis
      using Suc.IH [of es] snoc by simp
  qed (use Suc.IH [of "[]"] in simp)
qed simp

lemma clean_elems_down:
  "''..'' \<notin> set ys \<Longrightarrow> \<forall>s \<in> set ys. s \<noteq> [] \<and> s \<noteq> ''.'' \<Longrightarrow> clean_elems r acc ys = rev acc @ ys"
  by (induction ys arbitrary: acc) auto

lemma split_on_append_any: "split_on c (s @ c # t) = split_on c s @ split_on c t"
  by (induction s) (auto split: list.split)

lemma path_names_ok: "s \<in> set (path_names p) \<Longrightarrow> s \<noteq> ''..'' \<Longrightarrow> plain s"
proof -
  have "sep \<notin> set s" if "s \<in> set (split_on sep p)" for s
    using that by (induction p arbitrary: s) (auto split: if_splits list.splits)
  then show "s \<in> set (path_names p) \<Longrightarrow> s \<noteq> ''..'' \<Longrightarrow> plain s"
    by (auto simp: path_names_def plain_def)
qed

lemma Join_abs_path:
  assumes "\<forall>s \<in> set ds. plain s" and "path_names name = replicate k ''..'' @ ns" and "''..'' \<notin> set ns"
  shows "Join [abs_path ds, name] = abs_path (take (length ds - k) ds @ ns)"
proof -
  have ns: "\<forall>s \<in> set ns. s \<noteq> [] \<and> s \<noteq> ''.''"
  proof
    fix s
    assume "s \<in> set ns"
    then have "s \<in> set (path_names name)"
      by (simp add: assms(2))
    then show "s \<noteq> [] \<and> s \<noteq> ''.''"
      by (simp add: path_names_def)
  qed
  have names: "filter (\<lambda>s. s \<noteq> [] \<and> s \<noteq> ''.'') (split_on sep (abs_path ds @ sep # name)) = ds @ replicate k ''..'' @ ns"
    using assms(1,2) by (auto simp: split_on_append_any split_abs_path path_names_def plain_def filter_id_conv)
  have root: "rooted (abs_path ds @ sep # name)"
    by (simp add: rooted_def abs_path_def)
  have "elems (abs_path ds @ sep # name) = clean_elems True [] (ds @ replicate k ''..'' @ ns)"
    unfolding elems_def by (subst clean_elems_names) (simp only: names root)
  also have "\<dots> = clean_elems True (rev (take (length ds - k) ds)) ns"
    using clean_elems_prefix [OF assms(1), of True "[]"] clean_elems_up [OF assms(1)] by simp
  also have "\<dots> = take (length ds - k) ds @ ns"
    by (simp add: clean_elems_down [OF assms(3) ns])
  finally have "Clean (abs_path ds @ sep # name) = abs_path (take (length ds - k) ds @ ns)"
    by (simp add: Clean_def root) (simp add: abs_path_def)
  then show ?thesis
    by (simp add: Join_def) (simp add: abs_path_def)
qed

lemma abs_path_inj:
  assumes "\<forall>s \<in> set ms. plain s" and "\<forall>s \<in> set ns. plain s"
  shows "abs_path ms = abs_path ns \<longleftrightarrow> ms = ns"
  using elems_abs_path [OF assms(1)] elems_abs_path [OF assms(2)] by metis

lemma drop_common_append: "drop_common bs (bs @ ts) = ([], ts)"
  by (induction bs) (cases ts, simp_all)

text \<open>The relative path of a directory below the base is the rest of its names.\<close>

lemma Rel_below:
  assumes "\<forall>s \<in> set ms. plain s" and "\<forall>s \<in> set ns. plain s"
  shows "Rel (abs_path ms) (abs_path (ms @ ns)) = Some (if ns = [] then ''.'' else join_on sep ns)"
proof -
  have all: "\<forall>s \<in> set (ms @ ns). plain s"
    using assms by auto
  show ?thesis
    unfolding Rel_def Clean_abs_path [OF all] Clean_abs_path [OF assms(1)] abs_path_inj [OF all assms(1)]
      elems_abs_path [OF all] elems_abs_path [OF assms(1)]
    by (simp add: drop_common_append)
qed

text \<open>\<open>cgroupLevel\<close> (in the collector and in pf_exporter): the depth of a cgroup.\<close>

definition cgroupLevel :: "string \<Rightarrow> string \<Rightarrow> 32 word option" where
  "cgroupLevel root path =
     (case Rel root path of
        None \<Rightarrow> None
      | Some rel \<Rightarrow>
          if rel = ''.'' then Some 0
          else Some (of_nat (length (filter (\<lambda>s. s \<noteq> []) (split_on sep rel)))))"

lemma cgroupLevel_below:
  assumes "\<forall>s \<in> set ms. plain s" and "\<forall>s \<in> set ns. plain s"
  shows "cgroupLevel (abs_path ms) (abs_path (ms @ ns)) = Some (of_nat (length ns))"
proof (cases "ns = []")
  case False
  have split: "split_on sep (join_on sep ns) = ns"
    using False assms(2) by (simp add: split_join plain_def)
  have "join_on sep ns \<noteq> ''.''"
  proof
    assume "join_on sep ns = ''.''"
    then have "ns = [''.'']"
      using split by (simp add: split_on_none sep_def)
    then show False
      using assms(2) by (simp add: plain_def)
  qed
  then show ?thesis
    using assms False by (simp add: cgroupLevel_def Rel_below split plain_def)
qed (use Rel_below [OF assms] in \<open>simp add: cgroupLevel_def\<close>)

end
