(* ===== verification/Exporter_Start.thy ===== *)
theory Exporter_Start
  imports Go_Path Obsv_Common
begin

text \<open>
  What the collector (\<open>gocker-obsv/cmd/collector/main.go\<close>) and the page-fault exporter
  (\<open>eBPF/pf-mvp/cmd/pf_exporter/main.go\<close>) both do at the start: they read the
  environment and find the inode and the level of the target cgroup, from which they
  make the constants of the programs.
\<close>

text \<open>
  The environment (an unset variable is empty), \<open>Statfs\<close> as whether a path is on a
  cgroup v2 file system, \<open>os.Stat\<close> as an error or the inode number, and \<open>os.ReadDir\<close>
  as an error or the names with whether they are directories.
\<close>

record host_env =
  environ :: "string \<Rightarrow> string"
  on_cgroup2 :: "string \<Rightarrow> bool"
  inode_of :: "string \<Rightarrow> int + u64"
  read_dir :: "string \<Rightarrow> int + (string \<times> bool) list"

definition cgroupRootDefault :: string where
  "cgroupRootDefault = ''/sys/fs/cgroup''"

definition gockerPathDefault :: string where
  "gockerPathDefault = ''/sys/fs/cgroup/gocker''"

definition getenv :: "host_env \<Rightarrow> string \<Rightarrow> string \<Rightarrow> string" where
  "getenv H key dflt = (if environ H key \<noteq> [] then environ H key else dflt)"

text \<open>\<open>fmt.Sscanf\<close> with \<open>%d\<close> into a \<open>uint\<close>: blanks, then at least one digit; the rest is ignored.\<close>

definition scan_uint :: "string \<Rightarrow> nat option" where
  "scan_uint s =
     ParseUint (takeWhile is_digit (dropWhile is_blank s))"

definition getenvUint :: "host_env \<Rightarrow> string \<Rightarrow> nat \<Rightarrow> nat" where
  "getenvUint H key dflt =
     (if environ H key \<noteq> [] then (case scan_uint (environ H key) of Some x \<Rightarrow> x | None \<Rightarrow> dflt) else dflt)"

datatype start_error = Not_cgroup2 | No_target int | No_level

definition exporter_constants :: "host_env \<Rightarrow> start_error + rodata" where
  "exporter_constants H =
     (let cgroupRoot = getenv H ''CGROUP_ROOT'' cgroupRootDefault;
          targetPath = getenv H ''PF_TARGET_CGROUP'' gockerPathDefault;
          sampleRate = getenvUint H ''PF_SAMPLE_RATE'' 1
      in if \<not> on_cgroup2 H cgroupRoot then Inl Not_cgroup2
         else (case inode_of H targetPath of
                 Inl e \<Rightarrow> Inl (No_target e)
               | Inr targetID \<Rightarrow>
                   (case cgroupLevel cgroupRoot targetPath of
                      None \<Rightarrow> Inl No_level
                    | Some level \<Rightarrow>
                        Inr \<lparr>SAMPLE_RATE = of_nat sampleRate, ENABLE_FILTER = 1, TARGET_LEVEL = level,
                             TARGET_CGID = targetID\<rparr>)))"

section \<open>The level and the kernel's ancestors\<close>

text \<open>
  The kernel's view of a task in the cgroup \<open>cs\<close> (its names from the cgroup root on):
  its ancestor at each level down to its own is the directory of the first names,
  below there is none.  \<open>ino\<close> gives the inode numbers of the directories in \<open>tree\<close>,
  different for different directories and never 0.
\<close>

definition inodes_ok :: "(string list \<Rightarrow> u64) \<Rightarrow> string list set \<Rightarrow> bool" where
  "inodes_ok ino tree \<longleftrightarrow> inj_on ino tree \<and> 0 \<notin> ino ` tree \<and> (\<forall>cs \<in> tree. \<forall>l. take l cs \<in> tree)"

definition in_cgroup :: "(string list \<Rightarrow> u64) \<Rightarrow> string list \<Rightarrow> task \<Rightarrow> bool" where
  "in_cgroup ino cs t \<longleftrightarrow> (\<forall>l < 2 ^ 31. t_ancestor t (of_nat l) = (if l \<le> length cs then ino (take l cs) else 0))"

lemma ancestor_is_subtree:
  assumes "inodes_ok ino tree" and "ns \<in> tree" and "cs \<in> tree" and "in_cgroup ino cs t" and "length ns < 2 ^ 31"
  shows "t_ancestor t (of_nat (length ns)) \<noteq> 0 \<and> t_ancestor t (of_nat (length ns)) = ino ns \<longleftrightarrow>
    take (length ns) cs = ns"
proof (cases "length ns \<le> length cs")
  case True
  have "take (length ns) cs \<in> tree"
    using assms(1,3) by (simp add: inodes_ok_def)
  then have "ino (take (length ns) cs) \<noteq> 0"
    "ino (take (length ns) cs) = ino ns \<longleftrightarrow> take (length ns) cs = ns"
    using assms(1,2) unfolding inodes_ok_def by (metis image_eqI, metis inj_onD)
  then show ?thesis
    using True assms(4,5) by (simp add: in_cgroup_def)
next
  case False
  then have "take (length ns) cs \<noteq> ns"
    by (metis length_take min.cobounded1)
  then show ?thesis
    using False assms(4,5) by (simp add: in_cgroup_def)
qed

lemma exporter_constants_below:
  assumes "exporter_constants H = Inr c"
    and "getenv H ''CGROUP_ROOT'' cgroupRootDefault = abs_path ms"
    and "getenv H ''PF_TARGET_CGROUP'' gockerPathDefault = abs_path (ms @ ns)"
    and "\<forall>s \<in> set (ms @ ns). plain s"
  shows "ENABLE_FILTER c = 1 \<and> TARGET_LEVEL c = of_nat (length ns) \<and> inode_of H (abs_path (ms @ ns)) = Inr (TARGET_CGID c)"
  using assms cgroupLevel_below [of ms ns]
  by (auto simp: exporter_constants_def Let_def split: if_splits sum.splits)

end
