(* ===== verification/Collector.thy ===== *)
theory Collector
  imports Obsv_Common C_Layout Exporter_Start
begin

text \<open>
  \<open>gocker-obsv/cmd/collector/main.go\<close>: the user-space half of the tracing modules.
  It writes the configuration into the modules' maps, serves \<open>/admin/config\<close>, and
  lists the cgroups to report; the scans of the maps are in \<open>Collector_Scan\<close>.
  \<open>cfg\<close> and \<open>cg_key\<close> are the structs shared with the programs; map writes go through
  the eBPF package, which is not part of the repository and is the parameter \<open>put\<close>.
\<close>

section \<open>Writing the configuration\<close>

text \<open>The configuration maps of the five modules; \<open>None\<close> is a module that was skipped.\<close>

record modules =
  cfg_pf :: "(u32 \<rightharpoonup> cfg) option"
  cfg_sched :: "(u32 \<rightharpoonup> cfg) option"
  cfg_sys :: "(u32 \<rightharpoonup> cfg) option"
  cfg_cpu :: "(u32 \<rightharpoonup> cfg) option"
  cfg_mem :: "(u32 \<rightharpoonup> cfg) option"

text \<open>
  \<open>Map.Update\<close>: from the sizes of the Go value's fields, the value size of the map,
  the key and the value to the map's new contents and whether it returned an error.
\<close>

type_synonym put = "nat list \<Rightarrow> nat \<Rightarrow> u32 \<Rightarrow> cfg \<Rightarrow> (u32 \<rightharpoonup> cfg) \<Rightarrow> (u32 \<rightharpoonup> cfg) \<times> bool"

text \<open>The Go struct \<open>cfg\<close>, and the C struct that is the maps' value type.\<close>

definition go_cfg :: "nat list" where
  "go_cfg = [4, 4, 4, 8]"

definition c_cfg :: ctype where
  "c_cfg = Struct [F ''sample_rate'' (Scalar 4), F ''enable_filter'' (Scalar 4), F ''target_level'' (Scalar 4),
     F ''target_cgid'' (Scalar 8)]"

definition update_cfg :: "put \<Rightarrow> cfg \<Rightarrow> (u32 \<rightharpoonup> cfg) option \<Rightarrow> (u32 \<rightharpoonup> cfg) option" where
  "update_cfg put c mo = map_option (\<lambda>m. fst (put go_cfg (csize c_cfg) 0 c m)) mo"

definition writeCfgAll :: "put \<Rightarrow> cfg \<Rightarrow> modules \<Rightarrow> modules" where
  "writeCfgAll put c M =
     M\<lparr>cfg_pf := update_cfg put c (cfg_pf M), cfg_sched := update_cfg put c (cfg_sched M),
       cfg_sys := update_cfg put c (cfg_sys M), cfg_cpu := update_cfg put c (cfg_cpu M),
       cfg_mem := update_cfg put c (cfg_mem M)\<rparr>"

section \<open>The admin endpoint\<close>

text \<open>The configuration in force and the modules' maps.\<close>

record admin_state =
  cfg0 :: cfg
  modules_of :: modules

text \<open>
  A request is its method and its decoded body; \<open>None\<close> is a body that does not
  decode.  A field that the JSON object leaves out is decoded as 0.
\<close>

record request =
  req_method :: string
  req_body :: "cfg option"

definition admin_config :: "put \<Rightarrow> request \<Rightarrow> admin_state \<Rightarrow> nat \<times> admin_state" where
  "admin_config put r A =
     (if req_method r \<noteq> ''POST'' then (405, A)
      else (case req_body r of
              None \<Rightarrow> (400, A)
            | Some in0 \<Rightarrow>
                (let in1 = (if sample_rate in0 = 0 then in0\<lparr>sample_rate := sample_rate (cfg0 A)\<rparr> else in0);
                     in2 = (if target_level in1 = 0 then in1\<lparr>target_level := target_level (cfg0 A)\<rparr> else in1);
                     in3 = (if target_cgid in2 = 0 then in2\<lparr>target_cgid := target_cgid (cfg0 A)\<rparr> else in2);
                     in4 = (if enable_filter in3 \<noteq> 0 \<and> enable_filter in3 \<noteq> 1
                            then in3\<lparr>enable_filter := 1\<rparr> else in3)
                 in (200, A\<lparr>cfg0 := in4, modules_of := writeCfgAll put in4 (modules_of A)\<rparr>))))"

text \<open>
  The start: the configuration is made from the environment and the target's
  directory as in the page-fault exporter, and written into the modules that were
  loaded.  The result has the target path, which every tick lists.
\<close>

definition collector_start :: "put \<Rightarrow> host_env \<Rightarrow> modules \<Rightarrow> start_error + string \<times> admin_state" where
  "collector_start put H M =
     (let cgroupRoot = getenv H ''CGROUP_ROOT'' cgroupRootDefault;
          targetPath = getenv H ''PF_TARGET_CGROUP'' gockerPathDefault;
          sampleRate = getenvUint H ''PF_SAMPLE_RATE'' 1
      in if \<not> on_cgroup2 H cgroupRoot then Inl Not_cgroup2
         else (case inode_of H targetPath of
                 Inl e \<Rightarrow> Inl (No_target e)
               | Inr tgid \<Rightarrow>
                   (case cgroupLevel cgroupRoot targetPath of
                      None \<Rightarrow> Inl No_level
                    | Some level \<Rightarrow>
                        (let c = \<lparr>sample_rate = of_nat sampleRate, enable_filter = 1, target_level = level,
                                  target_cgid = tgid\<rparr>
                         in Inr (targetPath, \<lparr>cfg0 = c, modules_of = writeCfgAll put c M\<rparr>)))))"

section \<open>The cgroups to report\<close>

text \<open>\<open>ENOENT\<close> is the error of a missing file.\<close>

definition ENOENT :: int where
  "ENOENT = 2"

definition collectAllowed :: "host_env \<Rightarrow> string \<Rightarrow> (u64 \<rightharpoonup> string) option \<times> int list" where
  "collectAllowed D root =
     (case inode_of D root of
        Inl e \<Rightarrow> (None, [e])
      | Inr ino \<Rightarrow>
          (let allowed = Map.empty(ino \<mapsto> root)
           in case read_dir D root of
                Inl e \<Rightarrow> (Some allowed, [e])
              | Inr entries \<Rightarrow>
                  (let (al, agg) = fold (\<lambda>(name, isdir) (al, agg).
                      if \<not> isdir then (al, agg)
                      else (let path = Join [root, name]
                            in case inode_of D path of
                                 Inl e \<Rightarrow> (al, if e = ENOENT then agg else agg @ [e])
                               | Inr i \<Rightarrow> (al(i \<mapsto> path), agg))) entries (allowed, [])
                   in (Some al, agg))))"

definition refreshAllowed :: "host_env \<Rightarrow> string \<Rightarrow> cfg \<Rightarrow> (u64 \<rightharpoonup> string)" where
  "refreshAllowed D targetPath c =
     (let set = (case fst (collectAllowed D targetPath) of None \<Rightarrow> Map.empty | Some m \<Rightarrow> m)
      in if dom set = {} then set(target_cgid c \<mapsto> targetPath) else set)"

section \<open>Properties of the configuration\<close>

text \<open>
  What the eBPF package documents: a value is encoded field by field without
  padding, and an update whose encoding has not the map's value size returns an
  error and changes nothing; otherwise the array element is stored.
\<close>

definition put_ok :: "put \<Rightarrow> bool" where
  "put_ok put \<longleftrightarrow> (\<forall>sizes n k c m.
     put sizes n k c m = (if sum_list sizes = n then (m(k \<mapsto> c), False) else (m, True)))"

lemma go_cfg_size: "sum_list go_cfg = 20" and c_cfg_size: "csize c_cfg = 24"
  by (simp_all add: go_cfg_def c_cfg_def layout_simps)

lemma writeCfgAll_noop: "put_ok put \<Longrightarrow> writeCfgAll put c M = M"
  by (simp add: writeCfgAll_def update_cfg_def put_ok_def go_cfg_size c_cfg_size option.map_ident)

lemma admin_config_modules: "put_ok put \<Longrightarrow> modules_of (snd (admin_config put r A)) = modules_of A"
  by (simp add: admin_config_def writeCfgAll_noop Let_def split: option.split)

definition all_cfg :: "modules \<Rightarrow> (u32 \<rightharpoonup> cfg) set" where
  "all_cfg M = set_option (cfg_pf M) \<union> set_option (cfg_sched M) \<union> set_option (cfg_sys M) \<union>
     set_option (cfg_cpu M) \<union> set_option (cfg_mem M)"

definition zero_cfg :: cfg where
  "zero_cfg = \<lparr>sample_rate = 0, enable_filter = 0, target_level = 0, target_cgid = 0\<rparr>"

text \<open>
  C21: no configuration ever reaches a tracing module.  The Go struct \<open>cfg\<close> has no
  padding before its last field and is encoded in 20 bytes, the maps' value type has
  24; so every write of \<open>writeCfgAll\<close> is refused and the error is ignored.  After the
  start and any sequence of admin requests each loaded module still has the zeroed
  element, samples everything (rate 1) and filters nothing.
\<close>

theorem config_never_reaches_modules:
  assumes "put_ok put" and "\<forall>m \<in> all_cfg M. m = array1_init zero_cfg"
    and "collector_start put H M = Inr (path, A0)"
    and "A = fold (\<lambda>r A. snd (admin_config put r A)) rs A0"
    and "m \<in> all_cfg (modules_of A)" and "cfg_map s = m"
  shows "load_cfg s = (1, 0, 0, 0) \<and> in_target_subtree_current t s"
proof -
  have "modules_of (fold (\<lambda>r A. snd (admin_config put r A)) rs A0) = modules_of A0" for A0
    by (induction rs arbitrary: A0) (simp_all add: admin_config_modules [OF assms(1)])
  moreover have "modules_of A0 = M"
    using assms(3) by (auto simp: collector_start_def Let_def writeCfgAll_noop [OF assms(1)] split: if_splits sum.splits option.splits)
  ultimately have "modules_of A = M"
    by (simp add: assms(4))
  then have "m = array1_init zero_cfg"
    using assms(2,5) by blast
  then have "cfg_map s 0 = Some zero_cfg"
    using assms(6) by (simp add: array1_init_def)
  then show ?thesis
    by (simp add: load_cfg_def in_target_subtree_current_def zero_cfg_def)
qed

definition demo_dir :: "(string \<Rightarrow> int + u64) \<Rightarrow> (string \<Rightarrow> int + (string \<times> bool) list) \<Rightarrow> host_env" where
  "demo_dir ino dir = \<lparr>environ = (\<lambda>_. []), on_cgroup2 = (\<lambda>_. True), inode_of = ino, read_dir = dir\<rparr>"

lemma demo_level: "cgroupLevel cgroupRootDefault gockerPathDefault = Some 1"
  using cgroupLevel_below [of "[''sys'', ''fs'', ''cgroup'']" "[''gocker'']"]
  by (simp add: plain_def sep_def cgroupRootDefault_def gockerPathDefault_def abs_path_def)

theorem config_never_reaches_modules_witness:
  "in_target_subtree_current (demo_task 0 9) \<lparr>ro = demo_ro, cfg_map = array1_init zero_cfg\<rparr>"
proof -
  let ?put = "\<lambda>sizes n k c m. if sum_list sizes = n then (m(k \<mapsto> c), False) else (m, True)"
  let ?M = "\<lparr>cfg_pf = Some (array1_init zero_cfg), cfg_sched = None, cfg_sys = None, cfg_cpu = None, cfg_mem = None\<rparr>"
  let ?H = "demo_dir (\<lambda>_. Inr 77) (\<lambda>_. Inr [])"
  have put: "put_ok ?put" by (simp add: put_ok_def)
  have "collector_start ?put ?H ?M = Inr (gockerPathDefault, \<lparr>cfg0 = \<lparr>sample_rate = 1, enable_filter = 1,
      target_level = 1, target_cgid = 77\<rparr>, modules_of = ?M\<rparr>)"
    using writeCfgAll_noop [OF put]
    by (simp add: collector_start_def getenv_def getenvUint_def demo_dir_def demo_level Let_def)
  then show ?thesis
    using config_never_reaches_modules [OF put _ _ refl, of ?M ?H _ _ "array1_init zero_cfg" "[]"
        "\<lparr>ro = demo_ro, cfg_map = array1_init zero_cfg\<rparr>" "demo_task 0 9"]
    by (simp add: all_cfg_def)
qed

text \<open>
  A hot update of the sampling rate switches the filter off.  The documented
  request \<open>{"sample_rate":10}\<close> leaves \<open>enable_filter\<close> out; the handler completes a
  missing rate, level and cgroup from the configuration in force, but takes the
  missing switch as 0.  Any other value of the switch ends up as 0 or 1, and a
  request that is not a POST or does not decode changes nothing.
\<close>

lemma admin_config_effect:
  assumes "admin_config put r A = (code, A')"
  shows "(code = 200 \<longleftrightarrow> req_method r = ''POST'' \<and> req_body r \<noteq> None) \<and> (code \<noteq> 200 \<longrightarrow> A' = A) \<and>
    (\<forall>b. code = 200 \<and> req_body r = Some b \<longrightarrow>
       enable_filter (cfg0 A') = (if enable_filter b = 0 then 0 else 1) \<and>
       sample_rate (cfg0 A') = (if sample_rate b = 0 then sample_rate (cfg0 A) else sample_rate b) \<and>
       target_level (cfg0 A') = (if target_level b = 0 then target_level (cfg0 A) else target_level b) \<and>
       target_cgid (cfg0 A') = (if target_cgid b = 0 then target_cgid (cfg0 A) else target_cgid b))"
  using assms by (auto simp: admin_config_def Let_def split: option.splits if_splits)

end
