(* ===== verification/Collector_Scan.thy ===== *)
theory Collector_Scan
  imports Collector
begin

text \<open>
  The collector's metrics, their labels, and the scans that turn the counters of the
  modules' maps into increments (\<open>scan\<close> and \<open>scanArray\<close> of
  \<open>gocker-obsv/cmd/collector/main.go\<close>).
\<close>

section \<open>Labels and metrics\<close>

definition labelPF :: "u32 \<Rightarrow> string" where
  "labelPF t = (if t = 1 then ''user'' else if t = 2 then ''kernel'' else ''unknown'')"

definition labelSC :: "u32 \<Rightarrow> string" where
  "labelSC t = (if t = 1 then ''switch'' else if t = 2 then ''wakeup'' else ''unknown'')"

definition labelCPU :: "u32 \<Rightarrow> string" where
  "labelCPU t = (if t = 1 then ''runtime'' else if t = 2 then ''wait'' else if t = 3 then ''iowait'' else ''unknown'')"

definition labelMemEvent :: "u32 \<Rightarrow> string" where
  "labelMemEvent t = (if t = 1 then ''direct_reclaim'' else ''unknown'')"

definition labelMemPages :: "u32 \<Rightarrow> string" where
  "labelMemPages t = (if t = 1 then ''reclaim_pages'' else ''unknown'')"

text \<open>\<open>names\<close> is the table \<open>syscallNames\<close>, whose keys come from \<open>golang.org/x/sys/unix\<close>.\<close>

definition labelSys :: "(u32 \<rightharpoonup> string) \<Rightarrow> u32 \<Rightarrow> string" where
  "labelSys names sysnr = (case names sysnr of Some name \<Rightarrow> name | None \<Rightarrow> dec (unat sysnr))"

definition cgid_label :: "u64 \<Rightarrow> string" where
  "cgid_label g = dec (unat g)"

text \<open>
  The value of every series, by the name of its metric and its label values.  The
  client library adds floating-point numbers; all that is added here are integers,
  which it adds exactly below \<open>2^53\<close>.
\<close>

type_synonym metrics = "string \<times> string list \<Rightarrow> nat"

definition add_to :: "string \<Rightarrow> string list \<Rightarrow> u64 \<Rightarrow> metrics \<Rightarrow> metrics" where
  "add_to name labels d M = M((name, labels) := M (name, labels) + unat d)"

text \<open>The eight maps that are scanned, named by the fields that hold them, and their \<open>apply\<close> closures.\<close>

datatype table = MapPF | MapS | MapC | MapL | MapNs | MapEvt | MapPages | MapBytes

fun series_of :: "(u32 \<rightharpoonup> string) \<Rightarrow> table \<Rightarrow> cg_key \<Rightarrow> (string \<times> string list) option" where
  "series_of names MapPF k = Some (''page_faults_total'', [labelPF (ck_type k), cgid_label (ck_cgid k)])"
| "series_of names MapS k = Some (''sched_events_total'', [labelSC (ck_type k), cgid_label (ck_cgid k)])"
| "series_of names MapC k = Some (''syscall_calls_total'', [labelSys names (ck_type k), cgid_label (ck_cgid k)])"
| "series_of names MapL k =
     Some (''syscall_latency_nanoseconds_total'', [labelSys names (ck_type k), cgid_label (ck_cgid k)])"
| "series_of names MapNs k = Some (''cpu_sched_ns_total'', [labelCPU (ck_type k), cgid_label (ck_cgid k)])"
| "series_of names MapEvt k = Some (''mm_vmscan_events_total'', [labelMemEvent (ck_type k), cgid_label (ck_cgid k)])"
| "series_of names MapPages k = Some (''mm_vmscan_pages_total'', [labelMemPages (ck_type k), cgid_label (ck_cgid k)])"
| "series_of names MapBytes k =
     (if ck_type k = 1 then Some (''mm_page_alloc_bytes_total'', [cgid_label (ck_cgid k)])
      else if ck_type k = 2 then Some (''mm_page_free_bytes_total'', [cgid_label (ck_cgid k)])
      else None)"

definition apply_delta :: "(u32 \<rightharpoonup> string) \<Rightarrow> table \<Rightarrow> cg_key \<Rightarrow> u64 \<Rightarrow> metrics \<Rightarrow> metrics" where
  "apply_delta names tb k d M =
     (case series_of names tb k of None \<Rightarrow> M | Some (name, labels) \<Rightarrow> add_to name labels d M)"

section \<open>The scans\<close>

text \<open>
  One entry of a map: the key and the slots of the CPUs.  \<open>ap\<close> is the closure that
  adds an increment, \<open>last\<close> the previous totals.
\<close>

definition scan_entry ::
  "(u64 \<rightharpoonup> string) \<Rightarrow> (cg_key \<Rightarrow> u64 \<Rightarrow> 'm \<Rightarrow> 'm) \<Rightarrow> cg_key \<times> u64 list \<Rightarrow>
     (cg_key \<rightharpoonup> u64) \<times> 'm \<Rightarrow> (cg_key \<rightharpoonup> u64) \<times> 'm" where
  "scan_entry allowed ap e S =
     (let k = fst e; tot = foldl (+) 0 (snd e); (prevs, M) = S
      in case allowed (ck_cgid k) of
           None \<Rightarrow> (prevs(k := None), M)
         | Some _ \<Rightarrow>
             (let prev = (case prevs k of None \<Rightarrow> 0 | Some v \<Rightarrow> v);
                  M1 = (if tot \<ge> prev then (let d = tot - prev in if d > 0 then ap k d M else M) else M)
              in (prevs(k \<mapsto> tot), M1)))"

text \<open>The entries that the iteration delivers; \<open>None\<close> is a module that was skipped.\<close>

definition scan ::
  "(u64 \<rightharpoonup> string) \<Rightarrow> (cg_key \<Rightarrow> u64 \<Rightarrow> 'm \<Rightarrow> 'm) \<Rightarrow> (cg_key \<times> u64 list) list option \<Rightarrow>
     (cg_key \<rightharpoonup> u64) \<times> 'm \<Rightarrow> (cg_key \<rightharpoonup> u64) \<times> 'm" where
  "scan allowed ap m S = (case m of None \<Rightarrow> S | Some entries \<Rightarrow> fold (scan_entry allowed ap) entries S)"

text \<open>The array counter: the map of a skipped module, a failed lookup, or the slots of its element.\<close>

definition scanArray :: "u64 list option option \<Rightarrow> u64 \<times> metrics \<Rightarrow> u64 \<times> metrics" where
  "scanArray m S =
     (case m of
        None \<Rightarrow> S
      | Some None \<Rightarrow> S
      | Some (Some val) \<Rightarrow>
          (let tot = foldl (+) 0 val; (prev, M) = S
           in (tot, if tot \<ge> prev
                    then (let d = tot - prev in if d > 0 then add_to ''mm_vmscan_kswapd_wake_total'' [] d M else M)
                    else M)))"

section \<open>What a closure must do\<close>

text \<open>
  A closure that counts: for the keys that can occur, it adds the increment to the
  series shown for the key, and to no series of another key.
\<close>

locale counter =
  fixes ap :: "cg_key \<Rightarrow> u64 \<Rightarrow> 'm \<Rightarrow> 'm"
    and known :: "cg_key \<Rightarrow> bool"
    and shown :: "cg_key \<Rightarrow> 'm \<Rightarrow> nat"
  assumes same: "known k \<Longrightarrow> shown k (ap k d M) = shown k M + unat d"
    and other: "known k \<Longrightarrow> known k' \<Longrightarrow> k \<noteq> k' \<Longrightarrow> shown k (ap k' d M) = shown k M"

text \<open>What a scan does to one key.\<close>

definition key_step :: "string option \<Rightarrow> u64 \<Rightarrow> u64 option \<times> nat \<Rightarrow> u64 option \<times> nat" where
  "key_step a tot x =
     (case a of
        None \<Rightarrow> (None, snd x)
      | Some _ \<Rightarrow> (Some tot, snd x + (unat tot - unat (case fst x of None \<Rightarrow> 0 | Some v \<Rightarrow> v))))"

text \<open>The totals of a key that a history of scans reads.\<close>

type_synonym history = "((u64 \<rightharpoonup> string) \<times> (cg_key \<times> u64 list) list) list"

definition run_scans :: "(cg_key \<Rightarrow> u64 \<Rightarrow> 'm \<Rightarrow> 'm) \<Rightarrow> history \<Rightarrow> (cg_key \<rightharpoonup> u64) \<times> 'm \<Rightarrow> (cg_key \<rightharpoonup> u64) \<times> 'm" where
  "run_scans ap hs S = fold (\<lambda>(al, es). scan al ap (Some es)) hs S"

fun readings :: "cg_key \<Rightarrow> history \<Rightarrow> u64 list" where
  "readings k [] = []"
| "readings k ((al, es) # hs) =
     (case map_of es k of None \<Rightarrow> [] | Some vals \<Rightarrow> [foldl (+) 0 vals]) @ readings k hs"

definition previous :: "cg_key \<Rightarrow> (cg_key \<rightharpoonup> u64) \<times> 'm \<Rightarrow> u64" where
  "previous k S = (case fst S k of None \<Rightarrow> 0 | Some v \<Rightarrow> v)"

context counter
begin

definition key_view :: "cg_key \<Rightarrow> (cg_key \<rightharpoonup> u64) \<times> 'm \<Rightarrow> u64 option \<times> nat" where
  "key_view k S = (fst S k, shown k (snd S))"

lemma scan_entry_same:
  "known k \<Longrightarrow> key_view k (scan_entry al ap (k, vals) S) = key_step (al (ck_cgid k)) (foldl (+) 0 vals) (key_view k S)"
  by (cases S) (auto simp: key_view_def key_step_def scan_entry_def Let_def unat_sub word_gt_0 word_le_nat_alt same
      split: option.split)

lemma scan_entry_other:
  "known k \<Longrightarrow> known (fst e) \<Longrightarrow> fst e \<noteq> k \<Longrightarrow> key_view k (scan_entry al ap e S) = key_view k S"
  using other [of k "fst e"]
  by (cases S) (auto simp: key_view_def scan_entry_def Let_def split: option.split)

lemma scan_other:
  "known k \<Longrightarrow> \<forall>e \<in> set es. known (fst e) \<and> fst e \<noteq> k \<Longrightarrow> key_view k (scan al ap (Some es) S) = key_view k S"
  unfolding scan_def by (induction es arbitrary: S) (auto simp: scan_entry_other)

lemma scan_key:
  assumes "known k" and "distinct (map fst es)" and "\<forall>e \<in> set es. known (fst e)"
  shows "key_view k (scan al ap (Some es) S) =
    (case map_of es k of
       None \<Rightarrow> key_view k S
     | Some vals \<Rightarrow> key_step (al (ck_cgid k)) (foldl (+) 0 vals) (key_view k S))"
  using assms(2,3)
proof (induction es arbitrary: S)
  case Nil
  then show ?case by (simp add: scan_def)
next
  case (Cons e es)
  obtain k' vals where e: "e = (k', vals)"
    by (cases e)
  have step: "scan al ap (Some ((k', vals) # es)) S = scan al ap (Some es) (scan_entry al ap (k', vals) S)"
    by (simp add: scan_def)
  show ?case
  proof (cases "k' = k")
    case True
    then have "\<forall>e \<in> set es. known (fst e) \<and> fst e \<noteq> k"
      using Cons.prems e by (auto simp: image_iff)
    then show ?thesis
      using assms(1) by (simp add: True [symmetric] step scan_other e scan_entry_same)
  next
    case False
    then show ?thesis
      using Cons by (simp add: step e scan_entry_other [OF assms(1)] split: option.split)
  qed
qed

lemma run_scans_key:
  assumes "known k"
    and "\<forall>(al, es) \<in> set hs. distinct (map fst es) \<and> (\<forall>e \<in> set es. known (fst e)) \<and> al (ck_cgid k) \<noteq> None"
    and "sorted (map unat (previous k S # readings k hs))"
  shows "shown k (snd (run_scans ap hs S)) =
    shown k (snd S) + (unat (List.last (previous k S # readings k hs)) - unat (previous k S))"
  using assms(2,3)
proof (induction hs arbitrary: S)
  case Nil
  then show ?case by (simp add: run_scans_def)
next
  case (Cons h hs)
  obtain al es p where h: "h = (al, es)" "al (ck_cgid k) = Some p"
    using Cons.prems(1) by (cases h) auto
  let ?S = "scan al ap (Some es) S"
  have run: "run_scans ap ((al, es) # hs) S = run_scans ap hs ?S"
    by (simp add: run_scans_def)
  have view: "key_view k ?S = (case map_of es k of None \<Rightarrow> key_view k S
      | Some vals \<Rightarrow> key_step (Some p) (foldl (+) 0 vals) (key_view k S))"
    using scan_key [OF assms(1), of es al S] Cons.prems(1) h by (simp split: option.splits)
  show ?case
  proof (cases "map_of es k")
    case None
    then have "previous k ?S = previous k S" "shown k (snd ?S) = shown k (snd S)"
      using view by (auto simp: key_view_def previous_def)
    then show ?thesis
      using Cons.IH [of ?S] Cons.prems None h by (simp add: run)
  next
    case (Some vals)
    let ?t = "foldl (+) 0 vals"
    have new: "previous k ?S = ?t" "shown k (snd ?S) = shown k (snd S) + (unat ?t - unat (previous k S))"
      using view Some by (auto simp: key_view_def key_step_def previous_def)
    have IH: "shown k (snd (run_scans ap hs ?S)) = shown k (snd ?S) + (unat (List.last (?t # readings k hs)) - unat ?t)"
      using Cons.IH [of ?S] Cons.prems Some h by (simp add: new)
    have le: "unat (previous k S) \<le> unat ?t" "unat ?t \<le> unat (List.last (?t # readings k hs))"
      using Cons.prems(2) Some h by (auto simp: List.last_in_set)
    show ?thesis
      using IH le by (simp add: run new Some h)
  qed
qed

text \<open>A key that leaves the list for one scan is counted in full again.\<close>

lemma scan_forgets:
  assumes "known k" and "distinct (map fst es)" and "\<forall>e \<in> set es. known (fst e)" and "map_of es k = Some vals"
    and "al1 (ck_cgid k) = None" and "al2 (ck_cgid k) = Some p"
  shows "shown k (snd (scan al2 ap (Some es) (scan al1 ap (Some es) S))) = shown k (snd S) + unat (foldl (+) 0 vals)"
proof -
  have "key_view k (scan al1 ap (Some es) S) = (None, shown k (snd S))"
    using scan_key [OF assms(1-3), of al1 S] assms(4,5) by (simp add: key_step_def key_view_def)
  then have "key_view k (scan al2 ap (Some es) (scan al1 ap (Some es) S)) =
      key_step (Some p) (foldl (+) 0 vals) (None, shown k (snd S))"
    using scan_key [OF assms(1-3), of al2 "scan al1 ap (Some es) S"] assms(4,6) by simp
  then show ?thesis
    by (simp add: key_view_def key_step_def)
qed

end

section \<open>The metrics count\<close>

text \<open>
  The keys that the programs write: no padding and the types of the table.  The
  system-call tables take any number as type; there the names must tell the numbers
  apart.
\<close>

fun types_of :: "table \<Rightarrow> u32 set" where
  "types_of MapNs = {1, 2, 3}"
| "types_of MapEvt = {1}"
| "types_of MapPages = {1}"
| "types_of MapC = UNIV"
| "types_of MapL = UNIV"
| "types_of _ = {1, 2}"

definition key_ok :: "(u32 \<rightharpoonup> string) \<Rightarrow> table \<Rightarrow> cg_key \<Rightarrow> bool" where
  "key_ok names tb k \<longleftrightarrow> ck_pad k = 0 \<and> ck_type k \<in> types_of tb \<and> (tb = MapC \<or> tb = MapL \<longrightarrow> inj (labelSys names))"

definition shown_series :: "(u32 \<rightharpoonup> string) \<Rightarrow> table \<Rightarrow> cg_key \<Rightarrow> metrics \<Rightarrow> nat" where
  "shown_series names tb k M = (case series_of names tb k of None \<Rightarrow> 0 | Some s \<Rightarrow> M s)"

lemma cgid_label_inj [simp]: "cgid_label g = cgid_label h \<longleftrightarrow> g = h"
  by (simp add: cgid_label_def word_unat_eq_iff)

lemma series_of_known: "key_ok names tb k \<Longrightarrow> series_of names tb k \<noteq> None"
  by (cases tb) (auto simp: key_ok_def)

lemma series_of_inj:
  assumes "key_ok names tb k" and "key_ok names tb k'" and "series_of names tb k = series_of names tb k'"
  shows "k = k'"
  using assms
  by (cases tb; cases k; cases k')
    (auto simp: key_ok_def labelPF_def labelSC_def labelCPU_def labelMemEvent_def labelMemPages_def
      dest: injD split: if_splits)

interpretation table: counter "apply_delta names tb" "key_ok names tb" "shown_series names tb"
  for names :: "u32 \<rightharpoonup> string" and tb
proof unfold_locales
  fix k k' d M
  assume k: "key_ok names tb k"
  then obtain s where s: "series_of names tb k = Some s"
    using series_of_known by blast
  then show "shown_series names tb k (apply_delta names tb k d M) = shown_series names tb k M + unat d"
    by (cases s) (simp add: shown_series_def apply_delta_def add_to_def)
  assume "key_ok names tb k'" "k \<noteq> k'"
  then have "series_of names tb k' \<noteq> Some s"
    using series_of_inj [OF k] s by metis
  then show "shown_series names tb k (apply_delta names tb k' d M) = shown_series names tb k M"
    by (auto simp: shown_series_def apply_delta_def add_to_def s split: option.split)
qed

text \<open>
  The exported series follow the maps.  For every scanned table, while a cgroup
  stays in the list and the totals of a key never shrink (the programs only add),
  any number of scans, including ones that come before the entry exists, raise the
  series with the key's labels by exactly the last total: nothing is lost or counted
  twice, and no other key of the table is added to it.
\<close>

lemma scans_follow_map:
  assumes "\<forall>(al, es) \<in> set hs. distinct (map fst es) \<and> (\<forall>e \<in> set es. key_ok names tb (fst e)) \<and> al (ck_cgid k) \<noteq> None"
    and "key_ok names tb k" and "series_of names tb k = Some s" and "prevs k = None"
    and "sorted (map unat (readings k hs))" and "readings k hs \<noteq> []"
  shows "snd (run_scans (apply_delta names tb) hs (prevs, M)) s = M s + unat (List.last (readings k hs))"
  using table.run_scans_key [OF assms(2,1), of "(prevs, M)"] assms(3-6)
  by (simp add: previous_def shown_series_def)

definition demo_key :: cg_key where
  "demo_key = key_of 5 1"

definition demo_paths :: "u64 \<rightharpoonup> string" where
  "demo_paths = [5 \<mapsto> ''/sys/fs/cgroup/gocker/a'', 9 \<mapsto> ''/sys/fs/cgroup/gocker'']"

lemmas demo_scan_defs = demo_paths_def demo_key_def key_of_def key_ok_def labelPF_def cgid_label_def

lemma demo_label: "dec 5 = ''5''"
  by code_simp


text \<open>
  One failed directory listing doubles a series.  When reading the target
  directory fails, only the target itself stays in the list for that scan; the
  scan forgets the previous totals of every other cgroup, and the next one adds
  their whole totals again, although nothing was lost.
\<close>

lemma failed_listing_recounts:
  assumes "inode_of D target = Inr ino" and "read_dir D target = Inl e" and "ck_cgid k \<noteq> ino"
    and "distinct (map fst es)" and "\<forall>e \<in> set es. key_ok names tb (fst e)" and "map_of es k = Some vals"
    and "al (ck_cgid k) = Some p" and "series_of names tb k = Some s"
  shows "snd (scan al (apply_delta names tb) (Some es)
      (scan (refreshAllowed D target c) (apply_delta names tb) (Some es) (prevs, M))) s =
    M s + unat (foldl (+) 0 vals)"
proof -
  have known: "key_ok names tb k"
    using assms(5,6) by (metis fst_conv map_of_SomeD)
  have "refreshAllowed D target c (ck_cgid k) = None"
    using assms(1-3) by (simp add: refreshAllowed_def collectAllowed_def)
  then show ?thesis
    using table.scan_forgets [OF known assms(4) assms(5) assms(6), where ?al2.0 = al and S = "(prevs, M)"] assms(7,8)
    by (simp add: shown_series_def)
qed


end
