(* ===== verification/Syscall_Names.thy ===== *)
theory Syscall_Names
  imports Collector_Scan
begin

text \<open>
  The table of system-call names that the collector labels its series with,
  \<open>syscallNames\<close> of \<open>gocker-obsv/cmd/collector/syscall_labels_linux_amd64.go\<close>, with every
  entry.  The keys are constants of the package \<open>golang.org/x/sys/unix\<close>, so their values
  are an argument; the names alone make the labels of different calls different, whatever
  the values are.
\<close>

section \<open>The table\<close>

text \<open>A name of a constant of \<open>unix\<close>, and the label.\<close>

definition syscall_rows_1 :: "(string \<times> string) list" where
  "syscall_rows_1 =
   [(''SYS_READ'', ''read''), (''SYS_WRITE'', ''write''), (''SYS_OPEN'', ''open''),
    (''SYS_CLOSE'', ''close''), (''SYS_STAT'', ''stat''), (''SYS_FSTAT'', ''fstat''),
    (''SYS_LSTAT'', ''lstat''), (''SYS_POLL'', ''poll''), (''SYS_LSEEK'', ''lseek''),
    (''SYS_MMAP'', ''mmap''), (''SYS_MPROTECT'', ''mprotect''), (''SYS_MUNMAP'', ''munmap''),
    (''SYS_BRK'', ''brk''), (''SYS_RT_SIGACTION'', ''rt_sigaction''),
    (''SYS_RT_SIGPROCMASK'', ''rt_sigprocmask''), (''SYS_RT_SIGRETURN'', ''rt_sigreturn''),
    (''SYS_IOCTL'', ''ioctl''), (''SYS_PREAD64'', ''pread64''), (''SYS_PWRITE64'', ''pwrite64''),
    (''SYS_READV'', ''readv''), (''SYS_WRITEV'', ''writev''), (''SYS_ACCESS'', ''access''),
    (''SYS_PIPE'', ''pipe''), (''SYS_SELECT'', ''select''),
    (''SYS_SCHED_YIELD'', ''sched_yield''), (''SYS_MREMAP'', ''mremap''),
    (''SYS_MSYNC'', ''msync''), (''SYS_MINCORE'', ''mincore''), (''SYS_MADVISE'', ''madvise''),
    (''SYS_SHMGET'', ''shmget''), (''SYS_SHMAT'', ''shmat''), (''SYS_SHMCTL'', ''shmctl''),
    (''SYS_DUP'', ''dup''), (''SYS_DUP2'', ''dup2''), (''SYS_PAUSE'', ''pause''),
    (''SYS_NANOSLEEP'', ''nanosleep''), (''SYS_GETITIMER'', ''getitimer''),
    (''SYS_ALARM'', ''alarm''), (''SYS_SETITIMER'', ''setitimer''), (''SYS_GETPID'', ''getpid''),
    (''SYS_SENDFILE'', ''sendfile''), (''SYS_SOCKET'', ''socket''),
    (''SYS_CONNECT'', ''connect''), (''SYS_ACCEPT'', ''accept''), (''SYS_SENDTO'', ''sendto''),
    (''SYS_RECVFROM'', ''recvfrom''), (''SYS_SENDMSG'', ''sendmsg''),
    (''SYS_RECVMSG'', ''recvmsg''), (''SYS_SHUTDOWN'', ''shutdown''), (''SYS_BIND'', ''bind''),
    (''SYS_LISTEN'', ''listen''), (''SYS_GETSOCKNAME'', ''getsockname''),
    (''SYS_GETPEERNAME'', ''getpeername''), (''SYS_SOCKETPAIR'', ''socketpair''),
    (''SYS_SETSOCKOPT'', ''setsockopt''), (''SYS_GETSOCKOPT'', ''getsockopt''),
    (''SYS_CLONE'', ''clone''), (''SYS_FORK'', ''fork''), (''SYS_VFORK'', ''vfork''),
    (''SYS_EXECVE'', ''execve''), (''SYS_EXIT'', ''exit''), (''SYS_WAIT4'', ''wait4''),
    (''SYS_KILL'', ''kill''), (''SYS_UNAME'', ''uname''), (''SYS_SEMGET'', ''semget''),
    (''SYS_SEMOP'', ''semop''), (''SYS_SEMCTL'', ''semctl''), (''SYS_SHMDT'', ''shmdt''),
    (''SYS_MSGGET'', ''msgget''), (''SYS_MSGSND'', ''msgsnd''), (''SYS_MSGRCV'', ''msgrcv''),
    (''SYS_MSGCTL'', ''msgctl''), (''SYS_FCNTL'', ''fcntl''), (''SYS_FLOCK'', ''flock''),
    (''SYS_FSYNC'', ''fsync''), (''SYS_FDATASYNC'', ''fdatasync'')]"

definition syscall_rows_2 :: "(string \<times> string) list" where
  "syscall_rows_2 =
   [(''SYS_TRUNCATE'', ''truncate''), (''SYS_FTRUNCATE'', ''ftruncate''),
    (''SYS_GETDENTS'', ''getdents''), (''SYS_GETCWD'', ''getcwd''), (''SYS_CHDIR'', ''chdir''),
    (''SYS_FCHDIR'', ''fchdir''), (''SYS_RENAME'', ''rename''), (''SYS_MKDIR'', ''mkdir''),
    (''SYS_RMDIR'', ''rmdir''), (''SYS_CREAT'', ''creat''), (''SYS_LINK'', ''link''),
    (''SYS_UNLINK'', ''unlink''), (''SYS_SYMLINK'', ''symlink''),
    (''SYS_READLINK'', ''readlink''), (''SYS_CHMOD'', ''chmod''), (''SYS_FCHMOD'', ''fchmod''),
    (''SYS_CHOWN'', ''chown''), (''SYS_FCHOWN'', ''fchown''), (''SYS_LCHOWN'', ''lchown''),
    (''SYS_UMASK'', ''umask''), (''SYS_GETTIMEOFDAY'', ''gettimeofday''),
    (''SYS_GETRLIMIT'', ''getrlimit''), (''SYS_GETRUSAGE'', ''getrusage''),
    (''SYS_SYSINFO'', ''sysinfo''), (''SYS_TIMES'', ''times''), (''SYS_PTRACE'', ''ptrace''),
    (''SYS_GETUID'', ''getuid''), (''SYS_SYSLOG'', ''syslog''), (''SYS_GETGID'', ''getgid''),
    (''SYS_SETUID'', ''setuid''), (''SYS_SETGID'', ''setgid''), (''SYS_GETEUID'', ''geteuid''),
    (''SYS_GETEGID'', ''getegid''), (''SYS_SETPGID'', ''setpgid''),
    (''SYS_GETPPID'', ''getppid''), (''SYS_GETPGRP'', ''getpgrp''), (''SYS_SETSID'', ''setsid''),
    (''SYS_SETREUID'', ''setreuid''), (''SYS_SETREGID'', ''setregid''),
    (''SYS_GETGROUPS'', ''getgroups''), (''SYS_SETGROUPS'', ''setgroups''),
    (''SYS_SETRESUID'', ''setresuid''), (''SYS_GETRESUID'', ''getresuid''),
    (''SYS_SETRESGID'', ''setresgid''), (''SYS_GETRESGID'', ''getresgid''),
    (''SYS_GETPGID'', ''getpgid''), (''SYS_SETFSUID'', ''setfsuid''),
    (''SYS_SETFSGID'', ''setfsgid''), (''SYS_GETSID'', ''getsid''), (''SYS_CAPGET'', ''capget''),
    (''SYS_CAPSET'', ''capset''), (''SYS_RT_SIGPENDING'', ''rt_sigpending''),
    (''SYS_RT_SIGTIMEDWAIT'', ''rt_sigtimedwait''),
    (''SYS_RT_SIGQUEUEINFO'', ''rt_sigqueueinfo''), (''SYS_RT_SIGSUSPEND'', ''rt_sigsuspend''),
    (''SYS_SIGALTSTACK'', ''sigaltstack''), (''SYS_UTIME'', ''utime''),
    (''SYS_MKNOD'', ''mknod''), (''SYS_USELIB'', ''uselib''),
    (''SYS_PERSONALITY'', ''personality''), (''SYS_USTAT'', ''ustat''),
    (''SYS_STATFS'', ''statfs''), (''SYS_FSTATFS'', ''fstatfs''), (''SYS_SYSFS'', ''sysfs''),
    (''SYS_GETPRIORITY'', ''getpriority''), (''SYS_SETPRIORITY'', ''setpriority''),
    (''SYS_SCHED_SETPARAM'', ''sched_setparam''), (''SYS_SCHED_GETPARAM'', ''sched_getparam''),
    (''SYS_SCHED_SETSCHEDULER'', ''sched_setscheduler''),
    (''SYS_SCHED_GETSCHEDULER'', ''sched_getscheduler''),
    (''SYS_SCHED_GET_PRIORITY_MAX'', ''sched_get_priority_max''),
    (''SYS_SCHED_GET_PRIORITY_MIN'', ''sched_get_priority_min''),
    (''SYS_SCHED_RR_GET_INTERVAL'', ''sched_rr_get_interval''), (''SYS_MLOCK'', ''mlock''),
    (''SYS_MUNLOCK'', ''munlock''), (''SYS_MLOCKALL'', ''mlockall'')]"

definition syscall_rows_3 :: "(string \<times> string) list" where
  "syscall_rows_3 =
   [(''SYS_MUNLOCKALL'', ''munlockall''), (''SYS_VHANGUP'', ''vhangup''),
    (''SYS_MODIFY_LDT'', ''modify_ldt''), (''SYS_PIVOT_ROOT'', ''pivot_root''),
    (''SYS__SYSCTL'', ''_sysctl''), (''SYS_PRCTL'', ''prctl''),
    (''SYS_ARCH_PRCTL'', ''arch_prctl''), (''SYS_ADJTIMEX'', ''adjtimex''),
    (''SYS_SETRLIMIT'', ''setrlimit''), (''SYS_CHROOT'', ''chroot''), (''SYS_SYNC'', ''sync''),
    (''SYS_ACCT'', ''acct''), (''SYS_SETTIMEOFDAY'', ''settimeofday''),
    (''SYS_MOUNT'', ''mount''), (''SYS_UMOUNT2'', ''umount2''), (''SYS_SWAPON'', ''swapon''),
    (''SYS_SWAPOFF'', ''swapoff''), (''SYS_REBOOT'', ''reboot''),
    (''SYS_SETHOSTNAME'', ''sethostname''), (''SYS_SETDOMAINNAME'', ''setdomainname''),
    (''SYS_IOPL'', ''iopl''), (''SYS_IOPERM'', ''ioperm''),
    (''SYS_CREATE_MODULE'', ''create_module''), (''SYS_INIT_MODULE'', ''init_module''),
    (''SYS_DELETE_MODULE'', ''delete_module''), (''SYS_GET_KERNEL_SYMS'', ''get_kernel_syms''),
    (''SYS_QUERY_MODULE'', ''query_module''), (''SYS_QUOTACTL'', ''quotactl''),
    (''SYS_NFSSERVCTL'', ''nfsservctl''), (''SYS_GETPMSG'', ''getpmsg''),
    (''SYS_PUTPMSG'', ''putpmsg''), (''SYS_AFS_SYSCALL'', ''afs_syscall''),
    (''SYS_TUXCALL'', ''tuxcall''), (''SYS_SECURITY'', ''security''),
    (''SYS_GETTID'', ''gettid''), (''SYS_READAHEAD'', ''readahead''),
    (''SYS_SETXATTR'', ''setxattr''), (''SYS_LSETXATTR'', ''lsetxattr''),
    (''SYS_FSETXATTR'', ''fsetxattr''), (''SYS_GETXATTR'', ''getxattr''),
    (''SYS_LGETXATTR'', ''lgetxattr''), (''SYS_FGETXATTR'', ''fgetxattr''),
    (''SYS_LISTXATTR'', ''listxattr''), (''SYS_LLISTXATTR'', ''llistxattr''),
    (''SYS_FLISTXATTR'', ''flistxattr''), (''SYS_REMOVEXATTR'', ''removexattr''),
    (''SYS_LREMOVEXATTR'', ''lremovexattr''), (''SYS_FREMOVEXATTR'', ''fremovexattr''),
    (''SYS_TKILL'', ''tkill''), (''SYS_TIME'', ''time''), (''SYS_FUTEX'', ''futex''),
    (''SYS_SCHED_SETAFFINITY'', ''sched_setaffinity''),
    (''SYS_SCHED_GETAFFINITY'', ''sched_getaffinity''),
    (''SYS_SET_THREAD_AREA'', ''set_thread_area''), (''SYS_IO_SETUP'', ''io_setup''),
    (''SYS_IO_DESTROY'', ''io_destroy''), (''SYS_IO_GETEVENTS'', ''io_getevents''),
    (''SYS_IO_SUBMIT'', ''io_submit''), (''SYS_IO_CANCEL'', ''io_cancel''),
    (''SYS_GET_THREAD_AREA'', ''get_thread_area''), (''SYS_LOOKUP_DCOOKIE'', ''lookup_dcookie''),
    (''SYS_EPOLL_CREATE'', ''epoll_create''), (''SYS_EPOLL_CTL_OLD'', ''epoll_ctl_old''),
    (''SYS_EPOLL_WAIT_OLD'', ''epoll_wait_old''),
    (''SYS_REMAP_FILE_PAGES'', ''remap_file_pages''), (''SYS_GETDENTS64'', ''getdents64''),
    (''SYS_SET_TID_ADDRESS'', ''set_tid_address''),
    (''SYS_RESTART_SYSCALL'', ''restart_syscall''), (''SYS_SEMTIMEDOP'', ''semtimedop''),
    (''SYS_FADVISE64'', ''fadvise64''), (''SYS_TIMER_CREATE'', ''timer_create''),
    (''SYS_TIMER_SETTIME'', ''timer_settime''), (''SYS_TIMER_GETTIME'', ''timer_gettime''),
    (''SYS_TIMER_GETOVERRUN'', ''timer_getoverrun''), (''SYS_TIMER_DELETE'', ''timer_delete''),
    (''SYS_CLOCK_SETTIME'', ''clock_settime'')]"

definition syscall_rows_4 :: "(string \<times> string) list" where
  "syscall_rows_4 =
   [(''SYS_CLOCK_GETTIME'', ''clock_gettime''), (''SYS_CLOCK_GETRES'', ''clock_getres''),
    (''SYS_CLOCK_NANOSLEEP'', ''clock_nanosleep''), (''SYS_EXIT_GROUP'', ''exit_group''),
    (''SYS_EPOLL_WAIT'', ''epoll_wait''), (''SYS_EPOLL_CTL'', ''epoll_ctl''),
    (''SYS_TGKILL'', ''tgkill''), (''SYS_UTIMES'', ''utimes''), (''SYS_VSERVER'', ''vserver''),
    (''SYS_MBIND'', ''mbind''), (''SYS_SET_MEMPOLICY'', ''set_mempolicy''),
    (''SYS_GET_MEMPOLICY'', ''get_mempolicy''), (''SYS_MQ_OPEN'', ''mq_open''),
    (''SYS_MQ_UNLINK'', ''mq_unlink''), (''SYS_MQ_TIMEDSEND'', ''mq_timedsend''),
    (''SYS_MQ_TIMEDRECEIVE'', ''mq_timedreceive''), (''SYS_MQ_NOTIFY'', ''mq_notify''),
    (''SYS_MQ_GETSETATTR'', ''mq_getsetattr''), (''SYS_KEXEC_LOAD'', ''kexec_load''),
    (''SYS_WAITID'', ''waitid''), (''SYS_ADD_KEY'', ''add_key''),
    (''SYS_REQUEST_KEY'', ''request_key''), (''SYS_KEYCTL'', ''keyctl''),
    (''SYS_IOPRIO_SET'', ''ioprio_set''), (''SYS_IOPRIO_GET'', ''ioprio_get''),
    (''SYS_INOTIFY_INIT'', ''inotify_init''), (''SYS_INOTIFY_ADD_WATCH'', ''inotify_add_watch''),
    (''SYS_INOTIFY_RM_WATCH'', ''inotify_rm_watch''), (''SYS_MIGRATE_PAGES'', ''migrate_pages''),
    (''SYS_OPENAT'', ''openat''), (''SYS_MKDIRAT'', ''mkdirat''), (''SYS_MKNODAT'', ''mknodat''),
    (''SYS_FCHOWNAT'', ''fchownat''), (''SYS_FUTIMESAT'', ''futimesat''),
    (''SYS_NEWFSTATAT'', ''newfstatat''), (''SYS_UNLINKAT'', ''unlinkat''),
    (''SYS_RENAMEAT'', ''renameat''), (''SYS_LINKAT'', ''linkat''),
    (''SYS_SYMLINKAT'', ''symlinkat''), (''SYS_READLINKAT'', ''readlinkat''),
    (''SYS_FCHMODAT'', ''fchmodat''), (''SYS_FACCESSAT'', ''faccessat''),
    (''SYS_PSELECT6'', ''pselect6''), (''SYS_PPOLL'', ''ppoll''), (''SYS_UNSHARE'', ''unshare''),
    (''SYS_SET_ROBUST_LIST'', ''set_robust_list''),
    (''SYS_GET_ROBUST_LIST'', ''get_robust_list''), (''SYS_SPLICE'', ''splice''),
    (''SYS_TEE'', ''tee''), (''SYS_SYNC_FILE_RANGE'', ''sync_file_range''),
    (''SYS_VMSPLICE'', ''vmsplice''), (''SYS_MOVE_PAGES'', ''move_pages''),
    (''SYS_UTIMENSAT'', ''utimensat''), (''SYS_EPOLL_PWAIT'', ''epoll_pwait''),
    (''SYS_SIGNALFD'', ''signalfd''), (''SYS_TIMERFD_CREATE'', ''timerfd_create''),
    (''SYS_EVENTFD'', ''eventfd''), (''SYS_FALLOCATE'', ''fallocate''),
    (''SYS_TIMERFD_SETTIME'', ''timerfd_settime''),
    (''SYS_TIMERFD_GETTIME'', ''timerfd_gettime''), (''SYS_ACCEPT4'', ''accept4''),
    (''SYS_SIGNALFD4'', ''signalfd4''), (''SYS_EVENTFD2'', ''eventfd2''),
    (''SYS_EPOLL_CREATE1'', ''epoll_create1''), (''SYS_DUP3'', ''dup3''),
    (''SYS_PIPE2'', ''pipe2''), (''SYS_INOTIFY_INIT1'', ''inotify_init1''),
    (''SYS_PREADV'', ''preadv''), (''SYS_PWRITEV'', ''pwritev''),
    (''SYS_RT_TGSIGQUEUEINFO'', ''rt_tgsigqueueinfo''),
    (''SYS_PERF_EVENT_OPEN'', ''perf_event_open''), (''SYS_RECVMMSG'', ''recvmmsg''),
    (''SYS_FANOTIFY_INIT'', ''fanotify_init''), (''SYS_FANOTIFY_MARK'', ''fanotify_mark''),
    (''SYS_PRLIMIT64'', ''prlimit64''), (''SYS_NAME_TO_HANDLE_AT'', ''name_to_handle_at'')]"

definition syscall_rows_5 :: "(string \<times> string) list" where
  "syscall_rows_5 =
   [(''SYS_OPEN_BY_HANDLE_AT'', ''open_by_handle_at''),
    (''SYS_CLOCK_ADJTIME'', ''clock_adjtime''), (''SYS_SYNCFS'', ''syncfs''),
    (''SYS_SENDMMSG'', ''sendmmsg''), (''SYS_SETNS'', ''setns''), (''SYS_GETCPU'', ''getcpu''),
    (''SYS_PROCESS_VM_READV'', ''process_vm_readv''),
    (''SYS_PROCESS_VM_WRITEV'', ''process_vm_writev''), (''SYS_KCMP'', ''kcmp''),
    (''SYS_FINIT_MODULE'', ''finit_module''), (''SYS_SCHED_SETATTR'', ''sched_setattr''),
    (''SYS_SCHED_GETATTR'', ''sched_getattr''), (''SYS_RENAMEAT2'', ''renameat2''),
    (''SYS_SECCOMP'', ''seccomp''), (''SYS_GETRANDOM'', ''getrandom''),
    (''SYS_MEMFD_CREATE'', ''memfd_create''), (''SYS_KEXEC_FILE_LOAD'', ''kexec_file_load''),
    (''SYS_BPF'', ''bpf''), (''SYS_EXECVEAT'', ''execveat''),
    (''SYS_USERFAULTFD'', ''userfaultfd''), (''SYS_MEMBARRIER'', ''membarrier''),
    (''SYS_MLOCK2'', ''mlock2''), (''SYS_COPY_FILE_RANGE'', ''copy_file_range''),
    (''SYS_PREADV2'', ''preadv2''), (''SYS_PWRITEV2'', ''pwritev2''),
    (''SYS_PKEY_MPROTECT'', ''pkey_mprotect''), (''SYS_PKEY_ALLOC'', ''pkey_alloc''),
    (''SYS_PKEY_FREE'', ''pkey_free''), (''SYS_STATX'', ''statx''),
    (''SYS_IO_PGETEVENTS'', ''io_pgetevents''), (''SYS_RSEQ'', ''rseq''),
    (''SYS_URETPROBE'', ''uretprobe''), (''SYS_PIDFD_SEND_SIGNAL'', ''pidfd_send_signal''),
    (''SYS_IO_URING_SETUP'', ''io_uring_setup''), (''SYS_IO_URING_ENTER'', ''io_uring_enter''),
    (''SYS_IO_URING_REGISTER'', ''io_uring_register''), (''SYS_OPEN_TREE'', ''open_tree''),
    (''SYS_MOVE_MOUNT'', ''move_mount''), (''SYS_FSOPEN'', ''fsopen''),
    (''SYS_FSCONFIG'', ''fsconfig''), (''SYS_FSMOUNT'', ''fsmount''),
    (''SYS_FSPICK'', ''fspick''), (''SYS_PIDFD_OPEN'', ''pidfd_open''),
    (''SYS_CLONE3'', ''clone3''), (''SYS_CLOSE_RANGE'', ''close_range''),
    (''SYS_OPENAT2'', ''openat2''), (''SYS_PIDFD_GETFD'', ''pidfd_getfd''),
    (''SYS_FACCESSAT2'', ''faccessat2''), (''SYS_PROCESS_MADVISE'', ''process_madvise''),
    (''SYS_EPOLL_PWAIT2'', ''epoll_pwait2''), (''SYS_MOUNT_SETATTR'', ''mount_setattr''),
    (''SYS_QUOTACTL_FD'', ''quotactl_fd''),
    (''SYS_LANDLOCK_CREATE_RULESET'', ''landlock_create_ruleset''),
    (''SYS_LANDLOCK_ADD_RULE'', ''landlock_add_rule''),
    (''SYS_LANDLOCK_RESTRICT_SELF'', ''landlock_restrict_self''),
    (''SYS_MEMFD_SECRET'', ''memfd_secret''), (''SYS_PROCESS_MRELEASE'', ''process_mrelease''),
    (''SYS_FUTEX_WAITV'', ''futex_waitv''),
    (''SYS_SET_MEMPOLICY_HOME_NODE'', ''set_mempolicy_home_node''),
    (''SYS_CACHESTAT'', ''cachestat''), (''SYS_FCHMODAT2'', ''fchmodat2''),
    (''SYS_MAP_SHADOW_STACK'', ''map_shadow_stack''), (''SYS_FUTEX_WAKE'', ''futex_wake''),
    (''SYS_FUTEX_WAIT'', ''futex_wait''), (''SYS_FUTEX_REQUEUE'', ''futex_requeue''),
    (''SYS_STATMOUNT'', ''statmount''), (''SYS_LISTMOUNT'', ''listmount''),
    (''SYS_LSM_GET_SELF_ATTR'', ''lsm_get_self_attr''),
    (''SYS_LSM_SET_SELF_ATTR'', ''lsm_set_self_attr''),
    (''SYS_LSM_LIST_MODULES'', ''lsm_list_modules''), (''SYS_MSEAL'', ''mseal''),
    (''SYS_SETXATTRAT'', ''setxattrat''), (''SYS_GETXATTRAT'', ''getxattrat''),
    (''SYS_LISTXATTRAT'', ''listxattrat''), (''SYS_REMOVEXATTRAT'', ''removexattrat''),
    (''SYS_OPEN_TREE_ATTR'', ''open_tree_attr'')]"

definition syscall_table :: "(string \<times> string) list" where
  "syscall_table = syscall_rows_1 @ syscall_rows_2 @ syscall_rows_3 @ syscall_rows_4 @ syscall_rows_5"

definition syscallNames :: "(string \<Rightarrow> u32) \<Rightarrow> u32 \<rightharpoonup> string" where
  "syscallNames SYS = map_of (map (\<lambda>(const, name). (SYS const, name)) syscall_table)"

section \<open>The names differ\<close>

lemma total_filter: "sum_list (map (Suc \<circ> length) (filter P ss)) \<le> sum_list (map (Suc \<circ> length) ss)"
  by (induction ss) auto

lemma total_tl: "sum_list (map (Suc \<circ> length) (map tl ss)) \<le> sum_list (map (Suc \<circ> length) ss)"
  by (induction ss) auto

text \<open>Strings that differ pairwise, decided by their first characters and then by the rests.\<close>

function all_apart :: "string list \<Rightarrow> bool" where
  "all_apart [] = True"
| "all_apart [s] = True"
| "all_apart ([] # t # ss) = ([] \<notin> set (t # ss) \<and> all_apart (t # ss))"
| "all_apart ((c # s) # t # ss) =
     (all_apart (s # map tl (filter (\<lambda>u. u \<noteq> [] \<and> hd u = c) (t # ss))) \<and>
      all_apart (filter (\<lambda>u. \<not> (u \<noteq> [] \<and> hd u = c)) (t # ss)))"
  by pat_completeness auto

termination
proof (relation "measure (\<lambda>ss. sum_list (map (Suc \<circ> length) ss))")
  fix c :: char and s t :: string and ss
  let ?m = "\<lambda>ss :: string list. sum_list (map (Suc \<circ> length) ss)"
  have same: "?m (map tl (filter (\<lambda>u. u \<noteq> [] \<and> hd u = c) (t # ss))) \<le> ?m (t # ss)"
    using total_tl total_filter order_trans by blast
  show "(s # map tl (filter (\<lambda>u. u \<noteq> [] \<and> hd u = c) (t # ss)), (c # s) # t # ss) \<in> measure ?m"
    using same by simp
  show "(filter (\<lambda>u. \<not> (u \<noteq> [] \<and> hd u = c)) (t # ss), (c # s) # t # ss) \<in> measure ?m"
    using total_filter [of "\<lambda>u. \<not> (u \<noteq> [] \<and> hd u = c)" "t # ss"] by simp
qed simp_all

lemma distinct_filters: "distinct (filter P xs) \<Longrightarrow> distinct (filter (\<lambda>x. \<not> P x) xs) \<Longrightarrow> distinct xs"
  by (induction xs) (auto split: if_splits)

lemma all_apart_distinct: "all_apart ss \<Longrightarrow> distinct ss"
proof (induction ss rule: all_apart.induct)
  case (4 c s t ss)
  let ?same = "filter (\<lambda>u. u \<noteq> [] \<and> hd u = c) (t # ss)" and ?rest = "filter (\<lambda>u. \<not> (u \<noteq> [] \<and> hd u = c)) (t # ss)"
  have same: "distinct (s # map tl ?same)" and rest: "distinct ?rest"
    using 4 by simp_all
  have "c # s \<notin> set (t # ss)"
  proof
    assume "c # s \<in> set (t # ss)"
    then have "s \<in> set (map tl ?same)"
      by (force simp: image_iff)
    then show False
      using same by simp
  qed
  moreover have "distinct ?same"
    using same by (simp add: distinct_map)
  then have "distinct (t # ss)"
    using rest by (metis distinct_filters)
  ultimately show ?case
    by simp
qed auto

text \<open>The check goes by groups of first characters.\<close>

definition starting :: "string \<Rightarrow> string list \<Rightarrow> string list" where
  "starting cs ss = filter (\<lambda>u. u \<noteq> [] \<and> hd u \<in> set cs) ss"

lemma distinct_groups:
  assumes "\<forall>u \<in> set ss. u \<noteq> [] \<and> hd u \<in> set (concat css)" and "\<forall>cs \<in> set css. distinct (starting cs ss)"
  shows "distinct ss"
  using assms
proof (induction ss)
  case (Cons u ss)
  obtain cs where cs: "cs \<in> set css" "hd u \<in> set cs" "u \<noteq> []"
    using Cons(2) by auto
  then have "distinct (u # starting cs ss)"
    using Cons(3) by (fastforce simp: starting_def)
  then have "u \<notin> set ss"
    using cs by (simp add: starting_def)
  moreover have "\<forall>cs \<in> set css. distinct (starting cs ss)"
    using Cons(3) by (auto simp: starting_def split: if_splits)
  ultimately show ?case
    using Cons(1,2) by simp
qed simp

definition first_chars :: "string list" where
  "first_chars = [''_abcde'', ''fghijkl'', ''mnopq'', ''rtuvwxyz'', ''s'']"

definition syscall_labels :: "string list" where
  "syscall_labels = map snd syscall_table"

lemma labels_covered: "list_all (\<lambda>u. u \<noteq> [] \<and> hd u \<in> set (concat first_chars)) syscall_labels"
  by code_simp

lemma labels_apart_1: "all_apart (starting ''_abcde'' syscall_labels)"
  by code_simp

lemma labels_apart_2: "all_apart (starting ''fghijkl'' syscall_labels)"
  by code_simp

lemma labels_apart_3: "all_apart (starting ''mnopq'' syscall_labels)"
  by code_simp

lemma labels_apart_4: "all_apart (starting ''rtuvwxyz'' syscall_labels)"
  by code_simp

lemma labels_apart_5: "all_apart (starting ''s'' syscall_labels)"
  by code_simp

lemma labels_distinct: "distinct syscall_labels"
proof (rule distinct_groups)
  show "\<forall>u \<in> set syscall_labels. u \<noteq> [] \<and> hd u \<in> set (concat first_chars)"
    using labels_covered by (simp only: list_all_iff)
  show "\<forall>cs \<in> set first_chars. distinct (starting cs syscall_labels)"
    unfolding first_chars_def
    using labels_apart_1 labels_apart_2 labels_apart_3 labels_apart_4 labels_apart_5
    by (auto intro: all_apart_distinct simp del: all_apart.simps)
qed

section \<open>The labels\<close>

text \<open>A name comes from one row, and is not a number.\<close>

lemma syscallNames_row:
  assumes "syscallNames SYS nr = Some name"
  shows "\<exists>const. (const, name) \<in> set syscall_table \<and> nr = SYS const"
  using map_of_SomeD [OF assms [unfolded syscallNames_def]] by auto

lemma row_unique:
  assumes "(a, name) \<in> set syscall_table" and "(b, name) \<in> set syscall_table"
  shows "a = b"
proof -
  have "inj_on snd (set syscall_table)"
    using labels_distinct by (simp add: syscall_labels_def distinct_map)
  from inj_onD [OF this, of "(a, name)" "(b, name)"] show ?thesis
    using assms by simp
qed

lemma label_not_number: "(const, name) \<in> set syscall_table \<Longrightarrow> name \<noteq> dec n"
proof
  assume row: "(const, name) \<in> set syscall_table" and name: "name = dec n"
  have "name \<in> set syscall_labels"
    using row by (force simp: syscall_labels_def)
  then have "hd name \<in> set (concat first_chars)"
    using labels_covered by (auto simp only: list_all_iff)
  moreover have "list_all (\<lambda>c. \<not> is_digit c) (concat first_chars)"
    by code_simp
  ultimately have "\<not> is_digit (hd name)"
    by (auto simp only: list_all_iff)
  then show False
    using dec_no_char [of "hd name" n] name hd_in_set [OF dec_nonempty, of n] by simp
qed

text \<open>
  On both builds the label tells the call's number: with the table, whatever the values
  of the constants are, and without it.
\<close>

lemma labelSys_inj: "inj (labelSys (syscallNames SYS))"
proof (rule injI)
  fix x y
  assume eq: "labelSys (syscallNames SYS) x = labelSys (syscallNames SYS) y"
  consider "syscallNames SYS x = None" "syscallNames SYS y = None"
    | nm where "syscallNames SYS x = Some nm" "syscallNames SYS y = None"
    | nm where "syscallNames SYS x = None" "syscallNames SYS y = Some nm"
    | a b where "syscallNames SYS x = Some a" "syscallNames SYS y = Some b"
    by blast
  then show "x = y"
  proof cases
    case 1
    then show ?thesis
      using eq by (simp add: labelSys_def word_unat_eq_iff)
  next
    case (2 nm)
    then show ?thesis
      using eq syscallNames_row label_not_number by (fastforce simp: labelSys_def)
  next
    case (3 nm)
    then show ?thesis
      using eq [symmetric] syscallNames_row label_not_number by (fastforce simp: labelSys_def)
  next
    case (4 a b)
    then show ?thesis
      using eq syscallNames_row row_unique by (simp add: labelSys_def) metis
  qed
qed

lemma labelSys_other_inj: "inj (labelSys Map.empty)"
  by (simp add: inj_def labelSys_def word_unat_eq_iff)

text \<open>The table of a build: for Linux on amd64, or no table (\<open>syscall_labels_other.go\<close>).\<close>

definition build_names :: "(string \<Rightarrow> u32) \<Rightarrow> (u32 \<rightharpoonup> string) set" where
  "build_names SYS = {syscallNames SYS, Map.empty}"

lemma build_labels: "names \<in> build_names SYS \<Longrightarrow> inj (labelSys names)"
  using labelSys_inj labelSys_other_inj by (auto simp: build_names_def)

end
