(* ===== verification/Obsv_Export.thy ===== *)
theory Obsv_Export
  imports Obsv_Pf Obsv_Sched Obsv_Cpu Obsv_Mem Obsv_Sys Syscall_Names
begin

text \<open>
  From the kernel's events to the exported series: the tracing modules of
  \<open>gocker-obsv/bpf\<close> and the collector's scans of their maps, as one system.  Invocations
  of a module's programs and scans of one of its maps come in any order; what a series
  has gained after a scan is what the programs have charged.
\<close>

section \<open>The system\<close>

text \<open>
  An event is an invocation of a program, or a scan: with the list of cgroups of that
  tick and the order in which the kernel's iteration delivers keys, of which the map
  holds some.
\<close>

datatype 'i pipe_event = Call 'i | Scan "u64 \<rightharpoonup> string" "cg_key list"

text \<open>What the iteration over a map of \<open>n\<close> CPUs delivers.\<close>

definition delivered :: "cpu \<Rightarrow> cg_key list \<Rightarrow> (cg_key, u64) percpu \<Rightarrow> (cg_key \<times> u64 list) list" where
  "delivered n ks m = map (\<lambda>k. (k, map (slots m k) [0..<n])) (filter (\<lambda>k. m k \<noteq> None) ks)"

type_synonym ('s, 'm) pipe_state = "'s \<times> (cg_key \<rightharpoonup> u64) \<times> 'm"

fun pipe_step ::
  "('i \<Rightarrow> 's \<Rightarrow> 's) \<Rightarrow> ('s \<Rightarrow> (cg_key, u64) percpu) \<Rightarrow> cpu \<Rightarrow> (cg_key \<Rightarrow> u64 \<Rightarrow> 'm \<Rightarrow> 'm) \<Rightarrow>
     'i pipe_event \<Rightarrow> ('s, 'm) pipe_state \<Rightarrow> ('s, 'm) pipe_state" where
  "pipe_step step view n ap (Call i) (s, C) = (step i s, C)"
| "pipe_step step view n ap (Scan al ks) (s, C) = (s, scan al ap (Some (delivered n ks (view s))) C)"

fun calls_of :: "'i pipe_event list \<Rightarrow> 'i list" where
  "calls_of [] = []"
| "calls_of (Call i # evs) = i # calls_of evs"
| "calls_of (Scan al ks # evs) = calls_of evs"

text \<open>The sum of the charges to a key.\<close>

definition charged :: "('i \<Rightarrow> 's \<Rightarrow> 's) \<Rightarrow> ('i \<Rightarrow> 's \<Rightarrow> (cg_key \<times> u64) option) \<Rightarrow> 'i list \<Rightarrow> 's \<Rightarrow> cg_key \<Rightarrow> nat" where
  "charged step charge is s k =
     sum_list (map (\<lambda>x. if k = fst (snd x) then unat (snd (snd x)) else 0) (observe step charge is s))"

text \<open>Scans that see the key: its cgroup is listed, keys come once, and all are keys of the table.\<close>

definition scans_see :: "(cg_key \<Rightarrow> bool) \<Rightarrow> cg_key \<Rightarrow> 'i pipe_event list \<Rightarrow> bool" where
  "scans_see known k evs \<longleftrightarrow>
     (\<forall>al ks. Scan al ks \<in> set evs \<longrightarrow> al (ck_cgid k) \<noteq> None \<and> distinct ks \<and> k \<in> set ks \<and> (\<forall>k' \<in> set ks. known k'))"

lemma scans_see_simps [simp]:
  "scans_see known k []"
  "scans_see known k (Call i # evs) = scans_see known k evs"
  "scans_see known k (Scan al ks # evs) =
     (al (ck_cgid k) \<noteq> None \<and> distinct ks \<and> k \<in> set ks \<and> (\<forall>k' \<in> set ks. known k') \<and> scans_see known k evs)"
  by (auto simp: scans_see_def)

lemma calls_of_append [simp]: "calls_of (xs @ ys) = calls_of xs @ calls_of ys"
  by (induction xs rule: calls_of.induct) simp_all

lemma scans_see_append [simp]: "scans_see known k (xs @ ys) \<longleftrightarrow> scans_see known k xs \<and> scans_see known k ys"
  by (auto simp: scans_see_def)

lemma foldl_slots: "foldl (+) (0 :: u64) (map f [0..<n]) = (\<Sum>c<n. f c)"
  by (induction n) (simp_all add: lessThan_Suc add.commute)

lemma map_of_delivered:
  assumes "k \<in> set ks"
  shows "map_of (delivered n ks m) k = (if m k = None then None else Some (map (slots m k) [0..<n]))"
proof -
  have "map_of (map (\<lambda>k. (k, f k)) xs) k = (if k \<in> set xs then Some (f k) else None)" for f :: "cg_key \<Rightarrow> u64 list" and xs
    by (induction xs) auto
  then show ?thesis
    using assms by (simp add: delivered_def)
qed

lemma distinct_delivered: "distinct ks \<Longrightarrow> distinct (map fst (delivered n ks m))"
  by (simp add: delivered_def comp_def)

lemma set_delivered: "e \<in> set (delivered n ks m) \<Longrightarrow> fst e \<in> set ks"
  by (auto simp: delivered_def)

section \<open>An exported map\<close>

locale exported = accounting step view upd cpu_of charge + counter ap known shown
  for step :: "'i \<Rightarrow> 's \<Rightarrow> 's"
    and view :: "'s \<Rightarrow> (cg_key, u64) percpu"
    and upd :: "'i \<Rightarrow> (cg_key, u64) pupd"
    and cpu_of :: "'i \<Rightarrow> cpu"
    and charge :: "'i \<Rightarrow> 's \<Rightarrow> (cg_key \<times> u64) option"
    and ap :: "cg_key \<Rightarrow> u64 \<Rightarrow> 'm \<Rightarrow> 'm"
    and known :: "cg_key \<Rightarrow> bool"
    and shown :: "cg_key \<Rightarrow> 'm \<Rightarrow> nat"
begin

text \<open>One scan moves the remembered total to the map's.\<close>

lemma scan_total:
  assumes "known k" and "al (ck_cgid k) \<noteq> None" and "distinct ks" and "k \<in> set ks" and "\<forall>k' \<in> set ks. known k'"
    and "unat (previous k C) \<le> unat (total n m k)"
  shows "unat (previous k (scan al ap (Some (delivered n ks m)) C)) = unat (total n m k)"
    and "shown k (snd (scan al ap (Some (delivered n ks m)) C)) =
      shown k (snd C) + (unat (total n m k) - unat (previous k C))"
proof -
  let ?C = "scan al ap (Some (delivered n ks m)) C"
  have view: "key_view k ?C = (case map_of (delivered n ks m) k of None \<Rightarrow> key_view k C
      | Some vals \<Rightarrow> key_step (al (ck_cgid k)) (foldl (+) 0 vals) (key_view k C))"
    using assms(5) set_delivered by (intro scan_key [OF assms(1) distinct_delivered [OF assms(3)]]) blast
  have "unat (previous k ?C) = unat (total n m k) \<and>
      shown k (snd ?C) = shown k (snd C) + (unat (total n m k) - unat (previous k C))"
  proof (cases "m k")
    case None
    then have "total n m k = 0"
      by (simp add: total_def)
    then show ?thesis
      using view None assms(6) by (simp add: map_of_delivered [OF assms(4)] key_view_def previous_def)
  next
    case (Some g)
    have "foldl (+) 0 (map (slots m k) [0..<n]) = total n m k"
      by (simp only: foldl_slots total_def)
    then show ?thesis
      using view Some assms(2)
      by (auto simp: map_of_delivered [OF assms(4)] key_view_def previous_def key_step_def split: option.splits)
  qed
  then show "unat (previous k ?C) = unat (total n m k)"
    and "shown k (snd ?C) = shown k (snd C) + (unat (total n m k) - unat (previous k C))"
    by simp_all
qed

lemma charged_Cons:
  "charged step charge (i # is) s k =
    (case charge i s of None \<Rightarrow> 0 | Some (k', d) \<Rightarrow> if k = k' then unat d else 0) + charged step charge is (step i s) k"
  by (auto simp: charged_def split: option.split)

lemma unat_total_step:
  assumes "percpu_update_ok (upd i)" and "percpu_accepts (upd i)" and "cpu_of i < n"
    and "unat (total n (view s) k) + charged step charge (i # is) s k < 2 ^ 64"
  shows "unat (total n (view (step i s)) k) =
    unat (total n (view s) k) + (case charge i s of None \<Rightarrow> 0 | Some (k', d) \<Rightarrow> if k = k' then unat d else 0)"
  using assms(4) by (auto simp: total_step [OF assms(1-3)] charged_Cons unat_add_lem [THEN iffD1] split: option.splits)

text \<open>
  The remembered total is never above the map's, what the series has gained is the
  remembered total's gain, and the map's total is the sum of the charges.
\<close>

lemma pipe_run:
  assumes "known k" and "scans_see known k evs"
    and "\<forall>i \<in> set (calls_of evs). percpu_update_ok (upd i) \<and> percpu_accepts (upd i) \<and> cpu_of i < n"
    and "unat (total n (view s) k) + charged step charge (calls_of evs) s k < 2 ^ 64"
    and "unat (previous k C) \<le> unat (total n (view s) k)"
    and "run (pipe_step step view n ap) evs (s, C) = (s', C')"
  shows "unat (total n (view s') k) = unat (total n (view s) k) + charged step charge (calls_of evs) s k \<and>
    unat (previous k C) \<le> unat (previous k C') \<and> unat (previous k C') \<le> unat (total n (view s') k) \<and>
    shown k (snd C') = shown k (snd C) + (unat (previous k C') - unat (previous k C))"
  using assms(2-6)
proof (induction evs arbitrary: s C rule: calls_of.induct)
  case 1
  then show ?case
    by (simp add: charged_def)
next
  case (2 i evs)
  have step: "unat (total n (view (step i s)) k) = unat (total n (view s) k) +
      (case charge i s of None \<Rightarrow> 0 | Some (k', d) \<Rightarrow> if k = k' then unat d else 0)"
    using 2 by (intro unat_total_step) auto
  let ?c = "case charge i s of None \<Rightarrow> 0 | Some (k', d) \<Rightarrow> if k = k' then unat d else 0"
  have "unat (total n (view s') k) = unat (total n (view (step i s)) k) + charged step charge (calls_of evs) (step i s) k \<and>
      unat (previous k C) \<le> unat (previous k C') \<and> unat (previous k C') \<le> unat (total n (view s') k) \<and>
      shown k (snd C') = shown k (snd C) + (unat (previous k C') - unat (previous k C))"
    using 2(2-) step charged_Cons [of i "calls_of evs" s k] by (intro 2(1)) simp_all
  then show ?case
    using step charged_Cons [of i "calls_of evs" s k] by simp
next
  case (3 al ks evs)
  let ?C = "scan al ap (Some (delivered n ks (view s))) C"
  note sc = scan_total [OF assms(1), of al ks C n "view s"]
  have new: "unat (previous k ?C) = unat (total n (view s) k)"
    "shown k (snd ?C) = shown k (snd C) + (unat (total n (view s) k) - unat (previous k C))"
    using 3(2-) sc by simp_all
  have "unat (total n (view s') k) = unat (total n (view s) k) + charged step charge (calls_of evs) s k \<and>
      unat (previous k ?C) \<le> unat (previous k C') \<and> unat (previous k C') \<le> unat (total n (view s') k) \<and>
      shown k (snd C') = shown k (snd ?C) + (unat (previous k C') - unat (previous k ?C))"
    using 3(2-) new by (intro 3(1)) simp_all
  then show ?case
    using new 3(5) by simp
qed

theorem series_exact:
  assumes "known k" and "scans_see known k (evs @ [Scan al ks])"
    and "\<forall>i \<in> set (calls_of evs). percpu_update_ok (upd i) \<and> percpu_accepts (upd i) \<and> cpu_of i < n"
    and "view s k = None" and "charged step charge (calls_of evs) s k < 2 ^ 64" and "prevs k = None"
    and "run (pipe_step step view n ap) (evs @ [Scan al ks]) (s, prevs, M) = (s', prevs', M')"
  shows "shown k M' = shown k M + charged step charge (calls_of evs) s k"
proof -
  obtain s1 C1 where mid: "run (pipe_step step view n ap) evs (s, prevs, M) = (s1, C1)"
    by (cases "run (pipe_step step view n ap) evs (s, prevs, M)")
  have start: "unat (total n (view s) k) = 0" "unat (previous k (prevs, M)) = 0"
    using assms(4,6) by (simp_all add: total_def previous_def)
  have inv: "unat (total n (view s1) k) = unat (total n (view s) k) + charged step charge (calls_of evs) s k \<and>
      unat (previous k C1) \<le> unat (total n (view s1) k) \<and>
      shown k (snd C1) = shown k M + (unat (previous k C1) - unat (previous k (prevs, M)))"
    using pipe_run [OF assms(1) _ assms(3) _ _ mid] assms(2,5) start by fastforce
  then have C1: "unat (total n (view s1) k) = charged step charge (calls_of evs) s k"
    "unat (previous k C1) \<le> unat (total n (view s1) k)" "shown k (snd C1) = shown k M + unat (previous k C1)"
    unfolding start by simp_all
  have "M' = snd (scan al ap (Some (delivered n ks (view s1))) C1)"
    using assms(7) mid by (simp add: run_append) (metis snd_conv)
  then show ?thesis
    using scan_total(2) [OF assms(1) _ _ _ _ C1(2)] assms(2) C1 by simp
qed

end

section \<open>The maps of the modules\<close>

interpretation pf_out: exported pf_step cg_pf_cnt fst pf_cpu pf_charge
  "apply_delta names MapPF" "key_ok names MapPF" "shown_series names MapPF" for names
  by unfold_locales

interpretation sched_out: exported sched_step cg_sched_cnt "\<lambda>i. sk_cnt (fst i)" sched_cpu sched_charge
  "apply_delta names MapS" "key_ok names MapS" "shown_series names MapS" for names
  by unfold_locales

interpretation sys_calls: exported sys_step cg_sys_cnt "\<lambda>i. yk_cnt (fst i)" sys_cpu sys_cnt_charge
  "apply_delta names MapC" "key_ok names MapC" "shown_series names MapC" for names
  by unfold_locales

interpretation sys_time: exported sys_step cg_sys_lat_ns "\<lambda>i. yk_lat (fst i)" sys_cpu sys_lat_charge
  "apply_delta names MapL" "key_ok names MapL" "shown_series names MapL" for names
  by unfold_locales

interpretation cpu_out: exported cpu_step cg_cpu_ns "\<lambda>i. ck_ns (fst i)" cpu_of_call cpu_charge
  "apply_delta names MapNs" "key_ok names MapNs" "shown_series names MapNs" for names
  by unfold_locales

interpretation mem_out_evt: exported mem_step cg_mem_evt "\<lambda>i. mk_evt (fst i)" mem_cpu "mem_charge mem_evt_amount"
  "apply_delta names MapEvt" "key_ok names MapEvt" "shown_series names MapEvt" for names
  by unfold_locales

interpretation mem_out_pages: exported mem_step cg_mem_pages "\<lambda>i. mk_pages (fst i)" mem_cpu "mem_charge mem_pages_amount"
  "apply_delta names MapPages" "key_ok names MapPages" "shown_series names MapPages" for names
  by unfold_locales

interpretation mem_out_bytes: exported mem_step cg_mem_bytes "\<lambda>i. mk_bytes (fst i)" mem_cpu "mem_charge mem_bytes_amount"
  "apply_delta names MapBytes" "key_ok names MapBytes" "shown_series names MapBytes" for names
  by unfold_locales

text \<open>A key that the programs write.\<close>

lemma key_ok_key_of:
  "key_ok names tb (key_of g ty) \<longleftrightarrow> ty \<in> types_of tb \<and> (tb = MapC \<or> tb = MapL \<longrightarrow> inj (labelSys names))"
  by (simp add: key_ok_def key_of_def)

lemma key_of_simps [simp]: "ck_cgid (key_of g ty) = g" "ck_type (key_of g ty) = ty"
  "key_of g ty = key_of g' ty' \<longleftrightarrow> g = g' \<and> ty = ty'"
  by (simp_all add: key_of_def)

text \<open>When every charge is one, the sum of the charges is their number.\<close>

lemma charged_ones:
  assumes "\<forall>x \<in> set (observe step charge is s). snd (snd x) = 1"
  shows "charged step charge is s k = length (filter (\<lambda>x. fst (snd x) = k) (observe step charge is s))"
proof -
  have "sum_list (map (\<lambda>x. if k = fst (snd x) then unat (snd (snd x)) else 0) xs) = length (filter (\<lambda>x. fst (snd x) = k) xs)"
    if "\<forall>x \<in> set xs. snd (snd x) = 1" for xs :: "('a \<times> cg_key \<times> u64) list"
    using that by (induction xs) auto
  then show ?thesis
    using assms by (simp add: charged_def)
qed

lemma length_observe: "length (observe step charge is s) \<le> length is"
  by (induction "is" arbitrary: s) (auto split: option.split intro: le_SucI)

lemma few_charges:
  assumes "\<forall>x \<in> set (observe step charge is s). snd (snd x) = 1" and "length is < 2 ^ 64"
  shows "charged step charge is s k < 2 ^ 64"
proof -
  have "charged step charge is s k \<le> length is"
    unfolding charged_ones [OF assms(1)] by (rule le_trans [OF length_filter_le length_observe])
  then show ?thesis
    using assms(2) by simp
qed

text \<open>A module whose configuration was never written, as every module's is.\<close>

definition unset :: "'a obsv_cfg_scheme \<Rightarrow> bool" where
  "unset s \<longleftrightarrow> cfg_map s = array1_init zero_cfg"

lemma unset_config:
  assumes "unset s"
  shows "cfg_rate s = 1" and "in_target_subtree_current t s"
proof -
  have "cfg_map s 0 = Some zero_cfg"
    using assms by (simp add: unset_def array1_init_def)
  then show "cfg_rate s = 1" and "in_target_subtree_current t s"
    by (simp_all add: cfg_rate_def load_cfg_def in_target_subtree_current_def zero_cfg_def)
qed

section \<open>Page faults\<close>

text \<open>
  C22: the exported page-fault series count the faults.  Faults on any CPUs and scans
  come in any order; while the cgroup is listed, after a scan the series of a cgroup and
  fault type has grown by exactly the faults that the program counted for it.  As the
  module's configuration is never written, these are all faults of the cgroup.
\<close>

theorem pf_exported:
  assumes "scans_see (key_ok names MapPF) (key_of g (pf_code ty)) (evs @ [Scan al ks])"
    and "pf_kernel_ok n (calls_of evs)" and "length (calls_of evs) < 2 ^ 64"
    and "cg_pf_cnt s (key_of g (pf_code ty)) = None" and "prevs (key_of g (pf_code ty)) = None"
    and "run (pipe_step pf_step cg_pf_cnt n (apply_delta names MapPF)) (evs @ [Scan al ks]) (s, prevs, M) = (s', prevs', M')"
    and "label = (''page_faults_total'', [labelPF (pf_code ty), cgid_label g])"
  shows "M' label = M label + length (filter (\<lambda>i. pf_key i = key_of g (pf_code ty)) (pf_counted (calls_of evs) s)) \<and>
    (maps_wf s \<and> unset s \<longrightarrow>
      M' label = M label + length (filter (\<lambda>(upd, t, ty'). t_cgid t = g \<and> ty' = ty) (calls_of evs)))"
proof -
  let ?k = "key_of g (pf_code ty)" and ?o = "observe pf_step pf_charge (calls_of evs) s"
  have known: "key_ok names MapPF ?k"
    by (cases ty) (simp_all add: key_ok_key_of)
  have ones: "\<forall>x \<in> set ?o. snd (snd x) = 1"
    by (auto dest: pf_observe_charge)
  have "shown_series names MapPF ?k M' = shown_series names MapPF ?k M + charged pf_step pf_charge (calls_of evs) s ?k"
    by (rule pf_out.series_exact [OF known assms(1) _ assms(4) few_charges [OF ones assms(3)] assms(5,6)])
      (use assms(2) in \<open>simp add: pf_kernel_ok_def\<close>)
  moreover have "filter (\<lambda>x. fst (snd x) = ?k) ?o = filter (\<lambda>x. pf_key (fst x) = ?k) ?o"
    by (rule filter_cong) (auto dest: pf_observe_charge)
  ultimately have counted: "M' label = M label + length (filter (\<lambda>i. pf_key i = ?k) (pf_counted (calls_of evs) s))"
    by (simp add: charged_ones [OF ones] shown_series_def assms(7) pf_counted_def length_filter_fst [of "\<lambda>i. pf_key i = ?k"])
  have "filter (\<lambda>i. pf_key i = ?k) (pf_counted (calls_of evs) s) = filter (\<lambda>(upd, t, ty'). t_cgid t = g \<and> ty' = ty) (calls_of evs)"
    if "maps_wf s" "unset s"
  proof -
    have "pf_code ty' = pf_code ty \<longleftrightarrow> ty' = ty" for ty'
      by (cases ty'; cases ty) simp_all
    then show ?thesis
      using pf_counted_rate_one [OF that(1) unset_config(1) [OF that(2)], of "calls_of evs"] unset_config(2) [OF that(2)]
      by (simp add: pf_gate_def pf_key_def case_prod_unfold)
  qed
  then show ?thesis
    using counted by simp
qed

section \<open>Scheduling events\<close>

lemma sched_exported:
  assumes "scans_see (key_ok names MapS) (key_of g ty) (evs @ [Scan al ks])" and "ty \<in> {1, 2}"
    and "sched_kernel_ok n (calls_of evs)" and "length (calls_of evs) < 2 ^ 64"
    and "cg_sched_cnt s (key_of g ty) = None" and "prevs (key_of g ty) = None"
    and "run (pipe_step sched_step cg_sched_cnt n (apply_delta names MapS)) (evs @ [Scan al ks]) (s, prevs, M) = (s', prevs', M')"
    and "label = (''sched_events_total'', [labelSC ty, cgid_label g])"
  shows "M' label = M label +
    length (filter (\<lambda>x. fst (snd x) = key_of g ty) (observe sched_step sched_charge (calls_of evs) s))"
proof -
  let ?k = "key_of g ty" and ?o = "observe sched_step sched_charge (calls_of evs) s"
  have known: "key_ok names MapS ?k"
    using assms(2) by (simp add: key_ok_key_of)
  have ones: "\<forall>x \<in> set ?o. snd (snd x) = 1"
    by (auto dest: sched_observe_charge)
  have "shown_series names MapS ?k M' = shown_series names MapS ?k M + charged sched_step sched_charge (calls_of evs) s ?k"
    by (rule sched_out.series_exact [OF known assms(1) _ assms(5) few_charges [OF ones assms(4)] assms(6,7)])
      (use assms(3) in \<open>simp add: sched_kernel_ok_def\<close>)
  then show ?thesis
    by (simp add: charged_ones [OF ones] shown_series_def assms(8))
qed

section \<open>CPU time\<close>

text \<open>The run time that the kernel reports for a cgroup.\<close>

fun ran_for :: "u64 \<Rightarrow> cpu_call \<Rightarrow> nat" where
  "ran_for g (K, t, Cpu_runtime ctx) = (if t_cgid t = g then unat (sr_runtime ctx) else 0)"
| "ran_for g _ = 0"

lemma runtime_charge:
  assumes "unset s" and "maps_wf s" and "g \<noteq> 0"
  shows "(case cpu_charge i s of None \<Rightarrow> 0 | Some (k, d) \<Rightarrow> if key_of g 1 = k then unat d else 0) =
    ran_for g i"
proof -
  have "cfg_rate (cpu_pre i s) = 1"
    using unset_config(1) [OF assms(1)] by simp
  from pass_sample_rate_one [OF this] have pass: "fst (cpu_sample i (cpu_pre i s))"
    by (simp add: cpu_sample_def)
  show ?thesis
    using assms(3) pass unset_config(2) [OF assms(1)]
    by (cases "(g, i)" rule: ran_for.cases) (auto simp: cpu_charge_def split: option.split)
qed

lemma runtime_charged:
  "unset s \<Longrightarrow> maps_wf s \<Longrightarrow> g \<noteq> 0 \<Longrightarrow>
    charged cpu_step cpu_charge is s (key_of g 1) = sum_list (map (ran_for g) is)"
proof (induction "is" arbitrary: s)
  case (Cons i "is")
  then have "unset (cpu_step i s)"
    by (simp add: unset_def)
  then show ?case
    using Cons runtime_charge [of s g i] by (simp add: cpu_out.charged_Cons)
qed (simp add: charged_def)

text \<open>
  C5: the exported CPU time is the time the programs charge.  In any order of
  scheduler events and scans, while the cgroup is listed and its time fits in 64 bits,
  after a scan the series of a cgroup and kind of time has grown by exactly the sum of
  the amounts charged to it.  With the configuration as it is (never written) the
  run-time series is the sum of all run times that the kernel reports while the
  cgroup's tasks run.
\<close>

theorem cpu_exported:
  assumes "scans_see (key_ok names MapNs) (key_of g (cpu_code ty)) (evs @ [Scan al ks])"
    and "cpu_kernel_ok n (calls_of evs)"
    and "charged cpu_step cpu_charge (calls_of evs) s (key_of g (cpu_code ty)) < 2 ^ 64"
    and "cg_cpu_ns s (key_of g (cpu_code ty)) = None" and "prevs (key_of g (cpu_code ty)) = None"
    and "run (pipe_step cpu_step cg_cpu_ns n (apply_delta names MapNs)) (evs @ [Scan al ks]) (s, prevs, M) = (s', prevs', M')"
    and "label = (''cpu_sched_ns_total'', [labelCPU (cpu_code ty), cgid_label g])"
  shows "M' label = M label + charged cpu_step cpu_charge (calls_of evs) s (key_of g (cpu_code ty)) \<and>
    (unset s \<and> maps_wf s \<and> g \<noteq> 0 \<and> ty = CPU_RUNTIME \<longrightarrow>
      M' label = M label + sum_list (map (ran_for g) (calls_of evs)))"
proof -
  let ?k = "key_of g (cpu_code ty)"
  have known: "key_ok names MapNs ?k"
    by (cases ty) (simp_all add: key_ok_key_of)
  have "shown_series names MapNs ?k M' = shown_series names MapNs ?k M + charged cpu_step cpu_charge (calls_of evs) s ?k"
    by (rule cpu_out.series_exact [OF known assms(1) _ assms(4,3,5,6)]) (use assms(2) in \<open>simp add: cpu_kernel_ok_def\<close>)
  then show ?thesis
    using runtime_charged [of s g "calls_of evs"] by (auto simp: shown_series_def assms(7))
qed

section \<open>Memory events\<close>

lemma mem_exported:
  assumes "scans_see (key_ok names MapBytes) (key_of g ty) (evs @ [Scan al ks])" and "ty \<in> {1, 2}"
    and "mem_kernel_ok n (calls_of evs)"
    and "charged mem_step (mem_charge mem_bytes_amount) (calls_of evs) s (key_of g ty) < 2 ^ 64"
    and "cg_mem_bytes s (key_of g ty) = None" and "prevs (key_of g ty) = None"
    and "run (pipe_step mem_step cg_mem_bytes n (apply_delta names MapBytes)) (evs @ [Scan al ks]) (s, prevs, M) = (s', prevs', M')"
    and "label = (if ty = 1 then ''mm_page_alloc_bytes_total'' else ''mm_page_free_bytes_total'', [cgid_label g])"
  shows "M' label = M label + charged mem_step (mem_charge mem_bytes_amount) (calls_of evs) s (key_of g ty)"
proof -
  let ?k = "key_of g ty"
  have known: "key_ok names MapBytes ?k"
    using assms(2) by (simp add: key_ok_key_of)
  have "shown_series names MapBytes ?k M' =
      shown_series names MapBytes ?k M + charged mem_step (mem_charge mem_bytes_amount) (calls_of evs) s ?k"
    by (rule mem_out_bytes.series_exact [OF known assms(1) _ assms(5,4,6,7)]) (use assms(3) in \<open>simp add: mem_kernel_ok_def\<close>)
  then show ?thesis
    using assms(2) by (auto simp: shown_series_def assms(8))
qed

lemma mem_reclaim_exported:
  assumes "scans_see (key_ok names MapPages) (key_of g 1) (evs @ [Scan al ks])" and "mem_kernel_ok n (calls_of evs)"
    and "charged mem_step (mem_charge mem_pages_amount) (calls_of evs) s (key_of g 1) < 2 ^ 64"
    and "cg_mem_pages s (key_of g 1) = None" and "prevs (key_of g 1) = None"
    and "run (pipe_step mem_step cg_mem_pages n (apply_delta names MapPages)) (evs @ [Scan al ks]) (s, prevs, M) = (s', prevs', M')"
    and "label = (''mm_vmscan_pages_total'', [labelMemPages 1, cgid_label g])"
  shows "M' label = M label + charged mem_step (mem_charge mem_pages_amount) (calls_of evs) s (key_of g 1)"
proof -
  have known: "key_ok names MapPages (key_of g 1)"
    by (simp add: key_ok_key_of)
  have "shown_series names MapPages (key_of g 1) M' =
      shown_series names MapPages (key_of g 1) M + charged mem_step (mem_charge mem_pages_amount) (calls_of evs) s (key_of g 1)"
    by (rule mem_out_pages.series_exact [OF known assms(1) _ assms(4,3,5,6)]) (use assms(2) in \<open>simp add: mem_kernel_ok_def\<close>)
  then show ?thesis
    by (simp add: shown_series_def assms(7))
qed

section \<open>System calls\<close>

lemma charged_calls:
  "charged sys_step sys_cnt_charge is s k = length (filter (\<lambda>x. sys_agg x = k) (sys_completed is s))"
  "charged sys_step sys_lat_charge is s k = sum_list (map (unat \<circ> sys_took) (filter (\<lambda>x. sys_agg x = k) (sys_completed is s)))"
proof -
  have "sum_list (map (\<lambda>x. if k = sys_agg x then unat (1 :: u64) else 0) xs) = length (filter (\<lambda>x. sys_agg x = k) xs)"
    and "sum_list (map (\<lambda>x. if k = sys_agg x then unat (sys_took x) else 0) xs) =
      sum_list (map (unat \<circ> sys_took) (filter (\<lambda>x. sys_agg x = k) xs))" for xs
    by (induction xs) auto
  then show "charged sys_step sys_cnt_charge is s k = length (filter (\<lambda>x. sys_agg x = k) (sys_completed is s))"
    and "charged sys_step sys_lat_charge is s k =
      sum_list (map (unat \<circ> sys_took) (filter (\<lambda>x. sys_agg x = k) (sys_completed is s)))"
    by (simp_all add: charged_def sys_observe_charges comp_def cong: if_cong)
qed

text \<open>
  C8: the exported system-call series are the completed calls and their time.  In any
  order of entries, exits and scans of the two maps, with the names of either build, while
  the cgroup is listed and the time fits in 64 bits, after a scan the count of a cgroup
  and call has grown by exactly the completed calls, and the time series by the sum of
  their latencies.  No two calls share a series, whatever numbers the constants of
  \<open>unix\<close> have.
\<close>

theorem sys_exported:
  assumes "scans_see (key_ok names MapC) (key_of g nr) (evs @ [Scan al ks])" and "names \<in> build_names SYS"
    and "sys_kernel_ok n (calls_of evs)"
    and "completed = filter (\<lambda>x. sys_agg x = key_of g nr) (sys_completed (calls_of evs) s)"
    and "length completed < 2 ^ 64" and "sum_list (map (unat \<circ> sys_took) completed) < 2 ^ 64"
    and "cg_sys_cnt s (key_of g nr) = None" and "cg_sys_lat_ns s (key_of g nr) = None"
    and "prevs (key_of g nr) = None" and "prevl (key_of g nr) = None"
    and "run (pipe_step sys_step cg_sys_cnt n (apply_delta names MapC)) (evs @ [Scan al ks]) (s, prevs, M) = (s1, C1, M1)"
    and "run (pipe_step sys_step cg_sys_lat_ns n (apply_delta names MapL)) (evs @ [Scan al ks]) (s, prevl, M) = (s2, C2, M2)"
  shows "M1 (''syscall_calls_total'', [labelSys names nr, cgid_label g]) =
      M (''syscall_calls_total'', [labelSys names nr, cgid_label g]) + length completed \<and>
    M2 (''syscall_latency_nanoseconds_total'', [labelSys names nr, cgid_label g]) =
      M (''syscall_latency_nanoseconds_total'', [labelSys names nr, cgid_label g]) +
      sum_list (map (unat \<circ> sys_took) completed)"
proof -
  let ?k = "key_of g nr"
  have known: "key_ok names MapC ?k" "key_ok names MapL ?k"
    using build_labels [OF assms(2)] by (simp_all add: key_ok_key_of)
  have "key_ok names MapL = key_ok names MapC"
    by (auto simp: key_ok_def fun_eq_iff)
  then have see: "scans_see (key_ok names MapL) ?k (evs @ [Scan al ks])"
    using assms(1) by simp
  have calls: "charged sys_step sys_cnt_charge (calls_of evs) s ?k = length completed"
    "charged sys_step sys_lat_charge (calls_of evs) s ?k = sum_list (map (unat \<circ> sys_took) completed)"
    by (simp_all add: charged_calls assms(4))
  have "shown_series names MapC ?k M1 = shown_series names MapC ?k M + length completed"
    unfolding calls(1) [symmetric]
    by (rule sys_calls.series_exact [OF known(1) assms(1) _ assms(7) _ assms(9,11)])
      (use assms(3,5) in \<open>simp_all add: sys_kernel_ok_def calls\<close>)
  moreover have "shown_series names MapL ?k M2 = shown_series names MapL ?k M + sum_list (map (unat \<circ> sys_took) completed)"
    unfolding calls(2) [symmetric]
    by (rule sys_time.series_exact [OF known(2) see _ assms(8) _ assms(10,12)])
      (use assms(3,6) in \<open>simp_all add: sys_kernel_ok_def calls\<close>)
  ultimately show ?thesis
    by (simp add: shown_series_def)
qed

section \<open>Concrete inputs\<close>

text \<open>Two faults, a scan, a third fault, a scan: the map is read half way and at the end.\<close>

definition demo_pf_unset :: pf_state where
  "demo_pf_unset = \<lparr>ro = demo_ro, cfg_map = array1_init zero_cfg, per_cpu_cnt = array1_init (\<lambda>_. 0),
     cg_pf_cnt = Map.empty\<rparr>"

definition demo_cpu_unset :: cpu_state where
  "demo_cpu_unset = \<lparr>ro = demo_ro, cfg_map = array1_init zero_cfg, per_cpu_cnt = array1_init (\<lambda>_. 0),
     cg_cpu_ns = Map.empty, cpu_pid_cgid = Map.empty\<rparr>"

definition demo_pipe :: "cg_key \<Rightarrow> 'i list \<Rightarrow> 'i list \<Rightarrow> 'i pipe_event list" where
  "demo_pipe k is js = map Call is @ Scan demo_paths [k] # map Call js"

lemma calls_of_map_Call [simp]: "calls_of (map Call is) = is"
  by (induction "is") simp_all

lemma calls_of_demo [simp]: "calls_of (demo_pipe k is js) = is @ js"
  by (simp add: demo_pipe_def)

lemma scans_see_demo:
  assumes "known k" and "demo_paths (ck_cgid k) \<noteq> None"
  shows "scans_see known k (demo_pipe k is js @ [Scan demo_paths [k]])"
  using assms by (auto simp: scans_see_def demo_pipe_def)

lemma demo_label_9: "cgid_label 9 = ''9''"
  by code_simp

definition pf_demo_events :: "pf_call pipe_event list" where
  "pf_demo_events = demo_pipe (key_of 9 1) (take 2 demo_faults) (drop 2 demo_faults) @ [Scan demo_paths [key_of 9 1]]"

theorem pf_exported_witness:
  "snd (snd (run (pipe_step pf_step cg_pf_cnt 2 (apply_delta Map.empty MapPF)) pf_demo_events
     (demo_pf_unset, Map.empty, \<lambda>_. 0))) (''page_faults_total'', [''user'', ''9'']) = 2"
proof -
  let ?evs = "demo_pipe (key_of 9 1) (take 2 demo_faults) (drop 2 demo_faults)"
  obtain s' prevs' M' where r: "run (pipe_step pf_step cg_pf_cnt 2 (apply_delta Map.empty MapPF))
      (?evs @ [Scan demo_paths [key_of 9 1]]) (demo_pf_unset, Map.empty, \<lambda>_. 0) = (s', prevs', M')"
    by (rule prod_cases3)
  have calls: "calls_of ?evs = demo_faults"
    by (simp add: demo_faults_def)
  have see: "scans_see (key_ok Map.empty MapPF) (key_of 9 (pf_code PF_USER)) (?evs @ [Scan demo_paths [key_of 9 1]])"
    using scans_see_demo [of "key_ok Map.empty MapPF" "key_of 9 1"] by (simp add: key_ok_key_of demo_paths_def)
  have ok: "pf_kernel_ok 2 (calls_of ?evs)" and few: "length (calls_of ?evs) < 2 ^ 64"
    unfolding calls by (simp_all add: pf_kernel_ok_def demo_faults_def pf_cpu_def demo_task_def)
  have fresh: "cg_pf_cnt demo_pf_unset (key_of 9 (pf_code PF_USER)) = None" "maps_wf demo_pf_unset" "unset demo_pf_unset"
    by (simp_all add: demo_pf_unset_def maps_wf_def unset_def)
  show ?thesis
    using pf_exported [of Map.empty 9 PF_USER ?evs demo_paths "[key_of 9 1]" 2 demo_pf_unset Map.empty "\<lambda>_. 0" s' prevs' M',
        OF see ok few fresh(1) _ r refl] fresh(2,3) r
    unfolding calls by (simp add: pf_demo_events_def demo_label_9 labelPF_def demo_faults_def demo_task_def)
qed

definition cpu_demo_events :: "cpu_call pipe_event list" where
  "cpu_demo_events = demo_pipe (key_of 9 1) [demo_runtime 6 500, demo_wait 6 40] [demo_runtime 6 70] @
     [Scan demo_paths [key_of 9 1]]"

theorem cpu_exported_witness:
  "snd (snd (run (pipe_step cpu_step cg_cpu_ns 2 (apply_delta Map.empty MapNs)) cpu_demo_events
     (demo_cpu_unset, Map.empty, \<lambda>_. 0))) (''cpu_sched_ns_total'', [''runtime'', ''9'']) = 570"
proof -
  let ?evs = "demo_pipe (key_of 9 1) [demo_runtime 6 500, demo_wait 6 40] [demo_runtime 6 70]"
  obtain s' prevs' M' where r: "run (pipe_step cpu_step cg_cpu_ns 2 (apply_delta Map.empty MapNs))
      (?evs @ [Scan demo_paths [key_of 9 1]]) (demo_cpu_unset, Map.empty, \<lambda>_. 0) = (s', prevs', M')"
    by (rule prod_cases3)
  have see: "scans_see (key_ok Map.empty MapNs) (key_of 9 (cpu_code CPU_RUNTIME)) (?evs @ [Scan demo_paths [key_of 9 1]])"
    using scans_see_demo [of "key_ok Map.empty MapNs" "key_of 9 1"] by (simp add: key_ok_key_of demo_paths_def)
  have ok: "cpu_kernel_ok 2 (calls_of ?evs)"
    by (simp add: cpu_kernel_ok_def demo_cpu_kernel_def demo_runtime_def demo_wait_def cpu_of_call_def demo_task_def)
  have fresh: "cg_cpu_ns demo_cpu_unset (key_of 9 (cpu_code CPU_RUNTIME)) = None" "maps_wf demo_cpu_unset" "unset demo_cpu_unset"
    by (simp_all add: demo_cpu_unset_def maps_wf_def unset_def)
  have sum: "sum_list (map (ran_for 9) (calls_of ?evs)) = 570"
    by (simp add: demo_runtime_def demo_wait_def demo_task_def)
  have "charged cpu_step cpu_charge (calls_of ?evs) demo_cpu_unset (key_of 9 (cpu_code CPU_RUNTIME)) = 570"
    using runtime_charged [OF fresh(3,2), of 9 "calls_of ?evs"] sum by simp
  then have fits: "charged cpu_step cpu_charge (calls_of ?evs) demo_cpu_unset (key_of 9 (cpu_code CPU_RUNTIME)) < 2 ^ 64"
    by simp
  show ?thesis
    using cpu_exported [of Map.empty 9 CPU_RUNTIME ?evs demo_paths "[key_of 9 1]" 2 demo_cpu_unset Map.empty "\<lambda>_. 0" s' prevs' M',
        OF see ok fits fresh(1) _ r refl] fresh(2,3) r sum
    by (simp add: cpu_demo_events_def demo_label_9 labelCPU_def)
qed

definition demo_SYS :: "string \<Rightarrow> u32" where
  "demo_SYS const = (if const = ''SYS_EXIT'' then 60 else 999)"

definition demo_names :: "u32 \<rightharpoonup> string" where
  "demo_names = syscallNames demo_SYS"

theorem sys_exported_witness:
  "(let evs = demo_pipe (key_of 9 60) [demo_enter 60] [demo_exit 60 1500] @ [Scan demo_paths [key_of 9 60]]
    in snd (snd (run (pipe_step sys_step cg_sys_cnt 2 (apply_delta demo_names MapC)) evs (demo_sys, Map.empty, \<lambda>_. 0)))
         (''syscall_calls_total'', [''exit'', ''9'']) = 1 \<and>
       snd (snd (run (pipe_step sys_step cg_sys_lat_ns 2 (apply_delta demo_names MapL)) evs (demo_sys, Map.empty, \<lambda>_. 0)))
         (''syscall_latency_nanoseconds_total'', [''exit'', ''9'']) = 500)"
proof -
  let ?evs = "demo_pipe (key_of 9 60) [demo_enter 60] [demo_exit 60 1500]"
  obtain s1 C1 M1 where r1: "run (pipe_step sys_step cg_sys_cnt 2 (apply_delta demo_names MapC))
      (?evs @ [Scan demo_paths [key_of 9 60]]) (demo_sys, Map.empty, \<lambda>_. 0) = (s1, C1, M1)"
    by (rule prod_cases3)
  obtain s2 C2 M2 where r2: "run (pipe_step sys_step cg_sys_lat_ns 2 (apply_delta demo_names MapL))
      (?evs @ [Scan demo_paths [key_of 9 60]]) (demo_sys, Map.empty, \<lambda>_. 0) = (s2, C2, M2)"
    by (rule prod_cases3)
  have build: "demo_names \<in> build_names demo_SYS"
    by (simp add: demo_names_def build_names_def)
  have see: "scans_see (key_ok demo_names MapC) (key_of 9 60) (?evs @ [Scan demo_paths [key_of 9 60]])"
    by (rule scans_see_demo) (simp_all add: key_ok_key_of demo_paths_def build_labels [OF build])
  have ok: "sys_kernel_ok 2 (calls_of ?evs)"
    by (simp add: sys_kernel_ok_def sys_cpu_def demo_sys_defs)
  define completed where c: "completed = filter (\<lambda>x. sys_agg x = key_of 9 60) (sys_completed (calls_of ?evs) demo_sys)"
  have one: "length completed = 1" "sum_list (map (unat \<circ> sys_took) completed) = 500"
    by (simp_all add: c demo_sys_defs)
  have label: "labelSys demo_names 60 = ''exit''"
    by code_simp
  show ?thesis
    using sys_exported [OF see build ok c _ _ _ _ _ _ r1 r2] one r1 r2
    by (simp add: label demo_label_9) (simp add: demo_sys_def)
qed

end
