(* ===== verification/Sched_Monitor.thy ===== *)
theory Sched_Monitor
  imports Kernel
begin

text \<open>
  \<open>eBPF/sched_monitor.bpf.c\<close> and \<open>eBPF/sched_monitor.h\<close>: the scheduler monitor.
  Four tracepoint programs fill in an event record, submit it to a ring buffer and
  keep per-cgroup statistics, for the cgroups that user space allowed.  The
  kernel's answer to \<open>bpf_ringbuf_reserve\<close> is part of the invocation: nothing, or
  a record with arbitrary contents.
\<close>

unbundle bit_operations_syntax

section \<open>Data\<close>

definition DEFAULT_RUNTIME_THRESHOLD_NS :: u64 where
  "DEFAULT_RUNTIME_THRESHOLD_NS = 5 * 1000 * 1000"

datatype evt_type = EVT_SWITCH | EVT_WAKEUP | EVT_RUNTIME | EVT_MIGRATE

fun evt_code :: "evt_type \<Rightarrow> u32" where
  "evt_code EVT_SWITCH = 1"
| "evt_code EVT_WAKEUP = 2"
| "evt_code EVT_RUNTIME = 3"
| "evt_code EVT_MIGRATE = 4"

record evt =
  e_ts :: u64
  e_cpu :: u32
  e_type :: u32
  e_pid :: u32
  e_tgid :: u32
  e_cgroup_id :: u64
  e_aux0 :: s32
  e_aux1 :: s32
  e_aux2 :: u64
  e_comm :: "u8 list"

record cg_stat_val =
  runtime_ns :: u64
  max_runtime_ns :: u64
  ctx_switches :: u64
  wakeups :: u64
  migrations :: u64

definition zero_stat :: cg_stat_val where
  "zero_stat = \<lparr>runtime_ns = 0, max_runtime_ns = 0, ctx_switches = 0, wakeups = 0, migrations = 0\<rparr>"

record sm_rodata =
  runtime_event_threshold_ns :: u64
  filter_enabled :: u8

record sm_state =
  sm_ro :: sm_rodata
  allowed_cgroups :: "(u64, u8) bmap"
  cg_stats :: "(u64, cg_stat_val) bmap"
  events_rb :: "evt list"  \<comment> \<open>submitted records, oldest first\<close>

text \<open>The kernel that serves an invocation: the statistics map, and what reserving returns.\<close>

record sm_kernel =
  sm_stat_upd :: "(u64, cg_stat_val) upd"
  sm_reserve :: "evt option"

section \<open>Operations\<close>

definition get_cgid :: "task \<Rightarrow> u64" where
  "get_cgid t = t_cgid t"

definition allow_cgroup :: "u64 \<Rightarrow> sm_state \<Rightarrow> bool" where
  "allow_cgroup cgid s =
     (if filter_enabled (sm_ro s) = 0 then True
      else (case allowed_cgroups s cgid of None \<Rightarrow> False | Some _ \<Rightarrow> True))"

definition emit_event :: "task \<Rightarrow> evt \<Rightarrow> evt_type \<Rightarrow> u64 \<Rightarrow> evt" where
  "emit_event t e type cgid =
     (let e1 = e\<lparr>e_type := evt_code type, e_ts := t_ktime t, e_cpu := of_nat (t_cpu t),
                 e_cgroup_id := cgid\<rparr>;
          id = t_pid_tgid t
      in e1\<lparr>e_pid := ucast (id AND 0xffffffff), e_tgid := ucast (drop_bit 32 id), e_comm := t_comm t\<rparr>)"

definition cgstats_add_runtime ::
  "sm_kernel \<Rightarrow> u64 \<Rightarrow> u64 \<Rightarrow> (u64, cg_stat_val) bmap \<Rightarrow> (u64, cg_stat_val) bmap" where
  "cgstats_add_runtime K cgid delta m =
     (case m cgid of
        Some v \<Rightarrow> m(cgid \<mapsto> v\<lparr>runtime_ns := runtime_ns v + delta\<rparr>)
      | None \<Rightarrow>
          (let m1 = fst (sm_stat_upd K BPF_NOEXIST cgid zero_stat m)
           in case m1 cgid of
                None \<Rightarrow> m1
              | Some v \<Rightarrow> m1(cgid \<mapsto> v\<lparr>runtime_ns := runtime_ns v + delta\<rparr>)))"

definition stat_inc :: "int \<Rightarrow> cg_stat_val \<Rightarrow> cg_stat_val" where
  "stat_inc which v =
     (if which = 0 then v\<lparr>ctx_switches := ctx_switches v + 1\<rparr>
      else if which = 1 then v\<lparr>wakeups := wakeups v + 1\<rparr>
      else if which = 2 then v\<lparr>migrations := migrations v + 1\<rparr>
      else v)"

definition cgstats_inc ::
  "sm_kernel \<Rightarrow> u64 \<Rightarrow> int \<Rightarrow> (u64, cg_stat_val) bmap \<Rightarrow> (u64, cg_stat_val) bmap" where
  "cgstats_inc K cgid which m =
     (case m cgid of
        Some v \<Rightarrow> m(cgid \<mapsto> stat_inc which v)
      | None \<Rightarrow>
          (let m1 = fst (sm_stat_upd K BPF_NOEXIST cgid zero_stat m)
           in case m1 cgid of
                None \<Rightarrow> m1
              | Some v \<Rightarrow> m1(cgid \<mapsto> stat_inc which v)))"

definition bpf_ringbuf_submit :: "evt \<Rightarrow> sm_state \<Rightarrow> sm_state" where
  "bpf_ringbuf_submit e s = s\<lparr>events_rb := events_rb s @ [e]\<rparr>"

definition tp_sched_switch ::
  "sm_kernel \<Rightarrow> task \<Rightarrow> trace_event_raw_sched_switch \<Rightarrow> sm_state \<Rightarrow> s32 \<times> sm_state" where
  "tp_sched_switch K t ctx s =
     (let cgid = get_cgid t
      in if \<not> allow_cgroup cgid s then (0, s)
         else (case sm_reserve K of
                 None \<Rightarrow> (0, s)
               | Some e0 \<Rightarrow>
                   (let e1 = emit_event t e0 EVT_SWITCH cgid;
                        e2 = e1\<lparr>e_aux0 := prev_pid ctx, e_aux1 := next_pid ctx, e_aux2 := 0\<rparr>;
                        s1 = s\<lparr>cg_stats := cgstats_inc K cgid 0 (cg_stats s)\<rparr>
                    in (0, bpf_ringbuf_submit e2 s1))))"

definition tp_sched_wakeup ::
  "sm_kernel \<Rightarrow> task \<Rightarrow> trace_event_raw_sched_wakeup_template \<Rightarrow> sm_state \<Rightarrow> s32 \<times> sm_state" where
  "tp_sched_wakeup K t ctx s =
     (let cgid = get_cgid t
      in if \<not> allow_cgroup cgid s then (0, s)
         else (case sm_reserve K of
                 None \<Rightarrow> (0, s)
               | Some e0 \<Rightarrow>
                   (let e1 = emit_event t e0 EVT_WAKEUP cgid;
                        e2 = e1\<lparr>e_aux0 := wk_target_cpu ctx, e_aux1 := wk_prio ctx, e_aux2 := 0\<rparr>;
                        s1 = s\<lparr>cg_stats := cgstats_inc K cgid 1 (cg_stats s)\<rparr>
                    in (0, bpf_ringbuf_submit e2 s1))))"

definition tp_sched_stat_runtime ::
  "sm_kernel \<Rightarrow> task \<Rightarrow> trace_event_raw_sched_stat_runtime \<Rightarrow> sm_state \<Rightarrow> s32 \<times> sm_state" where
  "tp_sched_stat_runtime K t ctx s =
     (let cgid = get_cgid t
      in if \<not> allow_cgroup cgid s then (0, s)
         else if runtime_event_threshold_ns (sm_ro s) \<noteq> 0 \<and>
                 sr_runtime ctx < runtime_event_threshold_ns (sm_ro s) then (0, s)
         else (let s1 = s\<lparr>cg_stats := cgstats_add_runtime K cgid (sr_runtime ctx) (cg_stats s)\<rparr>
               in case sm_reserve K of
                    None \<Rightarrow> (0, s1)
                  | Some e0 \<Rightarrow>
                      (let e1 = emit_event t e0 EVT_RUNTIME cgid;
                           e2 = e1\<lparr>e_aux0 := 0, e_aux1 := 0, e_aux2 := sr_runtime ctx\<rparr>
                       in (0, bpf_ringbuf_submit e2 s1))))"

definition tp_sched_migrate_task ::
  "sm_kernel \<Rightarrow> task \<Rightarrow> trace_event_raw_sched_migrate_task \<Rightarrow> sm_state \<Rightarrow> s32 \<times> sm_state" where
  "tp_sched_migrate_task K t ctx s =
     (let cgid = get_cgid t
      in if \<not> allow_cgroup cgid s then (0, s)
         else (case sm_reserve K of
                 None \<Rightarrow> (0, s)
               | Some e0 \<Rightarrow>
                   (let e1 = emit_event t e0 EVT_MIGRATE cgid;
                        e2 = e1\<lparr>e_aux0 := mg_dest_cpu ctx, e_aux1 := mg_orig_cpu ctx, e_aux2 := 0\<rparr>;
                        s1 = s\<lparr>cg_stats := cgstats_inc K cgid 2 (cg_stats s)\<rparr>
                    in (0, bpf_ringbuf_submit e2 s1))))"

datatype sm_tp =
    Sm_switch trace_event_raw_sched_switch
  | Sm_wakeup trace_event_raw_sched_wakeup_template
  | Sm_runtime trace_event_raw_sched_stat_runtime
  | Sm_migrate trace_event_raw_sched_migrate_task

type_synonym sm_call = "sm_kernel \<times> task \<times> sm_tp"

fun sm_step :: "sm_call \<Rightarrow> sm_state \<Rightarrow> sm_state" where
  "sm_step (K, t, Sm_switch ctx) s = snd (tp_sched_switch K t ctx s)"
| "sm_step (K, t, Sm_wakeup ctx) s = snd (tp_sched_wakeup K t ctx s)"
| "sm_step (K, t, Sm_runtime ctx) s = snd (tp_sched_stat_runtime K t ctx s)"
| "sm_step (K, t, Sm_migrate ctx) s = snd (tp_sched_migrate_task K t ctx s)"

section \<open>What an invocation submits and charges\<close>

definition sm_passes :: "sm_call \<Rightarrow> sm_state \<Rightarrow> bool" where
  "sm_passes i s \<longleftrightarrow> allow_cgroup (t_cgid (fst (snd i))) s \<and>
     (case snd (snd i) of
        Sm_runtime ctx \<Rightarrow> runtime_event_threshold_ns (sm_ro s) = 0 \<or>
          runtime_event_threshold_ns (sm_ro s) \<le> sr_runtime ctx
      | _ \<Rightarrow> True)"

definition sm_submits :: "sm_call \<Rightarrow> sm_state \<Rightarrow> bool" where
  "sm_submits i s \<longleftrightarrow> sm_passes i s \<and> sm_reserve (fst i) \<noteq> None"

definition sm_charges :: "sm_call \<Rightarrow> sm_state \<Rightarrow> bool" where
  "sm_charges i s \<longleftrightarrow> sm_passes i s \<and>
     (case snd (snd i) of Sm_runtime _ \<Rightarrow> True | _ \<Rightarrow> sm_reserve (fst i) \<noteq> None)"

text \<open>The type and the three auxiliary words of an event.\<close>

fun sm_payload :: "sm_tp \<Rightarrow> evt_type \<times> s32 \<times> s32 \<times> u64" where
  "sm_payload (Sm_switch ctx) = (EVT_SWITCH, prev_pid ctx, next_pid ctx, 0)"
| "sm_payload (Sm_wakeup ctx) = (EVT_WAKEUP, wk_target_cpu ctx, wk_prio ctx, 0)"
| "sm_payload (Sm_runtime ctx) = (EVT_RUNTIME, 0, 0, sr_runtime ctx)"
| "sm_payload (Sm_migrate ctx) = (EVT_MIGRATE, mg_dest_cpu ctx, mg_orig_cpu ctx, 0)"

definition sm_event :: "sm_call \<Rightarrow> evt" where
  "sm_event i =
     (let t = fst (snd i); (ty, a0, a1, a2) = sm_payload (snd (snd i))
      in \<lparr>e_ts = t_ktime t, e_cpu = of_nat (t_cpu t), e_type = evt_code ty,
          e_pid = ucast (t_pid_tgid t), e_tgid = ucast (drop_bit 32 (t_pid_tgid t)),
          e_cgroup_id = t_cgid t, e_aux0 = a0, e_aux1 = a1, e_aux2 = a2, e_comm = t_comm t\<rparr>)"

fun sm_effect :: "sm_tp \<Rightarrow> cg_stat_val \<Rightarrow> cg_stat_val" where
  "sm_effect (Sm_switch ctx) v = v\<lparr>ctx_switches := ctx_switches v + 1\<rparr>"
| "sm_effect (Sm_wakeup ctx) v = v\<lparr>wakeups := wakeups v + 1\<rparr>"
| "sm_effect (Sm_runtime ctx) v = v\<lparr>runtime_ns := runtime_ns v + sr_runtime ctx\<rparr>"
| "sm_effect (Sm_migrate ctx) v = v\<lparr>migrations := migrations v + 1\<rparr>"

text \<open>Both statistics routines are one idiom: look up, create, look up again, change.\<close>

definition sm_bump ::
  "sm_kernel \<Rightarrow> u64 \<Rightarrow> (cg_stat_val \<Rightarrow> cg_stat_val) \<Rightarrow> (u64, cg_stat_val) bmap \<Rightarrow> (u64, cg_stat_val) bmap" where
  "sm_bump K cgid f m =
     (case m cgid of
        Some v \<Rightarrow> m(cgid \<mapsto> f v)
      | None \<Rightarrow>
          (let m1 = fst (sm_stat_upd K BPF_NOEXIST cgid zero_stat m)
           in case m1 cgid of None \<Rightarrow> m1 | Some v \<Rightarrow> m1(cgid \<mapsto> f v)))"

definition stat_of :: "(u64, cg_stat_val) bmap \<Rightarrow> u64 \<Rightarrow> cg_stat_val" where
  "stat_of m k = (case m k of None \<Rightarrow> zero_stat | Some v \<Rightarrow> v)"

lemma cgstats_eqs:
  "cgstats_add_runtime K cgid d m = sm_bump K cgid (\<lambda>v. v\<lparr>runtime_ns := runtime_ns v + d\<rparr>) m"
  "cgstats_inc K cgid which m = sm_bump K cgid (stat_inc which) m"
  by (simp_all add: cgstats_add_runtime_def cgstats_inc_def sm_bump_def)

lemma emit_event_eq:
  "(emit_event t e ty cgid)\<lparr>e_aux0 := a0, e_aux1 := a1, e_aux2 := a2\<rparr> =
     \<lparr>e_ts = t_ktime t, e_cpu = of_nat (t_cpu t), e_type = evt_code ty,
      e_pid = ucast (t_pid_tgid t), e_tgid = ucast (drop_bit 32 (t_pid_tgid t)),
      e_cgroup_id = cgid, e_aux0 = a0, e_aux1 = a1, e_aux2 = a2, e_comm = t_comm t\<rparr>"
proof -
  have m: "0xffffffff = (mask 32 :: u64)"
    by (simp add: mask_eq_exp_minus_1)
  have "(ucast (id AND 0xffffffff) :: u32) = ucast id" for id :: u64
    unfolding m by (rule bit_word_eqI) (simp add: bit_simps)
  then show ?thesis
    by (cases e) (simp add: emit_event_def Let_def)
qed

lemma stat_inc_eqs [simp]:
  "stat_inc 0 = (\<lambda>v. v\<lparr>ctx_switches := ctx_switches v + 1\<rparr>)"
  "stat_inc 1 = (\<lambda>v. v\<lparr>wakeups := wakeups v + 1\<rparr>)"
  "stat_inc 2 = (\<lambda>v. v\<lparr>migrations := migrations v + 1\<rparr>)"
  by (auto simp: stat_inc_def fun_eq_iff)

lemma sm_effect_eta:
  "sm_effect (Sm_switch c1) = (\<lambda>v. v\<lparr>ctx_switches := ctx_switches v + 1\<rparr>)"
  "sm_effect (Sm_wakeup c2) = (\<lambda>v. v\<lparr>wakeups := wakeups v + 1\<rparr>)"
  "sm_effect (Sm_runtime c3) = (\<lambda>v. v\<lparr>runtime_ns := runtime_ns v + sr_runtime c3\<rparr>)"
  "sm_effect (Sm_migrate c4) = (\<lambda>v. v\<lparr>migrations := migrations v + 1\<rparr>)"
  by auto

lemmas sm_step_defs = tp_sched_switch_def tp_sched_wakeup_def tp_sched_stat_runtime_def
  tp_sched_migrate_task_def bpf_ringbuf_submit_def get_cgid_def emit_event_eq cgstats_eqs

lemmas sm_view_defs = sm_passes_def sm_submits_def sm_charges_def sm_event_def

lemma sm_step_eq:
  "sm_step i s = s\<lparr>
     cg_stats := (if sm_charges i s
       then sm_bump (fst i) (t_cgid (fst (snd i))) (sm_effect (snd (snd i))) (cg_stats s) else cg_stats s),
     events_rb := events_rb s @ (if sm_submits i s then [sm_event i] else [])\<rparr>"
  by (cases "(i, s)" rule: sm_step.cases)
     (auto simp: sm_step_defs sm_view_defs Let_def sm_effect_eta not_less split: option.split)

lemma sm_step_static [simp]:
  "sm_ro (sm_step i s) = sm_ro s" "allowed_cgroups (sm_step i s) = allowed_cgroups s"
  by (simp_all add: sm_step_eq)

lemma sm_views_static [simp]:
  "sm_submits j (sm_step i s) = sm_submits j s" "sm_charges j (sm_step i s) = sm_charges j s"
  by (cases "snd (snd j)"; simp add: sm_view_defs allow_cgroup_def)+

lemma sm_step_events [simp]:
  "events_rb (sm_step i s) = events_rb s @ (if sm_submits i s then [sm_event i] else [])"
  by (simp add: sm_step_eq)

lemma stat_of_bump:
  assumes "hash_update_ok (sm_stat_upd K)" and "accepts (sm_stat_upd K)"
  shows "stat_of (sm_bump K c f m) k = (if k = c then f (stat_of m k) else stat_of m k)"
  using hash_update_accepted [OF assms, of m c zero_stat]
  by (auto simp: sm_bump_def stat_of_def Let_def split: option.split)

lemma sm_bump_other:
  assumes "hash_update_ok (sm_stat_upd K)" and "k \<noteq> c"
  shows "sm_bump K c f m k = m k"
proof -
  let ?u = "sm_stat_upd K BPF_NOEXIST c zero_stat m"
  have "fst ?u k = m k"
    using hash_update_stored [OF assms(1), of BPF_NOEXIST c zero_stat m]
      hash_update_refused [OF assms(1), of BPF_NOEXIST c zero_stat m] assms(2)
    by (cases "snd ?u = 0") auto
  then show ?thesis
    using assms(2) by (auto simp: sm_bump_def Let_def split: option.split)
qed

section \<open>Interface: a statistics field\<close>

text \<open>
  A field of the statistics record that each kind of event raises by a fixed
  amount.  Over a run it grows by the amounts of the charged events.
\<close>

locale stat_field =
  fixes fld :: "cg_stat_val \<Rightarrow> u64" and amount :: "sm_tp \<Rightarrow> u64"
  assumes fld_effect: "fld (sm_effect e v) = fld v + amount e"
begin

lemma field_step:
  assumes "hash_update_ok (sm_stat_upd (fst i))" and "accepts (sm_stat_upd (fst i))"
  shows "fld (stat_of (cg_stats (sm_step i s)) k) = fld (stat_of (cg_stats s) k) +
    (if sm_charges i s \<and> t_cgid (fst (snd i)) = k then amount (snd (snd i)) else 0)"
  by (simp add: sm_step_eq stat_of_bump [OF assms] fld_effect)

lemma field_run:
  assumes "\<forall>i \<in> set is. hash_update_ok (sm_stat_upd (fst i)) \<and> accepts (sm_stat_upd (fst i))"
  shows "fld (stat_of (cg_stats (run sm_step is s)) k) = fld (stat_of (cg_stats s) k) +
    sum_list (map (\<lambda>i. amount (snd (snd i))) (filter (\<lambda>i. sm_charges i s \<and> t_cgid (fst (snd i)) = k) is))"
  using assms by (induction "is" arbitrary: s) (auto simp: field_step add.assoc simp del: sm_step.simps)

end

fun slice :: "sm_tp \<Rightarrow> u64" where
  "slice (Sm_runtime ctx) = sr_runtime ctx"
| "slice _ = 0"

definition is_tp :: "evt_type \<Rightarrow> sm_tp \<Rightarrow> bool" where
  "is_tp ty e \<longleftrightarrow> fst (sm_payload e) = ty"

definition one_if :: "evt_type \<Rightarrow> sm_tp \<Rightarrow> u64" where
  "one_if ty e = (if is_tp ty e then 1 else 0)"

interpretation st_runtime: stat_field runtime_ns slice
  by unfold_locales (case_tac e; simp)

interpretation st_max: stat_field max_runtime_ns "\<lambda>_. 0"
  by unfold_locales (case_tac e; simp)

interpretation st_switch: stat_field ctx_switches "one_if EVT_SWITCH"
  by unfold_locales (case_tac e; simp add: one_if_def is_tp_def)

interpretation st_wakeup: stat_field wakeups "one_if EVT_WAKEUP"
  by unfold_locales (case_tac e; simp add: one_if_def is_tp_def)

interpretation st_migrate: stat_field migrations "one_if EVT_MIGRATE"
  by unfold_locales (case_tac e; simp add: one_if_def is_tp_def)

section \<open>Properties\<close>

definition sm_kernel_ok :: "sm_call list \<Rightarrow> bool" where
  "sm_kernel_ok is \<longleftrightarrow>
     (\<forall>i \<in> set is. hash_update_ok (sm_stat_upd (fst i)) \<and> accepts (sm_stat_upd (fst i)))"

text \<open>The charged events of a cgroup.\<close>

definition sm_charged :: "u64 \<Rightarrow> sm_call list \<Rightarrow> sm_state \<Rightarrow> sm_call list" where
  "sm_charged k is s = filter (\<lambda>i. sm_charges i s \<and> t_cgid (fst (snd i)) = k) is"

definition sm_count :: "evt_type \<Rightarrow> u64 \<Rightarrow> sm_call list \<Rightarrow> sm_state \<Rightarrow> u64" where
  "sm_count ty k is s = of_nat (length (filter (\<lambda>i. is_tp ty (snd (snd i))) (sm_charged k is s)))"

lemma sum_one_if:
  "sum_list (map (\<lambda>i. one_if ty (snd (snd i))) xs) =
     of_nat (length (filter (\<lambda>i. is_tp ty (snd (snd i))) xs))"
  by (induction xs) (auto simp: one_if_def)

lemma sm_events_append:
  "events_rb (run sm_step is s) = events_rb s @ map sm_event (filter (\<lambda>i. sm_submits i s) is)"
  by (induction "is" arbitrary: s) auto

text \<open>
  C11: the ring buffer receives exactly the events that pass the filter and the
  threshold and get a slot, in order, each one completely written: no submitted
  field comes from the uninitialised memory that \<open>bpf_ringbuf_reserve\<close> hands out.
\<close>

theorem sm_events_exact:
  "events_rb (run sm_step is s) = events_rb s @ map sm_event (filter (\<lambda>i. sm_submits i s) is)"
  by (rule sm_events_append)

text \<open>
  C12: with the filter on, a cgroup that user space did not allow leaves no trace:
  over any run no event of it reaches the ring buffer and its statistics entry is
  not created or changed.
\<close>

theorem sm_filter_safe:
  assumes "filter_enabled (sm_ro s) \<noteq> 0" and "k \<notin> dom (allowed_cgroups s)"
    and "\<forall>i \<in> set is. hash_update_ok (sm_stat_upd (fst i))"
  shows "cg_stats (run sm_step is s) k = cg_stats s k \<and>
    (\<forall>e \<in> set (drop (length (events_rb s)) (events_rb (run sm_step is s))). e_cgroup_id e \<noteq> k)"
proof
  have deny: "\<not> sm_passes i s" if "t_cgid (fst (snd i)) = k" for i
    using that assms(1,2) by (auto simp: sm_passes_def allow_cgroup_def domIff)
  show "cg_stats (run sm_step is s) k = cg_stats s k"
    using assms
  proof (induction "is" arbitrary: s)
    case (Cons i "is")
    have "cg_stats (sm_step i s) k = cg_stats s k"
    proof (cases "t_cgid (fst (snd i)) = k")
      case True
      then have "\<not> sm_charges i s"
        using Cons.prems(1,2) by (auto simp: sm_charges_def sm_passes_def allow_cgroup_def domIff)
      then show ?thesis by (simp add: sm_step_eq)
    next
      case False
      then show ?thesis
        using Cons.prems(3) by (simp add: sm_step_eq sm_bump_other)
    qed
    then show ?case using Cons by simp
  qed simp
  show "\<forall>e \<in> set (drop (length (events_rb s)) (events_rb (run sm_step is s))). e_cgroup_id e \<noteq> k"
    using deny by (auto simp: sm_events_append sm_submits_def sm_event_def Let_def split: prod.split)
qed

text \<open>
  The statistics of a cgroup over any run.  Context switches, wakeups and
  migrations grow by the number of charged events of their kind, the run time by
  the sum of the charged slices; the maximal slice \<open>max_runtime_ns\<close> is never
  changed, so it stays 0 although user space prints it.
\<close>

lemma sm_stats_exact:
  assumes "sm_kernel_ok is" and "v = stat_of (cg_stats s) k" and "v' = stat_of (cg_stats (run sm_step is s)) k"
  shows "ctx_switches v' = ctx_switches v + sm_count EVT_SWITCH k is s \<and>
    wakeups v' = wakeups v + sm_count EVT_WAKEUP k is s \<and>
    migrations v' = migrations v + sm_count EVT_MIGRATE k is s \<and>
    runtime_ns v' = runtime_ns v + sum_list (map (\<lambda>i. slice (snd (snd i))) (sm_charged k is s)) \<and>
    max_runtime_ns v' = max_runtime_ns v"
proof -
  note ok = assms(1) [unfolded sm_kernel_ok_def]
  show ?thesis
    by (simp add: assms(2,3) sm_count_def sm_charged_def sum_one_if
        st_switch.field_run [OF ok] st_wakeup.field_run [OF ok] st_migrate.field_run [OF ok]
        st_runtime.field_run [OF ok] st_max.field_run [OF ok])
qed

text \<open>The events of a kind and cgroup in the ring buffer.\<close>

definition sm_seen :: "evt_type \<Rightarrow> u64 \<Rightarrow> evt list \<Rightarrow> evt list" where
  "sm_seen ty k es = filter (\<lambda>e. e_type e = evt_code ty \<and> e_cgroup_id e = k) es"

lemma evt_code_inj [simp]: "evt_code x = evt_code y \<longleftrightarrow> x = y"
  by (cases x; cases y; simp)

lemma sm_event_view [simp]:
  "e_type (sm_event i) = evt_code ty \<longleftrightarrow> is_tp ty (snd (snd i))"
  "e_cgroup_id (sm_event i) = t_cgid (fst (snd i))"
  "e_aux2 (sm_event i) = slice (snd (snd i))"
proof -
  obtain K t e where i: "i = (K, t, e)"
    by (cases i)
  have "e_type (sm_event i) = evt_code (fst (sm_payload e))"
    by (simp add: i sm_event_def Let_def split: prod.split)
  then show "e_type (sm_event i) = evt_code ty \<longleftrightarrow> is_tp ty (snd (snd i))"
    by (simp add: i is_tp_def)
  show "e_cgroup_id (sm_event i) = t_cgid (fst (snd i))"
    by (simp add: sm_event_def Let_def split: prod.split)
  show "e_aux2 (sm_event i) = slice (snd (snd i))"
    by (cases e) (simp_all add: i sm_event_def Let_def)
qed

lemma sm_seen_map:
  "sm_seen ty k (map sm_event xs) = map sm_event (filter (\<lambda>i. is_tp ty (snd (snd i)) \<and> t_cgid (fst (snd i)) = k) xs)"
  by (simp add: sm_seen_def filter_map comp_def)

lemma sm_charges_submits:
  "is_tp ty (snd (snd i)) \<Longrightarrow> ty \<noteq> EVT_RUNTIME \<Longrightarrow> sm_charges i s = sm_submits i s"
  by (cases "snd (snd i)") (auto simp: sm_charges_def sm_submits_def is_tp_def)

text \<open>
  C13: counters and events agree.  Over any run the counter of context switches,
  wakeups or migrations of a cgroup grows by exactly the number of such events of
  that cgroup that the consumer of the ring buffer receives (a full buffer loses
  both together); the run time grows by the sum of the received slices plus the
  slices whose event found the buffer full.
\<close>

theorem sm_stats_match_events:
  assumes "sm_kernel_ok is" and "v = stat_of (cg_stats s) k" and "v' = stat_of (cg_stats (run sm_step is s)) k"
    and "new = drop (length (events_rb s)) (events_rb (run sm_step is s))"
  shows "ctx_switches v' = ctx_switches v + of_nat (length (sm_seen EVT_SWITCH k new)) \<and>
    wakeups v' = wakeups v + of_nat (length (sm_seen EVT_WAKEUP k new)) \<and>
    migrations v' = migrations v + of_nat (length (sm_seen EVT_MIGRATE k new)) \<and>
    runtime_ns v' = runtime_ns v + sum_list (map e_aux2 (sm_seen EVT_RUNTIME k new)) +
      sum_list (map (\<lambda>i. slice (snd (snd i)))
        (filter (\<lambda>i. sm_reserve (fst i) = None) (sm_charged k is s)))"
proof -
  note ok = assms(1) [unfolded sm_kernel_ok_def]
  have new: "new = map sm_event (filter (\<lambda>i. sm_submits i s) is)"
    by (simp add: assms(4) sm_events_append)
  have cnt: "sm_count ty k is s = of_nat (length (sm_seen ty k new))" if "ty \<noteq> EVT_RUNTIME" for ty
  proof -
    have "filter (\<lambda>i. is_tp ty (snd (snd i))) (sm_charged k is s) =
        filter (\<lambda>i. is_tp ty (snd (snd i)) \<and> t_cgid (fst (snd i)) = k) (filter (\<lambda>i. sm_submits i s) is)"
      unfolding sm_charged_def filter_filter
      by (rule filter_cong) (auto simp: sm_charges_submits [OF _ that])
    then show ?thesis by (simp add: sm_count_def new sm_seen_map)
  qed
  have sl: "is_tp EVT_RUNTIME e \<or> slice e = 0" for e
    by (cases e) (auto simp: is_tp_def)
  have sub: "is_tp EVT_RUNTIME (snd (snd i)) \<Longrightarrow>
      sm_submits i s \<longleftrightarrow> sm_charges i s \<and> sm_reserve (fst i) \<noteq> None" for i
    by (cases "snd (snd i)") (auto simp: sm_charges_def sm_submits_def is_tp_def)
  have runtime: "sum_list (map (\<lambda>i. slice (snd (snd i))) (sm_charged k xs s)) =
      sum_list (map (\<lambda>i. slice (snd (snd i)))
        (filter (\<lambda>i. is_tp EVT_RUNTIME (snd (snd i)) \<and> t_cgid (fst (snd i)) = k) (filter (\<lambda>i. sm_submits i s) xs))) +
      sum_list (map (\<lambda>i. slice (snd (snd i))) (filter (\<lambda>i. sm_reserve (fst i) = None) (sm_charged k xs s)))" for xs
  proof (induction xs)
    case (Cons i xs)
    then show ?case
      using sl [of "snd (snd i)"] sub [of i] by (auto simp: sm_charged_def add_ac)
  qed (simp add: sm_charged_def)
  show ?thesis
    by (simp add: assms(2,3) st_switch.field_run [OF ok] st_wakeup.field_run [OF ok]
        st_migrate.field_run [OF ok] st_runtime.field_run [OF ok] sum_one_if
        sm_charged_def [symmetric] sm_count_def [symmetric] cnt runtime new sm_seen_map comp_def add.assoc)
qed

section \<open>Witnesses\<close>

definition demo_evt :: evt where
  "demo_evt = \<lparr>e_ts = 99, e_cpu = 99, e_type = 99, e_pid = 99, e_tgid = 99, e_cgroup_id = 99,
     e_aux0 = 99, e_aux1 = 99, e_aux2 = 99, e_comm = replicate 16 99\<rparr>"

definition demo_sm :: sm_state where
  "demo_sm = \<lparr>sm_ro = \<lparr>runtime_event_threshold_ns = DEFAULT_RUNTIME_THRESHOLD_NS, filter_enabled = 1\<rparr>,
     allowed_cgroups = Map.empty(9 \<mapsto> 1), cg_stats = Map.empty, events_rb = []\<rparr>"

definition demo_sm_call :: "u64 \<Rightarrow> sm_tp \<Rightarrow> sm_call" where
  "demo_sm_call g e = (\<lparr>sm_stat_upd = roomy_upd, sm_reserve = Some demo_evt\<rparr>,
     \<lparr>t_cgid = g, t_ancestor = (\<lambda>_. 0), t_pid_tgid = 0x500000006, t_ktime = 1000, t_cpu = 2,
      t_comm = replicate 16 0\<rparr>, e)"

definition demo_sm_run :: "sm_call list" where
  "demo_sm_run =
     [demo_sm_call 9 (Sm_runtime \<lparr>sr_pid = 6, sr_runtime = 7000000\<rparr>),
      demo_sm_call 4 (Sm_wakeup \<lparr>wk_pid = 6, wk_prio = 0, wk_target_cpu = 0\<rparr>),
      demo_sm_call 9 (Sm_migrate \<lparr>mg_pid = 6, mg_prio = 0, mg_orig_cpu = 1, mg_dest_cpu = 2\<rparr>)]"

lemmas demo_sm_defs = demo_sm_def demo_sm_call_def demo_sm_run_def DEFAULT_RUNTIME_THRESHOLD_NS_def
  sm_view_defs allow_cgroup_def sm_charged_def sm_seen_def is_tp_def Let_def

lemma demo_sm_ok: "sm_kernel_ok demo_sm_run"
  by (simp add: sm_kernel_ok_def demo_sm_run_def demo_sm_call_def)

theorem sm_filter_safe_witness:
  "cg_stats (run sm_step demo_sm_run demo_sm) 4 = None"
  using sm_filter_safe [of demo_sm 4 demo_sm_run] demo_sm_ok
  by (simp add: sm_kernel_ok_def demo_sm_def)


theorem sm_stats_match_events_witness:
  "runtime_ns (stat_of (cg_stats (run sm_step demo_sm_run demo_sm)) 9) = 7000000 \<and>
   wakeups (stat_of (cg_stats (run sm_step demo_sm_run demo_sm)) 4) = 0"
  using sm_stats_match_events [OF demo_sm_ok refl refl refl, of demo_sm 9]
    sm_stats_match_events [OF demo_sm_ok refl refl refl, of demo_sm 4]
  by (simp add: sm_events_append demo_sm_defs stat_of_def zero_stat_def del: sm_step.simps)

end
