(* ===== verification/Sched_Monitor_Race.thy ===== *)
theory Sched_Monitor_Race
  imports Sched_Monitor
begin

text \<open>
  \<open>cgstats_add_runtime\<close> and \<open>cgstats_inc\<close> run on several CPUs at once on one
  shared map (unlike the per-CPU maps of the other modules).  Here each routine is
  split into its four accesses to the map, and those of any number of routines
  interleave in any order.  The map is never shrunk, so a looked-up element stays
  valid, and \<open>__sync_fetch_and_add\<close> is one indivisible access.
\<close>

section \<open>The interleaving\<close>

text \<open>Where a routine stands: before its first lookup, before the insertion, before
  the second lookup, before the addition, done, or given up.\<close>

datatype pc = At_lookup | At_insert | At_relookup | At_add | Finished | Gave_up

record race_state =
  r_stats :: "(u64, cg_stat_val) bmap"
  r_pc :: "nat \<Rightarrow> pc"

text \<open>A job is the cgroup and the event a routine was called for.\<close>

type_synonym job = "u64 \<times> sm_tp"

inductive race_step :: "sm_kernel \<Rightarrow> job list \<Rightarrow> race_state \<Rightarrow> race_state \<Rightarrow> bool"
  for K :: sm_kernel and js :: "job list" where
  lookup_hit: "race_step K js s (s\<lparr>r_pc := (r_pc s)(i := At_add)\<rparr>)"
    if "i < length js" and "r_pc s i = At_lookup" and "r_stats s (fst (js ! i)) = Some v"
| lookup_miss: "race_step K js s (s\<lparr>r_pc := (r_pc s)(i := At_insert)\<rparr>)"
    if "i < length js" and "r_pc s i = At_lookup" and "r_stats s (fst (js ! i)) = None"
| insert: "race_step K js s
      (s\<lparr>r_stats := fst (sm_stat_upd K BPF_NOEXIST (fst (js ! i)) zero_stat (r_stats s)),
         r_pc := (r_pc s)(i := At_relookup)\<rparr>)"
    if "i < length js" and "r_pc s i = At_insert"
| relookup_hit: "race_step K js s (s\<lparr>r_pc := (r_pc s)(i := At_add)\<rparr>)"
    if "i < length js" and "r_pc s i = At_relookup" and "r_stats s (fst (js ! i)) = Some v"
| relookup_miss: "race_step K js s (s\<lparr>r_pc := (r_pc s)(i := Gave_up)\<rparr>)"
    if "i < length js" and "r_pc s i = At_relookup" and "r_stats s (fst (js ! i)) = None"
| fetch_and_add: "race_step K js s
      (s\<lparr>r_stats := (r_stats s)(fst (js ! i) \<mapsto> sm_effect (snd (js ! i)) v),
         r_pc := (r_pc s)(i := Finished)\<rparr>)"
    if "i < length js" and "r_pc s i = At_add" and "r_stats s (fst (js ! i)) = Some v"

definition race_init :: "(u64, cg_stat_val) bmap \<Rightarrow> race_state" where
  "race_init m = \<lparr>r_stats = m, r_pc = (\<lambda>_. At_lookup)\<rparr>"

definition race_over :: "job list \<Rightarrow> race_state \<Rightarrow> bool" where
  "race_over js s \<longleftrightarrow> (\<forall>i < length js. r_pc s i \<in> {Finished, Gave_up})"

text \<open>The same jobs one after the other.\<close>

definition one_by_one :: "sm_kernel \<Rightarrow> job list \<Rightarrow> (u64, cg_stat_val) bmap \<Rightarrow> (u64, cg_stat_val) bmap" where
  "one_by_one K js m = fold (\<lambda>(c, e). sm_bump K c (sm_effect e)) js m"

section \<open>Invariants\<close>

definition race_inv :: "job list \<Rightarrow> race_state \<Rightarrow> bool" where
  "race_inv js s \<longleftrightarrow> (\<forall>i < length js. r_pc s i \<noteq> Gave_up \<and>
     (r_pc s i \<in> {At_relookup, At_add} \<longrightarrow> r_stats s (fst (js ! i)) \<noteq> None))"

text \<open>What the finished routines for a cgroup have added to a field.\<close>

definition added :: "(sm_tp \<Rightarrow> u64) \<Rightarrow> job list \<Rightarrow> (nat \<Rightarrow> pc) \<Rightarrow> u64 \<Rightarrow> u64" where
  "added amount js pcs k =
     (\<Sum>i<length js. if pcs i = Finished \<and> fst (js ! i) = k then amount (snd (js ! i)) else 0)"

lemma noexist_cases:
  assumes "hash_update_ok upd"
  shows "fst (upd BPF_NOEXIST c z m) = m \<or> m c = None \<and> fst (upd BPF_NOEXIST c z m) = m(c \<mapsto> z)"
  using hash_update_stored [OF assms, of BPF_NOEXIST c z m] hash_update_refused [OF assms, of BPF_NOEXIST c z m]
    hash_update_present [OF assms, of m c _ z]
  by (cases "snd (upd BPF_NOEXIST c z m) = 0"; cases "m c") auto

lemma stat_of_noexist:
  assumes "hash_update_ok upd"
  shows "stat_of (fst (upd BPF_NOEXIST c zero_stat m)) k = stat_of m k"
  using noexist_cases [OF assms, of c zero_stat m] by (auto simp: stat_of_def)

lemma noexist_dom:
  assumes "hash_update_ok upd"
  shows "dom m \<subseteq> dom (fst (upd BPF_NOEXIST c z m))"
  using noexist_cases [OF assms, of c z m] by auto

lemma noexist_present:
  assumes "hash_update_ok upd" and "accepts upd"
  shows "fst (upd BPF_NOEXIST c z m) c \<noteq> None"
  using hash_update_accepted [OF assms, of m c z] hash_update_present [OF assms(1), of m c _ z]
  by (cases "m c") auto

lemma race_inv_step:
  assumes "race_step K js s s'" and "hash_update_ok (sm_stat_upd K)" and "accepts (sm_stat_upd K)"
    and "race_inv js s"
  shows "race_inv js s'"
  using assms
proof (cases rule: race_step.cases)
  case (insert i)
  have "r_stats s k \<noteq> None \<Longrightarrow> r_stats s' k \<noteq> None" for k
    using insert noexist_dom [OF assms(2), of "r_stats s" "fst (js ! i)" zero_stat] by auto
  then show ?thesis
    using insert assms(4) noexist_present [OF assms(2,3), of "fst (js ! i)" zero_stat "r_stats s"]
    by (auto simp: race_inv_def)
qed (auto simp: race_inv_def)

lemma added_other: "p \<noteq> Finished \<Longrightarrow> pcs i \<noteq> Finished \<Longrightarrow> added amount js (pcs(i := p)) k = added amount js pcs k"
  by (auto simp: added_def intro: sum.cong)

lemma added_finish:
  assumes "i < length js" and "pcs i \<noteq> Finished"
  shows "added amount js (pcs(i := Finished)) k =
    added amount js pcs k + (if fst (js ! i) = k then amount (snd (js ! i)) else 0)"
proof -
  let ?f = "\<lambda>p j. if p j = Finished \<and> fst (js ! j) = k then amount (snd (js ! j)) else 0"
  have "added amount js (pcs(i := Finished)) k = ?f (pcs(i := Finished)) i + (\<Sum>j\<in>{..<length js} - {i}. ?f (pcs(i := Finished)) j)"
    unfolding added_def using assms(1) by (subst sum.remove [of _ i]) auto
  also have "(\<Sum>j\<in>{..<length js} - {i}. ?f (pcs(i := Finished)) j) = (\<Sum>j\<in>{..<length js} - {i}. ?f pcs j)"
    by (rule sum.cong) auto
  also have "\<dots> = added amount js pcs k"
    unfolding added_def using assms by (subst sum.remove [of "{..<length js}" i]) auto
  finally show ?thesis by (simp add: add.commute fun_upd_def)
qed

context stat_field
begin

lemma race_field_step:
  assumes "race_step K js s s'" and "hash_update_ok (sm_stat_upd K)"
    and "fld (stat_of (r_stats s) k) = b + added amount js (r_pc s) k"
  shows "fld (stat_of (r_stats s') k) = b + added amount js (r_pc s') k"
  using assms(1)
proof (cases rule: race_step.cases)
  case (fetch_and_add i v)
  have "stat_of (r_stats s) (fst (js ! i)) = v"
    using fetch_and_add by (simp add: stat_of_def)
  moreover have "stat_of (r_stats s') k = (if k = fst (js ! i) then sm_effect (snd (js ! i)) v else stat_of (r_stats s) k)"
    using fetch_and_add by (simp add: stat_of_def)
  ultimately show ?thesis
    using assms(3) fetch_and_add by (auto simp: added_finish fld_effect add.assoc)
qed (use assms(2,3) in \<open>auto simp: added_other stat_of_noexist\<close>)

lemma race_field_run:
  assumes "(race_step K js)\<^sup>*\<^sup>* (race_init m) s" and "hash_update_ok (sm_stat_upd K)"
  shows "fld (stat_of (r_stats s) k) = fld (stat_of m k) + added amount js (r_pc s) k"
  using assms(1)
proof (induction rule: rtranclp_induct)
  case base
  then show ?case by (simp add: race_init_def added_def)
next
  case (step s s')
  then show ?case using race_field_step [OF _ assms(2)] by blast
qed

lemma one_by_one_field:
  assumes "hash_update_ok (sm_stat_upd K)" and "accepts (sm_stat_upd K)"
  shows "fld (stat_of (one_by_one K js m) k) = fld (stat_of m k) + added amount js (\<lambda>_. Finished) k"
proof (induction js arbitrary: m)
  case Nil
  then show ?case by (simp add: one_by_one_def added_def)
next
  case (Cons j js)
  have "added amount (j # js) (\<lambda>_. Finished) k =
      (if fst j = k then amount (snd j) else 0) + added amount js (\<lambda>_. Finished) k"
    by (simp add: added_def sum.lessThan_Suc_shift del: sum.lessThan_Suc cong: if_cong)
  moreover have "one_by_one K (j # js) m = one_by_one K js (sm_bump K (fst j) (sm_effect (snd j)) m)"
    by (simp add: one_by_one_def case_prod_beta)
  ultimately show ?case
    using Cons by (simp add: stat_of_bump [OF assms] fld_effect add_ac)
qed

end

section \<open>Properties\<close>

lemma race_inv_run:
  assumes "(race_step K js)\<^sup>*\<^sup>* (race_init m) s" and "hash_update_ok (sm_stat_upd K)"
    and "accepts (sm_stat_upd K)"
  shows "race_inv js s"
  using assms(1)
proof (induction rule: rtranclp_induct)
  case base
  then show ?case by (simp add: race_inv_def race_init_def)
next
  case (step s s')
  then show ?case using race_inv_step [OF _ assms(2,3)] by blast
qed

lemma added_over:
  "race_over js s \<Longrightarrow> race_inv js s \<Longrightarrow> added amount js (r_pc s) k = added amount js (\<lambda>_. Finished) k"
  by (auto simp: added_def race_over_def race_inv_def intro!: sum.cong)

text \<open>
  C14: concurrent updates of the shared statistics lose nothing.  However the
  accesses of any number of routines interleave, including several that create
  the same entry at once, when all have ended every cgroup's statistics are the
  ones the routines would have left running one after the other, and no routine
  gave up, provided the map has room.
\<close>

theorem race_no_lost_update:
  assumes "(race_step K js)\<^sup>*\<^sup>* (race_init m) s" and "race_over js s"
    and "hash_update_ok (sm_stat_upd K)" and "accepts (sm_stat_upd K)"
  shows "stat_of (r_stats s) k = stat_of (one_by_one K js m) k \<and> (\<forall>i < length js. r_pc s i = Finished)"
proof
  note inv = race_inv_run [OF assms(1,3,4)]
  note over = added_over [OF assms(2) inv]
  show "stat_of (r_stats s) k = stat_of (one_by_one K js m) k"
    by (rule cg_stat_val.equality)
      (simp_all add: over st_runtime.race_field_run [OF assms(1,3)] st_runtime.one_by_one_field [OF assms(3,4)]
        st_max.race_field_run [OF assms(1,3)] st_max.one_by_one_field [OF assms(3,4)]
        st_switch.race_field_run [OF assms(1,3)] st_switch.one_by_one_field [OF assms(3,4)]
        st_wakeup.race_field_run [OF assms(1,3)] st_wakeup.one_by_one_field [OF assms(3,4)]
        st_migrate.race_field_run [OF assms(1,3)] st_migrate.one_by_one_field [OF assms(3,4)])
  show "\<forall>i < length js. r_pc s i = Finished"
    using inv assms(2) by (auto simp: race_inv_def race_over_def)
qed

fun pc_left :: "pc \<Rightarrow> nat" where
  "pc_left At_lookup = 4"
| "pc_left At_insert = 3"
| "pc_left At_relookup = 2"
| "pc_left At_add = 1"
| "pc_left Finished = 0"
| "pc_left Gave_up = 0"

definition race_left :: "job list \<Rightarrow> race_state \<Rightarrow> nat" where
  "race_left js s = (\<Sum>i<length js. pc_left (r_pc s i))"

lemma race_left_upd:
  assumes "i < length js" and "pc_left p < pc_left (r_pc s i)" and "r_pc s' = (r_pc s)(i := p)"
  shows "race_left js s' < race_left js s"
  unfolding race_left_def
  by (rule sum_strict_mono_ex1) (use assms in auto)

text \<open>
  The routines always end.  Every access brings a routine nearer to its end,
  so at most four accesses per routine happen in any order; and as long as some
  routine has not ended, one of them can take its next access.
\<close>

lemma race_ends:
  assumes "hash_update_ok (sm_stat_upd K)" and "accepts (sm_stat_upd K)"
    and "(race_step K js)\<^sup>*\<^sup>* (race_init m) s"
  shows "(\<forall>s'. race_step K js s s' \<longrightarrow> race_left js s' < race_left js s) \<and>
    (race_over js s \<or> (\<exists>s'. race_step K js s s'))"
proof (intro conjI allI impI)
  fix s'
  assume "race_step K js s s'"
  then show "race_left js s' < race_left js s"
  proof (cases rule: race_step.cases)
    case (lookup_hit i v)
    then show ?thesis using race_left_upd [of i js At_add s s'] by simp
  next
    case (lookup_miss i)
    then show ?thesis using race_left_upd [of i js At_insert s s'] by simp
  next
    case (insert i)
    then show ?thesis using race_left_upd [of i js At_relookup s s'] by simp
  next
    case (relookup_hit i v)
    then show ?thesis using race_left_upd [of i js At_add s s'] by simp
  next
    case (relookup_miss i)
    then show ?thesis using race_left_upd [of i js Gave_up s s'] by simp
  next
    case (fetch_and_add i v)
    then show ?thesis using race_left_upd [of i js Finished s s'] by simp
  qed
next
  show "race_over js s \<or> (\<exists>s'. race_step K js s s')"
  proof (cases "race_over js s")
    case False
    then obtain i where i: "i < length js" "r_pc s i \<notin> {Finished, Gave_up}"
      by (auto simp: race_over_def)
    have "r_pc s i = At_add \<Longrightarrow> r_stats s (fst (js ! i)) \<noteq> None"
      using race_inv_run [OF assms(3,1,2)] i(1) by (auto simp: race_inv_def)
    then show ?thesis
      using i race_step.intros [where i = i and js = js and s = s and K = K]
      by (cases "r_pc s i"; cases "r_stats s (fst (js ! i))") blast+
  qed simp
qed

section \<open>Witnesses\<close>

text \<open>Two routines on two CPUs both find the entry of cgroup 9 missing and both insert it.\<close>

definition demo_race_kernel :: sm_kernel where
  "demo_race_kernel = \<lparr>sm_stat_upd = roomy_upd, sm_reserve = None\<rparr>"

definition demo_jobs :: "job list" where
  "demo_jobs = [(9, Sm_runtime \<lparr>sr_pid = 6, sr_runtime = 30\<rparr>), (9, Sm_runtime \<lparr>sr_pid = 7, sr_runtime = 12\<rparr>)]"

definition two_pcs :: "pc \<Rightarrow> pc \<Rightarrow> nat \<Rightarrow> pc" where
  "two_pcs p q i = (if i = 0 then p else if i = 1 then q else At_lookup)"

lemma two_pcs [simp]:
  "two_pcs p q 0 = p" "two_pcs p q (Suc 0) = q"
  "(two_pcs p q)(0 := p') = two_pcs p' q" "(two_pcs p q)(Suc 0 := q') = two_pcs p q'"
  by (auto simp: two_pcs_def fun_eq_iff)

definition demo_schedule :: "race_state" where
  "demo_schedule = \<lparr>r_stats = Map.empty(9 \<mapsto> zero_stat\<lparr>runtime_ns := 42\<rparr>), r_pc = two_pcs Finished Finished\<rparr>"

lemma demo_race_run: "(race_step demo_race_kernel demo_jobs)\<^sup>*\<^sup>* (race_init Map.empty) demo_schedule"
proof -
  let ?S = "\<lambda>m p q. \<lparr>r_stats = m, r_pc = two_pcs p q\<rparr> :: race_state"
  let ?R = "race_step demo_race_kernel demo_jobs"
  let ?z = "Map.empty(9 \<mapsto> zero_stat)" and ?x = "Map.empty(9 \<mapsto> zero_stat\<lparr>runtime_ns := 30\<rparr>)"
  note step = race_step.intros [where K = demo_race_kernel and js = demo_jobs]
  note defs = demo_jobs_def demo_race_kernel_def zero_stat_def demo_schedule_def
  have "race_init Map.empty = ?S Map.empty At_lookup At_lookup"
    by (simp add: race_init_def two_pcs_def fun_eq_iff)
  also have "?R\<^sup>*\<^sup>* \<dots> (?S Map.empty At_insert At_lookup)"
    using step(2) [of 0 "?S Map.empty At_lookup At_lookup"] by (intro r_into_rtranclp) (simp add: defs)
  also have "?R\<^sup>*\<^sup>* \<dots> (?S Map.empty At_insert At_insert)"
    using step(2) [of 1 "?S Map.empty At_insert At_lookup"] by (intro r_into_rtranclp) (simp add: defs)
  also have "?R\<^sup>*\<^sup>* \<dots> (?S ?z At_relookup At_insert)"
    using step(3) [of 0 "?S Map.empty At_insert At_insert"] by (intro r_into_rtranclp) (simp add: defs)
  also have "?R\<^sup>*\<^sup>* \<dots> (?S ?z At_relookup At_relookup)"
    using step(3) [of 1 "?S ?z At_relookup At_insert"] by (intro r_into_rtranclp) (simp add: defs)
  also have "?R\<^sup>*\<^sup>* \<dots> (?S ?z At_add At_relookup)"
    using step(4) [of 0 "?S ?z At_relookup At_relookup"] by (intro r_into_rtranclp) (simp add: defs)
  also have "?R\<^sup>*\<^sup>* \<dots> (?S ?z At_add At_add)"
    using step(4) [of 1 "?S ?z At_add At_relookup"] by (intro r_into_rtranclp) (simp add: defs)
  also have "?R\<^sup>*\<^sup>* \<dots> (?S ?x Finished At_add)"
    using step(6) [of 0 "?S ?z At_add At_add"] by (intro r_into_rtranclp) (simp add: defs)
  also have "?R\<^sup>*\<^sup>* \<dots> demo_schedule"
    using step(6) [of 1 "?S ?x Finished At_add"] by (intro r_into_rtranclp) (simp add: defs)
  finally show ?thesis .
qed

lemma demo_race_kernel_ok:
  "hash_update_ok (sm_stat_upd demo_race_kernel)" "accepts (sm_stat_upd demo_race_kernel)"
  by (simp_all add: demo_race_kernel_def)

lemma demo_schedule_stat: "runtime_ns (stat_of (r_stats demo_schedule) 9) = 42"
  by (simp add: stat_of_def demo_schedule_def)

theorem race_no_lost_update_witness:
  "runtime_ns (stat_of (one_by_one demo_race_kernel demo_jobs Map.empty) 9) = 42"
proof -
  have over: "race_over demo_jobs demo_schedule"
    by (simp add: race_over_def demo_jobs_def demo_schedule_def less_Suc_eq)
  have "stat_of (r_stats demo_schedule) 9 = stat_of (one_by_one demo_race_kernel demo_jobs Map.empty) 9"
    using race_no_lost_update [OF demo_race_run over demo_race_kernel_ok] by blast
  then show ?thesis
    by (metis demo_schedule_stat)
qed


end
