(* ===== verification/Sched_Monitor_User.thy ===== *)
theory Sched_Monitor_User
  imports Sched_Monitor
begin

text \<open>
  \<open>eBPF/main.c\<close>: the user-space side of the scheduler monitor.  It allows the
  cgroups of a directory tree, loads and attaches the programs, prints the events
  and, every two seconds, the statistics.  The file system, the map system calls,
  libbpf and the clock are parameters.
\<close>

section \<open>Printing\<close>

definition target_cgroup_root :: string where
  "target_cgroup_root = ''/sys/fs/cgroup/gocker''"

definition runtime_threshold_ns :: u64 where
  "runtime_threshold_ns = DEFAULT_RUNTIME_THRESHOLD_NS"

definition evt_name :: "u32 \<Rightarrow> string" where
  "evt_name t = (if t = 1 then ''SWITCH'' else if t = 2 then ''WAKEUP'' else if t = 3 then ''RUNTIME''
     else if t = 4 then ''MIGRATE'' else ''?'')"

text \<open>The values of a printed line, in the order and signedness of its format string.\<close>

datatype line =
    Event_line nat nat string nat nat nat int int nat "u8 list"
  | Stats_header nat
  | Stats_line nat nat nat nat nat nat

text \<open>\<open>%s\<close> prints up to the first NUL byte.\<close>

definition c_string :: "u8 list \<Rightarrow> u8 list" where
  "c_string bs = takeWhile (\<lambda>b. b \<noteq> 0) bs"

definition handle_event :: "evt \<Rightarrow> line \<times> int" where
  "handle_event e =
     (Event_line (unat (e_ts e)) (unat (e_cpu e)) (evt_name (e_type e)) (unat (e_pid e)) (unat (e_tgid e))
        (unat (e_cgroup_id e)) (sint (e_aux0 e)) (sint (e_aux1 e)) (unat (e_aux2 e)) (c_string (e_comm e)), 0)"

definition stats_line :: "u64 \<Rightarrow> cg_stat_val \<Rightarrow> line" where
  "stats_line key v = Stats_line (unat key) (unat (runtime_ns v)) (unat (max_runtime_ns v))
     (unat (ctx_switches v)) (unat (wakeups v)) (unat (migrations v))"

text \<open>
  \<open>next\<close> is \<open>bpf_map_get_next_key\<close> and \<open>lookup\<close> is \<open>bpf_map_lookup_elem\<close>; \<open>None\<close> is a
  nonzero return value.  Whether the loop ends depends on \<open>next\<close>, so its value is
  an option and \<open>None\<close> means it does not.
\<close>

partial_function (option) dump_loop ::
  "(u64 option \<Rightarrow> u64 option) \<Rightarrow> (u64 \<Rightarrow> cg_stat_val option) \<Rightarrow> u64 option \<Rightarrow> line list \<Rightarrow> line list option" where
  "dump_loop next lookup k out =
     (case k of
        None \<Rightarrow> Some out
      | Some key \<Rightarrow>
          (case lookup key of
             None \<Rightarrow> dump_loop next lookup (next (Some key)) out
           | Some val \<Rightarrow>
               if runtime_threshold_ns \<noteq> 0 \<and> runtime_ns val < runtime_threshold_ns
               then dump_loop next lookup (next (Some key)) out
               else dump_loop next lookup (next (Some key)) (out @ [stats_line key val])))"

definition dump_cgstats ::
  "(u64 option \<Rightarrow> u64 option) \<Rightarrow> (u64 \<Rightarrow> cg_stat_val option) \<Rightarrow> line list option" where
  "dump_cgstats next lookup = dump_loop next lookup (next None) [Stats_header (unat runtime_threshold_ns)]"

section \<open>The allowed cgroups\<close>

datatype d_type = DT_DIR | DT_UNKNOWN | DT_OTHER

record dirent =
  d_name :: string
  d_type :: d_type

text \<open>
  \<open>stat\<close> gives an error number or (is it a directory, inode number); \<open>opendir\<close>
  gives an error number or the entries in the order \<open>readdir\<close> returns them and the
  \<open>errno\<close> with which it ends, 0 at the regular end.
\<close>

record fs =
  fs_stat :: "string \<Rightarrow> int + (bool \<times> u64)"
  fs_opendir :: "string \<Rightarrow> int + (dirent list \<times> int)"

definition PATH_MAX :: nat where
  "PATH_MAX = 4096"

definition ENOTDIR :: int where
  "ENOTDIR = 20"

definition ENAMETOOLONG :: int where
  "ENAMETOOLONG = 36"

definition add_allowed_cgroup :: "(u64, u8) upd \<Rightarrow> u64 \<Rightarrow> (u64, u8) bmap \<Rightarrow> int \<times> (u64, u8) bmap" where
  "add_allowed_cgroup upd cgid m =
     (let (m', r) = upd BPF_ANY cgid 1 m in if r < 0 then (r, m') else (0, m'))"

definition is_dots :: "string \<Rightarrow> bool" where
  "is_dots name \<longleftrightarrow> name = ''.'' \<or> name = ''..''"

definition child_path :: "string \<Rightarrow> dirent \<Rightarrow> string" where
  "child_path path entry = path @ ''/'' @ d_name entry"

function walk_cgroup_tree ::
    "fs \<Rightarrow> (u64, u8) upd \<Rightarrow> string \<Rightarrow> (u64, u8) bmap \<Rightarrow> int \<times> (u64, u8) bmap"
  and walk_entries ::
    "fs \<Rightarrow> (u64, u8) upd \<Rightarrow> string \<Rightarrow> dirent list \<Rightarrow> int \<Rightarrow> (u64, u8) bmap \<Rightarrow> int \<times> (u64, u8) bmap" where
  "walk_cgroup_tree F upd path m =
     (case fs_stat F path of
        Inl e \<Rightarrow> (- e, m)
      | Inr (isdir, ino) \<Rightarrow>
          if \<not> isdir then (- ENOTDIR, m)
          else (let (err, m1) = add_allowed_cgroup upd ino m
                in if err \<noteq> 0 then (err, m1)
                   else (case fs_opendir F path of
                           Inl e \<Rightarrow> (- e, m1)
                         | Inr (entries, e) \<Rightarrow> walk_entries F upd path entries e m1)))"
| "walk_entries F upd path [] e m = (if e \<noteq> 0 then - e else 0, m)"
| "walk_entries F upd path (entry # entries) e m =
     (if is_dots (d_name entry) then walk_entries F upd path entries e m
      else if d_type entry \<noteq> DT_DIR \<and> d_type entry \<noteq> DT_UNKNOWN then walk_entries F upd path entries e m
      else if length (child_path path entry) \<ge> PATH_MAX then (- ENAMETOOLONG, m)
      else (case fs_stat F (child_path path entry) of
              Inl er \<Rightarrow> (- er, m)
            | Inr (isdir, _) \<Rightarrow>
                if \<not> isdir then walk_entries F upd path entries e m
                else (let (err, m1) = walk_cgroup_tree F upd (child_path path entry) m
                      in if err \<noteq> 0 then (err, m1) else walk_entries F upd path entries e m1)))"
  by pat_completeness auto

text \<open>Every level makes the path longer, and a path of \<open>PATH_MAX\<close> characters has no children.\<close>

termination
proof (relation "measures
    [\<lambda>x. case x of Inl (F, upd, path, m) \<Rightarrow> PATH_MAX - length path
        | Inr (F, upd, path, es, e, m) \<Rightarrow> PATH_MAX - length path,
     \<lambda>x. case x of Inl _ \<Rightarrow> 1 | Inr _ \<Rightarrow> 0,
     \<lambda>x. case x of Inl _ \<Rightarrow> 0 | Inr (F, upd, path, es, e, m) \<Rightarrow> length es]")
qed (auto simp: child_path_def)

definition populate_allowed_cgroups ::
  "fs \<Rightarrow> (u64, u8) upd \<Rightarrow> int \<Rightarrow> int \<Rightarrow> string \<Rightarrow> (u64, u8) bmap \<Rightarrow> int \<times> (u64, u8) bmap" where
  "populate_allowed_cgroups F upd map_fd errno root_path m =
     (if map_fd < 0 then (- errno, m) else walk_cgroup_tree F upd root_path m)"

section \<open>The main program\<close>

text \<open>
  What the calls of \<open>main\<close> return, in the order it makes them, and the rounds of
  its loop: the value of \<open>ring_buffer__poll\<close> and the monotonic clock read after it,
  seconds and nanoseconds.  The list of rounds ends where the loop finds \<open>exiting\<close> set.
\<close>

record main_env =
  me_rlimit :: int
  me_open :: bool
  me_rodata :: bool
  me_load :: int
  me_map_fd :: int
  me_errno :: int
  me_fs :: fs
  me_upd :: "(u64, u8) upd"
  me_attach :: int
  me_ring_buffer :: bool
  me_rounds :: "(int \<times> u64 \<times> u64) list"

definition EINTR :: int where
  "EINTR = 4"

fun poll_loop :: "(int \<times> u64 \<times> u64) list \<Rightarrow> u64 \<Rightarrow> u64 list \<Rightarrow> u64 list" where
  "poll_loop [] last_dump_ms dumps = dumps"
| "poll_loop ((ret, tv_sec, tv_nsec) # rounds) last_dump_ms dumps =
     (if ret < 0 \<and> ret \<noteq> - EINTR then dumps
      else (let now_ms = tv_sec * 1000 + tv_nsec div 1000000
            in if now_ms - last_dump_ms \<ge> 2000
               then poll_loop rounds now_ms (dumps @ [now_ms])
               else poll_loop rounds last_dump_ms dumps))"

text \<open>
  The result is the exit status, the state the programs are attached in (\<open>None\<close>
  if that point is not reached) and the times at which statistics were printed.
\<close>

definition main :: "main_env \<Rightarrow> sm_state \<Rightarrow> int \<times> sm_state option \<times> u64 list" where
  "main E s0 =
     (if me_rlimit E \<noteq> 0 then (1, None, [])
      else if \<not> me_open E then (1, None, [])
      else (let s1 = (if me_rodata E
                      then s0\<lparr>sm_ro := \<lparr>runtime_event_threshold_ns = runtime_threshold_ns, filter_enabled = 1\<rparr>\<rparr>
                      else s0);
                err = me_load E
            in if err \<noteq> 0 then (1, None, [])
               else (let (err, allowed) = populate_allowed_cgroups (me_fs E) (me_upd E) (me_map_fd E) (me_errno E)
                            target_cgroup_root (allowed_cgroups s1);
                         s2 = s1\<lparr>allowed_cgroups := allowed\<rparr>
                     in if err \<noteq> 0 then (1, None, [])
                        else (let err = me_attach E
                              in if err \<noteq> 0 then (1, None, [])
                                 else if \<not> me_ring_buffer E then (if err \<noteq> 0 then 1 else 0, Some s2, [])
                                 else (if err \<noteq> 0 then 1 else 0, Some s2, poll_loop (me_rounds E) 0 [])))))"

section \<open>The directory tree\<close>

definition listed :: "dirent \<Rightarrow> bool" where
  "listed entry \<longleftrightarrow> \<not> is_dots (d_name entry) \<and> (d_type entry = DT_DIR \<or> d_type entry = DT_UNKNOWN)"

definition fs_child :: "fs \<Rightarrow> string \<Rightarrow> string \<Rightarrow> bool" where
  "fs_child F p q \<longleftrightarrow> (\<exists>i j es e entry. fs_stat F p = Inr (True, i) \<and> fs_opendir F p = Inr (es, e) \<and>
     entry \<in> set es \<and> listed entry \<and> q = child_path p entry \<and> fs_stat F q = Inr (True, j))"

text \<open>The inode numbers of the directories of a tree.\<close>

definition tree_inodes :: "fs \<Rightarrow> string \<Rightarrow> u64 set" where
  "tree_inodes F path = {ino. \<exists>p. (fs_child F)\<^sup>*\<^sup>* path p \<and> fs_stat F p = Inr (True, ino)}"

definition entry_inodes :: "fs \<Rightarrow> string \<Rightarrow> dirent \<Rightarrow> u64 set" where
  "entry_inodes F path entry = (if listed entry then tree_inodes F (child_path path entry) else {})"

text \<open>What the system calls promise: error numbers are positive, results not positive.\<close>

definition fs_ok :: "fs \<Rightarrow> bool" where
  "fs_ok F \<longleftrightarrow> (\<forall>p e. fs_stat F p = Inl e \<longrightarrow> 0 < e) \<and> (\<forall>p e. fs_opendir F p = Inl e \<longrightarrow> 0 < e)"

definition syscall_ok :: "('k, 'v) upd \<Rightarrow> bool" where
  "syscall_ok upd \<longleftrightarrow> (\<forall>f k v m. snd (upd f k v m) \<le> 0)"

lemma tree_inodes_dir:
  assumes "fs_stat F path = Inr (True, ino)"
  shows "tree_inodes F path = insert ino
    (case fs_opendir F path of Inl e \<Rightarrow> {} | Inr (es, e) \<Rightarrow> \<Union> (entry_inodes F path ` set es))"
proof (rule equalityI; rule subsetI)
  fix k assume "k \<in> tree_inodes F path"
  then obtain p where p: "(fs_child F)\<^sup>*\<^sup>* path p" "fs_stat F p = Inr (True, k)"
    by (auto simp: tree_inodes_def)
  from p(1) show "k \<in> insert ino
    (case fs_opendir F path of Inl e \<Rightarrow> {} | Inr (es, e) \<Rightarrow> \<Union> (entry_inodes F path ` set es))"
  proof (cases rule: converse_rtranclpE)
    case base
    then show ?thesis using assms p(2) by simp
  next
    case (step q)
    then show ?thesis
      using p(2) by (auto simp: fs_child_def entry_inodes_def tree_inodes_def)
  qed
next
  fix k
  assume k: "k \<in> insert ino
    (case fs_opendir F path of Inl e \<Rightarrow> {} | Inr (es, e) \<Rightarrow> \<Union> (entry_inodes F path ` set es))"
  show "k \<in> tree_inodes F path"
  proof (cases "k = ino")
    case True
    then show ?thesis using assms by (auto simp: tree_inodes_def)
  next
    case False
    then obtain es e entry p where *: "fs_opendir F path = Inr (es, e)" "entry \<in> set es" "listed entry"
      "(fs_child F)\<^sup>*\<^sup>* (child_path path entry) p" "fs_stat F p = Inr (True, k)"
      using k by (auto simp: entry_inodes_def tree_inodes_def split: sum.splits if_splits)
    have "\<exists>j. fs_stat F (child_path path entry) = Inr (True, j)"
      using *(4,5) by (cases rule: converse_rtranclpE) (auto simp: fs_child_def)
    then have "fs_child F path (child_path path entry)"
      using assms * unfolding fs_child_def by blast
    then show ?thesis
      using * by (auto simp: tree_inodes_def intro: converse_rtranclp_into_rtranclp)
  qed
qed

lemma tree_inodes_not_dir:
  assumes "\<nexists>ino. fs_stat F path = Inr (True, ino)"
  shows "tree_inodes F path = {}"
proof -
  have "\<not> (fs_child F)\<^sup>*\<^sup>* path p \<or> p = path" for p
    using assms by (auto simp: fs_child_def elim: converse_rtranclpE)
  then show ?thesis using assms by (auto simp: tree_inodes_def)
qed

lemma add_allowed_dom:
  assumes "hash_update_ok upd" and "syscall_ok upd" and "add_allowed_cgroup upd g m = (r, m')"
  shows "dom m \<subseteq> dom m' \<and> dom m' \<subseteq> insert g (dom m) \<and> (r = 0 \<longrightarrow> g \<in> dom m')"
proof (cases "snd (upd BPF_ANY g 1 m) = 0")
  case True
  then have "m' = m(g \<mapsto> 1)"
    using assms(3) hash_update_stored [OF assms(1) True]
    by (simp add: add_allowed_cgroup_def case_prod_beta)
  then show ?thesis by auto
next
  case False
  then have "snd (upd BPF_ANY g 1 m) < 0"
    using assms(2) unfolding syscall_ok_def by (metis order_le_less)
  then have "m' = m" and "r \<noteq> 0"
    using assms(3) hash_update_refused [OF assms(1) False]
    by (auto simp: add_allowed_cgroup_def case_prod_beta)
  then show ?thesis by auto
qed

text \<open>What a part of the walk does to the allowed set, for the inodes it is about.\<close>

definition walked :: "(u64, u8) bmap \<Rightarrow> u64 set \<Rightarrow> int \<times> (u64, u8) bmap \<Rightarrow> bool" where
  "walked m I res \<longleftrightarrow> dom m \<subseteq> dom (snd res) \<and> dom (snd res) \<subseteq> dom m \<union> I \<and> (fst res = 0 \<longrightarrow> I \<subseteq> dom (snd res))"

lemma walked_seq:
  assumes "walked m I (r1, m1)" and "r1 \<noteq> 0 \<Longrightarrow> res = (r1, m1)" and "r1 = 0 \<Longrightarrow> walked m1 J res"
  shows "walked m (I \<union> J) res"
proof (cases "r1 = 0")
  case True
  then show ?thesis
    using assms(1) assms(3) [OF True] unfolding walked_def fst_conv snd_conv by blast
next
  case False
  then show ?thesis
    using assms(1) assms(2) [OF False] unfolding walked_def by auto
qed

lemma walk_walked:
  assumes "fs_ok F" and "hash_update_ok upd" and "syscall_ok upd"
  shows "walked m (tree_inodes F path) (walk_cgroup_tree F upd path m)"
    and "walked m (\<Union> (entry_inodes F path ` set es)) (walk_entries F upd path es e m)"
  using assms
proof (induction F upd path m and F upd path es e m rule: walk_cgroup_tree_walk_entries.induct)
  case (1 F upd path m)
  show ?case
  proof (cases "\<exists>ino. fs_stat F path = Inr (True, ino)")
    case False
    then show ?thesis
      using 1(2) by (cases "fs_stat F path") (auto simp: walked_def tree_inodes_not_dir fs_ok_def ENOTDIR_def)
  next
    case True
    then obtain ino where st: "fs_stat F path = Inr (True, ino)"
      by blast
    obtain r m1 where add: "add_allowed_cgroup upd ino m = (r, m1)"
      by fastforce
    have one: "walked m {ino} (r, m1)"
      using add_allowed_dom [OF 1(3,4) add] by (auto simp: walked_def)
    show ?thesis
    proof (cases "fs_opendir F path")
      case (Inl er)
      then show ?thesis
        using one 1(2) st add by (auto simp: walked_def tree_inodes_dir [OF st] fs_ok_def)
    next
      case (Inr x)
      then obtain es e where od: "fs_opendir F path = Inr (es, e)"
        by (cases x) auto
      have "walked m1 (\<Union> (entry_inodes F path ` set es)) (walk_entries F upd path es e m1)" if "r = 0"
        using 1(1) [OF st refl _ add [symmetric] refl _ od refl] that 1(2,3,4) by simp
      then show ?thesis
        using walked_seq [OF one, of "walk_cgroup_tree F upd path m"] st add od
        by (simp add: tree_inodes_dir [OF st])
    qed
  qed
next
  case (2 F upd path e m)
  then show ?case by (simp add: walked_def)
next
  case (3 F upd path entry entries e m)
  let ?c = "child_path path entry"
  have all: "\<Union> (entry_inodes F path ` set (entry # entries)) =
      entry_inodes F path entry \<union> \<Union> (entry_inodes F path ` set entries)"
    by simp
  note ok = 3(6,7,8)
  show ?case
  proof (cases "listed entry")
    case False
    then have "walk_entries F upd path (entry # entries) e m = walk_entries F upd path entries e m"
      and "entry_inodes F path entry = {}"
      by (auto simp: listed_def entry_inodes_def)
    moreover have "walked m (\<Union> (entry_inodes F path ` set entries)) (walk_entries F upd path entries e m)"
      using 3(1,2) False ok by (cases "is_dots (d_name entry)") (auto simp: listed_def)
    ultimately show ?thesis unfolding all by simp
  next
    case True
    then have nd: "\<not> is_dots (d_name entry)" "\<not> (d_type entry \<noteq> DT_DIR \<and> d_type entry \<noteq> DT_UNKNOWN)"
      by (auto simp: listed_def)
    show ?thesis
    proof (cases "PATH_MAX \<le> length ?c")
      case True
      then show ?thesis using nd by (auto simp: walked_def ENAMETOOLONG_def)
    next
      case short: False
      show ?thesis
      proof (cases "\<exists>ino. fs_stat F ?c = Inr (True, ino)")
        case dir: True
        then obtain ino where st: "fs_stat F ?c = Inr (True, ino)"
          by blast
        obtain r m1 where w: "walk_cgroup_tree F upd ?c m = (r, m1)"
          by fastforce
        have "walked m (entry_inodes F path entry) (r, m1)"
          using 3(4) [OF nd short st refl] ok w True by (simp add: entry_inodes_def)
        moreover have "walked m1 (\<Union> (entry_inodes F path ` set entries)) (walk_entries F upd path entries e m1)" if "r = 0"
          using 3(5) [OF nd short st refl _ w [symmetric] refl] that ok by simp
        ultimately show ?thesis
          unfolding all using nd short st w by (intro walked_seq) auto
      next
        case nodir: False
        then have e: "entry_inodes F path entry = {}"
          by (simp add: entry_inodes_def tree_inodes_not_dir)
        show ?thesis
        proof (cases "fs_stat F ?c")
          case (Inl er)
          then show ?thesis
            using nd short ok(1) by (auto simp: walked_def fs_ok_def)
        next
          case (Inr x)
          then obtain ino where st: "fs_stat F ?c = Inr (False, ino)"
            using nodir by (cases x) auto
          have "walked m (\<Union> (entry_inodes F path ` set entries)) (walk_entries F upd path entries e m)"
            using 3(3) [OF nd short st refl] ok by simp
          then show ?thesis unfolding all using nd short st by (simp add: e)
        qed
      qed
    qed
  qed
qed

declare walk_cgroup_tree.simps [simp del] walk_entries.simps [simp del]

section \<open>Properties\<close>

text \<open>
  The walk allows exactly the cgroups of the tree.  The recursion ends on
  every file system (each level lengthens a path bounded by \<open>PATH_MAX\<close>).  Whatever
  the result, nothing is removed and only inodes of directories of the tree are
  added; when it reports success, all of them are there.
\<close>

lemma walk_allows_tree:
  assumes "fs_ok F" and "hash_update_ok upd" and "syscall_ok upd"
    and "walk_cgroup_tree F upd path m = (err, m')"
  shows "dom m \<subseteq> dom m' \<and> dom m' \<subseteq> dom m \<union> tree_inodes F path \<and>
    (err = 0 \<longrightarrow> dom m' = dom m \<union> tree_inodes F path)"
  using walk_walked(1) [OF assms(1,2,3), of m path] by (auto simp: walked_def assms(4))

lemma main_attached:
  assumes "main E s0 = (code, Some s, dumps)"
  shows "populate_allowed_cgroups (me_fs E) (me_upd E) (me_map_fd E) (me_errno E) target_cgroup_root
      (allowed_cgroups s0) = (0, allowed_cgroups s) \<and>
    sm_ro s = (if me_rodata E
      then \<lparr>runtime_event_threshold_ns = runtime_threshold_ns, filter_enabled = 1\<rparr> else sm_ro s0)"
  using assms
  by (cases "populate_allowed_cgroups (me_fs E) (me_upd E) (me_map_fd E) (me_errno E) target_cgroup_root
      (allowed_cgroups s0)") (auto simp: main_def Let_def split: if_splits)

text \<open>
  C15: the monitor and its programs together.  When \<open>main\<close> reaches the point where
  the programs are attached, having started with an empty allow list, a tracepoint
  program lets a cgroup through if and only if its id is the inode number of a
  directory of the tree under \<open>/sys/fs/cgroup/gocker\<close> at that time.
\<close>

theorem monitor_allows_tree:
  assumes "main E s0 = (code, Some s, dumps)" and "me_rodata E" and "0 \<le> me_map_fd E"
    and "allowed_cgroups s0 = Map.empty"
    and "fs_ok (me_fs E)" and "hash_update_ok (me_upd E)" and "syscall_ok (me_upd E)"
  shows "allow_cgroup cgid s \<longleftrightarrow> cgid \<in> tree_inodes (me_fs E) target_cgroup_root"
proof -
  have walk: "walk_cgroup_tree (me_fs E) (me_upd E) target_cgroup_root Map.empty = (0, allowed_cgroups s)"
    and ro: "filter_enabled (sm_ro s) = 1"
    using main_attached [OF assms(1)] assms(2-4) by (simp_all add: populate_allowed_cgroups_def)
  have "dom (allowed_cgroups s) = tree_inodes (me_fs E) target_cgroup_root"
    using walk_walked(1) [OF assms(5-7), of Map.empty target_cgroup_root]
    by (auto simp: walked_def walk)
  then show ?thesis
    by (auto simp: allow_cgroup_def ro domIff split: option.split)
qed

text \<open>
  The exit status of \<open>main\<close>.  It is 0 exactly when raising the memory limit,
  opening, loading, filling the allow list and attaching succeed, otherwise 1.  A failure to create
  the ring buffer, or an error of \<open>ring_buffer__poll\<close> that ends the loop, is reported
  on stderr but exits with status 0: neither path sets \<open>err\<close>.
\<close>

lemma main_exit_status:
  "fst (main E s0) =
    (if me_rlimit E = 0 \<and> me_open E \<and> me_load E = 0 \<and>
        fst (populate_allowed_cgroups (me_fs E) (me_upd E) (me_map_fd E) (me_errno E) target_cgroup_root
          (allowed_cgroups s0)) = 0 \<and> me_attach E = 0
     then 0 else 1) \<and>
   fst (main (E\<lparr>me_ring_buffer := b, me_rounds := (- 9, 0, 0) # rounds\<rparr>) s0) = fst (main E s0)"
  by (simp add: main_def Let_def case_prod_beta)

text \<open>The kernel enumerates the keys \<open>ks\<close>, starting after the key \<open>prev\<close>.\<close>

fun key_chain :: "(u64 option \<Rightarrow> u64 option) \<Rightarrow> u64 option \<Rightarrow> u64 list \<Rightarrow> bool" where
  "key_chain next prev [] \<longleftrightarrow> next prev = None"
| "key_chain next prev (k # ks) \<longleftrightarrow> next prev = Some k \<and> key_chain next (Some k) ks"

definition shown :: "(u64, cg_stat_val) bmap \<Rightarrow> u64 \<Rightarrow> bool" where
  "shown m k = (case m k of None \<Rightarrow> False | Some v \<Rightarrow> runtime_threshold_ns \<le> runtime_ns v)"

lemma runtime_threshold_pos [simp]: "runtime_threshold_ns \<noteq> 0"
  by (simp add: runtime_threshold_ns_def DEFAULT_RUNTIME_THRESHOLD_NS_def)

lemma dump_loop_chain:
  "key_chain next prev ks \<Longrightarrow> dump_loop next m (next prev) out =
     Some (out @ map (\<lambda>k. stats_line k (stat_of m k)) (filter (shown m) ks))"
proof (induction ks arbitrary: prev out)
  case Nil
  then show ?case by (simp add: dump_loop.simps)
next
  case (Cons k ks)
  have "dump_loop next m (Some k) out =
      dump_loop next m (next (Some k)) (if shown m k then out @ [stats_line k (stat_of m k)] else out)"
    by (subst dump_loop.simps) (auto simp: shown_def stat_of_def not_less split: option.split)
  with Cons show ?case by simp
qed

text \<open>
  C16: printing the statistics ends and is complete.  When the kernel enumerates
  the keys \<open>ks\<close> of the map, the loop returns, and prints after the header one line
  for each key whose run time reaches the threshold, in that order, with the
  values of its record.
\<close>

theorem dump_prints_all:
  assumes "key_chain next None ks"
  shows "dump_cgstats next m = Some (Stats_header 5000000 #
    map (\<lambda>k. stats_line k (stat_of m k)) (filter (\<lambda>k. m k \<noteq> None \<and> 5000000 \<le> unat (runtime_ns (stat_of m k))) ks))"
proof -
  have "shown m = (\<lambda>k. m k \<noteq> None \<and> 5000000 \<le> unat (runtime_ns (stat_of m k)))"
    by (auto simp: shown_def stat_of_def fun_eq_iff word_le_nat_alt runtime_threshold_ns_def
        DEFAULT_RUNTIME_THRESHOLD_NS_def split: option.split)
  then show ?thesis
    using dump_loop_chain [OF assms, of m]
    by (simp add: dump_cgstats_def runtime_threshold_ns_def DEFAULT_RUNTIME_THRESHOLD_NS_def)
qed

text \<open>
  The column \<open>max_runtime_ns\<close> is always 0.  From an empty map, after any run
  of the tracepoint programs on a kernel with room in the map, every printed line
  says that the longest slice of the cgroup was 0 ns, however much time it ran.
\<close>

lemma dumped_max_is_zero:
  assumes "cg_stats s = Map.empty" and "sm_kernel_ok is" and "key_chain next None ks"
    and "dump_cgstats next (cg_stats (run sm_step is s)) = Some out"
    and "Stats_line g total_ns max_ns sw wk mig \<in> set out"
  shows "max_ns = 0"
proof -
  let ?m = "cg_stats (run sm_step is s)"
  have "max_runtime_ns (stat_of ?m k) = 0" for k
    using st_max.field_run [of "is" s k] assms(1,2)
    by (simp add: sm_kernel_ok_def stat_of_def zero_stat_def)
  moreover have "out = Stats_header (unat runtime_threshold_ns) #
      map (\<lambda>k. stats_line k (stat_of ?m k)) (filter (shown ?m) ks)"
    using assms(4) dump_loop_chain [OF assms(3), of ?m] by (simp add: dump_cgstats_def)
  ultimately show ?thesis
    using assms(5) by (auto simp: stats_line_def)
qed

text \<open>Times at least two seconds apart, the first after \<open>t0\<close>.\<close>

fun spaced :: "nat \<Rightarrow> u64 list \<Rightarrow> bool" where
  "spaced t0 [] \<longleftrightarrow> True"
| "spaced t0 (t # ts) \<longleftrightarrow> t0 + 2000 \<le> unat t \<and> spaced (unat t) ts"

text \<open>The clock never runs backwards and its milliseconds fit 64 bits.\<close>

fun clock_ok :: "nat \<Rightarrow> (int \<times> u64 \<times> u64) list \<Rightarrow> bool" where
  "clock_ok t0 [] \<longleftrightarrow> True"
| "clock_ok t0 ((r, sec, nsec) # rs) \<longleftrightarrow>
     unat sec * 1000 + unat nsec div 1000000 < 2 ^ 64 \<and>
     t0 \<le> unat sec * 1000 + unat nsec div 1000000 \<and>
     clock_ok (unat sec * 1000 + unat nsec div 1000000) rs"

lemma ms_unat:
  assumes "unat sec * 1000 + unat nsec div 1000000 < 2 ^ 64"
  shows "unat (sec * 1000 + nsec div 1000000 :: u64) = unat sec * 1000 + unat nsec div 1000000"
proof -
  have a: "unat (sec * 1000) = unat sec * 1000"
    using assms by (simp add: unat_word_ariths)
  have b: "unat (nsec div 1000000) = unat nsec div 1000000"
    by (simp add: unat_div)
  show ?thesis
    using assms by (subst unat_add_no_wrap) (simp_all only: a b, simp)
qed

lemma since_unat:
  fixes now prev :: u64
  assumes "unat prev \<le> unat now"
  shows "2000 \<le> now - prev \<longleftrightarrow> unat prev + 2000 \<le> unat now"
proof -
  have "unat (now - prev) = unat now - unat prev"
    using assms by (simp add: unat_sub word_le_nat_alt)
  then show ?thesis
    using assms by (auto simp: word_le_nat_alt)
qed

lemma poll_loop_spaced:
  assumes "clock_ok t0 rounds" and "unat prev \<le> t0"
  shows "\<exists>ts. poll_loop rounds prev d = d @ ts \<and> spaced (unat prev) ts"
  using assms
proof (induction rounds prev d arbitrary: t0 rule: poll_loop.induct)
  case (1 prev d)
  then show ?case by simp
next
  case (2 ret sec nsec rounds prev d)
  let ?now = "sec * 1000 + nsec div 1000000"
  have now: "unat ?now = unat sec * 1000 + unat nsec div 1000000"
    using 2(3) by (intro ms_unat) simp
  have le: "unat prev \<le> unat ?now"
    using 2(3,4) by (simp add: now)
  have ck: "clock_ok (unat ?now) rounds"
    using 2(3) by (simp add: now)
  show ?case
  proof (cases "ret < 0 \<and> ret \<noteq> - EINTR")
    case True
    then show ?thesis by simp
  next
    case False
    show ?thesis
    proof (cases "2000 \<le> ?now - prev")
      case True
      then obtain ts where "poll_loop rounds ?now (d @ [?now]) = (d @ [?now]) @ ts" "spaced (unat ?now) ts"
        using 2(1) [OF False refl True ck] by auto
      then show ?thesis
        using False True since_unat [OF le] by (intro exI [of _ "?now # ts"]) auto
    next
      case later: False
      then show ?thesis
        using 2(2) [OF False refl later ck] le False by auto
    qed
  qed
qed

text \<open>
  Statistics are printed at most every two seconds.  With a monotonic clock
  (and time stamps that fit 64-bit milliseconds) any two printings of a run are at
  least 2000 ms apart, whatever \<open>ring_buffer__poll\<close> returns in between.
\<close>

lemma dumps_spaced:
  assumes "clock_ok 0 rounds"
  shows "spaced 0 (poll_loop rounds 0 [])"
  using poll_loop_spaced [of 0 rounds 0 "[]"] assms by auto

section \<open>Witnesses\<close>

text \<open>A tree of two cgroups, inodes 9 and 12, with a file and the dot entries.\<close>

definition demo_root :: string where
  "demo_root = ''/sys/fs/cgroup/gocker''"

definition demo_fs :: fs where
  "demo_fs = \<lparr>fs_stat = (\<lambda>p. if p = demo_root then Inr (True, 9)
        else if p = demo_root @ ''/a'' then Inr (True, 12) else Inl 2),
     fs_opendir = (\<lambda>p. if p = demo_root
        then Inr ([\<lparr>d_name = ''.'', d_type = DT_DIR\<rparr>, \<lparr>d_name = ''a'', d_type = DT_DIR\<rparr>,
                   \<lparr>d_name = ''cgroup.procs'', d_type = DT_OTHER\<rparr>], 0)
        else Inr ([], 0))\<rparr>"

lemma demo_fs_ok: "fs_ok demo_fs" "syscall_ok roomy_upd"
  by (auto simp: fs_ok_def demo_fs_def syscall_ok_def split: if_splits option.splits)

lemma demo_walk: "walk_cgroup_tree demo_fs roomy_upd demo_root Map.empty = (0, Map.empty(9 \<mapsto> 1, 12 \<mapsto> 1))"
  by (simp add: walk_cgroup_tree.simps walk_entries.simps demo_fs_def demo_root_def add_allowed_cgroup_def
      is_dots_def child_path_def PATH_MAX_def)


definition demo_main :: main_env where
  "demo_main = \<lparr>me_rlimit = 0, me_open = True, me_rodata = True, me_load = 0, me_map_fd = 3, me_errno = 0,
     me_fs = demo_fs, me_upd = roomy_upd, me_attach = 0, me_ring_buffer = True,
     me_rounds = [(0, 3, 0), (- 4, 4, 0), (1, 5, 0)]\<rparr>"

definition demo_started :: sm_state where
  "demo_started = \<lparr>sm_ro = \<lparr>runtime_event_threshold_ns = 5000000, filter_enabled = 1\<rparr>,
     allowed_cgroups = Map.empty(9 \<mapsto> 1, 12 \<mapsto> 1), cg_stats = Map.empty, events_rb = []\<rparr>"

lemma demo_main_run:
  "main demo_main (demo_started\<lparr>allowed_cgroups := Map.empty\<rparr>) = (0, Some demo_started, [3000, 5000])"
  using demo_walk
  by (simp add: main_def demo_main_def populate_allowed_cgroups_def demo_started_def Let_def EINTR_def
      target_cgroup_root_def demo_root_def runtime_threshold_ns_def DEFAULT_RUNTIME_THRESHOLD_NS_def)

theorem monitor_allows_tree_witness:
  "allow_cgroup 12 demo_started \<longleftrightarrow> 12 \<in> tree_inodes demo_fs target_cgroup_root"
  using monitor_allows_tree [OF demo_main_run] demo_fs_ok by (simp add: demo_main_def)

definition demo_next :: "u64 option \<Rightarrow> u64 option" where
  "demo_next k = (case k of None \<Rightarrow> Some 9 | Some k \<Rightarrow> if k = 9 then Some 4 else None)"

theorem dump_prints_all_witness:
  "dump_cgstats demo_next (Map.empty(9 \<mapsto> zero_stat\<lparr>runtime_ns := 6000000\<rparr>, 4 \<mapsto> zero_stat)) =
     Some [Stats_header 5000000, Stats_line 9 6000000 0 0 0 0]"
  using dump_prints_all [of demo_next "[9, 4]"]
  by (simp add: demo_next_def stat_of_def stats_line_def zero_stat_def)



end
