(* ===== verification/Pf_Mvp.thy ===== *)
theory Pf_Mvp
  imports Obsv_Common C_Layout Exporter_Start
begin

text \<open>
  \<open>eBPF/pf-mvp\<close>: the first page-fault monitor.  \<open>bpf/pf.bpf.c\<close> submits one ring
  buffer record per sampled fault inside the target subtree; the exporter
  \<open>cmd/pf_exporter/main.go\<close> decodes the records and counts them per type and
  cgroup id.  The constants are rewritten before the program is loaded, so here
  they are read on every fault and there is no configuration map.
\<close>

section \<open>The BPF program\<close>

record event =
  ev_ts_ns :: u64
  ev_type :: u32
  ev_pid :: u32
  ev_tgid :: u32
  ev_cgroup_id :: u64
  ev_comm :: "u8 list"

record mvp_state =
  mvp_ro :: rodata
  mvp_cnt :: "(u32, u64) percpu"
  mvp_events :: "event list"

definition pass_cgroup_filter :: "task \<Rightarrow> mvp_state \<Rightarrow> bool" where
  "pass_cgroup_filter t s =
     (if ENABLE_FILTER (mvp_ro s) = 0 then True
      else (let anc = t_ancestor t (TARGET_LEVEL (mvp_ro s))
            in if anc = 0 then False else anc = TARGET_CGID (mvp_ro s)))"

text \<open>\<open>res\<close> is what \<open>bpf_ringbuf_reserve\<close> returns: nothing, or a record with arbitrary contents.\<close>

definition handle_fault :: "event option \<Rightarrow> task \<Rightarrow> u32 \<Rightarrow> mvp_state \<Rightarrow> s32 \<times> mvp_state" where
  "handle_fault res t type s =
     (if \<not> pass_cgroup_filter t s then (0, s)
      else (let (drop_it, s1) =
              (case mvp_cnt s 0 of
                 None \<Rightarrow> (False, s)
               | Some cnt \<Rightarrow>
                   (let val = cnt (t_cpu t) + 1;
                        s1 = s\<lparr>mvp_cnt := (mvp_cnt s)(0 \<mapsto> cnt(t_cpu t := val))\<rparr>;
                        rate = (if SAMPLE_RATE (mvp_ro s) \<noteq> 0 then SAMPLE_RATE (mvp_ro s) else 1)
                    in (val mod ucast rate \<noteq> 0, s1)))
            in if drop_it then (0, s1)
               else (case res of
                       None \<Rightarrow> (0, s1)
                     | Some e0 \<Rightarrow>
                         (let e1 = e0\<lparr>ev_ts_ns := t_ktime t, ev_type := type\<rparr>;
                              pidtgid = t_pid_tgid t;
                              e2 = e1\<lparr>ev_pid := ucast pidtgid, ev_tgid := ucast (drop_bit 32 pidtgid),
                                      ev_cgroup_id := t_cgid t, ev_comm := t_comm t\<rparr>
                          in (0, s1\<lparr>mvp_events := mvp_events s1 @ [e2]\<rparr>)))))"

definition tp_page_fault_user :: "event option \<Rightarrow> task \<Rightarrow> mvp_state \<Rightarrow> s32 \<times> mvp_state" where
  "tp_page_fault_user res t s = handle_fault res t 1 s"

definition tp_page_fault_kernel :: "event option \<Rightarrow> task \<Rightarrow> mvp_state \<Rightarrow> s32 \<times> mvp_state" where
  "tp_page_fault_kernel res t s = handle_fault res t 2 s"

datatype fault = Fault_user | Fault_kernel

type_synonym mvp_call = "event option \<times> task \<times> fault"

fun mvp_step :: "mvp_call \<Rightarrow> mvp_state \<Rightarrow> mvp_state" where
  "mvp_step (res, t, Fault_user) s = snd (tp_page_fault_user res t s)"
| "mvp_step (res, t, Fault_kernel) s = snd (tp_page_fault_kernel res t s)"

section \<open>The exporter\<close>

text \<open>The Go struct \<open>event\<close>: the sizes of its fields in order, \<open>Comm\<close> byte by byte.\<close>

definition go_event :: "nat list" where
  "go_event = [8, 4, 4, 4, 8] @ replicate 16 1"

definition labelType :: "nat \<Rightarrow> string" where
  "labelType t = (if t = 1 then ''user'' else if t = 2 then ''kernel'' else ''unknown'')"

text \<open>The counter vector: the value of every (type, cgroup id) series.\<close>

type_synonym pageFaults = "string \<times> nat \<Rightarrow> nat"

definition export_record :: "u8 list \<Rightarrow> pageFaults \<Rightarrow> pageFaults" where
  "export_record raw counters =
     (if length raw < sum_list go_event then counters
      else (case go_decode go_event raw of
              None \<Rightarrow> counters
            | Some e \<Rightarrow>
                (let series = (labelType (e ! 1), e ! 4)
                 in counters(series := counters series + 1))))"

section \<open>What a fault submits\<close>

definition mvp_task :: "mvp_call \<Rightarrow> task" where
  "mvp_task i = fst (snd i)"

definition mvp_cpu :: "mvp_call \<Rightarrow> cpu" where
  "mvp_cpu i = t_cpu (mvp_task i)"

definition mvp_gate :: "mvp_call \<Rightarrow> mvp_state \<Rightarrow> bool" where
  "mvp_gate i s = pass_cgroup_filter (mvp_task i) s"

definition mvp_rate :: "mvp_state \<Rightarrow> u32" where
  "mvp_rate s = (if SAMPLE_RATE (mvp_ro s) \<noteq> 0 then SAMPLE_RATE (mvp_ro s) else 1)"

definition mvp_sample :: "mvp_call \<Rightarrow> mvp_state \<Rightarrow> bool \<times> mvp_state" where
  "mvp_sample i s =
     (case mvp_cnt s 0 of
        None \<Rightarrow> (True, s)
      | Some cnt \<Rightarrow>
          (rate_hit (cnt (mvp_cpu i) + 1) (mvp_rate s),
           s\<lparr>mvp_cnt := (mvp_cnt s)(0 \<mapsto> cnt(mvp_cpu i := cnt (mvp_cpu i) + 1))\<rparr>))"

definition mvp_passes :: "mvp_call \<Rightarrow> mvp_state \<Rightarrow> bool" where
  "mvp_passes i s \<longleftrightarrow> mvp_gate i s \<and> fst (mvp_sample i s)"

fun fault_code :: "fault \<Rightarrow> u32" where
  "fault_code Fault_user = 1"
| "fault_code Fault_kernel = 2"

definition mvp_event :: "mvp_call \<Rightarrow> event" where
  "mvp_event i = (let t = mvp_task i in
     \<lparr>ev_ts_ns = t_ktime t, ev_type = fault_code (snd (snd i)), ev_pid = ucast (t_pid_tgid t),
      ev_tgid = ucast (drop_bit 32 (t_pid_tgid t)), ev_cgroup_id = t_cgid t, ev_comm = t_comm t\<rparr>)"

lemmas mvp_view_defs = mvp_task_def mvp_cpu_def mvp_gate_def mvp_passes_def

lemma mvp_step_fault: "mvp_step i s = snd (handle_fault (fst i) (mvp_task i) (fault_code (snd (snd i))) s)"
  by (cases "(i, s)" rule: mvp_step.cases)
    (simp_all add: tp_page_fault_user_def tp_page_fault_kernel_def mvp_task_def)

lemma mvp_step_eq:
  "mvp_step i s =
     (if \<not> mvp_gate i s then s
      else (let s1 = snd (mvp_sample i s)
            in if fst (mvp_sample i s) \<and> fst i \<noteq> None
               then s1\<lparr>mvp_events := mvp_events s1 @ [mvp_event i]\<rparr> else s1))"
  by (auto simp: mvp_step_fault handle_fault_def mvp_gate_def mvp_cpu_def mvp_sample_def mvp_event_def
      mvp_rate_def rate_hit_def Let_def split: option.split)

lemma mvp_sample_fields [simp]:
  "mvp_ro (snd (mvp_sample i s)) = mvp_ro s" "mvp_events (snd (mvp_sample i s)) = mvp_events s"
  by (auto simp: mvp_sample_def split: option.split)

lemma mvp_step_fields [simp]:
  "mvp_ro (mvp_step i s) = mvp_ro s"
  "mvp_cnt (mvp_step i s) = (if mvp_gate i s then mvp_cnt (snd (mvp_sample i s)) else mvp_cnt s)"
  by (simp_all add: mvp_step_eq Let_def)

definition mvp_wf :: "mvp_state \<Rightarrow> bool" where
  "mvp_wf s \<longleftrightarrow> array1 (mvp_cnt s)"

definition mvp_count :: "mvp_state \<Rightarrow> cpu \<Rightarrow> u64" where
  "mvp_count s = slots (mvp_cnt s) 0"

lemma mvp_gate_static [simp]: "mvp_gate j (mvp_step i s) = mvp_gate j s"
  by (simp add: mvp_gate_def pass_cgroup_filter_def)

lemma mvp_sampler:
  assumes "mvp_wf s"
  shows "mvp_sample i s = (rate_hit (mvp_count s (mvp_cpu i) + 1) (mvp_rate s),
    s\<lparr>mvp_cnt := (mvp_cnt s)(0 \<mapsto> (mvp_count s)(mvp_cpu i := mvp_count s (mvp_cpu i) + 1))\<rparr>)"
  using array1_0 [of "mvp_cnt s"] assms
  by (auto simp: mvp_wf_def mvp_sample_def mvp_count_def)

interpretation mvp: sampled mvp_sample mvp_cpu mvp_count mvp_rate mvp_wf mvp_step mvp_gate "\<lambda>i s. s"
proof unfold_locales
  fix s i
  show "0 < mvp_rate s"
    by (simp add: mvp_rate_def word_gt_0)
  assume wf: "mvp_wf s"
  show "mvp_wf (snd (mvp_sample i s))" and "mvp_rate (snd (mvp_sample i s)) = mvp_rate s"
    using wf by (auto simp: mvp_sampler mvp_wf_def mvp_rate_def)
  show "fst (mvp_sample i s) \<longleftrightarrow> mvp_rate s = 1 \<or> rate_hit (mvp_count s (mvp_cpu i) + 1) (mvp_rate s)"
    by (cases "mvp_rate s = 1") (simp_all add: mvp_sampler [OF wf])
  show "mvp_count (snd (mvp_sample i s)) = (mvp_count s)(mvp_cpu i := mvp_count s (mvp_cpu i) + 1)"
    by (simp add: mvp_sampler [OF wf]) (simp add: mvp_count_def)
  show "mvp_wf (mvp_step i s)"
    using wf by (auto simp: mvp_wf_def mvp_sampler [OF wf])
qed (simp_all add: mvp_rate_def mvp_count_def)

section \<open>Properties\<close>

lemma mvp_step_events [simp]:
  "mvp_events (mvp_step i s) = mvp_events s @ (if mvp_passes i s \<and> fst i \<noteq> None then [mvp_event i] else [])"
  by (simp add: mvp_step_eq mvp_passes_def Let_def)


text \<open>
  The sampling of the page-fault monitor: of \<open>N\<close> faults inside the subtree
  that hit a CPU, interleaved in any way with others, \<open>(c0 + N) div rate - c0 div rate\<close>
  pass, whether or not the ring buffer has room for them; a rate of 0 counts as 1.
\<close>

lemma mvp_sampling_rate:
  assumes "mvp_wf s"
    and "unat (mvp_count s c) + length (filter (\<lambda>i. mvp_cpu i = c \<and> mvp_gate i s) is) < 2 ^ 64"
  shows "length (filter (\<lambda>i. mvp_cpu i = c)
      (map fst (observe mvp_step (\<lambda>i s. if mvp_passes i s then Some () else None) is s))) =
    (unat (mvp_count s c) + length (filter (\<lambda>i. mvp_cpu i = c \<and> mvp_gate i s) is)) div unat (mvp_rate s)
    - unat (mvp_count s c) div unat (mvp_rate s)"
  using mvp.observed_count [of "\<lambda>i s. if mvp_passes i s then Some () else None", OF _ _ assms]
  by (auto simp: mvp_passes_def)

text \<open>The C struct \<open>event\<close> as laid out by the compiler, and a record in memory.\<close>

definition c_event :: ctype where
  "c_event = Struct [F ''ts_ns'' (Scalar 8), F ''type'' (Scalar 4), F ''pid'' (Scalar 4),
     F ''tgid'' (Scalar 4), F ''cgroup_id'' (Scalar 8), F ''comm'' (Arr 16 (Scalar 1))]"

definition event_memory :: "(nat \<Rightarrow> u8) \<Rightarrow> event \<Rightarrow> u8 list" where
  "event_memory pad e = c_memory pad c_event
     ([unat (ev_ts_ns e), unat (ev_type e), unat (ev_pid e), unat (ev_tgid e), unat (ev_cgroup_id e)]
      @ map unat (ev_comm e))"

lemma event_memory_eq:
  assumes "length (ev_comm e) = 16"
  shows "event_memory pad e = le_bytes 8 (unat (ev_ts_ns e)) @ le_bytes 4 (unat (ev_type e)) @
    le_bytes 4 (unat (ev_pid e)) @ le_bytes 4 (unat (ev_tgid e)) @ map pad [20, 21, 22, 23] @
    le_bytes 8 (unat (ev_cgroup_id e)) @ ev_comm e"
proof -
  have "leaves 0 c_event = [(0, 8), (8, 4), (12, 4), (16, 4), (24, 8)] @
      map (\<lambda>i. (32 + i, 1)) [0..<length (ev_comm e)]"
    unfolding c_event_def assms by (simp add: layout_simps del: upt_Suc)
  moreover have "csize c_event = 48"
    by (simp add: c_event_def layout_simps)
  moreover have "[20..<24] = [20, 21, 22, 23::nat]"
    by (simp add: upt_rec)
  ultimately show ?thesis
    using emit_byte_array [of pad 48 32 "ev_comm e"] assms
    by (simp add: event_memory_def c_memory_def del: One_nat_def)
qed

text \<open>
  The exporter misreads the cgroup id.  The compiler inserts four bytes of
  padding before \<open>cgroup_id\<close>, which the Go struct does not have: for every record
  the id of the counted series is the padding plus \<open>2^32\<close> times the low half of the
  real id, so a cgroup with an id below \<open>2^32\<close> other than 0 is never counted under
  its own id.  The type label is right.
\<close>

lemma mvp_exporter_misreads_cgroup:
  assumes "length (ev_comm e) = 16"
    and "gid = le_value (map pad [20, 21, 22, 23]) + 2 ^ 32 * (unat (ev_cgroup_id e) mod 2 ^ 32)"
  shows "export_record (event_memory pad e) counters =
      counters((labelType (unat (ev_type e)), gid) := counters (labelType (unat (ev_type e)), gid) + 1) \<and>
    (0 < unat (ev_cgroup_id e) \<and> unat (ev_cgroup_id e) < 2 ^ 32 \<longrightarrow> gid \<noteq> unat (ev_cgroup_id e))"
proof
  let ?P = "map pad [20, 21, 22, 23]" and ?g = "unat (ev_cgroup_id e)"
  let ?rest = "le_bytes 4 (?g div 256 ^ 4) @ ev_comm e"
  have mem: "event_memory pad e = le_bytes 8 (unat (ev_ts_ns e)) @ le_bytes 4 (unat (ev_type e)) @
      le_bytes 4 (unat (ev_pid e)) @ le_bytes 4 (unat (ev_tgid e)) @ (?P @ le_bytes 4 ?g) @ ?rest"
    using le_bytes_add [of 4 4 ?g] by (simp add: event_memory_eq [OF assms(1)])
  have len: "length (event_memory pad e) = 48"
    by (simp add: event_memory_eq assms(1))
  obtain vs where vs: "go_decode (replicate 16 1) ?rest = Some vs"
    using go_decode_enough [of "replicate 16 1" ?rest] assms(1) by (auto simp: sum_list_replicate)
  have gid: "le_value (?P @ le_bytes 4 ?g) = gid"
    by (simp only: le_value_append le_value_bytes assms(2)) simp
  have "go_decode (8 # replicate 16 1) ((?P @ le_bytes 4 ?g) @ ?rest) = Some (gid # vs)"
    by (subst go_decode_chunk) (simp, simp only: vs gid option.map)
  moreover have "unat (ev_type e) mod 256 ^ 4 = unat (ev_type e)"
    using unat_less_u32 [of "ev_type e"] by simp
  ultimately have "\<exists>a b c. go_decode go_event (event_memory pad e) = Some ([a, unat (ev_type e), b, c, gid] @ vs)"
    unfolding mem by (simp add: go_event_def del: go_decode.simps)
  then show "export_record (event_memory pad e) counters =
      counters((labelType (unat (ev_type e)), gid) := counters (labelType (unat (ev_type e)), gid) + 1)"
    using len by (auto simp: export_record_def go_event_def sum_list_replicate Let_def simp del: go_decode.simps)
  show "0 < ?g \<and> ?g < 2 ^ 32 \<longrightarrow> gid \<noteq> ?g"
    by (auto simp: assms(2))
qed

text \<open>
  C29: the filter that the exporter configures is the target's subtree.  When the
  exporter starts and rewrites the program's constants, the program accepts exactly
  the tasks whose cgroup is the target directory or lies below it, at any depth:
  the level counted from the path by \<open>filepath.Rel\<close> is the level at which the
  kernel's ancestor has the target's inode number.
\<close>

theorem mvp_filter_is_subtree:
  assumes "exporter_constants H = Inr (mvp_ro s)"
    and "getenv H ''CGROUP_ROOT'' cgroupRootDefault = abs_path ms"
    and "getenv H ''PF_TARGET_CGROUP'' gockerPathDefault = abs_path (ms @ ns)"
    and "\<forall>x \<in> set (ms @ ns). plain x" and "length ns < 2 ^ 31"
    and "inode_of H (abs_path (ms @ ns)) = Inr (ino ns)"
    and "inodes_ok ino tree" and "ns \<in> tree" and "cs \<in> tree" and "in_cgroup ino cs t"
  shows "pass_cgroup_filter t s \<longleftrightarrow> take (length ns) cs = ns"
proof -
  have "ENABLE_FILTER (mvp_ro s) = 1 \<and> TARGET_LEVEL (mvp_ro s) = of_nat (length ns) \<and> TARGET_CGID (mvp_ro s) = ino ns"
    using exporter_constants_below [OF assms(1-4)] assms(6) by simp
  then show ?thesis
    using ancestor_is_subtree [OF assms(7-10) assms(5)] by (auto simp: pass_cgroup_filter_def Let_def)
qed

section \<open>Witnesses\<close>

definition demo_host :: host_env where
  "demo_host = \<lparr>environ = (\<lambda>k. if k = ''PF_SAMPLE_RATE'' then ''10'' else []), on_cgroup2 = (\<lambda>_. True),
     inode_of = (\<lambda>_. Inr 2), read_dir = (\<lambda>_. Inr [])\<rparr>"

definition demo_ino :: "string list \<Rightarrow> u64" where
  "demo_ino ns = of_nat (Suc (length ns))"

definition demo_tree :: "string list set" where
  "demo_tree = {[], [''gocker''], [''gocker'', ''web'']}"

definition demo_inner :: task where
  "demo_inner = (demo_task 0 3)\<lparr>t_ancestor := (\<lambda>l. if l \<le> 2 then ucast l + 1 else 0)\<rparr>"

lemma demo_inner_cgroup: "in_cgroup demo_ino [''gocker'', ''web''] demo_inner"
proof -
  have le: "(of_nat l :: s32) \<le> 2 \<longleftrightarrow> l \<le> 2" if "l < 2 ^ 31" for l
    using that by (simp add: word_le_nat_alt unat_of_nat take_bit_nat_eq_self)
  have cast: "(ucast (of_nat l :: s32) :: u64) = of_nat l" if "l < 2 ^ 31" for l
    using that by (simp add: word_eq_iff_unsigned unsigned_ucast_eq unsigned_of_nat take_bit_nat_eq_self)
  show ?thesis
    by (auto simp: in_cgroup_def demo_inner_def demo_ino_def le cast)
qed

lemma demo_default_paths:
  "cgroupRootDefault = abs_path [''sys'', ''fs'', ''cgroup'']"
  "gockerPathDefault = abs_path ([''sys'', ''fs'', ''cgroup''] @ [''gocker''])"
  by (simp_all add: cgroupRootDefault_def gockerPathDefault_def abs_path_def sep_def)

lemma demo_rate: "scan_uint ''10'' = Some 10"
  by (simp add: scan_uint_def ParseUint_def parse_dec_def is_blank_def is_digit_def dec_value_def digit_value_def)

lemma demo_getenv:
  "getenv demo_host ''CGROUP_ROOT'' d = d" "getenv demo_host ''PF_TARGET_CGROUP'' d = d"
  "getenvUint demo_host ''PF_SAMPLE_RATE'' n = 10" "on_cgroup2 demo_host p" "inode_of demo_host p = Inr 2"
  by (simp_all add: getenv_def getenvUint_def demo_host_def demo_rate)

lemma demo_plain: "plain ''sys''" "plain ''fs''" "plain ''cgroup''" "plain ''gocker''"
  by (simp_all add: plain_def sep_def)

lemma demo_constants:
  "exporter_constants demo_host = Inr \<lparr>SAMPLE_RATE = 10, ENABLE_FILTER = 1, TARGET_LEVEL = 1, TARGET_CGID = 2\<rparr>"
  using cgroupLevel_below [of "[''sys'', ''fs'', ''cgroup'']" "[''gocker'']"]
  by (simp add: exporter_constants_def demo_getenv demo_plain demo_default_paths)

lemma demo_inodes: "inodes_ok demo_ino demo_tree"
proof -
  have "take l cs \<in> demo_tree" if "cs \<in> demo_tree" for l cs
    using that by (cases l; cases "l - 1") (auto simp: demo_tree_def take_Cons')
  then show ?thesis
    by (auto simp: inodes_ok_def demo_tree_def demo_ino_def inj_on_def)
qed

theorem mvp_filter_is_subtree_witness:
  "pass_cgroup_filter demo_inner \<lparr>mvp_ro = \<lparr>SAMPLE_RATE = 10, ENABLE_FILTER = 1, TARGET_LEVEL = 1, TARGET_CGID = 2\<rparr>,
     mvp_cnt = array1_init (\<lambda>_. 0), mvp_events = []\<rparr>"
  using mvp_filter_is_subtree [of demo_host "\<lparr>mvp_ro = \<lparr>SAMPLE_RATE = 10, ENABLE_FILTER = 1, TARGET_LEVEL = 1,
      TARGET_CGID = 2\<rparr>, mvp_cnt = array1_init (\<lambda>_. 0), mvp_events = []\<rparr>" "[''sys'', ''fs'', ''cgroup'']"
      "[''gocker'']" demo_ino demo_tree "[''gocker'', ''web'']" demo_inner, OF _ _ _ _ _ _ demo_inodes _ _ demo_inner_cgroup]
  by (simp add: demo_constants demo_getenv demo_plain demo_default_paths) (simp add: demo_ino_def demo_tree_def)

definition demo_mvp :: mvp_state where
  "demo_mvp = \<lparr>mvp_ro = demo_ro\<lparr>SAMPLE_RATE := 2\<rparr>, mvp_cnt = array1_init (\<lambda>_. 0), mvp_events = []\<rparr>"


definition demo_event :: event where
  "demo_event = \<lparr>ev_ts_ns = 1, ev_type = 1, ev_pid = 6, ev_tgid = 5, ev_cgroup_id = 77, ev_comm = replicate 16 0\<rparr>"


end
