(* ===== verification/Latency.thy ===== *)
theory Latency
  imports Obsv_Common C_Layout Go_Text
begin

text \<open>
  \<open>eBPF/network\<close>: the latency of received IP packets between \<open>ip_rcv\<close> and
  \<open>ip_rcv_finish\<close>.  \<open>bpf/latency.c\<close> keeps the arrival of a packet under the hash of
  its buffer and submits the completed record; \<open>main.go\<close> decodes and exports it.
\<close>

section \<open>Kernel structures\<close>

record iphdr =
  ihl :: "4 word"
  version :: "4 word"
  tos :: u8
  tot_len :: u16
  ip_id :: u16
  frag_off :: u16
  ttl :: u8
  ip_protocol :: u8
  check :: u16
  saddr :: u32
  daddr :: u32

text \<open>The fields of the socket buffer that the programs read.\<close>

record sk_buff =
  skb_hash :: u32
  skb_network_header :: u16
  skb_head :: u64

section \<open>The BPF programs\<close>

record l3 =
  src_ip :: u32
  dst_ip :: u32
  h_proto :: u8

record latency_t =
  timestamp_in :: u64
  timestamp_out :: u64
  delta :: u64
  layer_3 :: l3

record lat_state =
  latency_map :: "(u32, latency_t) bmap"
  lat_events :: "latency_t list"

text \<open>The map's kernel, and whether \<open>bpf_ringbuf_reserve\<close> finds room.\<close>

record lat_kernel =
  lk_upd :: "(u32, latency_t) upd"
  lk_del :: "(u32, latency_t) del"
  lk_room :: bool

text \<open>\<open>mem\<close> is what \<open>bpf_probe_read_kernel\<close> finds at an address.\<close>

definition build_l3 :: "(u64 \<Rightarrow> iphdr) \<Rightarrow> u64 \<Rightarrow> l3" where
  "build_l3 mem iphr =
     (let src = saddr (mem iphr); dst = daddr (mem iphr); proto = ip_protocol (mem iphr)
      in \<lparr>src_ip = src, dst_ip = dst, h_proto = proto\<rparr>)"

definition get_key :: "sk_buff \<Rightarrow> u32" where
  "get_key skb = skb_hash skb"

definition get_iphdr :: "sk_buff \<Rightarrow> u64" where
  "get_iphdr skb =
     (let head = skb_head skb; offset = skb_network_header skb; iphr = head + ucast offset
      in if iphr = 0 then 0 else iphr)"

definition ip_rcv :: "lat_kernel \<Rightarrow> (u64 \<Rightarrow> iphdr) \<Rightarrow> u64 \<Rightarrow> sk_buff \<Rightarrow> lat_state \<Rightarrow> s32 \<times> lat_state" where
  "ip_rcv K mem now skb s =
     (let iphr = get_iphdr skb;
          key = get_key skb;
          l = build_l3 mem iphr;
          latency = \<lparr>timestamp_in = now, timestamp_out = 0, delta = 0, layer_3 = l\<rparr>
      in (0, s\<lparr>latency_map := fst (lk_upd K BPF_ANY key latency (latency_map s))\<rparr>))"

definition ip_rcv_finish :: "lat_kernel \<Rightarrow> u64 \<Rightarrow> sk_buff \<Rightarrow> lat_state \<Rightarrow> s32 \<times> lat_state" where
  "ip_rcv_finish K now skb s =
     (let key = get_key skb
      in case latency_map s key of
           None \<Rightarrow> (0, s)
         | Some l0 \<Rightarrow>
             (let l1 = l0\<lparr>timestamp_out := now\<rparr>;
                  l2 = l1\<lparr>delta := (timestamp_out l1 - timestamp_in l1) div 1000\<rparr>;
                  s1 = s\<lparr>latency_map := (latency_map s)(key \<mapsto> l2)\<rparr>;
                  s2 = (if lk_room K then s1\<lparr>lat_events := lat_events s1 @ [l2]\<rparr> else s1);
                  s3 = s2\<lparr>latency_map := fst (lk_del K key (latency_map s2))\<rparr>
              in (0, s3)))"

datatype lat_tp =
    Rcv "u64 \<Rightarrow> iphdr" sk_buff
  | Finish sk_buff

type_synonym lat_call = "lat_kernel \<times> u64 \<times> lat_tp"

fun lat_step :: "lat_call \<Rightarrow> lat_state \<Rightarrow> lat_state" where
  "lat_step (K, now, Rcv mem skb) s = snd (ip_rcv K mem now skb s)"
| "lat_step (K, now, Finish skb) s = snd (ip_rcv_finish K now skb s)"

section \<open>The exporter\<close>

definition go_LatencyT :: "nat list" where
  "go_LatencyT = [8, 8, 8, 4, 4, 1, 1, 1, 1]"

text \<open>\<open>PutUint32\<close> writes the bytes of the number, \<open>net.IP\<close> prints them with dots.\<close>

definition dotted :: "nat list \<Rightarrow> string" where
  "dotted bs = (case bs of [a, b, c, d] \<Rightarrow> dec a @ ''.'' @ dec b @ ''.'' @ dec c @ ''.'' @ dec d | _ \<Rightarrow> ''?'')"

definition toIpV4 :: "nat \<Rightarrow> string" where
  "toIpV4 ip = dotted (map unat (le_bytes 4 ip))"

definition protoToString :: "nat \<Rightarrow> string" where
  "protoToString protocol =
     (if protocol = 1 then ''ICMP'' else if protocol = 2 then ''IGMP'' else if protocol = 6 then ''TCP''
      else if protocol = 17 then ''UDP'' else if protocol = 89 then ''OSPF'' else ''Unknown'')"

text \<open>The gauge vector and the observations of the histogram vector, per (source, destination).\<close>

record lat_metrics =
  PacketsCount :: "string \<times> string \<Rightarrow> nat"
  LatencyHistogram :: "string \<times> string \<Rightarrow> nat list"

definition export_latency :: "u8 list \<Rightarrow> lat_metrics \<Rightarrow> lat_metrics" where
  "export_latency raw M =
     (case go_decode go_LatencyT raw of
        None \<Rightarrow> M
      | Some e \<Rightarrow>
          (let srcIP = toIpV4 (e ! 3); dstIP = toIpV4 (e ! 4); series = (srcIP, dstIP)
           in M\<lparr>PacketsCount := (PacketsCount M)(series := PacketsCount M series + 1),
                LatencyHistogram := (LatencyHistogram M)(series := LatencyHistogram M series @ [e ! 2])\<rparr>))"

section \<open>What a probe learns and forgets\<close>

fun lat_key :: "lat_tp \<Rightarrow> u32" where
  "lat_key (Rcv mem skb) = get_key skb"
| "lat_key (Finish skb) = get_key skb"

definition arrival :: "u64 \<Rightarrow> (u64 \<Rightarrow> iphdr) \<Rightarrow> sk_buff \<Rightarrow> latency_t" where
  "arrival now mem skb =
     \<lparr>timestamp_in = now, timestamp_out = 0, delta = 0, layer_3 = build_l3 mem (get_iphdr skb)\<rparr>"

definition completed :: "u64 \<Rightarrow> latency_t \<Rightarrow> latency_t" where
  "completed now l = l\<lparr>timestamp_out := now, delta := (now - timestamp_in l) div 1000\<rparr>"

fun lat_learns :: "lat_call \<Rightarrow> lat_state \<Rightarrow> (u32 \<times> latency_t) option" where
  "lat_learns (K, now, Rcv mem skb) s = Some (get_key skb, arrival now mem skb)"
| "lat_learns (K, now, Finish skb) s = None"

fun lat_forgets :: "lat_call \<Rightarrow> u32 option" where
  "lat_forgets (K, now, Rcv mem skb) = None"
| "lat_forgets (K, now, Finish skb) = Some (get_key skb)"

definition lat_ok :: "lat_call \<Rightarrow> bool" where
  "lat_ok i \<longleftrightarrow> hash_update_ok (lk_upd (fst i)) \<and> accepts (lk_upd (fst i)) \<and> delete_ok (lk_del (fst i))"

lemma lat_rcv_eq:
  "snd (ip_rcv K mem now skb s) =
     s\<lparr>latency_map := fst (lk_upd K BPF_ANY (get_key skb) (arrival now mem skb) (latency_map s))\<rparr>"
  by (simp add: ip_rcv_def arrival_def)

lemma lat_finish_eq:
  assumes "delete_ok (lk_del K)"
  shows "snd (ip_rcv_finish K now skb s) = s\<lparr>
     latency_map := (latency_map s)(get_key skb := None),
     lat_events := lat_events s @
       (case latency_map s (get_key skb) of
          None \<Rightarrow> [] | Some l \<Rightarrow> if lk_room K then [completed now l] else [])\<rparr>"
  by (auto simp: ip_rcv_finish_def completed_def delete_fst [OF assms] Let_def fun_upd_idem
      split: option.split)

lemma lat_step_map:
  assumes "lat_ok i"
  shows "latency_map (lat_step i s) = ideal_step (lat_learns i s) (lat_forgets i) (latency_map s)"
  using assms
  by (cases "(i, s)" rule: lat_step.cases)
    (auto simp: lat_ok_def lat_rcv_eq lat_finish_eq hash_update_any ideal_step_def)

interpretation lat: lru_cache lat_step latency_map lat_ok lat_learns lat_forgets
  by unfold_locales (simp add: lat_step_map)

text \<open>With room in the map nothing is lost: the map is the ideal one.\<close>

lemma lat_map_ideal:
  assumes "\<forall>i \<in> set is. lat_ok i"
  shows "latency_map (run lat_step is s) = ideal_cache lat_step lat_learns lat_forgets is s (latency_map s)"
  using assms by (induction "is" arbitrary: s) (auto simp: lat_step_map simp del: lat_step.simps)

lemma lat_key_views:
  "lat_learns i s = Some (k, v) \<Longrightarrow> k = lat_key (snd (snd i))"
  "lat_forgets i = Some k \<Longrightarrow> k = lat_key (snd (snd i))"
  by (cases "(i, s)" rule: lat_learns.cases; auto)+

lemma lat_pending:
  assumes "\<forall>j \<in> set is. lat_ok j" and "lat_ok (K0, t0, Rcv mem skb0)"
    and "\<forall>j \<in> set is. lat_key (snd (snd j)) \<noteq> get_key skb0"
  shows "latency_map (run lat_step ((K0, t0, Rcv mem skb0) # is) s) (get_key skb0) = Some (arrival t0 mem skb0)"
proof -
  let ?r = "(K0, t0, Rcv mem skb0)"
  have "latency_map (run lat_step is (lat_step ?r s)) (get_key skb0) = latency_map (lat_step ?r s) (get_key skb0)"
    unfolding lat_map_ideal [OF assms(1)]
    by (rule ideal_cache_untouched) (use assms(3) in \<open>fastforce dest: lat_key_views\<close>)+
  then show ?thesis
    by (simp add: lat_step_map [OF assms(2)] ideal_step_def del: lat_step.simps(1))
qed

section \<open>Properties\<close>


text \<open>
  Packets whose buffers have the same hash are mixed up.  If a second such
  packet arrives before the first is finished (the hash is one of the flow, and 0
  while it has not been computed), the two packets yield one record instead of
  two, with the addresses and arrival time of the second and the finishing time
  of the first.
\<close>

lemma latency_hash_collision:
  assumes "lat_ok (K, t0, Rcv memA skbA)" and "get_key skbB = get_key skbA"
  shows "lat_events (run lat_step [(K, t0, Rcv memA skbA), (K, t1, Rcv memB skbB),
      (K, t2, Finish skbA), (K, t3, Finish skbB)] s) = lat_events s @
    (if lk_room K then [\<lparr>timestamp_in = t1, timestamp_out = t2, delta = (t2 - t1) div 1000,
       layer_3 = build_l3 memB (get_iphdr skbB)\<rparr>] else [])"
proof -
  have ok: "hash_update_ok (lk_upd K)" "accepts (lk_upd K)" "delete_ok (lk_del K)"
    using assms(1) by (simp_all add: lat_ok_def)
  show ?thesis
    by (simp add: lat_rcv_eq lat_finish_eq ok hash_update_any assms(2) completed_def arrival_def)
qed

text \<open>The C struct \<open>latency_t\<close> in memory.\<close>

definition c_latency_t :: ctype where
  "c_latency_t = Struct [F ''timestamp_in'' (Scalar 8), F ''timestamp_out'' (Scalar 8), F ''delta'' (Scalar 8),
     F ''layer_3'' (Struct [F ''src_ip'' (Scalar 4), F ''dst_ip'' (Scalar 4), F ''h_proto'' (Scalar 1)])]"

definition latency_memory :: "(nat \<Rightarrow> u8) \<Rightarrow> latency_t \<Rightarrow> u8 list" where
  "latency_memory pad l = c_memory pad c_latency_t
     [unat (timestamp_in l), unat (timestamp_out l), unat (delta l), unat (src_ip (layer_3 l)),
      unat (dst_ip (layer_3 l)), unat (h_proto (layer_3 l))]"

definition be_address :: "u8 \<Rightarrow> u8 \<Rightarrow> u8 \<Rightarrow> u8 \<Rightarrow> u32" where
  "be_address a b c d = of_nat (le_value [a, b, c, d])"

lemma le_bytes_be_address: "le_bytes 4 (unat (be_address a b c d)) = [a, b, c, d]"
proof -
  have "le_value [a, b, c, d] < 256 ^ 4"
    using le_value_less [of "[a, b, c, d]"] by simp
  then have "unat (be_address a b c d) = le_value [a, b, c, d]"
    by (simp add: be_address_def unat_of_nat del: le_value.simps)
  then show ?thesis
    using le_bytes_value [of "[a, b, c, d]"] by (simp add: numeral_eq_Suc del: le_bytes.simps le_value.simps)
qed

lemma latency_memory_decode:
  "\<exists>vs. go_decode go_LatencyT (latency_memory pad l) =
    Some ([unat (timestamp_in l), unat (timestamp_out l), unat (delta l), unat (src_ip (layer_3 l)),
      unat (dst_ip (layer_3 l)), unat (h_proto (layer_3 l))] @ vs)"
proof -
  let ?ls = "[(0, 8), (8, 8), (16, 8), (24, 4), (28, 4), (32, 1)] :: (nat \<times> nat) list"
  let ?vs = "[unat (timestamp_in l), unat (timestamp_out l), unat (delta l), unat (src_ip (layer_3 l)),
      unat (dst_ip (layer_3 l)), unat (h_proto (layer_3 l))]"
  have mem: "latency_memory pad l = emit pad 40 0 ?ls ?vs"
    by (simp add: latency_memory_def c_memory_def c_latency_t_def layout_simps)
  have tail: "\<exists>ws. go_decode [1, 1, 1] (map pad [33..<40]) = Some ws"
    by (rule go_decode_enough) simp
  have "unat (h_proto (layer_3 l)) < 256"
    using unsigned_less [of "h_proto (layer_3 l)"] by simp
  then show ?thesis
    unfolding mem go_LatencyT_def using tail unat_less_u64 unat_less_u32
    by (auto simp del: go_decode.simps le_bytes.simps)
qed

text \<open>
  C19: the exporter counts a record under the right addresses.  Whatever the
  padding bytes hold, decoding the C struct gives back its fields, the packet is
  counted once and its latency observed once, in the series labelled with the
  dotted decimal forms of the source and destination as they stood in the packet.
\<close>

theorem latency_exported:
  assumes "src_ip (layer_3 l) = be_address a b c d" and "dst_ip (layer_3 l) = be_address e f g h"
    and "series = (dotted (map unat [a, b, c, d]), dotted (map unat [e, f, g, h]))"
  shows "export_latency (latency_memory pad l) M =
    M\<lparr>PacketsCount := (PacketsCount M)(series := PacketsCount M series + 1),
      LatencyHistogram := (LatencyHistogram M)(series := LatencyHistogram M series @ [unat (delta l)])\<rparr>"
proof -
  obtain vs where "go_decode go_LatencyT (latency_memory pad l) =
    Some ([unat (timestamp_in l), unat (timestamp_out l), unat (delta l), unat (src_ip (layer_3 l)),
      unat (dst_ip (layer_3 l)), unat (h_proto (layer_3 l))] @ vs)"
    using latency_memory_decode by blast
  then show ?thesis
    by (simp add: export_latency_def toIpV4_def assms le_bytes_be_address Let_def)
qed

section \<open>Witnesses\<close>

definition demo_lat_kernel :: lat_kernel where
  "demo_lat_kernel = \<lparr>lk_upd = roomy_upd, lk_del = plain_del, lk_room = True\<rparr>"

definition demo_iphdr :: "u64 \<Rightarrow> iphdr" where
  "demo_iphdr a = \<lparr>ihl = 5, version = 4, tos = 0, tot_len = 0, ip_id = 0, frag_off = 0, ttl = 64,
     ip_protocol = 6, check = 0, saddr = ucast a, daddr = 1\<rparr>"

definition demo_skb :: "u32 \<Rightarrow> sk_buff" where
  "demo_skb h = \<lparr>skb_hash = h, skb_network_header = 14, skb_head = 0x1000\<rparr>"

definition demo_lat :: lat_state where
  "demo_lat = \<lparr>latency_map = Map.empty, lat_events = []\<rparr>"

lemma demo_lat_ok: "lat_ok (demo_lat_kernel, now, e)"
  by (simp add: lat_ok_def demo_lat_kernel_def)



theorem latency_exported_witness:
  "PacketsCount (export_latency (latency_memory (\<lambda>_. 0)
     \<lparr>timestamp_in = 1, timestamp_out = 2, delta = 9, layer_3 = \<lparr>src_ip = be_address 10 0 0 7,
        dst_ip = be_address 10 0 0 1, h_proto = 6\<rparr>\<rparr>) \<lparr>PacketsCount = \<lambda>_. 0, LatencyHistogram = \<lambda>_. []\<rparr>)
     (''10.0.0.7'', ''10.0.0.1'') = 1"
proof -
  have decs: "dec 0 = ''0''" "dec 1 = ''1''" "dec (Suc 0) = ''1''" "dec 7 = ''7''" "dec 10 = ''10''"
    by code_simp+
  have dot: "dotted (map unat [10 :: u8, 0, 0, 7]) = ''10.0.0.7''" "dotted (map unat [10 :: u8, 0, 0, 1]) = ''10.0.0.1''"
    by (simp_all add: dotted_def decs)
  show ?thesis
    by (simp add: latency_exported [OF _ _ refl] dot del: list.map)
qed

end
