(* ===== verification/Kernel_Tracepoint_Types.thy ===== *)
theory Kernel_Tracepoint_Types
  imports C_Layout
begin

text \<open>
  The argument structs of the scheduler, memory, system-call and cgroup tracepoints
  (\<open>struct trace_event_raw_*\<close> of \<open>eBPF/vmlinux.h\<close>), the contexts the BPF programs
  are called with.  One descriptor per struct, member by member.
\<close>

definition struct_trace_entry :: ctype where
  "struct_trace_entry = Struct [F ''type'' (Scalar 2), F ''flags'' (Scalar 1), F ''preempt_count'' (Scalar 1),
     F ''pid'' (Scalar 4)]"

definition struct_trace_event_raw_cgroup :: ctype where
  "struct_trace_event_raw_cgroup = Struct [F ''ent'' struct_trace_entry, F ''root'' (Scalar 4),
     F ''level'' (Scalar 4), F ''id'' (Scalar 8), F ''__data_loc_path'' (Scalar 4), F ''__data'' (Arr 0 (Scalar 1))]"

definition struct_trace_event_raw_cgroup_event :: ctype where
  "struct_trace_event_raw_cgroup_event = Struct [F ''ent'' struct_trace_entry, F ''root'' (Scalar 4),
     F ''level'' (Scalar 4), F ''id'' (Scalar 8), F ''__data_loc_path'' (Scalar 4), F ''val'' (Scalar 4),
     F ''__data'' (Arr 0 (Scalar 1))]"

definition struct_trace_event_raw_cgroup_migrate :: ctype where
  "struct_trace_event_raw_cgroup_migrate = Struct [F ''ent'' struct_trace_entry, F ''dst_root'' (Scalar 4),
     F ''dst_level'' (Scalar 4), F ''dst_id'' (Scalar 8), F ''pid'' (Scalar 4), F ''__data_loc_dst_path'' (Scalar 4),
     F ''__data_loc_comm'' (Scalar 4), F ''__data'' (Arr 0 (Scalar 1))]"

definition struct_trace_event_raw_cgroup_root :: ctype where
  "struct_trace_event_raw_cgroup_root = Struct [F ''ent'' struct_trace_entry, F ''root'' (Scalar 4),
     F ''ss_mask'' (Scalar 2), F ''__data_loc_name'' (Scalar 4), F ''__data'' (Arr 0 (Scalar 1))]"

definition struct_trace_event_raw_cgroup_rstat :: ctype where
  "struct_trace_event_raw_cgroup_rstat = Struct [F ''ent'' struct_trace_entry, F ''root'' (Scalar 4),
     F ''level'' (Scalar 4), F ''id'' (Scalar 8), F ''cpu'' (Scalar 4), F ''contended'' (Scalar 1),
     F ''__data'' (Arr 0 (Scalar 1))]"

definition struct_trace_event_raw_mm_alloc_contig_migrate_range_info :: ctype where
  "struct_trace_event_raw_mm_alloc_contig_migrate_range_info = Struct [F ''ent'' struct_trace_entry,
     F ''start'' (Scalar 8), F ''end'' (Scalar 8), F ''nr_migrated'' (Scalar 8), F ''nr_reclaimed'' (Scalar 8),
     F ''nr_mapped'' (Scalar 8), F ''migratetype'' (Scalar 4), F ''__data'' (Arr 0 (Scalar 1))]"

definition struct_trace_event_raw_mm_collapse_huge_page :: ctype where
  "struct_trace_event_raw_mm_collapse_huge_page = Struct [F ''ent'' struct_trace_entry, F ''mm'' (Scalar 8),
     F ''isolated'' (Scalar 4), F ''status'' (Scalar 4), F ''__data'' (Arr 0 (Scalar 1))]"

definition struct_trace_event_raw_mm_collapse_huge_page_isolate :: ctype where
  "struct_trace_event_raw_mm_collapse_huge_page_isolate = Struct [F ''ent'' struct_trace_entry,
     F ''pfn'' (Scalar 8), F ''none_or_zero'' (Scalar 4), F ''referenced'' (Scalar 4), F ''writable'' (Scalar 1),
     F ''status'' (Scalar 4), F ''__data'' (Arr 0 (Scalar 1))]"

definition struct_trace_event_raw_mm_collapse_huge_page_swapin :: ctype where
  "struct_trace_event_raw_mm_collapse_huge_page_swapin = Struct [F ''ent'' struct_trace_entry, F ''mm'' (Scalar 8),
     F ''swapped_in'' (Scalar 4), F ''referenced'' (Scalar 4), F ''ret'' (Scalar 4), F ''__data'' (Arr 0 (Scalar 1))]"

definition struct_trace_event_raw_mm_compaction_begin :: ctype where
  "struct_trace_event_raw_mm_compaction_begin = Struct [F ''ent'' struct_trace_entry, F ''zone_start'' (Scalar 8),
     F ''migrate_pfn'' (Scalar 8), F ''free_pfn'' (Scalar 8), F ''zone_end'' (Scalar 8), F ''sync'' (Scalar 1),
     F ''__data'' (Arr 0 (Scalar 1))]"

definition struct_trace_event_raw_mm_compaction_defer_template :: ctype where
  "struct_trace_event_raw_mm_compaction_defer_template = Struct [F ''ent'' struct_trace_entry,
     F ''nid'' (Scalar 4), F ''idx'' (Scalar 4), F ''order'' (Scalar 4), F ''considered'' (Scalar 4),
     F ''defer_shift'' (Scalar 4), F ''order_failed'' (Scalar 4), F ''__data'' (Arr 0 (Scalar 1))]"

definition struct_trace_event_raw_mm_compaction_end :: ctype where
  "struct_trace_event_raw_mm_compaction_end = Struct [F ''ent'' struct_trace_entry, F ''zone_start'' (Scalar 8),
     F ''migrate_pfn'' (Scalar 8), F ''free_pfn'' (Scalar 8), F ''zone_end'' (Scalar 8), F ''sync'' (Scalar 1),
     F ''status'' (Scalar 4), F ''__data'' (Arr 0 (Scalar 1))]"

definition struct_trace_event_raw_mm_compaction_isolate_template :: ctype where
  "struct_trace_event_raw_mm_compaction_isolate_template = Struct [F ''ent'' struct_trace_entry,
     F ''start_pfn'' (Scalar 8), F ''end_pfn'' (Scalar 8), F ''nr_scanned'' (Scalar 8), F ''nr_taken'' (Scalar 8),
     F ''__data'' (Arr 0 (Scalar 1))]"

definition struct_trace_event_raw_mm_compaction_kcompactd_sleep :: ctype where
  "struct_trace_event_raw_mm_compaction_kcompactd_sleep = Struct [F ''ent'' struct_trace_entry,
     F ''nid'' (Scalar 4), F ''__data'' (Arr 0 (Scalar 1))]"

definition struct_trace_event_raw_mm_compaction_migratepages :: ctype where
  "struct_trace_event_raw_mm_compaction_migratepages = Struct [F ''ent'' struct_trace_entry,
     F ''nr_migrated'' (Scalar 8), F ''nr_failed'' (Scalar 8), F ''__data'' (Arr 0 (Scalar 1))]"

definition struct_trace_event_raw_mm_compaction_suitable_template :: ctype where
  "struct_trace_event_raw_mm_compaction_suitable_template = Struct [F ''ent'' struct_trace_entry,
     F ''nid'' (Scalar 4), F ''idx'' (Scalar 4), F ''order'' (Scalar 4), F ''ret'' (Scalar 4),
     F ''__data'' (Arr 0 (Scalar 1))]"

definition struct_trace_event_raw_mm_compaction_try_to_compact_pages :: ctype where
  "struct_trace_event_raw_mm_compaction_try_to_compact_pages = Struct [F ''ent'' struct_trace_entry,
     F ''order'' (Scalar 4), F ''gfp_mask'' (Scalar 8), F ''prio'' (Scalar 4), F ''__data'' (Arr 0 (Scalar 1))]"

definition struct_trace_event_raw_mm_filemap_fault :: ctype where
  "struct_trace_event_raw_mm_filemap_fault = Struct [F ''ent'' struct_trace_entry, F ''i_ino'' (Scalar 8),
     F ''s_dev'' (Scalar 4), F ''index'' (Scalar 8), F ''__data'' (Arr 0 (Scalar 1))]"

definition struct_trace_event_raw_mm_filemap_op_page_cache :: ctype where
  "struct_trace_event_raw_mm_filemap_op_page_cache = Struct [F ''ent'' struct_trace_entry, F ''pfn'' (Scalar 8),
     F ''i_ino'' (Scalar 8), F ''index'' (Scalar 8), F ''s_dev'' (Scalar 4), F ''order'' (Scalar 1),
     F ''__data'' (Arr 0 (Scalar 1))]"

definition struct_trace_event_raw_mm_filemap_op_page_cache_range :: ctype where
  "struct_trace_event_raw_mm_filemap_op_page_cache_range = Struct [F ''ent'' struct_trace_entry,
     F ''i_ino'' (Scalar 8), F ''s_dev'' (Scalar 4), F ''index'' (Scalar 8), F ''last_index'' (Scalar 8),
     F ''__data'' (Arr 0 (Scalar 1))]"

definition struct_trace_event_raw_mm_khugepaged_collapse_file :: ctype where
  "struct_trace_event_raw_mm_khugepaged_collapse_file = Struct [F ''ent'' struct_trace_entry, F ''mm'' (Scalar 8),
     F ''hpfn'' (Scalar 8), F ''index'' (Scalar 8), F ''addr'' (Scalar 8), F ''is_shmem'' (Scalar 1),
     F ''__data_loc_filename'' (Scalar 4), F ''nr'' (Scalar 4), F ''result'' (Scalar 4),
     F ''__data'' (Arr 0 (Scalar 1))]"

definition struct_trace_event_raw_mm_khugepaged_scan_file :: ctype where
  "struct_trace_event_raw_mm_khugepaged_scan_file = Struct [F ''ent'' struct_trace_entry, F ''mm'' (Scalar 8),
     F ''pfn'' (Scalar 8), F ''__data_loc_filename'' (Scalar 4), F ''present'' (Scalar 4), F ''swap'' (Scalar 4),
     F ''result'' (Scalar 4), F ''__data'' (Arr 0 (Scalar 1))]"

definition struct_trace_event_raw_mm_khugepaged_scan_pmd :: ctype where
  "struct_trace_event_raw_mm_khugepaged_scan_pmd = Struct [F ''ent'' struct_trace_entry, F ''mm'' (Scalar 8),
     F ''pfn'' (Scalar 8), F ''writable'' (Scalar 1), F ''referenced'' (Scalar 4), F ''none_or_zero'' (Scalar 4),
     F ''status'' (Scalar 4), F ''unmapped'' (Scalar 4), F ''__data'' (Arr 0 (Scalar 1))]"

definition struct_trace_event_raw_mm_lru_activate :: ctype where
  "struct_trace_event_raw_mm_lru_activate = Struct [F ''ent'' struct_trace_entry, F ''folio'' (Scalar 8),
     F ''pfn'' (Scalar 8), F ''__data'' (Arr 0 (Scalar 1))]"

definition struct_trace_event_raw_mm_lru_insertion :: ctype where
  "struct_trace_event_raw_mm_lru_insertion = Struct [F ''ent'' struct_trace_entry, F ''folio'' (Scalar 8),
     F ''pfn'' (Scalar 8), F ''lru'' (Scalar 4), F ''flags'' (Scalar 8), F ''__data'' (Arr 0 (Scalar 1))]"

definition struct_trace_event_raw_mm_migrate_pages :: ctype where
  "struct_trace_event_raw_mm_migrate_pages = Struct [F ''ent'' struct_trace_entry, F ''succeeded'' (Scalar 8),
     F ''failed'' (Scalar 8), F ''thp_succeeded'' (Scalar 8), F ''thp_failed'' (Scalar 8), F ''thp_split'' (Scalar 8),
     F ''large_folio_split'' (Scalar 8), F ''mode'' (Scalar 4), F ''reason'' (Scalar 4),
     F ''__data'' (Arr 0 (Scalar 1))]"

definition struct_trace_event_raw_mm_migrate_pages_start :: ctype where
  "struct_trace_event_raw_mm_migrate_pages_start = Struct [F ''ent'' struct_trace_entry, F ''mode'' (Scalar 4),
     F ''reason'' (Scalar 4), F ''__data'' (Arr 0 (Scalar 1))]"

definition struct_trace_event_raw_mm_page :: ctype where
  "struct_trace_event_raw_mm_page = Struct [F ''ent'' struct_trace_entry, F ''pfn'' (Scalar 8),
     F ''order'' (Scalar 4), F ''migratetype'' (Scalar 4), F ''percpu_refill'' (Scalar 4),
     F ''__data'' (Arr 0 (Scalar 1))]"

definition struct_trace_event_raw_mm_page_alloc :: ctype where
  "struct_trace_event_raw_mm_page_alloc = Struct [F ''ent'' struct_trace_entry, F ''pfn'' (Scalar 8),
     F ''order'' (Scalar 4), F ''gfp_flags'' (Scalar 8), F ''migratetype'' (Scalar 4),
     F ''__data'' (Arr 0 (Scalar 1))]"

definition struct_trace_event_raw_mm_page_alloc_extfrag :: ctype where
  "struct_trace_event_raw_mm_page_alloc_extfrag = Struct [F ''ent'' struct_trace_entry, F ''pfn'' (Scalar 8),
     F ''alloc_order'' (Scalar 4), F ''fallback_order'' (Scalar 4), F ''alloc_migratetype'' (Scalar 4),
     F ''fallback_migratetype'' (Scalar 4), F ''change_ownership'' (Scalar 4), F ''__data'' (Arr 0 (Scalar 1))]"

definition struct_trace_event_raw_mm_page_free :: ctype where
  "struct_trace_event_raw_mm_page_free = Struct [F ''ent'' struct_trace_entry, F ''pfn'' (Scalar 8),
     F ''order'' (Scalar 4), F ''__data'' (Arr 0 (Scalar 1))]"

definition struct_trace_event_raw_mm_page_free_batched :: ctype where
  "struct_trace_event_raw_mm_page_free_batched = Struct [F ''ent'' struct_trace_entry, F ''pfn'' (Scalar 8),
     F ''__data'' (Arr 0 (Scalar 1))]"

definition struct_trace_event_raw_mm_page_pcpu_drain :: ctype where
  "struct_trace_event_raw_mm_page_pcpu_drain = Struct [F ''ent'' struct_trace_entry, F ''pfn'' (Scalar 8),
     F ''order'' (Scalar 4), F ''migratetype'' (Scalar 4), F ''__data'' (Arr 0 (Scalar 1))]"

definition struct_trace_event_raw_mm_shrink_slab_end :: ctype where
  "struct_trace_event_raw_mm_shrink_slab_end = Struct [F ''ent'' struct_trace_entry, F ''shr'' (Scalar 8),
     F ''nid'' (Scalar 4), F ''shrink'' (Scalar 8), F ''unused_scan'' (Scalar 8), F ''new_scan'' (Scalar 8),
     F ''retval'' (Scalar 4), F ''total_scan'' (Scalar 8), F ''__data'' (Arr 0 (Scalar 1))]"

definition struct_trace_event_raw_mm_shrink_slab_start :: ctype where
  "struct_trace_event_raw_mm_shrink_slab_start = Struct [F ''ent'' struct_trace_entry, F ''shr'' (Scalar 8),
     F ''shrink'' (Scalar 8), F ''nid'' (Scalar 4), F ''nr_objects_to_shrink'' (Scalar 8), F ''gfp_flags'' (Scalar 8),
     F ''cache_items'' (Scalar 8), F ''delta'' (Scalar 8), F ''total_scan'' (Scalar 8), F ''priority'' (Scalar 4),
     F ''__data'' (Arr 0 (Scalar 1))]"

definition struct_trace_event_raw_mm_vmscan_direct_reclaim_begin_template :: ctype where
  "struct_trace_event_raw_mm_vmscan_direct_reclaim_begin_template = Struct [F ''ent'' struct_trace_entry,
     F ''order'' (Scalar 4), F ''gfp_flags'' (Scalar 8), F ''__data'' (Arr 0 (Scalar 1))]"

definition struct_trace_event_raw_mm_vmscan_direct_reclaim_end_template :: ctype where
  "struct_trace_event_raw_mm_vmscan_direct_reclaim_end_template = Struct [F ''ent'' struct_trace_entry,
     F ''nr_reclaimed'' (Scalar 8), F ''__data'' (Arr 0 (Scalar 1))]"

definition struct_trace_event_raw_mm_vmscan_kswapd_sleep :: ctype where
  "struct_trace_event_raw_mm_vmscan_kswapd_sleep = Struct [F ''ent'' struct_trace_entry, F ''nid'' (Scalar 4),
     F ''__data'' (Arr 0 (Scalar 1))]"

definition struct_trace_event_raw_mm_vmscan_kswapd_wake :: ctype where
  "struct_trace_event_raw_mm_vmscan_kswapd_wake = Struct [F ''ent'' struct_trace_entry, F ''nid'' (Scalar 4),
     F ''zid'' (Scalar 4), F ''order'' (Scalar 4), F ''__data'' (Arr 0 (Scalar 1))]"

definition struct_trace_event_raw_mm_vmscan_lru_isolate :: ctype where
  "struct_trace_event_raw_mm_vmscan_lru_isolate = Struct [F ''ent'' struct_trace_entry,
     F ''highest_zoneidx'' (Scalar 4), F ''order'' (Scalar 4), F ''nr_requested'' (Scalar 8),
     F ''nr_scanned'' (Scalar 8), F ''nr_skipped'' (Scalar 8), F ''nr_taken'' (Scalar 8), F ''lru'' (Scalar 4),
     F ''__data'' (Arr 0 (Scalar 1))]"

definition struct_trace_event_raw_mm_vmscan_lru_shrink_active :: ctype where
  "struct_trace_event_raw_mm_vmscan_lru_shrink_active = Struct [F ''ent'' struct_trace_entry, F ''nid'' (Scalar 4),
     F ''nr_taken'' (Scalar 8), F ''nr_active'' (Scalar 8), F ''nr_deactivated'' (Scalar 8),
     F ''nr_referenced'' (Scalar 8), F ''priority'' (Scalar 4), F ''reclaim_flags'' (Scalar 4),
     F ''__data'' (Arr 0 (Scalar 1))]"

definition struct_trace_event_raw_mm_vmscan_lru_shrink_inactive :: ctype where
  "struct_trace_event_raw_mm_vmscan_lru_shrink_inactive = Struct [F ''ent'' struct_trace_entry,
     F ''nid'' (Scalar 4), F ''nr_scanned'' (Scalar 8), F ''nr_reclaimed'' (Scalar 8), F ''nr_dirty'' (Scalar 8),
     F ''nr_writeback'' (Scalar 8), F ''nr_congested'' (Scalar 8), F ''nr_immediate'' (Scalar 8),
     F ''nr_activate0'' (Scalar 4), F ''nr_activate1'' (Scalar 4), F ''nr_ref_keep'' (Scalar 8),
     F ''nr_unmap_fail'' (Scalar 8), F ''priority'' (Scalar 4), F ''reclaim_flags'' (Scalar 4),
     F ''__data'' (Arr 0 (Scalar 1))]"

definition struct_trace_event_raw_mm_vmscan_node_reclaim_begin :: ctype where
  "struct_trace_event_raw_mm_vmscan_node_reclaim_begin = Struct [F ''ent'' struct_trace_entry,
     F ''nid'' (Scalar 4), F ''order'' (Scalar 4), F ''gfp_flags'' (Scalar 8), F ''__data'' (Arr 0 (Scalar 1))]"

definition struct_trace_event_raw_mm_vmscan_reclaim_pages :: ctype where
  "struct_trace_event_raw_mm_vmscan_reclaim_pages = Struct [F ''ent'' struct_trace_entry, F ''nid'' (Scalar 4),
     F ''nr_scanned'' (Scalar 8), F ''nr_reclaimed'' (Scalar 8), F ''nr_dirty'' (Scalar 8),
     F ''nr_writeback'' (Scalar 8), F ''nr_congested'' (Scalar 8), F ''nr_immediate'' (Scalar 8),
     F ''nr_activate0'' (Scalar 4), F ''nr_activate1'' (Scalar 4), F ''nr_ref_keep'' (Scalar 8),
     F ''nr_unmap_fail'' (Scalar 8), F ''__data'' (Arr 0 (Scalar 1))]"

definition struct_trace_event_raw_mm_vmscan_throttled :: ctype where
  "struct_trace_event_raw_mm_vmscan_throttled = Struct [F ''ent'' struct_trace_entry, F ''nid'' (Scalar 4),
     F ''usec_timeout'' (Scalar 4), F ''usec_delayed'' (Scalar 4), F ''reason'' (Scalar 4),
     F ''__data'' (Arr 0 (Scalar 1))]"

definition struct_trace_event_raw_mm_vmscan_wakeup_kswapd :: ctype where
  "struct_trace_event_raw_mm_vmscan_wakeup_kswapd = Struct [F ''ent'' struct_trace_entry, F ''nid'' (Scalar 4),
     F ''zid'' (Scalar 4), F ''order'' (Scalar 4), F ''gfp_flags'' (Scalar 8), F ''__data'' (Arr 0 (Scalar 1))]"

definition struct_trace_event_raw_mm_vmscan_write_folio :: ctype where
  "struct_trace_event_raw_mm_vmscan_write_folio = Struct [F ''ent'' struct_trace_entry, F ''pfn'' (Scalar 8),
     F ''reclaim_flags'' (Scalar 4), F ''__data'' (Arr 0 (Scalar 1))]"

definition struct_trace_event_raw_sched_ext_dump :: ctype where
  "struct_trace_event_raw_sched_ext_dump = Struct [F ''ent'' struct_trace_entry, F ''__data_loc_line'' (Scalar 4),
     F ''__data'' (Arr 0 (Scalar 1))]"

definition struct_trace_event_raw_sched_kthread_stop :: ctype where
  "struct_trace_event_raw_sched_kthread_stop = Struct [F ''ent'' struct_trace_entry,
     F ''comm'' (Arr 16 (Scalar 1)), F ''pid'' (Scalar 4), F ''__data'' (Arr 0 (Scalar 1))]"

definition struct_trace_event_raw_sched_kthread_stop_ret :: ctype where
  "struct_trace_event_raw_sched_kthread_stop_ret = Struct [F ''ent'' struct_trace_entry, F ''ret'' (Scalar 4),
     F ''__data'' (Arr 0 (Scalar 1))]"

definition struct_trace_event_raw_sched_kthread_work_execute_end :: ctype where
  "struct_trace_event_raw_sched_kthread_work_execute_end = Struct [F ''ent'' struct_trace_entry,
     F ''work'' (Scalar 8), F ''function'' (Scalar 8), F ''__data'' (Arr 0 (Scalar 1))]"

definition struct_trace_event_raw_sched_kthread_work_execute_start :: ctype where
  "struct_trace_event_raw_sched_kthread_work_execute_start = Struct [F ''ent'' struct_trace_entry,
     F ''work'' (Scalar 8), F ''function'' (Scalar 8), F ''__data'' (Arr 0 (Scalar 1))]"

definition struct_trace_event_raw_sched_kthread_work_queue_work :: ctype where
  "struct_trace_event_raw_sched_kthread_work_queue_work = Struct [F ''ent'' struct_trace_entry,
     F ''work'' (Scalar 8), F ''function'' (Scalar 8), F ''worker'' (Scalar 8), F ''__data'' (Arr 0 (Scalar 1))]"

definition struct_trace_event_raw_sched_migrate_task :: ctype where
  "struct_trace_event_raw_sched_migrate_task = Struct [F ''ent'' struct_trace_entry,
     F ''comm'' (Arr 16 (Scalar 1)), F ''pid'' (Scalar 4), F ''prio'' (Scalar 4), F ''orig_cpu'' (Scalar 4),
     F ''dest_cpu'' (Scalar 4), F ''__data'' (Arr 0 (Scalar 1))]"

definition struct_trace_event_raw_sched_move_numa :: ctype where
  "struct_trace_event_raw_sched_move_numa = Struct [F ''ent'' struct_trace_entry, F ''pid'' (Scalar 4),
     F ''tgid'' (Scalar 4), F ''ngid'' (Scalar 4), F ''src_cpu'' (Scalar 4), F ''src_nid'' (Scalar 4),
     F ''dst_cpu'' (Scalar 4), F ''dst_nid'' (Scalar 4), F ''__data'' (Arr 0 (Scalar 1))]"

definition struct_trace_event_raw_sched_numa_pair_template :: ctype where
  "struct_trace_event_raw_sched_numa_pair_template = Struct [F ''ent'' struct_trace_entry,
     F ''src_pid'' (Scalar 4), F ''src_tgid'' (Scalar 4), F ''src_ngid'' (Scalar 4), F ''src_cpu'' (Scalar 4),
     F ''src_nid'' (Scalar 4), F ''dst_pid'' (Scalar 4), F ''dst_tgid'' (Scalar 4), F ''dst_ngid'' (Scalar 4),
     F ''dst_cpu'' (Scalar 4), F ''dst_nid'' (Scalar 4), F ''__data'' (Arr 0 (Scalar 1))]"

definition struct_trace_event_raw_sched_pi_setprio :: ctype where
  "struct_trace_event_raw_sched_pi_setprio = Struct [F ''ent'' struct_trace_entry, F ''comm'' (Arr 16 (Scalar 1)),
     F ''pid'' (Scalar 4), F ''oldprio'' (Scalar 4), F ''newprio'' (Scalar 4), F ''__data'' (Arr 0 (Scalar 1))]"

definition struct_trace_event_raw_sched_prepare_exec :: ctype where
  "struct_trace_event_raw_sched_prepare_exec = Struct [F ''ent'' struct_trace_entry,
     F ''__data_loc_interp'' (Scalar 4), F ''__data_loc_filename'' (Scalar 4), F ''pid'' (Scalar 4),
     F ''__data_loc_comm'' (Scalar 4), F ''__data'' (Arr 0 (Scalar 1))]"

definition struct_trace_event_raw_sched_process_exec :: ctype where
  "struct_trace_event_raw_sched_process_exec = Struct [F ''ent'' struct_trace_entry,
     F ''__data_loc_filename'' (Scalar 4), F ''pid'' (Scalar 4), F ''old_pid'' (Scalar 4),
     F ''__data'' (Arr 0 (Scalar 1))]"

definition struct_trace_event_raw_sched_process_fork :: ctype where
  "struct_trace_event_raw_sched_process_fork = Struct [F ''ent'' struct_trace_entry,
     F ''parent_comm'' (Arr 16 (Scalar 1)), F ''parent_pid'' (Scalar 4), F ''child_comm'' (Arr 16 (Scalar 1)),
     F ''child_pid'' (Scalar 4), F ''__data'' (Arr 0 (Scalar 1))]"

definition struct_trace_event_raw_sched_process_hang :: ctype where
  "struct_trace_event_raw_sched_process_hang = Struct [F ''ent'' struct_trace_entry,
     F ''comm'' (Arr 16 (Scalar 1)), F ''pid'' (Scalar 4), F ''__data'' (Arr 0 (Scalar 1))]"

definition struct_trace_event_raw_sched_process_template :: ctype where
  "struct_trace_event_raw_sched_process_template = Struct [F ''ent'' struct_trace_entry,
     F ''comm'' (Arr 16 (Scalar 1)), F ''pid'' (Scalar 4), F ''prio'' (Scalar 4), F ''__data'' (Arr 0 (Scalar 1))]"

definition struct_trace_event_raw_sched_process_wait :: ctype where
  "struct_trace_event_raw_sched_process_wait = Struct [F ''ent'' struct_trace_entry,
     F ''comm'' (Arr 16 (Scalar 1)), F ''pid'' (Scalar 4), F ''prio'' (Scalar 4), F ''__data'' (Arr 0 (Scalar 1))]"

definition struct_trace_event_raw_sched_skip_vma_numa :: ctype where
  "struct_trace_event_raw_sched_skip_vma_numa = Struct [F ''ent'' struct_trace_entry,
     F ''numa_scan_offset'' (Scalar 8), F ''vm_start'' (Scalar 8), F ''vm_end'' (Scalar 8), F ''reason'' (Scalar 4),
     F ''__data'' (Arr 0 (Scalar 1))]"

definition struct_trace_event_raw_sched_stat_runtime :: ctype where
  "struct_trace_event_raw_sched_stat_runtime = Struct [F ''ent'' struct_trace_entry,
     F ''comm'' (Arr 16 (Scalar 1)), F ''pid'' (Scalar 4), F ''runtime'' (Scalar 8), F ''__data'' (Arr 0 (Scalar 1))]"

definition struct_trace_event_raw_sched_stat_template :: ctype where
  "struct_trace_event_raw_sched_stat_template = Struct [F ''ent'' struct_trace_entry,
     F ''comm'' (Arr 16 (Scalar 1)), F ''pid'' (Scalar 4), F ''delay'' (Scalar 8), F ''__data'' (Arr 0 (Scalar 1))]"

definition struct_trace_event_raw_sched_switch :: ctype where
  "struct_trace_event_raw_sched_switch = Struct [F ''ent'' struct_trace_entry, F ''prev_comm'' (Arr 16 (Scalar 1)),
     F ''prev_pid'' (Scalar 4), F ''prev_prio'' (Scalar 4), F ''prev_state'' (Scalar 8),
     F ''next_comm'' (Arr 16 (Scalar 1)), F ''next_pid'' (Scalar 4), F ''next_prio'' (Scalar 4),
     F ''__data'' (Arr 0 (Scalar 1))]"

definition struct_trace_event_raw_sched_wake_idle_without_ipi :: ctype where
  "struct_trace_event_raw_sched_wake_idle_without_ipi = Struct [F ''ent'' struct_trace_entry, F ''cpu'' (Scalar 4),
     F ''__data'' (Arr 0 (Scalar 1))]"

definition struct_trace_event_raw_sched_wakeup_template :: ctype where
  "struct_trace_event_raw_sched_wakeup_template = Struct [F ''ent'' struct_trace_entry,
     F ''comm'' (Arr 16 (Scalar 1)), F ''pid'' (Scalar 4), F ''prio'' (Scalar 4), F ''target_cpu'' (Scalar 4),
     F ''__data'' (Arr 0 (Scalar 1))]"

definition struct_trace_event_raw_sys_enter :: ctype where
  "struct_trace_event_raw_sys_enter = Struct [F ''ent'' struct_trace_entry, F ''id'' (Scalar 8),
     F ''args'' (Arr 6 (Scalar 8)), F ''__data'' (Arr 0 (Scalar 1))]"

definition struct_trace_event_raw_sys_exit :: ctype where
  "struct_trace_event_raw_sys_exit = Struct [F ''ent'' struct_trace_entry, F ''id'' (Scalar 8),
     F ''ret'' (Scalar 8), F ''__data'' (Arr 0 (Scalar 1))]"

end
