(* ===== verification/Kernel_Net_Types.thy ===== *)
theory Kernel_Net_Types
  imports C_Layout
begin

text \<open>
  The arguments of the two probed functions of the packet-latency monitor: registers,
  socket buffer, IP header, device and socket of \<open>eBPF/network/bpf/vmlinux.h\<close>, with the
  types they contain by value.
\<close>

definition struct_pt_regs_net :: ctype where
  "struct_pt_regs_net = Struct [F ''r15'' (Scalar 8), F ''r14'' (Scalar 8), F ''r13'' (Scalar 8),
     F ''r12'' (Scalar 8), F ''bp'' (Scalar 8), F ''bx'' (Scalar 8), F ''r11'' (Scalar 8), F ''r10'' (Scalar 8),
     F ''r9'' (Scalar 8), F ''r8'' (Scalar 8), F ''ax'' (Scalar 8), F ''cx'' (Scalar 8), F ''dx'' (Scalar 8),
     F ''si'' (Scalar 8), F ''di'' (Scalar 8), F ''orig_ax'' (Scalar 8), F ''ip'' (Scalar 8), F ''cs'' (Scalar 8),
     F ''flags'' (Scalar 8), F ''sp'' (Scalar 8), F ''ss'' (Scalar 8)]"

definition struct_iphdr_net :: ctype where
  "struct_iphdr_net = Struct [F ''ihl'' (Bits 1 4), F ''version'' (Bits 1 4), F ''tos'' (Scalar 1),
     F ''tot_len'' (Scalar 2), F ''id'' (Scalar 2), F ''frag_off'' (Scalar 2), F ''ttl'' (Scalar 1),
     F ''protocol'' (Scalar 1), F ''check'' (Scalar 2), F '''' (Union [F '''' (Struct [F ''saddr'' (Scalar 4),
     F ''daddr'' (Scalar 4)]), F ''addrs'' (Struct [F ''saddr'' (Scalar 4), F ''daddr'' (Scalar 4)])])]"

definition struct_list_head_net :: ctype where
  "struct_list_head_net = Struct [F ''next'' (Scalar 8), F ''prev'' (Scalar 8)]"

definition struct_rb_node_net :: ctype where
  "struct_rb_node_net = Struct [F ''__rb_parent_color'' (Scalar 8), F ''rb_right'' (Scalar 8),
     F ''rb_left'' (Scalar 8)]"

definition typedef_atomic_t_net :: ctype where
  "typedef_atomic_t_net = Struct [F ''counter'' (Scalar 4)]"

definition struct_refcount_struct_net :: ctype where
  "struct_refcount_struct_net = Struct [F ''refs'' typedef_atomic_t_net]"

definition struct_sk_buff_net :: ctype where
  "struct_sk_buff_net = Struct [F '''' (Union [F '''' (Struct [F ''next'' (Scalar 8), F ''prev'' (Scalar 8),
     F '''' (Union [F ''dev'' (Scalar 8), F ''dev_scratch'' (Scalar 8)])]), F ''rbnode'' struct_rb_node_net,
     F ''list'' struct_list_head_net]), F '''' (Union [F ''sk'' (Scalar 8), F ''ip_defrag_offset'' (Scalar 4)]),
     F '''' (Union [F ''tstamp'' (Scalar 8), F ''skb_mstamp_ns'' (Scalar 8)]), F ''cb'' (Arr 48 (Scalar 1)),
     F '''' (Union [F '''' (Struct [F ''_skb_refdst'' (Scalar 8), F ''destructor'' (Scalar 8)]),
     F ''tcp_tsorted_anchor'' struct_list_head_net, F ''_sk_redir'' (Scalar 8)]), F ''_nfct'' (Scalar 8),
     F ''len'' (Scalar 4), F ''data_len'' (Scalar 4), F ''mac_len'' (Scalar 2), F ''hdr_len'' (Scalar 2),
     F ''queue_mapping'' (Scalar 2), F ''__cloned_offset'' (Arr 0 (Scalar 1)), F ''cloned'' (Bits 1 1),
     F ''nohdr'' (Bits 1 1), F ''fclone'' (Bits 1 2), F ''peeked'' (Bits 1 1), F ''head_frag'' (Bits 1 1),
     F ''pfmemalloc'' (Bits 1 1), F ''pp_recycle'' (Bits 1 1), F ''active_extensions'' (Scalar 1),
     F ''headers_start'' (Arr 0 (Scalar 4)), F ''__pkt_type_offset'' (Arr 0 (Scalar 1)), F ''pkt_type'' (Bits 1 3),
     F ''ignore_df'' (Bits 1 1), F ''nf_trace'' (Bits 1 1), F ''ip_summed'' (Bits 1 2), F ''ooo_okay'' (Bits 1 1),
     F ''l4_hash'' (Bits 1 1), F ''sw_hash'' (Bits 1 1), F ''wifi_acked_valid'' (Bits 1 1),
     F ''wifi_acked'' (Bits 1 1), F ''no_fcs'' (Bits 1 1), F ''encapsulation'' (Bits 1 1),
     F ''encap_hdr_csum'' (Bits 1 1), F ''csum_valid'' (Bits 1 1), F ''__pkt_vlan_present_offset'' (Arr 0 (Scalar 1)),
     F ''vlan_present'' (Bits 1 1), F ''csum_complete_sw'' (Bits 1 1), F ''csum_level'' (Bits 1 2),
     F ''csum_not_inet'' (Bits 1 1), F ''dst_pending_confirm'' (Bits 1 1), F ''ndisc_nodetype'' (Bits 1 2),
     F ''ipvs_property'' (Bits 1 1), F ''inner_protocol_type'' (Bits 1 1), F ''remcsum_offload'' (Bits 1 1),
     F ''offload_fwd_mark'' (Bits 1 1), F ''offload_l3_fwd_mark'' (Bits 1 1), F ''tc_skip_classify'' (Bits 1 1),
     F ''tc_at_ingress'' (Bits 1 1), F ''redirected'' (Bits 1 1), F ''slow_gro'' (Bits 1 1),
     F ''scm_io_uring'' (Bits 1 1), F ''tc_index'' (Scalar 2), F '''' (Union [F ''csum'' (Scalar 4),
     F '''' (Struct [F ''csum_start'' (Scalar 2), F ''csum_offset'' (Scalar 2)])]), F ''priority'' (Scalar 4),
     F ''skb_iif'' (Scalar 4), F ''hash'' (Scalar 4), F ''vlan_proto'' (Scalar 2), F ''vlan_tci'' (Scalar 2),
     F '''' (Union [F ''napi_id'' (Scalar 4), F ''sender_cpu'' (Scalar 4)]), F ''secmark'' (Scalar 4),
     F '''' (Union [F ''mark'' (Scalar 4), F ''reserved_tailroom'' (Scalar 4)]),
     F '''' (Union [F ''inner_protocol'' (Scalar 2), F ''inner_ipproto'' (Scalar 1)]),
     F ''inner_transport_header'' (Scalar 2), F ''inner_network_header'' (Scalar 2),
     F ''inner_mac_header'' (Scalar 2), F ''protocol'' (Scalar 2), F ''transport_header'' (Scalar 2),
     F ''network_header'' (Scalar 2), F ''mac_header'' (Scalar 2), F ''headers_end'' (Arr 0 (Scalar 4)),
     F ''tail'' (Scalar 4), F ''end'' (Scalar 4), F ''head'' (Scalar 8), F ''data'' (Scalar 8),
     F ''truesize'' (Scalar 4), F ''users'' struct_refcount_struct_net, F ''extensions'' (Scalar 8)]"

definition struct_bpf_xdp_entity_net :: ctype where
  "struct_bpf_xdp_entity_net = Struct [F ''prog'' (Scalar 8), F ''link'' (Scalar 8)]"

definition struct_dev_archdata_net :: ctype where
  "struct_dev_archdata_net = Struct []"

definition struct_dev_links_info_net :: ctype where
  "struct_dev_links_info_net = Struct [F ''suppliers'' struct_list_head_net, F ''consumers'' struct_list_head_net,
     F ''defer_sync'' struct_list_head_net, F ''status'' (Scalar 4)]"

definition struct_pm_message_net :: ctype where
  "struct_pm_message_net = Struct [F ''event'' (Scalar 4)]"

definition struct_qspinlock_net :: ctype where
  "struct_qspinlock_net = Struct [F '''' (Union [F ''val'' typedef_atomic_t_net,
     F '''' (Struct [F ''locked'' (Scalar 1), F ''pending'' (Scalar 1)]),
     F '''' (Struct [F ''locked_pending'' (Scalar 2), F ''tail'' (Scalar 2)])])]"

definition struct_raw_spinlock_net :: ctype where
  "struct_raw_spinlock_net = Struct [F ''raw_lock'' struct_qspinlock_net]"

definition struct_spinlock_net :: ctype where
  "struct_spinlock_net = Struct [F '''' (Union [F ''rlock'' struct_raw_spinlock_net])]"

definition struct_dev_pm_info_net :: ctype where
  "struct_dev_pm_info_net = Struct [F ''power_state'' struct_pm_message_net, F ''can_wakeup'' (Bits 4 1),
     F ''async_suspend'' (Bits 4 1), F ''in_dpm_list'' (Bits 1 1), F ''is_prepared'' (Bits 1 1),
     F ''is_suspended'' (Bits 1 1), F ''is_noirq_suspended'' (Bits 1 1), F ''is_late_suspended'' (Bits 1 1),
     F ''no_pm'' (Bits 1 1), F ''early_init'' (Bits 1 1), F ''direct_complete'' (Bits 1 1),
     F ''driver_flags'' (Scalar 4), F ''lock'' struct_spinlock_net, F ''should_wakeup'' (Bits 4 1),
     F ''subsys_data'' (Scalar 8), F ''set_latency_tolerance'' (Scalar 8), F ''qos'' (Scalar 8)]"

definition struct_kref_net :: ctype where
  "struct_kref_net = Struct [F ''refcount'' struct_refcount_struct_net]"

definition struct_kobject_net :: ctype where
  "struct_kobject_net = Struct [F ''name'' (Scalar 8), F ''entry'' struct_list_head_net, F ''parent'' (Scalar 8),
     F ''kset'' (Scalar 8), F ''ktype'' (Scalar 8), F ''sd'' (Scalar 8), F ''kref'' struct_kref_net,
     F ''state_initialized'' (Bits 4 1), F ''state_in_sysfs'' (Bits 4 1), F ''state_add_uevent_sent'' (Bits 4 1),
     F ''state_remove_uevent_sent'' (Bits 4 1), F ''uevent_suppress'' (Bits 4 1)]"

definition struct_optimistic_spin_queue_net :: ctype where
  "struct_optimistic_spin_queue_net = Struct [F ''tail'' typedef_atomic_t_net]"

definition typedef_atomic64_t_net :: ctype where
  "typedef_atomic64_t_net = Struct [F ''counter'' (Scalar 8)]"

definition struct_mutex_net :: ctype where
  "struct_mutex_net = Struct [F ''owner'' typedef_atomic64_t_net, F ''wait_lock'' struct_raw_spinlock_net,
     F ''osq'' struct_optimistic_spin_queue_net, F ''wait_list'' struct_list_head_net]"

definition struct_device_net :: ctype where
  "struct_device_net = Struct [F ''kobj'' struct_kobject_net, F ''parent'' (Scalar 8), F ''p'' (Scalar 8),
     F ''init_name'' (Scalar 8), F ''type'' (Scalar 8), F ''bus'' (Scalar 8), F ''driver'' (Scalar 8),
     F ''platform_data'' (Scalar 8), F ''driver_data'' (Scalar 8), F ''mutex'' struct_mutex_net,
     F ''links'' struct_dev_links_info_net, F ''power'' struct_dev_pm_info_net, F ''pm_domain'' (Scalar 8),
     F ''msi_domain'' (Scalar 8), F ''msi_lock'' struct_raw_spinlock_net, F ''msi_list'' struct_list_head_net,
     F ''dma_ops'' (Scalar 8), F ''dma_mask'' (Scalar 8), F ''coherent_dma_mask'' (Scalar 8),
     F ''bus_dma_limit'' (Scalar 8), F ''dma_range_map'' (Scalar 8), F ''dma_parms'' (Scalar 8),
     F ''dma_pools'' struct_list_head_net, F ''dma_io_tlb_mem'' (Scalar 8), F ''archdata'' struct_dev_archdata_net,
     F ''of_node'' (Scalar 8), F ''fwnode'' (Scalar 8), F ''devt'' (Scalar 4), F ''id'' (Scalar 4),
     F ''devres_lock'' struct_spinlock_net, F ''devres_head'' struct_list_head_net, F ''class'' (Scalar 8),
     F ''groups'' (Scalar 8), F ''release'' (Scalar 8), F ''iommu_group'' (Scalar 8), F ''iommu'' (Scalar 8),
     F ''removable'' (Scalar 4), F ''offline_disabled'' (Bits 1 1), F ''offline'' (Bits 1 1),
     F ''of_node_reused'' (Bits 1 1), F ''state_synced'' (Bits 1 1), F ''can_match'' (Bits 1 1)]"

definition struct_hlist_head_net :: ctype where
  "struct_hlist_head_net = Struct [F ''first'' (Scalar 8)]"

definition struct_hlist_node_net :: ctype where
  "struct_hlist_node_net = Struct [F ''next'' (Scalar 8), F ''pprev'' (Scalar 8)]"

definition struct_net_device_stats_net :: ctype where
  "struct_net_device_stats_net = Struct [F '''' (Union [F ''rx_packets'' (Scalar 8),
     F ''__rx_packets'' typedef_atomic64_t_net]), F '''' (Union [F ''tx_packets'' (Scalar 8),
     F ''__tx_packets'' typedef_atomic64_t_net]), F '''' (Union [F ''rx_bytes'' (Scalar 8),
     F ''__rx_bytes'' typedef_atomic64_t_net]), F '''' (Union [F ''tx_bytes'' (Scalar 8),
     F ''__tx_bytes'' typedef_atomic64_t_net]), F '''' (Union [F ''rx_errors'' (Scalar 8),
     F ''__rx_errors'' typedef_atomic64_t_net]), F '''' (Union [F ''tx_errors'' (Scalar 8),
     F ''__tx_errors'' typedef_atomic64_t_net]), F '''' (Union [F ''rx_dropped'' (Scalar 8),
     F ''__rx_dropped'' typedef_atomic64_t_net]), F '''' (Union [F ''tx_dropped'' (Scalar 8),
     F ''__tx_dropped'' typedef_atomic64_t_net]), F '''' (Union [F ''multicast'' (Scalar 8),
     F ''__multicast'' typedef_atomic64_t_net]), F '''' (Union [F ''collisions'' (Scalar 8),
     F ''__collisions'' typedef_atomic64_t_net]), F '''' (Union [F ''rx_length_errors'' (Scalar 8),
     F ''__rx_length_errors'' typedef_atomic64_t_net]), F '''' (Union [F ''rx_over_errors'' (Scalar 8),
     F ''__rx_over_errors'' typedef_atomic64_t_net]), F '''' (Union [F ''rx_crc_errors'' (Scalar 8),
     F ''__rx_crc_errors'' typedef_atomic64_t_net]), F '''' (Union [F ''rx_frame_errors'' (Scalar 8),
     F ''__rx_frame_errors'' typedef_atomic64_t_net]), F '''' (Union [F ''rx_fifo_errors'' (Scalar 8),
     F ''__rx_fifo_errors'' typedef_atomic64_t_net]), F '''' (Union [F ''rx_missed_errors'' (Scalar 8),
     F ''__rx_missed_errors'' typedef_atomic64_t_net]), F '''' (Union [F ''tx_aborted_errors'' (Scalar 8),
     F ''__tx_aborted_errors'' typedef_atomic64_t_net]), F '''' (Union [F ''tx_carrier_errors'' (Scalar 8),
     F ''__tx_carrier_errors'' typedef_atomic64_t_net]), F '''' (Union [F ''tx_fifo_errors'' (Scalar 8),
     F ''__tx_fifo_errors'' typedef_atomic64_t_net]), F '''' (Union [F ''tx_heartbeat_errors'' (Scalar 8),
     F ''__tx_heartbeat_errors'' typedef_atomic64_t_net]), F '''' (Union [F ''tx_window_errors'' (Scalar 8),
     F ''__tx_window_errors'' typedef_atomic64_t_net]), F '''' (Union [F ''rx_compressed'' (Scalar 8),
     F ''__rx_compressed'' typedef_atomic64_t_net]), F '''' (Union [F ''tx_compressed'' (Scalar 8),
     F ''__tx_compressed'' typedef_atomic64_t_net])]"

definition struct_rb_root_net :: ctype where
  "struct_rb_root_net = Struct [F ''rb_node'' (Scalar 8)]"

definition struct_netdev_hw_addr_list_net :: ctype where
  "struct_netdev_hw_addr_list_net = Struct [F ''list'' struct_list_head_net, F ''count'' (Scalar 4),
     F ''tree'' struct_rb_root_net]"

definition struct_netdev_tc_txq_net :: ctype where
  "struct_netdev_tc_txq_net = Struct [F ''count'' (Scalar 2), F ''offset'' (Scalar 2)]"

definition struct_timer_list_net :: ctype where
  "struct_timer_list_net = Struct [F ''entry'' struct_hlist_node_net, F ''expires'' (Scalar 8),
     F ''function'' (Scalar 8), F ''flags'' (Scalar 4)]"

definition typedef_possible_net_t_net :: ctype where
  "typedef_possible_net_t_net = Struct [F ''net'' (Scalar 8)]"

definition struct_net_device_net :: ctype where
  "struct_net_device_net = Struct ([F ''name'' (Arr 16 (Scalar 1)), F ''name_node'' (Scalar 8),
     F ''ifalias'' (Scalar 8), F ''mem_end'' (Scalar 8), F ''mem_start'' (Scalar 8), F ''base_addr'' (Scalar 8),
     F ''state'' (Scalar 8), F ''dev_list'' struct_list_head_net, F ''napi_list'' struct_list_head_net,
     F ''unreg_list'' struct_list_head_net, F ''close_list'' struct_list_head_net,
     F ''ptype_all'' struct_list_head_net, F ''ptype_specific'' struct_list_head_net,
     F ''adj_list'' (Struct [F ''upper'' struct_list_head_net, F ''lower'' struct_list_head_net]),
     F ''flags'' (Scalar 4), F ''priv_flags'' (Scalar 4), F ''netdev_ops'' (Scalar 8), F ''ifindex'' (Scalar 4),
     F ''gflags'' (Scalar 2), F ''hard_header_len'' (Scalar 2), F ''mtu'' (Scalar 4),
     F ''needed_headroom'' (Scalar 2), F ''needed_tailroom'' (Scalar 2), F ''features'' (Scalar 8),
     F ''hw_features'' (Scalar 8), F ''wanted_features'' (Scalar 8), F ''vlan_features'' (Scalar 8),
     F ''hw_enc_features'' (Scalar 8), F ''mpls_features'' (Scalar 8), F ''gso_partial_features'' (Scalar 8),
     F ''min_mtu'' (Scalar 4), F ''max_mtu'' (Scalar 4), F ''type'' (Scalar 2), F ''min_header_len'' (Scalar 1),
     F ''name_assign_type'' (Scalar 1), F ''group'' (Scalar 4), F ''stats'' struct_net_device_stats_net,
     F ''rx_dropped'' typedef_atomic64_t_net, F ''tx_dropped'' typedef_atomic64_t_net,
     F ''rx_nohandler'' typedef_atomic64_t_net, F ''carrier_up_count'' typedef_atomic_t_net,
     F ''carrier_down_count'' typedef_atomic_t_net, F ''ethtool_ops'' (Scalar 8), F ''l3mdev_ops'' (Scalar 8),
     F ''ndisc_ops'' (Scalar 8), F ''header_ops'' (Scalar 8), F ''operstate'' (Scalar 1), F ''link_mode'' (Scalar 1),
     F ''if_port'' (Scalar 1), F ''dma'' (Scalar 1), F ''perm_addr'' (Arr 32 (Scalar 1)),
     F ''addr_assign_type'' (Scalar 1), F ''addr_len'' (Scalar 1), F ''upper_level'' (Scalar 1),
     F ''lower_level'' (Scalar 1), F ''neigh_priv_len'' (Scalar 2), F ''dev_id'' (Scalar 2),
     F ''dev_port'' (Scalar 2), F ''padded'' (Scalar 2), F ''addr_list_lock'' struct_spinlock_net,
     F ''irq'' (Scalar 4), F ''uc'' struct_netdev_hw_addr_list_net, F ''mc'' struct_netdev_hw_addr_list_net,
     F ''dev_addrs'' struct_netdev_hw_addr_list_net, F ''queues_kset'' (Scalar 8), F ''promiscuity'' (Scalar 4),
     F ''allmulti'' (Scalar 4), F ''uc_promisc'' (Scalar 1), F ''vlan_info'' (Scalar 8), F ''ip_ptr'' (Scalar 8),
     F ''ip6_ptr'' (Scalar 8), F ''ieee80211_ptr'' (Scalar 8), F ''ieee802154_ptr'' (Scalar 8),
     F ''dev_addr'' (Scalar 8), F ''_rx'' (Scalar 8), F ''num_rx_queues'' (Scalar 4),
     F ''real_num_rx_queues'' (Scalar 4), F ''xdp_prog'' (Scalar 8), F ''gro_flush_timeout'' (Scalar 8),
     F ''napi_defer_hard_irqs'' (Scalar 4), F ''rx_handler'' (Scalar 8), F ''rx_handler_data'' (Scalar 8),
     F ''miniq_ingress'' (Scalar 8), F ''ingress_queue'' (Scalar 8), F ''nf_hooks_ingress'' (Scalar 8),
     F ''broadcast'' (Arr 32 (Scalar 1)), F ''rx_cpu_rmap'' (Scalar 8),
     F ''index_hlist'' struct_hlist_node_net] @ replicate 7 (F '''' (Bits 8 64)) @ [F ''_tx'' (Scalar 8),
     F ''num_tx_queues'' (Scalar 4), F ''real_num_tx_queues'' (Scalar 4), F ''qdisc'' (Scalar 8),
     F ''tx_queue_len'' (Scalar 4), F ''tx_global_lock'' struct_spinlock_net, F ''xdp_bulkq'' (Scalar 8),
     F ''xps_maps'' (Arr 2 (Scalar 8)), F ''miniq_egress'' (Scalar 8),
     F ''qdisc_hash'' (Arr 16 struct_hlist_head_net), F ''watchdog_timer'' struct_timer_list_net,
     F ''watchdog_timeo'' (Scalar 4), F ''proto_down_reason'' (Scalar 4), F ''todo_list'' struct_list_head_net,
     F ''dev_refcnt'' struct_refcount_struct_net, F ''link_watch_list'' struct_list_head_net,
     F ''reg_state'' (Bits 4 8), F ''dismantle'' (Scalar 1), F ''rtnl_link_state'' (Bits 4 16),
     F ''needs_free_netdev'' (Scalar 1), F ''priv_destructor'' (Scalar 8), F ''nd_net'' typedef_possible_net_t_net,
     F ''ml_priv'' (Scalar 8), F ''ml_priv_type'' (Scalar 4), F '''' (Union [F ''lstats'' (Scalar 8),
     F ''tstats'' (Scalar 8), F ''dstats'' (Scalar 8)]), F ''dev'' struct_device_net,
     F ''sysfs_groups'' (Arr 4 (Scalar 8)), F ''sysfs_rx_queue_group'' (Scalar 8), F ''rtnl_link_ops'' (Scalar 8),
     F ''gso_max_size'' (Scalar 4), F ''gso_max_segs'' (Scalar 2), F ''num_tc'' (Scalar 2),
     F ''tc_to_txq'' (Arr 16 struct_netdev_tc_txq_net), F ''prio_tc_map'' (Arr 16 (Scalar 1)),
     F ''priomap'' (Scalar 8), F ''phydev'' (Scalar 8), F ''sfp_bus'' (Scalar 8), F ''qdisc_tx_busylock'' (Scalar 8),
     F ''qdisc_running_key'' (Scalar 8), F ''proto_down'' (Scalar 1), F ''wol_enabled'' (Bits 4 1),
     F ''threaded'' (Bits 4 1), F ''net_notifier_list'' struct_list_head_net, F ''udp_tunnel_nic_info'' (Scalar 8),
     F ''udp_tunnel_nic'' (Scalar 8), F ''xdp_state'' (Arr 3 struct_bpf_xdp_entity_net), F '''' (Bits 8 64),
     F '''' (Bits 8 64), F '''' (Bits 8 64)])"

definition struct_callback_head_net :: ctype where
  "struct_callback_head_net = Struct [F ''next'' (Scalar 8), F ''func'' (Scalar 8)]"

definition struct_page_frag_net :: ctype where
  "struct_page_frag_net = Struct [F ''page'' (Scalar 8), F ''offset'' (Scalar 4), F ''size'' (Scalar 4)]"

definition struct_sk_buff_head_net :: ctype where
  "struct_sk_buff_head_net = Struct [F ''next'' (Scalar 8), F ''prev'' (Scalar 8), F ''qlen'' (Scalar 4),
     F ''lock'' struct_spinlock_net]"

definition struct_sock_cgroup_data_net :: ctype where
  "struct_sock_cgroup_data_net = Struct [F ''cgroup'' (Scalar 8), F ''classid'' (Scalar 4),
     F ''prioidx'' (Scalar 2)]"

definition struct_hlist_nulls_node_net :: ctype where
  "struct_hlist_nulls_node_net = Struct [F ''next'' (Scalar 8), F ''pprev'' (Scalar 8)]"

definition struct_in6_addr_net :: ctype where
  "struct_in6_addr_net = Struct [F ''in6_u'' (Union [F ''u6_addr8'' (Arr 16 (Scalar 1)),
     F ''u6_addr16'' (Arr 8 (Scalar 2)), F ''u6_addr32'' (Arr 4 (Scalar 4))])]"

definition struct_sock_common_net :: ctype where
  "struct_sock_common_net = Struct [F '''' (Union [F ''skc_addrpair'' (Scalar 8),
     F '''' (Struct [F ''skc_daddr'' (Scalar 4), F ''skc_rcv_saddr'' (Scalar 4)])]),
     F '''' (Union [F ''skc_hash'' (Scalar 4), F ''skc_u16hashes'' (Arr 2 (Scalar 2))]),
     F '''' (Union [F ''skc_portpair'' (Scalar 4), F '''' (Struct [F ''skc_dport'' (Scalar 2),
     F ''skc_num'' (Scalar 2)])]), F ''skc_family'' (Scalar 2), F ''skc_state'' (Scalar 1),
     F ''skc_reuse'' (Bits 1 4), F ''skc_reuseport'' (Bits 1 1), F ''skc_ipv6only'' (Bits 1 1),
     F ''skc_net_refcnt'' (Bits 1 1), F ''skc_bound_dev_if'' (Scalar 4),
     F '''' (Union [F ''skc_bind_node'' struct_hlist_node_net, F ''skc_portaddr_node'' struct_hlist_node_net]),
     F ''skc_prot'' (Scalar 8), F ''skc_net'' typedef_possible_net_t_net, F ''skc_v6_daddr'' struct_in6_addr_net,
     F ''skc_v6_rcv_saddr'' struct_in6_addr_net, F ''skc_cookie'' typedef_atomic64_t_net,
     F '''' (Union [F ''skc_flags'' (Scalar 8), F ''skc_listener'' (Scalar 8), F ''skc_tw_dr'' (Scalar 8)]),
     F ''skc_dontcopy_begin'' (Arr 0 (Scalar 4)), F '''' (Union [F ''skc_node'' struct_hlist_node_net,
     F ''skc_nulls_node'' struct_hlist_nulls_node_net]), F ''skc_tx_queue_mapping'' (Scalar 2),
     F ''skc_rx_queue_mapping'' (Scalar 2), F '''' (Union [F ''skc_incoming_cpu'' (Scalar 4),
     F ''skc_rcv_wnd'' (Scalar 4), F ''skc_tw_rcv_nxt'' (Scalar 4)]), F ''skc_refcnt'' struct_refcount_struct_net,
     F ''skc_dontcopy_end'' (Arr 0 (Scalar 4)), F '''' (Union [F ''skc_rxhash'' (Scalar 4),
     F ''skc_window_clamp'' (Scalar 4), F ''skc_tw_snd_nxt'' (Scalar 4)])]"

definition typedef_kuid_t_net :: ctype where
  "typedef_kuid_t_net = Struct [F ''val'' (Scalar 4)]"

definition struct_qrwlock_net :: ctype where
  "struct_qrwlock_net = Struct [F '''' (Union [F ''cnts'' typedef_atomic_t_net,
     F '''' (Struct [F ''wlocked'' (Scalar 1), F ''__lstate'' (Arr 3 (Scalar 1))])]),
     F ''wait_lock'' struct_qspinlock_net]"

definition typedef_rwlock_t_net :: ctype where
  "typedef_rwlock_t_net = Struct [F ''raw_lock'' struct_qrwlock_net]"

definition struct_wait_queue_head_net :: ctype where
  "struct_wait_queue_head_net = Struct [F ''lock'' struct_spinlock_net, F ''head'' struct_list_head_net]"

definition typedef_socket_lock_t_net :: ctype where
  "typedef_socket_lock_t_net = Struct [F ''slock'' struct_spinlock_net, F ''owned'' (Scalar 4),
     F ''wq'' struct_wait_queue_head_net]"

definition struct_sock_net :: ctype where
  "struct_sock_net = Struct [F ''__sk_common'' struct_sock_common_net, F ''sk_lock'' typedef_socket_lock_t_net,
     F ''sk_drops'' typedef_atomic_t_net, F ''sk_rcvlowat'' (Scalar 4), F ''sk_error_queue'' struct_sk_buff_head_net,
     F ''sk_rx_skb_cache'' (Scalar 8), F ''sk_receive_queue'' struct_sk_buff_head_net,
     F ''sk_backlog'' (Struct [F ''rmem_alloc'' typedef_atomic_t_net, F ''len'' (Scalar 4), F ''head'' (Scalar 8),
     F ''tail'' (Scalar 8)]), F ''sk_forward_alloc'' (Scalar 4), F ''sk_ll_usec'' (Scalar 4),
     F ''sk_napi_id'' (Scalar 4), F ''sk_rcvbuf'' (Scalar 4), F ''sk_wait_pending'' (Scalar 4),
     F ''sk_filter'' (Scalar 8), F '''' (Union [F ''sk_wq'' (Scalar 8), F ''sk_wq_raw'' (Scalar 8)]),
     F ''sk_policy'' (Arr 2 (Scalar 8)), F ''sk_rx_dst'' (Scalar 8), F ''sk_rx_dst_ifindex'' (Scalar 4),
     F ''sk_rx_dst_cookie'' (Scalar 4), F ''sk_dst_cache'' (Scalar 8), F ''sk_omem_alloc'' typedef_atomic_t_net,
     F ''sk_sndbuf'' (Scalar 4), F ''sk_wmem_queued'' (Scalar 4), F ''sk_wmem_alloc'' struct_refcount_struct_net,
     F ''sk_tsq_flags'' (Scalar 8), F '''' (Union [F ''sk_send_head'' (Scalar 8),
     F ''tcp_rtx_queue'' struct_rb_root_net]), F ''sk_tx_skb_cache'' (Scalar 8),
     F ''sk_write_queue'' struct_sk_buff_head_net, F ''sk_peek_off'' (Scalar 4), F ''sk_write_pending'' (Scalar 4),
     F ''sk_dst_pending_confirm'' (Scalar 4), F ''sk_pacing_status'' (Scalar 4), F ''sk_sndtimeo'' (Scalar 8),
     F ''sk_timer'' struct_timer_list_net, F ''sk_priority'' (Scalar 4), F ''sk_mark'' (Scalar 4),
     F ''sk_pacing_rate'' (Scalar 8), F ''sk_max_pacing_rate'' (Scalar 8), F ''sk_frag'' struct_page_frag_net,
     F ''sk_route_caps'' (Scalar 8), F ''sk_route_nocaps'' (Scalar 8), F ''sk_route_forced_caps'' (Scalar 8),
     F ''sk_gso_type'' (Scalar 4), F ''sk_gso_max_size'' (Scalar 4), F ''sk_allocation'' (Scalar 4),
     F ''sk_txhash'' (Scalar 4), F ''sk_padding'' (Bits 1 1), F ''sk_kern_sock'' (Bits 1 1),
     F ''sk_no_check_tx'' (Bits 1 1), F ''sk_no_check_rx'' (Bits 1 1), F ''sk_userlocks'' (Bits 1 4),
     F ''sk_pacing_shift'' (Scalar 1), F ''sk_type'' (Scalar 2), F ''sk_protocol'' (Scalar 2),
     F ''sk_gso_max_segs'' (Scalar 2), F ''sk_lingertime'' (Scalar 8), F ''sk_prot_creator'' (Scalar 8),
     F ''sk_callback_lock'' typedef_rwlock_t_net, F ''sk_err'' (Scalar 4), F ''sk_err_soft'' (Scalar 4),
     F ''sk_ack_backlog'' (Scalar 4), F ''sk_max_ack_backlog'' (Scalar 4), F ''sk_uid'' typedef_kuid_t_net,
     F ''sk_prefer_busy_poll'' (Scalar 1), F ''sk_busy_poll_budget'' (Scalar 2),
     F ''sk_peer_lock'' struct_spinlock_net, F ''sk_peer_pid'' (Scalar 8), F ''sk_peer_cred'' (Scalar 8),
     F ''sk_rcvtimeo'' (Scalar 8), F ''sk_stamp'' (Scalar 8), F ''sk_tsflags'' (Scalar 2),
     F ''sk_bind_phc'' (Scalar 4), F ''sk_shutdown'' (Scalar 1), F ''sk_tskey'' typedef_atomic_t_net,
     F ''sk_zckey'' typedef_atomic_t_net, F ''sk_clockid'' (Scalar 1), F ''sk_txtime_deadline_mode'' (Bits 1 1),
     F ''sk_txtime_report_errors'' (Bits 1 1), F ''sk_txtime_unused'' (Bits 1 6), F ''sk_socket'' (Scalar 8),
     F ''sk_user_data'' (Scalar 8), F ''sk_security'' (Scalar 8), F ''sk_cgrp_data'' struct_sock_cgroup_data_net,
     F ''sk_memcg'' (Scalar 8), F ''sk_state_change'' (Scalar 8), F ''sk_data_ready'' (Scalar 8),
     F ''sk_write_space'' (Scalar 8), F ''sk_error_report'' (Scalar 8), F ''sk_backlog_rcv'' (Scalar 8),
     F ''sk_destruct'' (Scalar 8), F ''sk_reuseport_cb'' (Scalar 8), F ''sk_bpf_storage'' (Scalar 8),
     F ''sk_rcu'' struct_callback_head_net]"

end
