(* ===== verification/Kernel_Contexts.thy ===== *)
theory Kernel_Contexts
  imports Kernel Kernel_Tracepoint_Types Kernel_Net_Types
begin

text \<open>
  From the memory of a context to the argument records of the model: what
  \<open>ctx->member\<close> loads, by the layout of the struct descriptor.  The model's programs
  receive the records; here they are the contents of the kernel's structs.
\<close>

section \<open>Loads\<close>

text \<open>The little-endian number in the bytes of a member.\<close>

definition load :: "(nat \<Rightarrow> u8) \<Rightarrow> ctype \<Rightarrow> string \<Rightarrow> nat" where
  "load mem t nm = (case offset_size t nm of
     None \<Rightarrow> 0 | Some (off, n) \<Rightarrow> le_value (map mem [off..<off + n]))"

definition ctx_sched_switch :: "(nat \<Rightarrow> u8) \<Rightarrow> trace_event_raw_sched_switch" where
  "ctx_sched_switch mem = (let get = load mem struct_trace_event_raw_sched_switch in
     \<lparr>prev_pid = of_nat (get ''prev_pid''), prev_prio = of_nat (get ''prev_prio''),
      prev_state = of_nat (get ''prev_state''), next_pid = of_nat (get ''next_pid''),
      next_prio = of_nat (get ''next_prio'')\<rparr>)"

definition ctx_sched_wakeup :: "(nat \<Rightarrow> u8) \<Rightarrow> trace_event_raw_sched_wakeup_template" where
  "ctx_sched_wakeup mem = (let get = load mem struct_trace_event_raw_sched_wakeup_template in
     \<lparr>wk_pid = of_nat (get ''pid''), wk_prio = of_nat (get ''prio''),
      wk_target_cpu = of_nat (get ''target_cpu'')\<rparr>)"

definition ctx_sched_stat_runtime :: "(nat \<Rightarrow> u8) \<Rightarrow> trace_event_raw_sched_stat_runtime" where
  "ctx_sched_stat_runtime mem = (let get = load mem struct_trace_event_raw_sched_stat_runtime in
     \<lparr>sr_pid = of_nat (get ''pid''), sr_runtime = of_nat (get ''runtime'')\<rparr>)"

definition ctx_sched_stat :: "(nat \<Rightarrow> u8) \<Rightarrow> trace_event_raw_sched_stat_template" where
  "ctx_sched_stat mem = (let get = load mem struct_trace_event_raw_sched_stat_template in
     \<lparr>st_pid = of_nat (get ''pid''), st_delay = of_nat (get ''delay'')\<rparr>)"

definition ctx_sched_migrate_task :: "(nat \<Rightarrow> u8) \<Rightarrow> trace_event_raw_sched_migrate_task" where
  "ctx_sched_migrate_task mem = (let get = load mem struct_trace_event_raw_sched_migrate_task in
     \<lparr>mg_pid = of_nat (get ''pid''), mg_prio = of_nat (get ''prio''),
      mg_orig_cpu = of_nat (get ''orig_cpu''), mg_dest_cpu = of_nat (get ''dest_cpu'')\<rparr>)"

definition ctx_mm_page_alloc :: "(nat \<Rightarrow> u8) \<Rightarrow> trace_event_raw_mm_page_alloc" where
  "ctx_mm_page_alloc mem = (let get = load mem struct_trace_event_raw_mm_page_alloc in
     \<lparr>pa_pfn = of_nat (get ''pfn''), pa_order = of_nat (get ''order''),
      pa_gfp_flags = of_nat (get ''gfp_flags''), pa_migratetype = of_nat (get ''migratetype'')\<rparr>)"

definition ctx_mm_page_free :: "(nat \<Rightarrow> u8) \<Rightarrow> trace_event_raw_mm_page_free" where
  "ctx_mm_page_free mem = (let get = load mem struct_trace_event_raw_mm_page_free in
     \<lparr>pf_pfn = of_nat (get ''pfn''), pf_order = of_nat (get ''order'')\<rparr>)"

section \<open>Properties\<close>

lemma load_at:
  "offset_size t nm = Some (off, n) \<Longrightarrow> load mem t nm = le_value (map mem [off..<off + n])"
  by (simp add: load_def)

lemma switch_offsets:
  "offset_size struct_trace_event_raw_sched_switch ''prev_pid'' = Some (24, 4)"
  "offset_size struct_trace_event_raw_sched_switch ''prev_prio'' = Some (28, 4)"
  "offset_size struct_trace_event_raw_sched_switch ''prev_state'' = Some (32, 8)"
  "offset_size struct_trace_event_raw_sched_switch ''next_pid'' = Some (56, 4)"
  "offset_size struct_trace_event_raw_sched_switch ''next_prio'' = Some (60, 4)"
  by code_simp+

lemma sched_offsets:
  "offset_size struct_trace_event_raw_sched_wakeup_template ''pid'' = Some (24, 4)"
  "offset_size struct_trace_event_raw_sched_wakeup_template ''prio'' = Some (28, 4)"
  "offset_size struct_trace_event_raw_sched_wakeup_template ''target_cpu'' = Some (32, 4)"
  "offset_size struct_trace_event_raw_sched_stat_runtime ''pid'' = Some (24, 4)"
  "offset_size struct_trace_event_raw_sched_stat_runtime ''runtime'' = Some (32, 8)"
  "offset_size struct_trace_event_raw_sched_stat_template ''pid'' = Some (24, 4)"
  "offset_size struct_trace_event_raw_sched_stat_template ''delay'' = Some (32, 8)"
  "offset_size struct_trace_event_raw_sched_migrate_task ''orig_cpu'' = Some (32, 4)"
  "offset_size struct_trace_event_raw_sched_migrate_task ''dest_cpu'' = Some (36, 4)"
  by code_simp+

lemma mm_offsets:
  "offset_size struct_trace_event_raw_mm_page_alloc ''order'' = Some (16, 4)"
  "offset_size struct_trace_event_raw_mm_page_free ''order'' = Some (16, 4)"
  "offset_size struct_trace_event_raw_mm_vmscan_reclaim_pages ''nr_reclaimed'' = Some (24, 8)"
  "offset_size struct_trace_event_raw_sys_enter ''id'' = Some (8, 8)"
  "offset_size struct_trace_event_raw_sys_exit ''id'' = Some (8, 8)"
  by code_simp+

lemma net_offsets:
  "offset_size struct_iphdr_net ''protocol'' = Some (9, 1)"
  "offset_size struct_iphdr_net ''saddr'' = Some (12, 4)"
  "offset_size struct_iphdr_net ''daddr'' = Some (16, 4)"
  "offset_size struct_pt_regs_net ''di'' = Some (112, 8)"
  "offset_size struct_pt_regs_net ''dx'' = Some (96, 8)"
  by code_simp+


end
