(* ===== verification/Kernel_Task_Types.thy ===== *)
theory Kernel_Task_Types
  imports Kernel_Tracepoint_Types
begin

text \<open>
  The task the helpers \<open>bpf_get_current_*\<close> speak of: \<open>struct task_struct\<close> of
  \<open>eBPF/vmlinux.h\<close> and every type it contains by value.
\<close>

definition struct_llist_node :: ctype where
  "struct_llist_node = Struct [F ''next'' (Scalar 8)]"

definition typedef_atomic_t :: ctype where
  "typedef_atomic_t = Struct [F ''counter'' (Scalar 4)]"

definition struct___call_single_node :: ctype where
  "struct___call_single_node = Struct [F ''llist'' struct_llist_node, F '''' (Union [F ''u_flags'' (Scalar 4),
     F ''a_flags'' typedef_atomic_t]), F ''src'' (Scalar 2), F ''dst'' (Scalar 2)]"

definition struct_callback_head :: ctype where
  "struct_callback_head = Struct [F ''next'' (Scalar 8), F ''func'' (Scalar 8)]"

definition struct_cpumask :: ctype where
  "struct_cpumask = Struct [F ''bits'' (Arr 128 (Scalar 8))]"

definition struct_hlist_head :: ctype where
  "struct_hlist_head = Struct [F ''first'' (Scalar 8)]"

definition struct_hlist_node :: ctype where
  "struct_hlist_node = Struct [F ''next'' (Scalar 8), F ''pprev'' (Scalar 8)]"

definition struct_kmap_ctrl :: ctype where
  "struct_kmap_ctrl = Struct []"

definition struct_latency_record :: ctype where
  "struct_latency_record = Struct [F ''backtrace'' (Arr 12 (Scalar 8)), F ''count'' (Scalar 4),
     F ''time'' (Scalar 8), F ''max'' (Scalar 8)]"

definition struct_list_head :: ctype where
  "struct_list_head = Struct [F ''next'' (Scalar 8), F ''prev'' (Scalar 8)]"

definition struct_llist_head :: ctype where
  "struct_llist_head = Struct [F ''first'' (Scalar 8)]"

definition struct_optimistic_spin_queue :: ctype where
  "struct_optimistic_spin_queue = Struct [F ''tail'' typedef_atomic_t]"

definition struct_qspinlock :: ctype where
  "struct_qspinlock = Struct [F '''' (Union [F ''val'' typedef_atomic_t, F '''' (Struct [F ''locked'' (Scalar 1),
     F ''pending'' (Scalar 1)]), F '''' (Struct [F ''locked_pending'' (Scalar 2), F ''tail'' (Scalar 2)])])]"

definition struct_raw_spinlock :: ctype where
  "struct_raw_spinlock = Struct [F ''raw_lock'' struct_qspinlock]"

definition typedef_atomic64_t :: ctype where
  "typedef_atomic64_t = Struct [F ''counter'' (Scalar 8)]"

definition struct_mutex :: ctype where
  "struct_mutex = Struct [F ''owner'' typedef_atomic64_t, F ''wait_lock'' struct_raw_spinlock,
     F ''osq'' struct_optimistic_spin_queue, F ''wait_list'' struct_list_head]"

definition struct_page_frag :: ctype where
  "struct_page_frag = Struct [F ''page'' (Scalar 8), F ''offset'' (Scalar 4), F ''size'' (Scalar 4)]"

definition struct_plist_node :: ctype where
  "struct_plist_node = Struct [F ''prio'' (Scalar 4), F ''prio_list'' struct_list_head,
     F ''node_list'' struct_list_head]"

definition struct_rb_root :: ctype where
  "struct_rb_root = Struct [F ''rb_node'' (Scalar 8)]"

definition struct_rb_root_cached :: ctype where
  "struct_rb_root_cached = Struct [F ''rb_root'' struct_rb_root, F ''rb_leftmost'' (Scalar 8)]"

definition struct_timerqueue_head :: ctype where
  "struct_timerqueue_head = Struct [F ''rb_root'' struct_rb_root_cached]"

definition struct_posix_cputimer_base :: ctype where
  "struct_posix_cputimer_base = Struct [F ''nextevt'' (Scalar 8), F ''tqhead'' struct_timerqueue_head]"

definition struct_posix_cputimers :: ctype where
  "struct_posix_cputimers = Struct [F ''bases'' (Arr 3 struct_posix_cputimer_base), F ''timers_active'' (Scalar 4),
     F ''expiry_active'' (Scalar 4)]"

definition struct_posix_cputimers_work :: ctype where
  "struct_posix_cputimers_work = Struct [F ''work'' struct_callback_head, F ''mutex'' struct_mutex,
     F ''scheduled'' (Scalar 4)]"

definition struct_prev_cputime :: ctype where
  "struct_prev_cputime = Struct [F ''utime'' (Scalar 8), F ''stime'' (Scalar 8), F ''lock'' struct_raw_spinlock]"

definition struct_rb_node :: ctype where
  "struct_rb_node = Struct [F ''__rb_parent_color'' (Scalar 8), F ''rb_right'' (Scalar 8),
     F ''rb_left'' (Scalar 8)]"

definition struct_refcount_struct :: ctype where
  "struct_refcount_struct = Struct [F ''refs'' typedef_atomic_t]"

definition struct_restart_block :: ctype where
  "struct_restart_block = Struct [F ''arch_data'' (Scalar 8), F ''fn'' (Scalar 8),
     F '''' (Union [F ''futex'' (Struct [F ''uaddr'' (Scalar 8), F ''val'' (Scalar 4), F ''flags'' (Scalar 4),
     F ''bitset'' (Scalar 4), F ''time'' (Scalar 8), F ''uaddr2'' (Scalar 8)]),
     F ''nanosleep'' (Struct [F ''clockid'' (Scalar 4), F ''type'' (Scalar 4), F '''' (Union [F ''rmtp'' (Scalar 8),
     F ''compat_rmtp'' (Scalar 8)]), F ''expires'' (Scalar 8)]), F ''poll'' (Struct [F ''ufds'' (Scalar 8),
     F ''nfds'' (Scalar 4), F ''has_timeout'' (Scalar 4), F ''tv_sec'' (Scalar 8), F ''tv_nsec'' (Scalar 8)])])]"

definition struct_timerqueue_node :: ctype where
  "struct_timerqueue_node = Struct [F ''node'' struct_rb_node, F ''expires'' (Scalar 8)]"

definition struct_hrtimer :: ctype where
  "struct_hrtimer = Struct [F ''node'' struct_timerqueue_node, F ''_softexpires'' (Scalar 8),
     F ''function'' (Scalar 8), F ''base'' (Scalar 8), F ''state'' (Scalar 1), F ''is_rel'' (Scalar 1),
     F ''is_soft'' (Scalar 1), F ''is_hard'' (Scalar 1)]"

definition struct_sched_dl_entity :: ctype where
  "struct_sched_dl_entity = Struct [F ''rb_node'' struct_rb_node, F ''dl_runtime'' (Scalar 8),
     F ''dl_deadline'' (Scalar 8), F ''dl_period'' (Scalar 8), F ''dl_bw'' (Scalar 8), F ''dl_density'' (Scalar 8),
     F ''runtime'' (Scalar 8), F ''deadline'' (Scalar 8), F ''flags'' (Scalar 4), F ''dl_throttled'' (Bits 4 1),
     F ''dl_yielded'' (Bits 4 1), F ''dl_non_contending'' (Bits 4 1), F ''dl_overrun'' (Bits 4 1),
     F ''dl_server'' (Bits 4 1), F ''dl_server_active'' (Bits 4 1), F ''dl_defer'' (Bits 4 1),
     F ''dl_defer_armed'' (Bits 4 1), F ''dl_defer_running'' (Bits 4 1), F ''dl_timer'' struct_hrtimer,
     F ''inactive_timer'' struct_hrtimer, F ''rq'' (Scalar 8), F ''server_has_tasks'' (Scalar 8),
     F ''server_pick_task'' (Scalar 8), F ''pi_se'' (Scalar 8)]"

definition struct_load_weight :: ctype where
  "struct_load_weight = Struct [F ''weight'' (Scalar 8), F ''inv_weight'' (Scalar 4)]"

definition struct_sched_avg :: ctype where
  "struct_sched_avg = Struct [F ''last_update_time'' (Scalar 8), F ''load_sum'' (Scalar 8),
     F ''runnable_sum'' (Scalar 8), F ''util_sum'' (Scalar 4), F ''period_contrib'' (Scalar 4),
     F ''load_avg'' (Scalar 8), F ''runnable_avg'' (Scalar 8), F ''util_avg'' (Scalar 8), F ''util_est'' (Scalar 4)]"

definition struct_sched_entity :: ctype where
  "struct_sched_entity = Struct [F ''load'' struct_load_weight, F ''run_node'' struct_rb_node,
     F ''deadline'' (Scalar 8), F ''min_vruntime'' (Scalar 8), F ''min_slice'' (Scalar 8),
     F ''group_node'' struct_list_head, F ''on_rq'' (Scalar 1), F ''sched_delayed'' (Scalar 1),
     F ''rel_deadline'' (Scalar 1), F ''custom_slice'' (Scalar 1), F ''exec_start'' (Scalar 8),
     F ''sum_exec_runtime'' (Scalar 8), F ''prev_sum_exec_runtime'' (Scalar 8), F ''vruntime'' (Scalar 8),
     F ''vlag'' (Scalar 8), F ''slice'' (Scalar 8), F ''nr_migrations'' (Scalar 8), F ''depth'' (Scalar 4),
     F ''parent'' (Scalar 8), F ''cfs_rq'' (Scalar 8), F ''my_q'' (Scalar 8), F ''runnable_weight'' (Scalar 8),
     F '''' (Bits 8 64), F ''avg'' struct_sched_avg]"

definition struct_scx_dsq_list_node :: ctype where
  "struct_scx_dsq_list_node = Struct [F ''node'' struct_list_head, F ''flags'' (Scalar 4), F ''priv'' (Scalar 4)]"

definition struct_sched_ext_entity :: ctype where
  "struct_sched_ext_entity = Struct [F ''dsq'' (Scalar 8), F ''dsq_list'' struct_scx_dsq_list_node,
     F ''dsq_priq'' struct_rb_node, F ''dsq_seq'' (Scalar 4), F ''dsq_flags'' (Scalar 4), F ''flags'' (Scalar 4),
     F ''weight'' (Scalar 4), F ''sticky_cpu'' (Scalar 4), F ''holding_cpu'' (Scalar 4), F ''kf_mask'' (Scalar 4),
     F ''kf_tasks'' (Arr 2 (Scalar 8)), F ''ops_state'' typedef_atomic64_t, F ''runnable_node'' struct_list_head,
     F ''runnable_at'' (Scalar 8), F ''core_sched_at'' (Scalar 8), F ''ddsp_dsq_id'' (Scalar 8),
     F ''ddsp_enq_flags'' (Scalar 8), F ''slice'' (Scalar 8), F ''dsq_vtime'' (Scalar 8), F ''disallow'' (Scalar 1),
     F ''cgrp_moving_from'' (Scalar 8), F ''tasks_node'' struct_list_head]"

definition struct_sched_info :: ctype where
  "struct_sched_info = Struct [F ''pcount'' (Scalar 8), F ''run_delay'' (Scalar 8), F ''max_run_delay'' (Scalar 8),
     F ''min_run_delay'' (Scalar 8), F ''last_arrival'' (Scalar 8), F ''last_queued'' (Scalar 8)]"

definition struct_sched_rt_entity :: ctype where
  "struct_sched_rt_entity = Struct [F ''run_list'' struct_list_head, F ''timeout'' (Scalar 8),
     F ''watchdog_stamp'' (Scalar 8), F ''time_slice'' (Scalar 4), F ''on_rq'' (Scalar 2), F ''on_list'' (Scalar 2),
     F ''back'' (Scalar 8)]"

definition struct_sched_statistics :: ctype where
  "struct_sched_statistics = Struct [F ''wait_start'' (Scalar 8), F ''wait_max'' (Scalar 8),
     F ''wait_count'' (Scalar 8), F ''wait_sum'' (Scalar 8), F ''iowait_count'' (Scalar 8),
     F ''iowait_sum'' (Scalar 8), F ''sleep_start'' (Scalar 8), F ''sleep_max'' (Scalar 8),
     F ''sum_sleep_runtime'' (Scalar 8), F ''block_start'' (Scalar 8), F ''block_max'' (Scalar 8),
     F ''sum_block_runtime'' (Scalar 8), F ''exec_max'' (Scalar 8), F ''slice_max'' (Scalar 8),
     F ''nr_migrations_cold'' (Scalar 8), F ''nr_failed_migrations_affine'' (Scalar 8),
     F ''nr_failed_migrations_running'' (Scalar 8), F ''nr_failed_migrations_hot'' (Scalar 8),
     F ''nr_forced_migrations'' (Scalar 8), F ''nr_wakeups'' (Scalar 8), F ''nr_wakeups_sync'' (Scalar 8),
     F ''nr_wakeups_migrate'' (Scalar 8), F ''nr_wakeups_local'' (Scalar 8), F ''nr_wakeups_remote'' (Scalar 8),
     F ''nr_wakeups_affine'' (Scalar 8), F ''nr_wakeups_affine_attempts'' (Scalar 8),
     F ''nr_wakeups_passive'' (Scalar 8), F ''nr_wakeups_idle'' (Scalar 8), F ''core_forceidle_sum'' (Scalar 8),
     F '''' (Bits 8 64), F '''' (Bits 8 64), F '''' (Bits 8 64)]"

definition struct_seccomp :: ctype where
  "struct_seccomp = Struct [F ''mode'' (Scalar 4), F ''filter_count'' typedef_atomic_t, F ''filter'' (Scalar 8)]"

definition struct_seqcount :: ctype where
  "struct_seqcount = Struct [F ''sequence'' (Scalar 4)]"

definition struct_seqcount_spinlock :: ctype where
  "struct_seqcount_spinlock = Struct [F ''seqcount'' struct_seqcount]"

definition typedef_sigset_t :: ctype where
  "typedef_sigset_t = Struct [F ''sig'' (Arr 1 (Scalar 8))]"

definition struct_sigpending :: ctype where
  "struct_sigpending = Struct [F ''list'' struct_list_head, F ''signal'' typedef_sigset_t]"

definition struct_spinlock :: ctype where
  "struct_spinlock = Struct [F '''' (Union [F ''rlock'' struct_raw_spinlock])]"

definition struct_syscall_user_dispatch :: ctype where
  "struct_syscall_user_dispatch = Struct [F ''selector'' (Scalar 8), F ''offset'' (Scalar 8), F ''len'' (Scalar 8),
     F ''on_dispatch'' (Scalar 1)]"

definition struct_sysv_sem :: ctype where
  "struct_sysv_sem = Struct [F ''undo_list'' (Scalar 8)]"

definition struct_sysv_shm :: ctype where
  "struct_sysv_shm = Struct [F ''shm_clist'' struct_list_head]"

definition struct_task_io_accounting :: ctype where
  "struct_task_io_accounting = Struct [F ''rchar'' (Scalar 8), F ''wchar'' (Scalar 8), F ''syscr'' (Scalar 8),
     F ''syscw'' (Scalar 8), F ''read_bytes'' (Scalar 8), F ''write_bytes'' (Scalar 8),
     F ''cancelled_write_bytes'' (Scalar 8)]"

definition struct_thread_info :: ctype where
  "struct_thread_info = Struct [F ''flags'' (Scalar 8), F ''syscall_work'' (Scalar 8), F ''status'' (Scalar 4),
     F ''cpu'' (Scalar 4)]"

definition struct_desc_struct :: ctype where
  "struct_desc_struct = Struct [F ''limit0'' (Scalar 2), F ''base0'' (Scalar 2), F ''base1'' (Bits 2 8),
     F ''type'' (Bits 2 4), F ''s'' (Bits 2 1), F ''dpl'' (Bits 2 2), F ''p'' (Bits 2 1), F ''limit1'' (Bits 2 4),
     F ''avl'' (Bits 2 1), F ''l'' (Bits 2 1), F ''d'' (Bits 2 1), F ''g'' (Bits 2 1), F ''base2'' (Bits 2 8)]"

definition struct_fregs_state :: ctype where
  "struct_fregs_state = Struct [F ''cwd'' (Scalar 4), F ''swd'' (Scalar 4), F ''twd'' (Scalar 4),
     F ''fip'' (Scalar 4), F ''fcs'' (Scalar 4), F ''foo'' (Scalar 4), F ''fos'' (Scalar 4),
     F ''st_space'' (Arr 20 (Scalar 4)), F ''status'' (Scalar 4)]"

definition struct_fxregs_state :: ctype where
  "struct_fxregs_state = Struct [F ''cwd'' (Scalar 2), F ''swd'' (Scalar 2), F ''twd'' (Scalar 2),
     F ''fop'' (Scalar 2), F '''' (Union [F '''' (Struct [F ''rip'' (Scalar 8), F ''rdp'' (Scalar 8)]),
     F '''' (Struct [F ''fip'' (Scalar 4), F ''fcs'' (Scalar 4), F ''foo'' (Scalar 4), F ''fos'' (Scalar 4)])]),
     F ''mxcsr'' (Scalar 4), F ''mxcsr_mask'' (Scalar 4), F ''st_space'' (Arr 32 (Scalar 4)),
     F ''xmm_space'' (Arr 64 (Scalar 4)), F ''padding'' (Arr 12 (Scalar 4)),
     F '''' (Union [F ''padding1'' (Arr 12 (Scalar 4)), F ''sw_reserved'' (Arr 12 (Scalar 4))])]"

definition struct_swregs_state :: ctype where
  "struct_swregs_state = Struct [F ''cwd'' (Scalar 4), F ''swd'' (Scalar 4), F ''twd'' (Scalar 4),
     F ''fip'' (Scalar 4), F ''fcs'' (Scalar 4), F ''foo'' (Scalar 4), F ''fos'' (Scalar 4),
     F ''st_space'' (Arr 20 (Scalar 4)), F ''ftop'' (Scalar 1), F ''changed'' (Scalar 1), F ''lookahead'' (Scalar 1),
     F ''no_update'' (Scalar 1), F ''rm'' (Scalar 1), F ''alimit'' (Scalar 1), F ''info'' (Scalar 8),
     F ''entry_eip'' (Scalar 4)]"

definition struct_xstate_header :: ctype where
  "struct_xstate_header = Struct [F ''xfeatures'' (Scalar 8), F ''xcomp_bv'' (Scalar 8),
     F ''reserved'' (Arr 6 (Scalar 8))]"

definition struct_xregs_state :: ctype where
  "struct_xregs_state = Struct [F ''i387'' struct_fxregs_state, F ''header'' struct_xstate_header,
     F ''extended_state_area'' (Arr 0 (Scalar 1))]"

definition union_fpregs_state :: ctype where
  "union_fpregs_state = Union [F ''fsave'' struct_fregs_state, F ''fxsave'' struct_fxregs_state,
     F ''soft'' struct_swregs_state, F ''xsave'' struct_xregs_state, F ''__padding'' (Arr 4096 (Scalar 1))]"

definition struct_fpstate :: ctype where
  "struct_fpstate = Struct [F ''size'' (Scalar 4), F ''user_size'' (Scalar 4), F ''xfeatures'' (Scalar 8),
     F ''user_xfeatures'' (Scalar 8), F ''xfd'' (Scalar 8), F ''is_valloc'' (Bits 4 1), F ''is_guest'' (Bits 4 1),
     F ''is_confidential'' (Bits 4 1), F ''in_use'' (Bits 4 1), F '''' (Bits 8 64), F '''' (Bits 8 64),
     F '''' (Bits 8 64), F ''regs'' union_fpregs_state]"

definition struct_fpu_state_perm :: ctype where
  "struct_fpu_state_perm = Struct [F ''__state_perm'' (Scalar 8), F ''__state_size'' (Scalar 4),
     F ''__user_state_size'' (Scalar 4)]"

definition struct_fpu :: ctype where
  "struct_fpu = Struct [F ''last_cpu'' (Scalar 4), F ''avx512_timestamp'' (Scalar 8), F ''fpstate'' (Scalar 8),
     F ''__task_fpstate'' (Scalar 8), F ''perm'' struct_fpu_state_perm, F ''guest_perm'' struct_fpu_state_perm,
     F ''__fpstate'' struct_fpstate]"

definition struct_thread_shstk :: ctype where
  "struct_thread_shstk = Struct [F ''base'' (Scalar 8), F ''size'' (Scalar 8)]"

definition struct_thread_struct :: ctype where
  "struct_thread_struct = Struct [F ''tls_array'' (Arr 3 struct_desc_struct), F ''sp'' (Scalar 8),
     F ''es'' (Scalar 2), F ''ds'' (Scalar 2), F ''fsindex'' (Scalar 2), F ''gsindex'' (Scalar 2),
     F ''fsbase'' (Scalar 8), F ''gsbase'' (Scalar 8), F ''ptrace_bps'' (Arr 4 (Scalar 8)),
     F ''virtual_dr6'' (Scalar 8), F ''ptrace_dr7'' (Scalar 8), F ''cr2'' (Scalar 8), F ''trap_nr'' (Scalar 8),
     F ''error_code'' (Scalar 8), F ''io_bitmap'' (Scalar 8), F ''iopl_emul'' (Scalar 8), F ''iopl_warn'' (Bits 4 1),
     F ''pkru'' (Scalar 4), F ''features'' (Scalar 8), F ''features_locked'' (Scalar 8),
     F ''shstk'' struct_thread_shstk, F '''' (Bits 8 64), F ''fpu'' struct_fpu]"

definition struct_timer_list :: ctype where
  "struct_timer_list = Struct [F ''entry'' struct_hlist_node, F ''expires'' (Scalar 8), F ''function'' (Scalar 8),
     F ''flags'' (Scalar 4)]"

definition struct_arch_tlbflush_unmap_batch :: ctype where
  "struct_arch_tlbflush_unmap_batch = Struct [F ''cpumask'' struct_cpumask]"

definition struct_tlbflush_unmap_batch :: ctype where
  "struct_tlbflush_unmap_batch = Struct [F ''arch'' struct_arch_tlbflush_unmap_batch,
     F ''flush_required'' (Scalar 1), F ''writable'' (Scalar 1)]"

definition struct_uclamp_se :: ctype where
  "struct_uclamp_se = Struct [F ''value'' (Bits 4 11), F ''bucket_id'' (Bits 4 3), F ''active'' (Bits 4 1),
     F ''user_defined'' (Bits 4 1)]"

definition struct_vtime :: ctype where
  "struct_vtime = Struct [F ''seqcount'' struct_seqcount, F ''starttime'' (Scalar 8), F ''state'' (Scalar 4),
     F ''cpu'' (Scalar 4), F ''utime'' (Scalar 8), F ''stime'' (Scalar 8), F ''gtime'' (Scalar 8)]"

definition struct_wake_q_node :: ctype where
  "struct_wake_q_node = Struct [F ''next'' (Scalar 8)]"

definition typedef_kuid_t :: ctype where
  "typedef_kuid_t = Struct [F ''val'' (Scalar 4)]"

definition typedef_nodemask_t :: ctype where
  "typedef_nodemask_t = Struct [F ''bits'' (Arr 16 (Scalar 8))]"

definition union_rcu_special :: ctype where
  "union_rcu_special = Union [F ''b'' (Struct [F ''blocked'' (Scalar 1), F ''need_qs'' (Scalar 1),
     F ''exp_hint'' (Scalar 1), F ''need_mb'' (Scalar 1)]), F ''s'' (Scalar 4)]"

definition struct_da_monitor :: ctype where
  "struct_da_monitor = Struct [F ''monitoring'' (Scalar 1), F ''curr_state'' (Scalar 4)]"

definition union_rv_task_monitor :: ctype where
  "union_rv_task_monitor = Union [F ''da_mon'' struct_da_monitor]"

definition struct_task_struct :: ctype where
  "struct_task_struct = Struct ([F ''thread_info'' struct_thread_info, F ''__state'' (Scalar 4),
     F ''saved_state'' (Scalar 4), F ''stack'' (Scalar 8), F ''usage'' struct_refcount_struct, F ''flags'' (Scalar 4),
     F ''ptrace'' (Scalar 4), F ''on_cpu'' (Scalar 4), F ''wake_entry'' struct___call_single_node,
     F ''wakee_flips'' (Scalar 4), F ''wakee_flip_decay_ts'' (Scalar 8), F ''last_wakee'' (Scalar 8),
     F ''recent_used_cpu'' (Scalar 4), F ''wake_cpu'' (Scalar 4), F ''on_rq'' (Scalar 4), F ''prio'' (Scalar 4),
     F ''static_prio'' (Scalar 4), F ''normal_prio'' (Scalar 4), F ''rt_priority'' (Scalar 4),
     F ''se'' struct_sched_entity, F ''rt'' struct_sched_rt_entity, F ''dl'' struct_sched_dl_entity,
     F ''dl_server'' (Scalar 8), F ''scx'' struct_sched_ext_entity, F ''sched_class'' (Scalar 8),
     F ''core_node'' struct_rb_node, F ''core_cookie'' (Scalar 8), F ''core_occupation'' (Scalar 4),
     F ''sched_task_group'' (Scalar 8), F ''uclamp_req'' (Arr 2 struct_uclamp_se),
     F ''uclamp'' (Arr 2 struct_uclamp_se)] @ replicate 7 (F '''' (Bits 8 64)) @ [F ''stats'' struct_sched_statistics,
     F ''preempt_notifiers'' struct_hlist_head, F ''btrace_seq'' (Scalar 4), F ''policy'' (Scalar 4),
     F ''max_allowed_capacity'' (Scalar 8), F ''nr_cpus_allowed'' (Scalar 4), F ''cpus_ptr'' (Scalar 8),
     F ''user_cpus_ptr'' (Scalar 8), F ''cpus_mask'' struct_cpumask, F ''migration_pending'' (Scalar 8),
     F ''migration_disabled'' (Scalar 2), F ''migration_flags'' (Scalar 2), F ''rcu_read_lock_nesting'' (Scalar 4),
     F ''rcu_read_unlock_special'' union_rcu_special, F ''rcu_node_entry'' struct_list_head,
     F ''rcu_blocked_node'' (Scalar 8), F ''rcu_tasks_nvcsw'' (Scalar 8), F ''rcu_tasks_holdout'' (Scalar 1),
     F ''rcu_tasks_idx'' (Scalar 1), F ''rcu_tasks_idle_cpu'' (Scalar 4),
     F ''rcu_tasks_holdout_list'' struct_list_head, F ''rcu_tasks_exit_cpu'' (Scalar 4),
     F ''rcu_tasks_exit_list'' struct_list_head, F ''trc_reader_nesting'' (Scalar 4), F ''trc_ipi_to_cpu'' (Scalar 4),
     F ''trc_reader_special'' union_rcu_special, F ''trc_holdout_list'' struct_list_head,
     F ''trc_blkd_node'' struct_list_head, F ''trc_blkd_cpu'' (Scalar 4), F ''sched_info'' struct_sched_info,
     F ''tasks'' struct_list_head, F ''pushable_tasks'' struct_plist_node, F ''pushable_dl_tasks'' struct_rb_node,
     F ''mm'' (Scalar 8), F ''active_mm'' (Scalar 8), F ''faults_disabled_mapping'' (Scalar 8),
     F ''exit_state'' (Scalar 4), F ''exit_code'' (Scalar 4), F ''exit_signal'' (Scalar 4),
     F ''pdeath_signal'' (Scalar 4), F ''jobctl'' (Scalar 8), F ''personality'' (Scalar 4),
     F ''sched_reset_on_fork'' (Bits 4 1), F ''sched_contributes_to_load'' (Bits 4 1),
     F ''sched_migrated'' (Bits 4 1), F ''sched_task_hot'' (Bits 4 1), F '''' (Bits 8 28),
     F ''sched_remote_wakeup'' (Bits 4 1), F ''sched_rt_mutex'' (Bits 4 1), F ''in_execve'' (Bits 4 1),
     F ''in_iowait'' (Bits 4 1), F ''restore_sigmask'' (Bits 4 1), F ''in_lru_fault'' (Bits 4 1),
     F ''no_cgroup_migration'' (Bits 4 1), F ''frozen'' (Bits 4 1), F ''use_memdelay'' (Bits 4 1),
     F ''in_memstall'' (Bits 4 1), F ''in_eventfd'' (Bits 4 1), F ''pasid_activated'' (Bits 4 1),
     F ''reported_split_lock'' (Bits 4 1), F ''in_thrashing'' (Bits 4 1), F ''atomic_flags'' (Scalar 8),
     F ''restart_block'' struct_restart_block, F ''pid'' (Scalar 4), F ''tgid'' (Scalar 4),
     F ''stack_canary'' (Scalar 8), F ''real_parent'' (Scalar 8), F ''parent'' (Scalar 8),
     F ''children'' struct_list_head, F ''sibling'' struct_list_head, F ''group_leader'' (Scalar 8),
     F ''ptraced'' struct_list_head, F ''ptrace_entry'' struct_list_head, F ''thread_pid'' (Scalar 8),
     F ''pid_links'' (Arr 4 struct_hlist_node), F ''thread_node'' struct_list_head, F ''vfork_done'' (Scalar 8),
     F ''set_child_tid'' (Scalar 8), F ''clear_child_tid'' (Scalar 8), F ''worker_private'' (Scalar 8),
     F ''utime'' (Scalar 8), F ''stime'' (Scalar 8), F ''gtime'' (Scalar 8), F ''prev_cputime'' struct_prev_cputime,
     F ''vtime'' struct_vtime, F ''tick_dep_mask'' typedef_atomic_t, F ''nvcsw'' (Scalar 8), F ''nivcsw'' (Scalar 8),
     F ''start_time'' (Scalar 8), F ''start_boottime'' (Scalar 8), F ''min_flt'' (Scalar 8), F ''maj_flt'' (Scalar 8),
     F ''posix_cputimers'' struct_posix_cputimers, F ''posix_cputimers_work'' struct_posix_cputimers_work,
     F ''ptracer_cred'' (Scalar 8), F ''real_cred'' (Scalar 8), F ''cred'' (Scalar 8),
     F ''cached_requested_key'' (Scalar 8), F ''comm'' (Arr 16 (Scalar 1)), F ''nameidata'' (Scalar 8),
     F ''sysvsem'' struct_sysv_sem, F ''sysvshm'' struct_sysv_shm, F ''last_switch_count'' (Scalar 8),
     F ''last_switch_time'' (Scalar 8), F ''fs'' (Scalar 8), F ''files'' (Scalar 8), F ''io_uring'' (Scalar 8),
     F ''nsproxy'' (Scalar 8), F ''signal'' (Scalar 8), F ''sighand'' (Scalar 8), F ''blocked'' typedef_sigset_t,
     F ''real_blocked'' typedef_sigset_t, F ''saved_sigmask'' typedef_sigset_t, F ''pending'' struct_sigpending,
     F ''sas_ss_sp'' (Scalar 8), F ''sas_ss_size'' (Scalar 8), F ''sas_ss_flags'' (Scalar 4),
     F ''task_works'' (Scalar 8), F ''audit_context'' (Scalar 8), F ''loginuid'' typedef_kuid_t,
     F ''sessionid'' (Scalar 4), F ''seccomp'' struct_seccomp, F ''syscall_dispatch'' struct_syscall_user_dispatch,
     F ''parent_exec_id'' (Scalar 8), F ''self_exec_id'' (Scalar 8), F ''alloc_lock'' struct_spinlock,
     F ''pi_lock'' struct_raw_spinlock, F ''wake_q'' struct_wake_q_node, F ''pi_waiters'' struct_rb_root_cached,
     F ''pi_top_task'' (Scalar 8), F ''pi_blocked_on'' (Scalar 8), F ''in_ubsan'' (Scalar 4),
     F ''journal_info'' (Scalar 8), F ''bio_list'' (Scalar 8), F ''plug'' (Scalar 8), F ''reclaim_state'' (Scalar 8),
     F ''io_context'' (Scalar 8), F ''capture_control'' (Scalar 8), F ''ptrace_message'' (Scalar 8),
     F ''last_siginfo'' (Scalar 8), F ''ioac'' struct_task_io_accounting, F ''psi_flags'' (Scalar 4),
     F ''acct_rss_mem1'' (Scalar 8), F ''acct_vm_mem1'' (Scalar 8), F ''acct_timexpd'' (Scalar 8),
     F ''mems_allowed'' typedef_nodemask_t, F ''mems_allowed_seq'' struct_seqcount_spinlock,
     F ''cpuset_mem_spread_rotor'' (Scalar 4), F ''cgroups'' (Scalar 8), F ''cg_list'' struct_list_head,
     F ''closid'' (Scalar 4), F ''rmid'' (Scalar 4), F ''robust_list'' (Scalar 8),
     F ''compat_robust_list'' (Scalar 8), F ''pi_state_list'' struct_list_head, F ''pi_state_cache'' (Scalar 8),
     F ''futex_exit_mutex'' struct_mutex, F ''futex_state'' (Scalar 4), F ''perf_recursion'' (Arr 4 (Scalar 1)),
     F ''perf_event_ctxp'' (Scalar 8), F ''perf_event_mutex'' struct_mutex, F ''perf_event_list'' struct_list_head,
     F ''perf_ctx_data'' (Scalar 8), F ''mempolicy'' (Scalar 8), F ''il_prev'' (Scalar 2), F ''il_weight'' (Scalar 1),
     F ''pref_node_fork'' (Scalar 2), F ''numa_scan_seq'' (Scalar 4), F ''numa_scan_period'' (Scalar 4),
     F ''numa_scan_period_max'' (Scalar 4), F ''numa_preferred_nid'' (Scalar 4), F ''numa_migrate_retry'' (Scalar 8),
     F ''node_stamp'' (Scalar 8), F ''last_task_numa_placement'' (Scalar 8), F ''last_sum_exec_runtime'' (Scalar 8),
     F ''numa_work'' struct_callback_head, F ''numa_group'' (Scalar 8), F ''numa_faults'' (Scalar 8),
     F ''total_numa_faults'' (Scalar 8), F ''numa_faults_locality'' (Arr 3 (Scalar 8)),
     F ''numa_pages_migrated'' (Scalar 8), F ''rseq'' (Scalar 8), F ''rseq_len'' (Scalar 4),
     F ''rseq_sig'' (Scalar 4), F ''rseq_event_mask'' (Scalar 8), F ''mm_cid'' (Scalar 4),
     F ''last_mm_cid'' (Scalar 4), F ''migrate_from_cpu'' (Scalar 4), F ''mm_cid_active'' (Scalar 4),
     F ''cid_work'' struct_callback_head, F ''tlb_ubc'' struct_tlbflush_unmap_batch, F ''splice_pipe'' (Scalar 8),
     F ''task_frag'' struct_page_frag, F ''delays'' (Scalar 8), F ''nr_dirtied'' (Scalar 4),
     F ''nr_dirtied_pause'' (Scalar 4), F ''dirty_paused_when'' (Scalar 8), F ''latency_record_count'' (Scalar 4),
     F ''latency_record'' (Arr 32 struct_latency_record), F ''timer_slack_ns'' (Scalar 8),
     F ''default_timer_slack_ns'' (Scalar 8), F ''curr_ret_stack'' (Scalar 4), F ''curr_ret_depth'' (Scalar 4),
     F ''ret_stack'' (Scalar 8), F ''ftrace_timestamp'' (Scalar 8), F ''ftrace_sleeptime'' (Scalar 8),
     F ''trace_overrun'' typedef_atomic_t, F ''tracing_graph_pause'' typedef_atomic_t,
     F ''trace_recursion'' (Scalar 8), F ''memcg_nr_pages_over_high'' (Scalar 4), F ''active_memcg'' (Scalar 8),
     F ''objcg'' (Scalar 8), F ''throttle_disk'' (Scalar 8), F ''utask'' (Scalar 8), F ''sequential_io'' (Scalar 4),
     F ''sequential_io_avg'' (Scalar 4), F ''kmap_ctrl'' struct_kmap_ctrl, F ''rcu'' struct_callback_head,
     F ''rcu_users'' struct_refcount_struct, F ''pagefault_disabled'' (Scalar 4), F ''oom_reaper_list'' (Scalar 8),
     F ''oom_reaper_timer'' struct_timer_list, F ''stack_vm_area'' (Scalar 8),
     F ''stack_refcount'' struct_refcount_struct, F ''patch_state'' (Scalar 4), F ''security'' (Scalar 8),
     F ''bpf_storage'' (Scalar 8), F ''bpf_ctx'' (Scalar 8), F ''bpf_net_context'' (Scalar 8),
     F ''mce_vaddr'' (Scalar 8), F ''mce_kflags'' (Scalar 8), F ''mce_addr'' (Scalar 8), F ''mce_ripv'' (Bits 8 1),
     F ''mce_whole_page'' (Bits 8 1), F ''__mce_reserved'' (Bits 8 62), F ''mce_kill_me'' struct_callback_head,
     F ''mce_count'' (Scalar 4), F ''kretprobe_instances'' struct_llist_head, F ''rethooks'' struct_llist_head,
     F ''l1d_flush_kill'' struct_callback_head, F ''rv'' (Arr 1 union_rv_task_monitor),
     F ''user_event_mm'' (Scalar 8), F '''' (Bits 8 64), F '''' (Bits 8 64), F '''' (Bits 8 64), F '''' (Bits 8 64),
     F '''' (Bits 8 64), F ''thread'' struct_thread_struct])"

end
