(* ===== verification/Kernel_Cgroup_Types.thy ===== *)
theory Kernel_Cgroup_Types
  imports Kernel_Task_Types
begin

text \<open>
  The control groups whose ids the programs filter on and account to: \<open>struct cgroup\<close>,
  \<open>css_set\<close> and \<open>mem_cgroup\<close> of \<open>eBPF/vmlinux.h\<close>, with the types they contain by value.
\<close>

definition struct_cacheline_padding :: ctype where
  "struct_cacheline_padding = Struct [F ''x'' (Arr 0 (Scalar 1))]"

definition struct_task_cputime :: ctype where
  "struct_task_cputime = Struct [F ''stime'' (Scalar 8), F ''utime'' (Scalar 8),
     F ''sum_exec_runtime'' (Scalar 8)]"

definition struct_cgroup_base_stat :: ctype where
  "struct_cgroup_base_stat = Struct [F ''cputime'' struct_task_cputime, F ''forceidle_sum'' (Scalar 8),
     F ''ntime'' (Scalar 8)]"

definition struct_percpu_ref :: ctype where
  "struct_percpu_ref = Struct [F ''percpu_count_ptr'' (Scalar 8), F ''data'' (Scalar 8)]"

definition struct_work_struct :: ctype where
  "struct_work_struct = Struct [F ''data'' typedef_atomic64_t, F ''entry'' struct_list_head,
     F ''func'' (Scalar 8)]"

definition struct_cgroup_bpf :: ctype where
  "struct_cgroup_bpf = Struct [F ''effective'' (Arr 38 (Scalar 8)), F ''progs'' (Arr 38 struct_hlist_head),
     F ''flags'' (Arr 38 (Scalar 1)), F ''storages'' struct_list_head, F ''inactive'' (Scalar 8),
     F ''refcnt'' struct_percpu_ref, F ''release_work'' struct_work_struct]"

definition struct_cgroup_file :: ctype where
  "struct_cgroup_file = Struct [F ''kn'' (Scalar 8), F ''notified_at'' (Scalar 8),
     F ''notify_timer'' struct_timer_list]"

definition struct_cgroup_freezer_state :: ctype where
  "struct_cgroup_freezer_state = Struct [F ''freeze'' (Scalar 1), F ''e_freeze'' (Scalar 1),
     F ''nr_frozen_descendants'' (Scalar 4), F ''nr_frozen_tasks'' (Scalar 4)]"

definition struct_rcu_work :: ctype where
  "struct_rcu_work = Struct [F ''work'' struct_work_struct, F ''rcu'' struct_callback_head, F ''wq'' (Scalar 8)]"

definition struct_cgroup_subsys_state :: ctype where
  "struct_cgroup_subsys_state = Struct [F ''cgroup'' (Scalar 8), F ''ss'' (Scalar 8),
     F ''refcnt'' struct_percpu_ref, F ''sibling'' struct_list_head, F ''children'' struct_list_head,
     F ''rstat_css_node'' struct_list_head, F ''id'' (Scalar 4), F ''flags'' (Scalar 4), F ''serial_nr'' (Scalar 8),
     F ''online_cnt'' typedef_atomic_t, F ''destroy_work'' struct_work_struct, F ''destroy_rwork'' struct_rcu_work,
     F ''parent'' (Scalar 8), F ''nr_descendants'' (Scalar 4)]"

definition struct_wait_queue_head :: ctype where
  "struct_wait_queue_head = Struct [F ''lock'' struct_spinlock, F ''head'' struct_list_head]"

definition struct_cgroup :: ctype where
  "struct_cgroup = Struct ([F ''self'' struct_cgroup_subsys_state, F ''flags'' (Scalar 8), F ''level'' (Scalar 4),
     F ''max_depth'' (Scalar 4), F ''nr_descendants'' (Scalar 4), F ''nr_dying_descendants'' (Scalar 4),
     F ''max_descendants'' (Scalar 4), F ''nr_populated_csets'' (Scalar 4),
     F ''nr_populated_domain_children'' (Scalar 4), F ''nr_populated_threaded_children'' (Scalar 4),
     F ''nr_threaded_children'' (Scalar 4), F ''kill_seq'' (Scalar 4), F ''kn'' (Scalar 8),
     F ''procs_file'' struct_cgroup_file, F ''events_file'' struct_cgroup_file,
     F ''psi_files'' (Arr 3 struct_cgroup_file), F ''subtree_control'' (Scalar 2), F ''subtree_ss_mask'' (Scalar 2),
     F ''old_subtree_control'' (Scalar 2), F ''old_subtree_ss_mask'' (Scalar 2), F ''subsys'' (Arr 15 (Scalar 8)),
     F ''nr_dying_subsys'' (Arr 15 (Scalar 4)), F ''root'' (Scalar 8), F ''cset_links'' struct_list_head,
     F ''e_csets'' (Arr 15 struct_list_head), F ''dom_cgrp'' (Scalar 8), F ''old_dom_cgrp'' (Scalar 8),
     F ''rstat_cpu'' (Scalar 8),
     F ''rstat_css_list'' struct_list_head] @ replicate 6 (F '''' (Bits 8 64)) @ [F ''_pad_'' struct_cacheline_padding,
     F ''rstat_flush_next'' (Scalar 8), F ''last_bstat'' struct_cgroup_base_stat, F ''bstat'' struct_cgroup_base_stat,
     F ''prev_cputime'' struct_prev_cputime, F ''pidlists'' struct_list_head, F ''pidlist_mutex'' struct_mutex,
     F ''offline_waitq'' struct_wait_queue_head, F ''release_agent_work'' struct_work_struct, F ''psi'' (Scalar 8),
     F ''bpf'' struct_cgroup_bpf, F ''freezer'' struct_cgroup_freezer_state, F ''bpf_cgrp_storage'' (Scalar 8),
     F ''ancestors'' (Arr 0 (Scalar 8))] @ replicate 7 (F '''' (Bits 8 64)))"

definition struct_css_set :: ctype where
  "struct_css_set = Struct [F ''subsys'' (Arr 15 (Scalar 8)), F ''refcount'' struct_refcount_struct,
     F ''dom_cset'' (Scalar 8), F ''dfl_cgrp'' (Scalar 8), F ''nr_tasks'' (Scalar 4), F ''tasks'' struct_list_head,
     F ''mg_tasks'' struct_list_head, F ''dying_tasks'' struct_list_head, F ''task_iters'' struct_list_head,
     F ''e_cset_node'' (Arr 15 struct_list_head), F ''threaded_csets'' struct_list_head,
     F ''threaded_csets_node'' struct_list_head, F ''hlist'' struct_hlist_node, F ''cgrp_links'' struct_list_head,
     F ''mg_src_preload_node'' struct_list_head, F ''mg_dst_preload_node'' struct_list_head,
     F ''mg_node'' struct_list_head, F ''mg_src_cgrp'' (Scalar 8), F ''mg_dst_cgrp'' (Scalar 8),
     F ''mg_dst_cset'' (Scalar 8), F ''dead'' (Scalar 1), F ''callback_head'' struct_callback_head]"

definition struct_deferred_split :: ctype where
  "struct_deferred_split = Struct [F ''split_queue_lock'' struct_spinlock, F ''split_queue'' struct_list_head,
     F ''split_queue_len'' (Scalar 8)]"

definition struct_lru_gen_mm_list :: ctype where
  "struct_lru_gen_mm_list = Struct [F ''fifo'' struct_list_head, F ''lock'' struct_spinlock]"

definition struct_mem_cgroup_id :: ctype where
  "struct_mem_cgroup_id = Struct [F ''id'' (Scalar 4), F ''ref'' struct_refcount_struct]"

definition struct_wb_completion :: ctype where
  "struct_wb_completion = Struct [F ''cnt'' typedef_atomic_t, F ''waitq'' (Scalar 8)]"

definition struct_memcg_cgwb_frn :: ctype where
  "struct_memcg_cgwb_frn = Struct [F ''bdi_id'' (Scalar 8), F ''memcg_id'' (Scalar 4), F ''at'' (Scalar 8),
     F ''done'' struct_wb_completion]"

definition struct_page_counter :: ctype where
  "struct_page_counter = Struct ([F ''usage'' typedef_atomic64_t] @ replicate 7 (F '''' (Bits 8 64)) @ [F ''_pad1_'' struct_cacheline_padding,
     F ''emin'' (Scalar 8), F ''min_usage'' typedef_atomic64_t, F ''children_min_usage'' typedef_atomic64_t,
     F ''elow'' (Scalar 8), F ''low_usage'' typedef_atomic64_t, F ''children_low_usage'' typedef_atomic64_t,
     F ''watermark'' (Scalar 8), F ''local_watermark'' (Scalar 8),
     F ''failcnt'' (Scalar 8)] @ replicate 7 (F '''' (Bits 8 64)) @ [F ''_pad2_'' struct_cacheline_padding,
     F ''protection_support'' (Scalar 1), F ''min'' (Scalar 8), F ''low'' (Scalar 8), F ''high'' (Scalar 8),
     F ''max'' (Scalar 8), F ''parent'' (Scalar 8), F '''' (Bits 8 64), F '''' (Bits 8 64)])"

definition struct_vmpressure :: ctype where
  "struct_vmpressure = Struct [F ''scanned'' (Scalar 8), F ''reclaimed'' (Scalar 8), F ''tree_scanned'' (Scalar 8),
     F ''tree_reclaimed'' (Scalar 8), F ''sr_lock'' struct_spinlock, F ''events'' struct_list_head,
     F ''events_lock'' struct_mutex, F ''work'' struct_work_struct]"

definition struct_percpu_counter :: ctype where
  "struct_percpu_counter = Struct [F ''lock'' struct_raw_spinlock, F ''count'' (Scalar 8),
     F ''list'' struct_list_head, F ''counters'' (Scalar 8)]"

definition struct_fprop_global :: ctype where
  "struct_fprop_global = Struct [F ''events'' struct_percpu_counter, F ''period'' (Scalar 4),
     F ''sequence'' struct_seqcount]"

definition struct_wb_domain :: ctype where
  "struct_wb_domain = Struct [F ''lock'' struct_spinlock, F ''completions'' struct_fprop_global,
     F ''period_timer'' struct_timer_list, F ''period_time'' (Scalar 8), F ''dirty_limit_tstamp'' (Scalar 8),
     F ''dirty_limit'' (Scalar 8)]"

definition struct_mem_cgroup :: ctype where
  "struct_mem_cgroup = Struct [F ''css'' struct_cgroup_subsys_state, F ''id'' struct_mem_cgroup_id,
     F '''' (Bits 8 64), F '''' (Bits 8 64), F '''' (Bits 8 64), F '''' (Bits 8 64), F '''' (Bits 8 64),
     F ''memory'' struct_page_counter, F '''' (Union [F ''swap'' struct_page_counter,
     F ''memsw'' struct_page_counter]), F ''memory_peaks'' struct_list_head, F ''swap_peaks'' struct_list_head,
     F ''peaks_lock'' struct_spinlock, F ''high_work'' struct_work_struct, F ''zswap_max'' (Scalar 8),
     F ''zswap_writeback'' (Scalar 1), F ''vmpressure'' struct_vmpressure, F ''oom_group'' (Scalar 1),
     F ''swappiness'' (Scalar 4), F ''events_file'' struct_cgroup_file, F ''events_local_file'' struct_cgroup_file,
     F ''swap_events_file'' struct_cgroup_file, F ''vmstats'' (Scalar 8),
     F ''memory_events'' (Arr 9 typedef_atomic64_t), F ''memory_events_local'' (Arr 9 typedef_atomic64_t),
     F ''socket_pressure'' (Scalar 8), F ''kmemcg_id'' (Scalar 4), F ''objcg'' (Scalar 8),
     F ''orig_objcg'' (Scalar 8), F ''objcg_list'' struct_list_head, F ''vmstats_percpu'' (Scalar 8),
     F ''cgwb_list'' struct_list_head, F ''cgwb_domain'' struct_wb_domain,
     F ''cgwb_frn'' (Arr 4 struct_memcg_cgwb_frn), F ''deferred_split_queue'' struct_deferred_split,
     F ''mm_list'' struct_lru_gen_mm_list, F ''nodeinfo'' (Arr 0 (Scalar 8)), F '''' (Bits 8 64), F '''' (Bits 8 64)]"

end
