(* ===== verification/Kernel_Map_Types.thy ===== *)
theory Kernel_Map_Types
  imports Kernel_Cgroup_Types
begin

text \<open>
  The kernel side of the map types the programs declare (array, hash, LRU hash, ring
  buffer), from \<open>eBPF/vmlinux.h\<close>, with the types they contain by value.
\<close>

definition struct_bpf_map :: ctype where
  "struct_bpf_map = Struct [F ''ops'' (Scalar 8), F ''inner_map_meta'' (Scalar 8), F ''security'' (Scalar 8),
     F ''map_type'' (Scalar 4), F ''key_size'' (Scalar 4), F ''value_size'' (Scalar 4), F ''max_entries'' (Scalar 4),
     F ''map_extra'' (Scalar 8), F ''map_flags'' (Scalar 4), F ''id'' (Scalar 4), F ''record'' (Scalar 8),
     F ''numa_node'' (Scalar 4), F ''btf_key_type_id'' (Scalar 4), F ''btf_value_type_id'' (Scalar 4),
     F ''btf_vmlinux_value_type_id'' (Scalar 4), F ''btf'' (Scalar 8), F ''objcg'' (Scalar 8),
     F ''name'' (Arr 16 (Scalar 1)), F ''freeze_mutex'' struct_mutex, F ''refcnt'' typedef_atomic64_t,
     F ''usercnt'' typedef_atomic64_t, F '''' (Union [F ''work'' struct_work_struct, F ''rcu'' struct_callback_head]),
     F ''writecnt'' typedef_atomic64_t, F ''owner'' (Struct [F ''attach_func_proto'' (Scalar 8),
     F ''lock'' struct_spinlock, F ''type'' (Scalar 4), F ''jited'' (Scalar 1), F ''xdp_has_frags'' (Scalar 1)]),
     F ''bypass_spec_v1'' (Scalar 1), F ''frozen'' (Scalar 1), F ''free_after_mult_rcu_gp'' (Scalar 1),
     F ''free_after_rcu_gp'' (Scalar 1), F ''sleepable_refcnt'' typedef_atomic64_t, F ''elem_count'' (Scalar 8)]"

definition struct_bpf_array :: ctype where
  "struct_bpf_array = Struct [F ''map'' struct_bpf_map, F ''elem_size'' (Scalar 4), F ''index_mask'' (Scalar 4),
     F ''aux'' (Scalar 8), F '''' (Union [F '''' (Struct [F ''__empty_value'' (Struct []),
     F ''value'' (Arr 0 (Scalar 1))]), F '''' (Struct [F ''__empty_ptrs'' (Struct []),
     F ''ptrs'' (Arr 0 (Scalar 8))]), F '''' (Struct [F ''__empty_pptrs'' (Struct []),
     F ''pptrs'' (Arr 0 (Scalar 8))])])]"

definition struct_bpf_lru_list :: ctype where
  "struct_bpf_lru_list = Struct ([F ''lists'' (Arr 3 struct_list_head), F ''counts'' (Arr 2 (Scalar 4)),
     F ''next_inactive_rotation'' (Scalar 8), F ''lock'' struct_raw_spinlock] @ replicate 7 (F '''' (Bits 8 64)))"

definition struct_bpf_common_lru :: ctype where
  "struct_bpf_common_lru = Struct ([F ''lru_list'' struct_bpf_lru_list,
     F ''local_list'' (Scalar 8)] @ replicate 7 (F '''' (Bits 8 64)))"

definition struct_bpf_lru :: ctype where
  "struct_bpf_lru = Struct [F '''' (Union [F ''common_lru'' struct_bpf_common_lru, F ''percpu_lru'' (Scalar 8)]),
     F ''del_from_htab'' (Scalar 8), F ''del_arg'' (Scalar 8), F ''hash_offset'' (Scalar 4),
     F ''nr_scans'' (Scalar 4), F ''percpu'' (Scalar 1), F '''' (Bits 8 64), F '''' (Bits 8 64), F '''' (Bits 8 64),
     F '''' (Bits 8 64)]"

definition struct_bpf_mem_alloc :: ctype where
  "struct_bpf_mem_alloc = Struct [F ''caches'' (Scalar 8), F ''cache'' (Scalar 8), F ''objcg'' (Scalar 8),
     F ''percpu'' (Scalar 1), F ''work'' struct_work_struct]"

definition struct_lock_class_key :: ctype where
  "struct_lock_class_key = Struct []"

definition struct_pcpu_freelist_head :: ctype where
  "struct_pcpu_freelist_head = Struct [F ''first'' (Scalar 8), F ''lock'' struct_raw_spinlock]"

definition struct_pcpu_freelist :: ctype where
  "struct_pcpu_freelist = Struct [F ''freelist'' (Scalar 8), F ''extralist'' struct_pcpu_freelist_head]"

definition struct_bpf_htab :: ctype where
  "struct_bpf_htab = Struct ([F ''map'' struct_bpf_map, F ''ma'' struct_bpf_mem_alloc,
     F ''pcpu_ma'' struct_bpf_mem_alloc, F ''buckets'' (Scalar 8),
     F ''elems'' (Scalar 8)] @ replicate 7 (F '''' (Bits 8 64)) @ [F '''' (Union [F ''freelist'' struct_pcpu_freelist,
     F ''lru'' struct_bpf_lru]), F ''extra_elems'' (Scalar 8), F ''pcount'' struct_percpu_counter,
     F ''count'' typedef_atomic_t, F ''use_percpu_counter'' (Scalar 1), F ''n_buckets'' (Scalar 4),
     F ''elem_size'' (Scalar 4), F ''hashrnd'' (Scalar 4), F ''lockdep_key'' struct_lock_class_key,
     F ''map_locked'' (Arr 8 (Scalar 8))] @ replicate 7 (F '''' (Bits 8 64)))"

definition struct_rcuwait :: ctype where
  "struct_rcuwait = Struct [F ''task'' (Scalar 8)]"

definition struct_irq_work :: ctype where
  "struct_irq_work = Struct [F ''node'' struct___call_single_node, F ''func'' (Scalar 8),
     F ''irqwait'' struct_rcuwait]"

definition struct_bpf_ringbuf :: ctype where
  "struct_bpf_ringbuf = Struct ([F ''waitq'' struct_wait_queue_head, F ''work'' struct_irq_work,
     F ''mask'' (Scalar 8), F ''pages'' (Scalar 8),
     F ''nr_pages'' (Scalar 4)] @ replicate 6 (F '''' (Bits 8 64)) @ [F ''spinlock'' struct_raw_spinlock] @ replicate 7 (F '''' (Bits 8 64)) @ [F ''busy'' typedef_atomic_t] @ replicate 487 (F '''' (Bits 8 64)) @ [F ''consumer_pos'' (Scalar 8)] @ replicate 511 (F '''' (Bits 8 64)) @ [F ''producer_pos'' (Scalar 8),
     F ''pending_pos'' (Scalar 8)] @ replicate 510 (F '''' (Bits 8 64)) @ [F ''data'' (Arr 0 (Scalar 1))])"

end
