(* ===== verification/Kernel_Mm_Types.thy ===== *)
theory Kernel_Mm_Types
  imports Kernel_Map_Types
begin

text \<open>
  The memory that the page-fault and memory programs account for: \<open>struct page\<close>,
  \<open>folio\<close>, \<open>vm_area_struct\<close>, \<open>mm_struct\<close>, \<open>zone\<close> and \<open>lruvec\<close> of \<open>eBPF/vmlinux.h\<close>, with
  the types they contain by value.
\<close>

definition struct_page :: ctype where
  "struct_page = Struct [F ''flags'' (Scalar 8),
     F '''' (Union [F '''' (Struct [F '''' (Union [F ''lru'' struct_list_head,
     F '''' (Struct [F ''__filler'' (Scalar 8), F ''mlock_count'' (Scalar 4)]), F ''buddy_list'' struct_list_head,
     F ''pcp_list'' struct_list_head]), F ''mapping'' (Scalar 8), F '''' (Union [F ''index'' (Scalar 8),
     F ''share'' (Scalar 8)]), F ''private'' (Scalar 8)]), F '''' (Struct [F ''pp_magic'' (Scalar 8),
     F ''pp'' (Scalar 8), F ''_pp_mapping_pad'' (Scalar 8), F ''dma_addr'' (Scalar 8),
     F ''pp_ref_count'' typedef_atomic64_t]), F '''' (Struct [F ''compound_head'' (Scalar 8)]),
     F '''' (Struct [F ''pgmap'' (Scalar 8), F ''zone_device_data'' (Scalar 8)]),
     F ''callback_head'' struct_callback_head]), F '''' (Union [F ''page_type'' (Scalar 4),
     F ''_mapcount'' typedef_atomic_t]), F ''_refcount'' typedef_atomic_t, F ''memcg_data'' (Scalar 8)]"

definition typedef_swp_entry_t :: ctype where
  "typedef_swp_entry_t = Struct [F ''val'' (Scalar 8)]"

definition struct_folio :: ctype where
  "struct_folio = Struct [F '''' (Union [F '''' (Struct [F ''flags'' (Scalar 8),
     F '''' (Union [F ''lru'' struct_list_head, F '''' (Struct [F ''__filler'' (Scalar 8),
     F ''mlock_count'' (Scalar 4)])]), F ''mapping'' (Scalar 8), F ''index'' (Scalar 8),
     F '''' (Union [F ''private'' (Scalar 8), F ''swap'' typedef_swp_entry_t]), F ''_mapcount'' typedef_atomic_t,
     F ''_refcount'' typedef_atomic_t, F ''memcg_data'' (Scalar 8)]), F ''page'' struct_page]),
     F '''' (Union [F '''' (Struct [F ''_flags_1'' (Scalar 8), F ''_head_1'' (Scalar 8),
     F ''_large_mapcount'' typedef_atomic_t, F ''_entire_mapcount'' typedef_atomic_t,
     F ''_nr_pages_mapped'' typedef_atomic_t, F ''_pincount'' typedef_atomic_t, F ''_folio_nr_pages'' (Scalar 4)]),
     F ''__page_1'' struct_page]), F '''' (Union [F '''' (Struct [F ''_flags_2'' (Scalar 8), F ''_head_2'' (Scalar 8),
     F ''_hugetlb_subpool'' (Scalar 8), F ''_hugetlb_cgroup'' (Scalar 8), F ''_hugetlb_cgroup_rsvd'' (Scalar 8),
     F ''_hugetlb_hwpoison'' (Scalar 8)]), F '''' (Struct [F ''_flags_2a'' (Scalar 8), F ''_head_2a'' (Scalar 8),
     F ''_deferred_list'' struct_list_head]), F ''__page_2'' struct_page])]"

definition struct_pgprot :: ctype where
  "struct_pgprot = Struct [F ''pgprot'' (Scalar 8)]"

definition struct_vm_userfaultfd_ctx :: ctype where
  "struct_vm_userfaultfd_ctx = Struct [F ''ctx'' (Scalar 8)]"

definition struct_vm_area_struct :: ctype where
  "struct_vm_area_struct = Struct [F '''' (Union [F '''' (Struct [F ''vm_start'' (Scalar 8),
     F ''vm_end'' (Scalar 8)]), F ''vm_rcu'' struct_callback_head]), F ''vm_mm'' (Scalar 8),
     F ''vm_page_prot'' struct_pgprot, F '''' (Union [F ''vm_flags'' (Scalar 8), F ''__vm_flags'' (Scalar 8)]),
     F ''detached'' (Scalar 1), F ''vm_lock_seq'' (Scalar 4), F ''vm_lock'' (Scalar 8),
     F ''shared'' (Struct [F ''rb'' struct_rb_node, F ''rb_subtree_last'' (Scalar 8)]),
     F ''anon_vma_chain'' struct_list_head, F ''anon_vma'' (Scalar 8), F ''vm_ops'' (Scalar 8),
     F ''vm_pgoff'' (Scalar 8), F ''vm_file'' (Scalar 8), F ''vm_private_data'' (Scalar 8),
     F ''anon_name'' (Scalar 8), F ''swap_readahead_info'' typedef_atomic64_t, F ''vm_policy'' (Scalar 8),
     F ''numab_state'' (Scalar 8), F ''vm_userfaultfd_ctx'' struct_vm_userfaultfd_ctx]"

definition typedef_lockdep_map_p :: ctype where
  "typedef_lockdep_map_p = Struct []"

definition struct_maple_tree :: ctype where
  "struct_maple_tree = Struct [F '''' (Union [F ''ma_lock'' struct_spinlock,
     F ''ma_external_lock'' typedef_lockdep_map_p]), F ''ma_flags'' (Scalar 4), F ''ma_root'' (Scalar 8)]"

definition struct_rw_semaphore :: ctype where
  "struct_rw_semaphore = Struct [F ''count'' typedef_atomic64_t, F ''owner'' typedef_atomic64_t,
     F ''osq'' struct_optimistic_spin_queue, F ''wait_lock'' struct_raw_spinlock, F ''wait_list'' struct_list_head]"

definition struct_uprobes_state :: ctype where
  "struct_uprobes_state = Struct [F ''xol_area'' (Scalar 8)]"

definition typedef_mm_context_t :: ctype where
  "typedef_mm_context_t = Struct [F ''ctx_id'' (Scalar 8), F ''tlb_gen'' typedef_atomic64_t,
     F ''next_trim_cpumask'' (Scalar 8), F ''ldt_usr_sem'' struct_rw_semaphore, F ''ldt'' (Scalar 8),
     F ''flags'' (Scalar 8), F ''lock'' struct_mutex, F ''vdso'' (Scalar 8), F ''vdso_image'' (Scalar 8),
     F ''perf_rdpmc_allowed'' typedef_atomic_t, F ''pkey_allocation_map'' (Scalar 2),
     F ''execute_only_pkey'' (Scalar 2)]"

definition struct_mm_struct :: ctype where
  "struct_mm_struct = Struct [F '''' (Struct [F '''' (Struct ([F ''mm_count'' typedef_atomic_t] @ replicate 7 (F '''' (Bits 8 64)))),
     F ''mm_mt'' struct_maple_tree, F ''mmap_base'' (Scalar 8), F ''mmap_legacy_base'' (Scalar 8),
     F ''mmap_compat_base'' (Scalar 8), F ''mmap_compat_legacy_base'' (Scalar 8), F ''task_size'' (Scalar 8),
     F ''pgd'' (Scalar 8), F ''membarrier_state'' typedef_atomic_t, F ''mm_users'' typedef_atomic_t,
     F ''pcpu_cid'' (Scalar 8), F ''mm_cid_next_scan'' (Scalar 8), F ''nr_cpus_allowed'' (Scalar 4),
     F ''max_nr_cid'' typedef_atomic_t, F ''cpus_allowed_lock'' struct_raw_spinlock,
     F ''pgtables_bytes'' typedef_atomic64_t, F ''map_count'' (Scalar 4), F ''page_table_lock'' struct_spinlock,
     F ''mmap_lock'' struct_rw_semaphore, F ''mmlist'' struct_list_head, F ''mm_lock_seq'' struct_seqcount,
     F ''hiwater_rss'' (Scalar 8), F ''hiwater_vm'' (Scalar 8), F ''total_vm'' (Scalar 8), F ''locked_vm'' (Scalar 8),
     F ''pinned_vm'' typedef_atomic64_t, F ''data_vm'' (Scalar 8), F ''exec_vm'' (Scalar 8),
     F ''stack_vm'' (Scalar 8), F ''def_flags'' (Scalar 8), F ''write_protect_seq'' struct_seqcount,
     F ''arg_lock'' struct_spinlock, F ''start_code'' (Scalar 8), F ''end_code'' (Scalar 8),
     F ''start_data'' (Scalar 8), F ''end_data'' (Scalar 8), F ''start_brk'' (Scalar 8), F ''brk'' (Scalar 8),
     F ''start_stack'' (Scalar 8), F ''arg_start'' (Scalar 8), F ''arg_end'' (Scalar 8), F ''env_start'' (Scalar 8),
     F ''env_end'' (Scalar 8), F ''saved_auxv'' (Arr 52 (Scalar 8)), F ''rss_stat'' (Arr 4 struct_percpu_counter),
     F ''binfmt'' (Scalar 8), F ''context'' typedef_mm_context_t, F ''flags'' (Scalar 8),
     F ''ioctx_lock'' struct_spinlock, F ''ioctx_table'' (Scalar 8), F ''owner'' (Scalar 8), F ''user_ns'' (Scalar 8),
     F ''exe_file'' (Scalar 8), F ''notifier_subscriptions'' (Scalar 8), F ''numa_next_scan'' (Scalar 8),
     F ''numa_scan_offset'' (Scalar 8), F ''numa_scan_seq'' (Scalar 4), F ''tlb_flush_pending'' typedef_atomic_t,
     F ''tlb_flush_batched'' typedef_atomic_t, F ''uprobes_state'' struct_uprobes_state,
     F ''hugetlb_usage'' typedef_atomic64_t, F ''async_put_work'' struct_work_struct, F ''iommu_mm'' (Scalar 8),
     F ''ksm_merging_pages'' (Scalar 8), F ''ksm_rmap_items'' (Scalar 8), F ''ksm_zero_pages'' typedef_atomic64_t,
     F ''lru_gen'' (Struct [F ''list'' struct_list_head, F ''bitmap'' (Scalar 8), F ''memcg'' (Scalar 8)]),
     F '''' (Bits 8 64)]), F ''cpu_bitmap'' (Arr 0 (Scalar 8))]"

definition struct_free_area :: ctype where
  "struct_free_area = Struct [F ''free_list'' (Arr 5 struct_list_head), F ''nr_free'' (Scalar 8)]"

definition typedef_seqlock_t :: ctype where
  "typedef_seqlock_t = Struct [F ''seqcount'' struct_seqcount_spinlock, F ''lock'' struct_spinlock]"

definition struct_zone :: ctype where
  "struct_zone = Struct ([F ''_watermark'' (Arr 4 (Scalar 8)), F ''watermark_boost'' (Scalar 8),
     F ''nr_reserved_highatomic'' (Scalar 8), F ''nr_free_highatomic'' (Scalar 8),
     F ''lowmem_reserve'' (Arr 5 (Scalar 8)), F ''node'' (Scalar 4), F ''zone_pgdat'' (Scalar 8),
     F ''per_cpu_pageset'' (Scalar 8), F ''per_cpu_zonestats'' (Scalar 8), F ''pageset_high_min'' (Scalar 4),
     F ''pageset_high_max'' (Scalar 4), F ''pageset_batch'' (Scalar 4), F ''zone_start_pfn'' (Scalar 8),
     F ''managed_pages'' typedef_atomic64_t, F ''spanned_pages'' (Scalar 8), F ''present_pages'' (Scalar 8),
     F ''present_early_pages'' (Scalar 8), F ''name'' (Scalar 8), F ''nr_isolate_pageblock'' (Scalar 8),
     F ''span_seqlock'' typedef_seqlock_t, F ''initialized'' (Scalar 4), F '''' (Bits 8 64), F '''' (Bits 8 64),
     F '''' (Bits 8 64), F '''' (Bits 8 64), F '''' (Bits 8 64), F ''_pad1_'' struct_cacheline_padding,
     F ''free_area'' (Arr 11 struct_free_area), F ''unaccepted_pages'' struct_list_head,
     F ''unaccepted_cleanup'' struct_work_struct, F ''flags'' (Scalar 8),
     F ''lock'' struct_spinlock] @ replicate 7 (F '''' (Bits 8 64)) @ [F ''_pad2_'' struct_cacheline_padding,
     F ''percpu_drift_mark'' (Scalar 8), F ''compact_cached_free_pfn'' (Scalar 8),
     F ''compact_cached_migrate_pfn'' (Arr 2 (Scalar 8)), F ''compact_init_migrate_pfn'' (Scalar 8),
     F ''compact_init_free_pfn'' (Scalar 8), F ''compact_considered'' (Scalar 4),
     F ''compact_defer_shift'' (Scalar 4), F ''compact_order_failed'' (Scalar 4),
     F ''compact_blockskip_flush'' (Scalar 1), F ''contiguous'' (Scalar 1), F '''' (Bits 8 0),
     F ''_pad3_'' struct_cacheline_padding, F ''vm_stat'' (Arr 12 typedef_atomic64_t),
     F ''vm_numa_event'' (Arr 6 typedef_atomic64_t)] @ replicate 6 (F '''' (Bits 8 64)))"

definition struct_hlist_nulls_node :: ctype where
  "struct_hlist_nulls_node = Struct [F ''next'' (Scalar 8), F ''pprev'' (Scalar 8)]"

definition struct_lru_gen_folio :: ctype where
  "struct_lru_gen_folio = Struct [F ''max_seq'' (Scalar 8), F ''min_seq'' (Arr 2 (Scalar 8)),
     F ''timestamps'' (Arr 4 (Scalar 8)), F ''folios'' (Arr 40 struct_list_head), F ''nr_pages'' (Arr 40 (Scalar 8)),
     F ''avg_refaulted'' (Arr 8 (Scalar 8)), F ''avg_total'' (Arr 8 (Scalar 8)), F ''protected'' (Arr 8 (Scalar 8)),
     F ''evicted'' (Arr 8 typedef_atomic64_t), F ''refaulted'' (Arr 8 typedef_atomic64_t), F ''enabled'' (Scalar 1),
     F ''gen'' (Scalar 1), F ''seg'' (Scalar 1), F ''list'' struct_hlist_nulls_node]"

definition struct_lru_gen_mm_state :: ctype where
  "struct_lru_gen_mm_state = Struct [F ''seq'' (Scalar 8), F ''head'' (Scalar 8), F ''tail'' (Scalar 8),
     F ''filters'' (Arr 2 (Scalar 8)), F ''stats'' (Arr 4 (Scalar 8))]"

definition struct_zswap_lruvec_state :: ctype where
  "struct_zswap_lruvec_state = Struct [F ''nr_disk_swapins'' typedef_atomic64_t]"

definition struct_lruvec :: ctype where
  "struct_lruvec = Struct [F ''lists'' (Arr 5 struct_list_head), F ''lru_lock'' struct_spinlock,
     F ''anon_cost'' (Scalar 8), F ''file_cost'' (Scalar 8), F ''nonresident_age'' typedef_atomic64_t,
     F ''refaults'' (Arr 2 (Scalar 8)), F ''flags'' (Scalar 8), F ''lrugen'' struct_lru_gen_folio,
     F ''mm_state'' struct_lru_gen_mm_state, F ''pgdat'' (Scalar 8),
     F ''zswap_lruvec_state'' struct_zswap_lruvec_state]"

section \<open>How the kernel overlays them\<close>

text \<open>
  The kernel checks at compile time that a folio lies over its pages: a page has 64
  bytes, the members that the two share have the same places, and the flags of the
  second and third page start at their pages.
\<close>

lemma page_sizes: "csize struct_page = 64" "csize struct_folio = 3 * csize struct_page"
  by code_simp+

lemma folio_matches_page:
  "list_all (\<lambda>nm. offset_size struct_folio nm = offset_size struct_page nm)
     [''flags'', ''lru'', ''mapping'', ''index'', ''private'', ''_mapcount'', ''_refcount'', ''memcg_data'']"
  by code_simp

lemma folio_tail_pages:
  "offset_size struct_folio ''_flags_1'' = Some (csize struct_page, 8)"
  "offset_size struct_folio ''_head_1'' = Some (csize struct_page + 8, 8)"
  "offset_size struct_folio ''_flags_2'' = Some (2 * csize struct_page, 8)"
  "offset_size struct_folio ''_flags_2a'' = Some (2 * csize struct_page, 8)"
  by code_simp+

text \<open>The reference count of an address space has a cache line of its own.\<close>

lemma mm_count_line: "offset_size struct_mm_struct ''mm_count'' = Some (0, 4)" "offset_size struct_mm_struct ''mm_mt'' = Some (64, 16)"
  by code_simp+

end
