(* ===== verification/Collector_Stats.thy ===== *)
theory Collector_Stats
  imports Collector_Scan
begin

text \<open>
  The rest of the collector's loop (\<open>gocker-obsv/cmd/collector/main.go\<close>): the
  readers of \<open>memory.stat\<close> and the pressure files, the increments made from them,
  the pruning of old totals, and one tick of the loop as a whole.
\<close>

section \<open>Reading the files\<close>

record host_files = host_env +
  read_file :: "string \<Rightarrow> int + string"

text \<open>A line that does not fit in the scanner's buffer is its own error.\<close>

definition Token_too_long :: int where
  "Token_too_long = -1"

definition read_lines :: "host_files \<Rightarrow> string \<Rightarrow> int + string list" where
  "read_lines H file =
     (case read_file H file of
        Inl e \<Rightarrow> Inl e
      | Inr text \<Rightarrow> (case scan_lines text of None \<Rightarrow> Inl Token_too_long | Some ls \<Rightarrow> Inr ls))"

definition memory_stat_line :: "string \<Rightarrow> nat \<times> nat \<Rightarrow> nat \<times> nat" where
  "memory_stat_line line acc =
     (let fields = Fields line
      in if length fields \<noteq> 2 then acc
         else (case ParseUint (fields ! 1) of
                 None \<Rightarrow> acc
               | Some val \<Rightarrow>
                   (if fields ! 0 = ''pgfault'' then (val, snd acc)
                    else if fields ! 0 = ''pgmajfault'' then (fst acc, val)
                    else acc)))"

definition readMemoryStat :: "host_files \<Rightarrow> string \<Rightarrow> int + nat \<times> nat" where
  "readMemoryStat H dir =
     (case read_lines H (Join [dir, ''memory.stat'']) of
        Inl e \<Rightarrow> Inl e
      | Inr ls \<Rightarrow> Inr (fold memory_stat_line ls (0, 0)))"

definition psi_token :: "string \<Rightarrow> string \<Rightarrow> nat \<times> nat \<Rightarrow> nat \<times> nat" where
  "psi_token level tok acc =
     (if take 6 tok \<noteq> ''total='' then acc
      else (case ParseUint (drop 6 tok) of
              None \<Rightarrow> acc
            | Some val \<Rightarrow>
                (if level = ''some'' then (val, snd acc)
                 else if level = ''full'' then (fst acc, val)
                 else acc)))"

definition psi_line :: "string \<Rightarrow> nat \<times> nat \<Rightarrow> nat \<times> nat" where
  "psi_line line acc =
     (case Fields line of [] \<Rightarrow> acc | level # tokens \<Rightarrow> fold (psi_token level) tokens acc)"

definition readPSI :: "host_files \<Rightarrow> string \<Rightarrow> int + nat \<times> nat" where
  "readPSI H file =
     (case read_lines H file of
        Inl e \<Rightarrow> Inl e
      | Inr ls \<Rightarrow> Inr (fold psi_line ls (0, 0)))"

section \<open>The state of the loop\<close>

record mem_counters =
  Major :: nat
  Minor :: nat

record psi_counters =
  Some_us :: nat
  Full_us :: nat

text \<open>
  What \<open>main\<close> keeps between two ticks.  The series of the pressure metrics are in
  microseconds here; the code adds them as seconds.
\<close>

record collector_state =
  admin :: admin_state
  targetPath :: string
  allowed :: "u64 \<rightharpoonup> string"
  lasts :: "table \<Rightarrow> cg_key \<rightharpoonup> u64"
  lastKswapd :: u64
  memoryLast :: "u64 \<rightharpoonup> mem_counters"
  psiLastCPU :: "u64 \<rightharpoonup> psi_counters"
  psiLastIO :: "u64 \<rightharpoonup> psi_counters"
  psiLastMem :: "u64 \<rightharpoonup> psi_counters"
  shown :: metrics

text \<open>
  What one tick meets: the files, the entries of the tables and of the kswapd
  counter, and the orders in which the two loops over the list go through it.
\<close>

record tick_input =
  files :: host_files
  entries :: "table \<Rightarrow> (cg_key \<times> u64 list) list option"
  kswapd_slots :: "u64 list option option"
  mem_order :: "(u64 \<rightharpoonup> string) \<Rightarrow> (u64 \<times> string) list"
  psi_order :: "(u64 \<rightharpoonup> string) \<Rightarrow> (u64 \<times> string) list"

section \<open>The steps of a tick\<close>

definition pruneState :: "(u64 \<rightharpoonup> string) \<Rightarrow> collector_state \<Rightarrow> collector_state" where
  "pruneState al C =
     C\<lparr>memoryLast := memoryLast C |` dom al, psiLastCPU := psiLastCPU C |` dom al,
       psiLastIO := psiLastIO C |` dom al, psiLastMem := psiLastMem C |` dom al\<rparr>"

definition refresh_step :: "host_env \<Rightarrow> collector_state \<Rightarrow> collector_state" where
  "refresh_step H C =
     (let al = refreshAllowed H (targetPath C) (cfg0 (admin C))
      in pruneState al (C\<lparr>allowed := al\<rparr>))"

definition table_step :: "(u32 \<rightharpoonup> string) \<Rightarrow> tick_input \<Rightarrow> table \<Rightarrow> collector_state \<Rightarrow> collector_state" where
  "table_step names I tb C =
     (let (l, M) = scan (allowed C) (apply_delta names tb) (entries I tb) (lasts C tb, shown C)
      in C\<lparr>lasts := (lasts C)(tb := l), shown := M\<rparr>)"

definition kswapd_step :: "tick_input \<Rightarrow> collector_state \<Rightarrow> collector_state" where
  "kswapd_step I C =
     (let (l, M) = scanArray (kswapd_slots I) (lastKswapd C, shown C)
      in C\<lparr>lastKswapd := l, shown := M\<rparr>)"

text \<open>An increment when the total has not shrunk.\<close>

definition add_growth :: "string \<Rightarrow> string list \<Rightarrow> nat \<Rightarrow> nat \<Rightarrow> metrics \<Rightarrow> metrics" where
  "add_growth name labels prev now M =
     (if now \<ge> prev
      then (let d = now - prev in if d > 0 then M((name, labels) := M (name, labels) + d) else M)
      else M)"

definition memory_entry :: "host_files \<Rightarrow> u64 \<times> string \<Rightarrow> collector_state \<Rightarrow> collector_state" where
  "memory_entry H e C =
     (let (cgid, dir) = e
      in if cgid = target_cgid (cfg0 (admin C)) then C
         else (case readMemoryStat H dir of
                 Inl _ \<Rightarrow> C
               | Inr (pgfault, pgmaj) \<Rightarrow>
                   (let pgminor = (if pgfault \<ge> pgmaj then pgfault - pgmaj else 0);
                        M = (case memoryLast C cgid of
                               None \<Rightarrow> shown C
                             | Some prev \<Rightarrow>
                                 add_growth ''memory_page_faults_total'' [''minor'', cgid_label cgid] (Minor prev) pgminor
                                   (add_growth ''memory_page_faults_total'' [''major'', cgid_label cgid] (Major prev) pgmaj
                                     (shown C)))
                    in C\<lparr>memoryLast := (memoryLast C)(cgid \<mapsto> \<lparr>Major = pgmaj, Minor = pgminor\<rparr>), shown := M\<rparr>)))"

definition updateMemory :: "tick_input \<Rightarrow> collector_state \<Rightarrow> collector_state" where
  "updateMemory I C = fold (memory_entry (files I)) (mem_order I (allowed C)) C"

text \<open>One of the three pressure files of a cgroup: its last totals and the series after it.\<close>

definition psi_file ::
  "host_files \<Rightarrow> string \<Rightarrow> string \<Rightarrow> u64 \<times> string \<Rightarrow> (u64 \<rightharpoonup> psi_counters) \<times> metrics \<Rightarrow> (u64 \<rightharpoonup> psi_counters) \<times> metrics" where
  "psi_file H file name e S =
     (let (cgid, dir) = e; (prevs, M) = S
      in case readPSI H (Join [dir, file]) of
           Inl _ \<Rightarrow> S
         | Inr (some, full) \<Rightarrow>
             (prevs(cgid \<mapsto> \<lparr>Some_us = some, Full_us = full\<rparr>),
              case prevs cgid of
                None \<Rightarrow> M
              | Some prev \<Rightarrow>
                  add_growth name [''full'', cgid_label cgid] (Full_us prev) full
                    (add_growth name [''some'', cgid_label cgid] (Some_us prev) some M)))"

definition psi_entry :: "host_files \<Rightarrow> u64 \<times> string \<Rightarrow> collector_state \<Rightarrow> collector_state" where
  "psi_entry H e C =
     (if fst e = target_cgid (cfg0 (admin C)) then C
      else (let (l1, M1) = psi_file H ''cpu.pressure'' ''psi_cpu_stall_seconds_total'' e (psiLastCPU C, shown C);
                (l2, M2) = psi_file H ''io.pressure'' ''psi_io_stall_seconds_total'' e (psiLastIO C, M1);
                (l3, M3) = psi_file H ''memory.pressure'' ''psi_memory_stall_seconds_total'' e (psiLastMem C, M2)
            in C\<lparr>psiLastCPU := l1, psiLastIO := l2, psiLastMem := l3, shown := M3\<rparr>))"

definition updatePSI :: "tick_input \<Rightarrow> collector_state \<Rightarrow> collector_state" where
  "updatePSI I C = fold (psi_entry (files I)) (psi_order I (allowed C)) C"

definition tick :: "(u32 \<rightharpoonup> string) \<Rightarrow> tick_input \<Rightarrow> collector_state \<Rightarrow> collector_state" where
  "tick names I C =
     updatePSI I (updateMemory I (kswapd_step I
       (fold (table_step names I) [MapPF, MapS, MapC, MapL, MapNs, MapEvt, MapPages, MapBytes]
         (refresh_step (host_env.truncate (files I)) C))))"

definition run_ticks :: "(u32 \<rightharpoonup> string) \<Rightarrow> tick_input list \<Rightarrow> collector_state \<Rightarrow> collector_state" where
  "run_ticks names Is C = fold (tick names) Is C"

section \<open>What a tick can change\<close>

text \<open>Series only grow, and only those of the listed cgroups.\<close>

definition grows :: "(u64 \<rightharpoonup> string) \<Rightarrow> metrics \<Rightarrow> metrics \<Rightarrow> bool" where
  "grows al M M' \<longleftrightarrow> (\<forall>s. M s \<le> M' s \<and>
     (M' s \<noteq> M s \<longrightarrow> s = (''mm_vmscan_kswapd_wake_total'', []) \<or>
       (\<exists>g \<in> dom al. snd s \<noteq> [] \<and> List.last (snd s) = cgid_label g)))"

lemma grows_refl [simp]: "grows al M M"
  by (simp add: grows_def)

lemma grows_trans: "grows al M M' \<Longrightarrow> grows al M' M'' \<Longrightarrow> grows al M M''"
proof -
  assume 1: "grows al M M'" and 2: "grows al M' M''"
  have "M s \<le> M'' s \<and> (M'' s \<noteq> M s \<longrightarrow> s = (''mm_vmscan_kswapd_wake_total'', []) \<or>
      (\<exists>g \<in> dom al. snd s \<noteq> [] \<and> List.last (snd s) = cgid_label g))" for s
    using 1 [unfolded grows_def, rule_format, of s] 2 [unfolded grows_def, rule_format, of s] by force
  then show ?thesis
    unfolding grows_def by blast
qed

lemma grows_add_growth [simp]: "g \<in> dom al \<Longrightarrow> grows al M (add_growth name [l, cgid_label g] p v M)"
proof -
  have "grows al M (M((name, [l, cgid_label g]) := M (name, [l, cgid_label g]) + d))" if "g \<in> dom al" for d
    using that by (simp add: grows_def)
  then show "g \<in> dom al \<Longrightarrow> grows al M (add_growth name [l, cgid_label g] p v M)"
    by (auto simp only: add_growth_def Let_def grows_refl split: if_splits)
qed

lemma grows_add_twice [simp]:
  "g \<in> dom al \<Longrightarrow>
    grows al M (add_growth name [l, cgid_label g] p v (add_growth name' [l', cgid_label g] p' v' M))"
  by (rule grows_trans [OF grows_add_growth grows_add_growth])

lemma grows_apply_delta [simp]: "al (ck_cgid k) = Some p \<Longrightarrow> grows al M (apply_delta names tb k d M)"
  by (cases tb) (auto simp: apply_delta_def add_to_def grows_def)

lemma grows_scan_entry: "grows al (snd S) (snd (scan_entry al (apply_delta names tb) e S))"
  by (cases S) (auto simp: scan_entry_def Let_def split: option.split)

text \<open>A step keeps the configuration and the list, and lets the series grow.\<close>

definition good_step :: "collector_state \<Rightarrow> collector_state \<Rightarrow> bool" where
  "good_step C C' \<longleftrightarrow> admin C' = admin C \<and> targetPath C' = targetPath C \<and> allowed C' = allowed C \<and>
     grows (allowed C) (shown C) (shown C')"

lemma good_step_refl [simp]: "good_step C C"
  by (simp add: good_step_def)

lemma good_step_trans: "good_step C C' \<Longrightarrow> good_step C' C'' \<Longrightarrow> good_step C C''"
  by (auto simp: good_step_def intro: grows_trans)

lemma good_step_allowed: "good_step C C' \<Longrightarrow> allowed C' = allowed C"
  by (simp add: good_step_def)

lemma good_step_fold:
  assumes "\<And>e D. e \<in> set es \<Longrightarrow> allowed D = al \<Longrightarrow> good_step D (f e D)" and "allowed C = al"
  shows "good_step C (fold f es C)"
  using assms
proof (induction es arbitrary: C)
  case (Cons e es)
  have step: "good_step C (f e C)"
    using Cons.prems by simp
  moreover have "good_step (f e C) (fold f es (f e C))"
    using Cons.prems good_step_allowed [OF step] by (intro Cons.IH) auto
  ultimately show ?case
    by (auto intro: good_step_trans)
qed simp

lemma grows_fold_scan: "grows al (snd S) (snd (fold (scan_entry al (apply_delta names tb)) es S))"
proof (induction es arbitrary: S)
  case (Cons e es)
  show ?case
    using grows_trans [OF grows_scan_entry Cons.IH] by simp
qed simp

lemma table_step_good: "good_step C (table_step names I tb C)"
proof -
  have "grows (allowed C) (shown C) (snd (scan (allowed C) (apply_delta names tb) (entries I tb) (lasts C tb, shown C)))"
    using grows_fold_scan [of "allowed C" "(lasts C tb, shown C)"] by (simp add: scan_def split: option.split)
  then show ?thesis
    by (simp add: good_step_def table_step_def case_prod_unfold Let_def)
qed

lemma kswapd_step_good: "good_step C (kswapd_step I C)"
proof -
  have "grows al M (snd (scanArray m (l, M)))" for al m l M
    by (auto simp: scanArray_def add_to_def grows_def Let_def split: option.split)
  then show ?thesis
    by (simp add: good_step_def kswapd_step_def case_prod_unfold Let_def)
qed

lemma memory_entry_good:
  assumes "fst e \<in> dom (allowed C)"
  shows "good_step C (memory_entry H e C)"
proof (cases "readMemoryStat H (snd e)")
  case (Inr b)
  then show ?thesis
    using assms by (cases e; cases b; cases "memoryLast C (fst e)") (simp_all add: good_step_def memory_entry_def Let_def)
qed (cases e, simp add: memory_entry_def)

lemma psi_file_grows: "fst e \<in> dom al \<Longrightarrow> grows al (snd S) (snd (psi_file H file name e S))"
proof (cases "readPSI H (Join [snd e, file])")
  case (Inr b)
  moreover assume "fst e \<in> dom al"
  ultimately show ?thesis
    by (cases e; cases S; cases b; cases "fst S (fst e)") (simp_all add: psi_file_def)
qed (cases e, cases S, simp add: psi_file_def)

lemma psi_entry_good:
  assumes "fst e \<in> dom (allowed C)"
  shows "good_step C (psi_entry H e C)"
proof -
  obtain l1 M1 l2 M2 l3 M3
    where eq: "psi_file H ''cpu.pressure'' ''psi_cpu_stall_seconds_total'' e (psiLastCPU C, shown C) = (l1, M1)"
      "psi_file H ''io.pressure'' ''psi_io_stall_seconds_total'' e (psiLastIO C, M1) = (l2, M2)"
      "psi_file H ''memory.pressure'' ''psi_memory_stall_seconds_total'' e (psiLastMem C, M2) = (l3, M3)"
    by (metis surj_pair)
  have "grows (allowed C) (shown C) M1" "grows (allowed C) M1 M2" "grows (allowed C) M2 M3"
    using psi_file_grows [OF assms, of "(psiLastCPU C, shown C)" H "''cpu.pressure''" "''psi_cpu_stall_seconds_total''"]
      psi_file_grows [OF assms, of "(psiLastIO C, M1)" H "''io.pressure''" "''psi_io_stall_seconds_total''"]
      psi_file_grows [OF assms, of "(psiLastMem C, M2)" H "''memory.pressure''" "''psi_memory_stall_seconds_total''"]
    by (simp_all add: eq)
  then have "grows (allowed C) (shown C) M3"
    by (blast intro: grows_trans)
  then show ?thesis
    by (simp add: good_step_def psi_entry_def eq)
qed

text \<open>An iteration over a Go map visits every entry once, in some order.\<close>

definition visits_all :: "((u64 \<rightharpoonup> string) \<Rightarrow> (u64 \<times> string) list) \<Rightarrow> (u64 \<rightharpoonup> string) \<Rightarrow> bool" where
  "visits_all order al \<longleftrightarrow> distinct (map fst (order al)) \<and> map_of (order al) = al"

text \<open>The list that a tick uses.\<close>

definition listed :: "tick_input \<Rightarrow> collector_state \<Rightarrow> u64 \<rightharpoonup> string" where
  "listed I C = refreshAllowed (host_env.truncate (files I)) (targetPath C) (cfg0 (admin C))"

definition orders_ok :: "tick_input \<Rightarrow> collector_state \<Rightarrow> bool" where
  "orders_ok I C \<longleftrightarrow> visits_all (mem_order I) (listed I C) \<and> visits_all (psi_order I) (listed I C)"

lemma refresh_step_fields [simp]:
  "admin (refresh_step H C) = admin C" "targetPath (refresh_step H C) = targetPath C"
  "shown (refresh_step H C) = shown C"
  "allowed (refresh_step H C) = refreshAllowed H (targetPath C) (cfg0 (admin C))"
  by (simp_all add: refresh_step_def pruneState_def Let_def)

lemma visited_dom: "visits_all order al \<Longrightarrow> e \<in> set (order al) \<Longrightarrow> fst e \<in> dom al"
  unfolding visits_all_def by (metis dom_map_of_conv_image_fst imageI)

lemma tables_good: "good_step C (fold (table_step names I) tbs C)"
  by (rule good_step_fold [OF table_step_good refl])

lemma updateMemory_good:
  assumes "visits_all (mem_order I) (allowed C)"
  shows "good_step C (updateMemory I C)"
  unfolding updateMemory_def
  by (rule good_step_fold [OF memory_entry_good refl]) (use visited_dom [OF assms] in simp)

lemma updatePSI_good:
  assumes "visits_all (psi_order I) (allowed C)"
  shows "good_step C (updatePSI I C)"
  unfolding updatePSI_def
  by (rule good_step_fold [OF psi_entry_good refl]) (use visited_dom [OF assms] in simp)

lemma tick_good:
  assumes "orders_ok I C"
  shows "good_step (refresh_step (host_env.truncate (files I)) C) (tick names I C)"
proof -
  let ?R = "refresh_step (host_env.truncate (files I)) C"
  let ?K = "kswapd_step I (fold (table_step names I) [MapPF, MapS, MapC, MapL, MapNs, MapEvt, MapPages, MapBytes] ?R)"
  have al: "allowed ?R = listed I C"
    by (simp add: listed_def)
  have K: "good_step ?R ?K"
    using good_step_trans [OF tables_good kswapd_step_good] .
  then have M: "good_step ?R (updateMemory I ?K)"
    using updateMemory_good [of I ?K] assms al good_step_allowed [OF K]
    by (auto simp: orders_ok_def intro: good_step_trans)
  then have "good_step ?R (updatePSI I (updateMemory I ?K))"
    using updatePSI_good [of I "updateMemory I ?K"] assms al good_step_allowed [OF M]
    by (auto simp: orders_ok_def intro: good_step_trans)
  then show ?thesis
    by (simp only: tick_def)
qed

lemma tick_fields:
  assumes "orders_ok I C"
  shows "admin (tick names I C) = admin C" and "targetPath (tick names I C) = targetPath C"
    and "allowed (tick names I C) = listed I C"
  using tick_good [OF assms, of names] by (simp_all add: good_step_def listed_def)

text \<open>The cgroups that can be listed: the target and the directories directly in it.\<close>

definition in_target :: "host_env \<Rightarrow> string \<Rightarrow> u64 \<Rightarrow> bool" where
  "in_target H target g \<longleftrightarrow> inode_of H target = Inr g \<or>
     (\<exists>es name. read_dir H target = Inr es \<and> (name, True) \<in> set es \<and> inode_of H (Join [target, name]) = Inr g)"

definition listing_step ::
  "host_env \<Rightarrow> string \<Rightarrow> string \<times> bool \<Rightarrow> (u64 \<rightharpoonup> string) \<times> int list \<Rightarrow> (u64 \<rightharpoonup> string) \<times> int list" where
  "listing_step H target = (\<lambda>(name, isdir) (al, agg).
     if \<not> isdir then (al, agg)
     else (let path = Join [target, name]
           in case inode_of H path of
                Inl e \<Rightarrow> (al, if e = ENOENT then agg else agg @ [e])
              | Inr i \<Rightarrow> (al(i \<mapsto> path), agg)))"

lemma listing_step_target:
  assumes "\<forall>h \<in> dom al. in_target H target h" and "read_dir H target = Inr es" and "f \<in> set es" and "g \<in> dom al"
  shows "g \<in> dom (fst (listing_step H target f (al, agg))) \<and>
    (\<forall>h \<in> dom (fst (listing_step H target f (al, agg))). in_target H target h)"
  using assms by (cases f) (auto simp: listing_step_def in_target_def Let_def split: sum.splits)

lemma listing_target:
  assumes "\<forall>h \<in> dom al. in_target H target h" and "read_dir H target = Inr es" and "set fs \<subseteq> set es" and "g \<in> dom al"
  shows "g \<in> dom (fst (fold (listing_step H target) fs (al, agg))) \<and>
    (\<forall>h \<in> dom (fst (fold (listing_step H target) fs (al, agg))). in_target H target h)"
  using assms(1,3,4)
proof (induction fs arbitrary: al agg)
  case (Cons f fs)
  obtain al1 agg1 where step: "listing_step H target f (al, agg) = (al1, agg1)"
    by (metis surj_pair)
  then show ?case
    using Cons.IH [of al1 agg1] listing_step_target [OF Cons.prems(1) assms(2) _ Cons.prems(3), of f agg] Cons.prems(2)
    by simp
qed simp

definition reportable :: "host_env \<Rightarrow> string \<Rightarrow> cfg \<Rightarrow> u64 \<Rightarrow> bool" where
  "reportable H target c g \<longleftrightarrow> in_target H target g \<or> isl (inode_of H target) \<and> g = target_cgid c"

lemma listed_reportable:
  assumes "g \<in> dom (refreshAllowed H target c)"
  shows "reportable H target c g"
proof (cases "inode_of H target")
  case (Inl e)
  then show ?thesis
    using assms by (auto simp: reportable_def refreshAllowed_def collectAllowed_def)
next
  case (Inr ino)
  have self: "in_target H target ino"
    by (simp add: in_target_def Inr)
  show ?thesis
  proof (cases "read_dir H target")
    case (Inl e)
    then show ?thesis
      using assms Inr self by (auto simp: reportable_def refreshAllowed_def collectAllowed_def Let_def split: if_splits)
  next
    case es: (Inr es)
    have "fst (collectAllowed H target) = Some (fst (fold (listing_step H target) es ([ino \<mapsto> target], [])))"
      by (simp add: collectAllowed_def listing_step_def Inr es Let_def case_prod_unfold)
    moreover have "ino \<in> dom (fst (fold (listing_step H target) es ([ino \<mapsto> target], [])))"
      "\<forall>h \<in> dom (fst (fold (listing_step H target) es ([ino \<mapsto> target], []))). in_target H target h"
      using listing_target [of "[ino \<mapsto> target]" H target es es ino "[]"] self es by simp_all
    ultimately show ?thesis
      using assms by (auto simp: reportable_def refreshAllowed_def Let_def split: if_splits)
  qed
qed

lemma listed_same:
  assumes "admin D = admin C" and "targetPath D = targetPath C"
  shows "listed I D = listed I C" and "orders_ok I D = orders_ok I C"
  using assms by (simp_all add: listed_def orders_ok_def)

lemma tick_same:
  assumes "orders_ok I C"
  shows "listed J (tick names I C) = listed J C" and "orders_ok J (tick names I C) = orders_ok J C"
  using listed_same [OF tick_fields(1,2) [OF assms]] by blast+


section \<open>Counters with a first reading\<close>

text \<open>
  A counter that is read now and then: the first reading is only remembered, every
  later one adds what it has grown since the one before.
\<close>

locale read_counter =
  fixes step :: "'i \<Rightarrow> 's \<Rightarrow> 's"
    and ok :: "'i \<Rightarrow> 's \<Rightarrow> bool"
    and reading :: "'i \<Rightarrow> 's \<Rightarrow> nat option"
    and view :: "'s \<Rightarrow> nat option \<times> nat"
  assumes view_step: "ok i s \<Longrightarrow> view (step i s) =
      (case reading i s of
         None \<Rightarrow> view s
       | Some v \<Rightarrow> (Some v, snd (view s) + (case fst (view s) of None \<Rightarrow> 0 | Some p \<Rightarrow> v - p)))"
    and ok_step: "ok i s \<Longrightarrow> ok j (step i s) = ok j s"
    and reading_step: "ok i s \<Longrightarrow> reading j (step i s) = reading j s"
begin

definition known_readings :: "'i list \<Rightarrow> 's \<Rightarrow> nat list" where
  "known_readings is s =
     (case fst (view s) of None \<Rightarrow> [] | Some p \<Rightarrow> [p]) @ List.map_filter (\<lambda>i. reading i s) is"

lemma growth:
  assumes "\<forall>i \<in> set is. ok i s" and "sorted (known_readings is s)"
  shows "snd (view (fold step is s)) = snd (view s) +
    (if known_readings is s = [] then 0 else List.last (known_readings is s) - hd (known_readings is s))"
  using assms
proof (induction "is" arbitrary: s)
  case Nil
  then show ?case
    by (simp add: known_readings_def List.map_filter_simps split: option.split)
next
  case (Cons i "is")
  let ?t = "step i s"
  have ok: "ok i s" and ok': "\<forall>j \<in> set is. ok j ?t"
    using Cons.prems(1) ok_step by auto
  have same: "List.map_filter (\<lambda>j. reading j ?t) is = List.map_filter (\<lambda>j. reading j s) is"
    using reading_step [OF ok] by simp
  show ?case
  proof (cases "reading i s")
    case None
    then have "known_readings is ?t = known_readings (i # is) s" "view ?t = view s"
      using view_step [OF ok] by (simp_all add: known_readings_def same List.map_filter_simps)
    then show ?thesis
      using Cons.IH [OF ok'] Cons.prems(2) by simp
  next
    case (Some v)
    let ?rs = "List.map_filter (\<lambda>j. reading j s) is"
    have tail: "known_readings is ?t = v # ?rs"
      using view_step [OF ok] by (simp add: known_readings_def same Some)
    have all: "known_readings (i # is) s = (case fst (view s) of None \<Rightarrow> [] | Some p \<Rightarrow> [p]) @ v # ?rs"
      by (simp add: known_readings_def Some List.map_filter_simps)
    have IH: "snd (view (fold step is ?t)) = snd (view ?t) + (List.last (v # ?rs) - v)"
      using Cons.IH [OF ok'] Cons.prems(2) by (simp add: tail all split: option.splits)
    have le: "v \<le> List.last (v # ?rs)"
      using Cons.prems(2) by (auto simp: all List.last_in_set split: option.splits)
    show ?thesis
      using IH le Cons.prems(2) view_step [OF ok] by (auto simp: all Some split: option.splits)
  qed
qed

end

section \<open>The series of \<open>memory.stat\<close> and of the pressure files\<close>

datatype stat = Mem_major | Mem_minor | Cpu_some | Cpu_full | Io_some | Io_full | Mem_some | Mem_full

text \<open>The series of a cgroup, the value read for it from the cgroup's directory, and the last one known.\<close>

fun stat_series :: "stat \<Rightarrow> u64 \<Rightarrow> string \<times> string list" where
  "stat_series Mem_major g = (''memory_page_faults_total'', [''major'', cgid_label g])"
| "stat_series Mem_minor g = (''memory_page_faults_total'', [''minor'', cgid_label g])"
| "stat_series Cpu_some g = (''psi_cpu_stall_seconds_total'', [''some'', cgid_label g])"
| "stat_series Cpu_full g = (''psi_cpu_stall_seconds_total'', [''full'', cgid_label g])"
| "stat_series Io_some g = (''psi_io_stall_seconds_total'', [''some'', cgid_label g])"
| "stat_series Io_full g = (''psi_io_stall_seconds_total'', [''full'', cgid_label g])"
| "stat_series Mem_some g = (''psi_memory_stall_seconds_total'', [''some'', cgid_label g])"
| "stat_series Mem_full g = (''psi_memory_stall_seconds_total'', [''full'', cgid_label g])"

definition ok_of :: "int + 'a \<Rightarrow> 'a option" where
  "ok_of r = (case r of Inl _ \<Rightarrow> None | Inr v \<Rightarrow> Some v)"

fun stat_value :: "stat \<Rightarrow> host_files \<Rightarrow> string \<Rightarrow> nat option" where
  "stat_value Mem_major H dir = map_option snd (ok_of (readMemoryStat H dir))"
| "stat_value Mem_minor H dir = map_option (\<lambda>(f, m). f - m) (ok_of (readMemoryStat H dir))"
| "stat_value Cpu_some H dir = map_option fst (ok_of (readPSI H (Join [dir, ''cpu.pressure''])))"
| "stat_value Cpu_full H dir = map_option snd (ok_of (readPSI H (Join [dir, ''cpu.pressure''])))"
| "stat_value Io_some H dir = map_option fst (ok_of (readPSI H (Join [dir, ''io.pressure''])))"
| "stat_value Io_full H dir = map_option snd (ok_of (readPSI H (Join [dir, ''io.pressure''])))"
| "stat_value Mem_some H dir = map_option fst (ok_of (readPSI H (Join [dir, ''memory.pressure''])))"
| "stat_value Mem_full H dir = map_option snd (ok_of (readPSI H (Join [dir, ''memory.pressure''])))"

fun stat_last :: "stat \<Rightarrow> u64 \<Rightarrow> collector_state \<Rightarrow> nat option" where
  "stat_last Mem_major g C = map_option Major (memoryLast C g)"
| "stat_last Mem_minor g C = map_option Minor (memoryLast C g)"
| "stat_last Cpu_some g C = map_option Some_us (psiLastCPU C g)"
| "stat_last Cpu_full g C = map_option Full_us (psiLastCPU C g)"
| "stat_last Io_some g C = map_option Some_us (psiLastIO C g)"
| "stat_last Io_full g C = map_option Full_us (psiLastIO C g)"
| "stat_last Mem_some g C = map_option Some_us (psiLastMem C g)"
| "stat_last Mem_full g C = map_option Full_us (psiLastMem C g)"

definition stat_view :: "stat \<Rightarrow> u64 \<Rightarrow> collector_state \<Rightarrow> nat option \<times> nat" where
  "stat_view st g C = (stat_last st g C, shown C (stat_series st g))"

definition after_reading :: "nat option \<Rightarrow> nat option \<times> nat \<Rightarrow> nat option \<times> nat" where
  "after_reading r x = (case r of None \<Rightarrow> x
     | Some v \<Rightarrow> (Some v, snd x + (case fst x of None \<Rightarrow> 0 | Some p \<Rightarrow> v - p)))"

definition from_memory :: "stat \<Rightarrow> bool" where
  "from_memory st \<longleftrightarrow> st = Mem_major \<or> st = Mem_minor"

lemma add_growth_same: "add_growth name ls p v M (name, ls) = M (name, ls) + (v - p)"
  by (simp add: add_growth_def Let_def)

lemma add_growth_other: "s \<noteq> (name, ls) \<Longrightarrow> add_growth name ls p v M s = M s"
  by (simp add: add_growth_def Let_def)

lemma memory_entry_view:
  assumes "g \<noteq> target_cgid (cfg0 (admin C))" and "from_memory st"
  shows "stat_view st g (memory_entry H (g, dir) C) = after_reading (stat_value st H dir) (stat_view st g C)"
proof (cases "readMemoryStat H dir")
  case (Inr b)
  then show ?thesis
    using assms by (cases b; cases "memoryLast C g")
      (auto simp: from_memory_def memory_entry_def stat_view_def after_reading_def ok_of_def Let_def
        add_growth_same add_growth_other)
qed (use assms in \<open>auto simp: from_memory_def memory_entry_def stat_view_def after_reading_def ok_of_def\<close>)

lemma memory_entry_other:
  assumes "fst e \<noteq> g \<or> \<not> from_memory st"
  shows "stat_view st g (memory_entry H e C) = stat_view st g C"
proof (cases "readMemoryStat H (snd e)")
  case (Inr b)
  then show ?thesis
    using assms by (cases e; cases b; cases "memoryLast C (fst e)"; cases st)
      (simp_all add: from_memory_def memory_entry_def stat_view_def Let_def add_growth_other)
qed (cases e, simp add: memory_entry_def)

lemma psi_file_last:
  "fst (psi_file H file name (g, dir) S) =
     (case ok_of (readPSI H (Join [dir, file])) of
        None \<Rightarrow> fst S | Some (some, full) \<Rightarrow> (fst S)(g \<mapsto> \<lparr>Some_us = some, Full_us = full\<rparr>))"
  by (cases S) (simp add: psi_file_def ok_of_def split: sum.split prod.split)

lemma psi_file_some:
  "snd (psi_file H file name (g, dir) S) (name, [''some'', cgid_label g]) =
     snd S (name, [''some'', cgid_label g]) + (case (fst S g, ok_of (readPSI H (Join [dir, file]))) of
       (Some p, Some (v, _)) \<Rightarrow> v - Some_us p | _ \<Rightarrow> 0)"
  by (cases S) (simp add: psi_file_def ok_of_def add_growth_same add_growth_other split: sum.split prod.split option.split)

lemma psi_file_full:
  "snd (psi_file H file name (g, dir) S) (name, [''full'', cgid_label g]) =
     snd S (name, [''full'', cgid_label g]) + (case (fst S g, ok_of (readPSI H (Join [dir, file]))) of
       (Some p, Some (_, v)) \<Rightarrow> v - Full_us p | _ \<Rightarrow> 0)"
  by (cases S) (simp add: psi_file_def ok_of_def add_growth_same add_growth_other split: sum.split prod.split option.split)

lemma psi_file_other:
  "fst s \<noteq> name \<or> (\<forall>l. snd s \<noteq> [l, cgid_label g]) \<Longrightarrow> snd (psi_file H file name (g, dir) S) s = snd S s"
  by (cases S; cases s) (auto simp: psi_file_def add_growth_other split: sum.split option.split)

lemma psi_entry_fields:
  fixes H :: host_files and dir :: string
  assumes "g \<noteq> target_cgid (cfg0 (admin C))"
  defines "H1 \<equiv> psi_file H ''cpu.pressure'' ''psi_cpu_stall_seconds_total'' (g, dir) (psiLastCPU C, shown C)"
  defines "H2 \<equiv> psi_file H ''io.pressure'' ''psi_io_stall_seconds_total'' (g, dir) (psiLastIO C, snd H1)"
  defines "H3 \<equiv> psi_file H ''memory.pressure'' ''psi_memory_stall_seconds_total'' (g, dir) (psiLastMem C, snd H2)"
  shows "psiLastCPU (psi_entry H (g, dir) C) = fst H1" and "psiLastIO (psi_entry H (g, dir) C) = fst H2"
    and "psiLastMem (psi_entry H (g, dir) C) = fst H3" and "shown (psi_entry H (g, dir) C) = snd H3"
    and "memoryLast (psi_entry H (g, dir) C) = memoryLast C"
  using assms by (simp_all add: psi_entry_def case_prod_unfold Let_def)

lemma psi_entry_view:
  assumes "g \<noteq> target_cgid (cfg0 (admin C))" and "\<not> from_memory st"
  shows "stat_view st g (psi_entry H (g, dir) C) = after_reading (stat_value st H dir) (stat_view st g C)"
  using assms(2) psi_entry_fields [OF assms(1), of H dir]
  by (cases st)
    (simp_all add: from_memory_def stat_view_def after_reading_def psi_file_last psi_file_some psi_file_full
      psi_file_other split: option.splits prod.splits)

lemma psi_entry_other:
  assumes "fst e \<noteq> g \<or> from_memory st"
  shows "stat_view st g (psi_entry H e C) = stat_view st g C"
proof (cases "fst e = target_cgid (cfg0 (admin C))")
  case False
  obtain h dir where e: "e = (h, dir)"
    by (cases e)
  show ?thesis
    using assms False psi_entry_fields [of h C H dir] unfolding e
    by (cases st) (auto simp: from_memory_def stat_view_def psi_file_last psi_file_other split: option.split)
qed (simp add: psi_entry_def)

lemma refresh_view:
  "refreshAllowed H (targetPath C) (cfg0 (admin C)) g \<noteq> None \<Longrightarrow> stat_view st g (refresh_step H C) = stat_view st g C"
  by (cases st) (simp_all add: stat_view_def refresh_step_def pruneState_def Let_def restrict_map_def domIff)

lemma scan_shown_other:
  assumes "\<forall>k. series_of names tb k \<noteq> Some s"
  shows "snd (scan al (apply_delta names tb) m S) s = snd S s"
proof -
  have ap: "apply_delta names tb k d M s = M s" for k d M
    using assms by (auto simp: apply_delta_def add_to_def split: option.split)
  have "snd (scan_entry al (apply_delta names tb) e S) s = snd S s" for e S
    by (cases S) (auto simp: scan_entry_def Let_def ap split: option.split)
  then have "snd (fold (scan_entry al (apply_delta names tb)) es S) s = snd S s" for es
    by (induction es arbitrary: S) simp_all
  then show ?thesis
    by (simp add: scan_def split: option.split)
qed

lemma stat_series_not_scanned: "series_of names tb k \<noteq> Some (stat_series st g)"
  by (cases tb; cases st) auto

lemma table_step_view: "stat_view st g (table_step names I tb C) = stat_view st g C"
proof -
  have "stat_last st g (table_step names I tb C) = stat_last st g C"
    by (cases st) (simp_all add: table_step_def case_prod_unfold Let_def)
  then show ?thesis
    using stat_series_not_scanned [of names tb _ st g]
    by (simp add: stat_view_def table_step_def case_prod_unfold Let_def scan_shown_other)
qed

lemma tables_view: "stat_view st g (fold (table_step names I) tbs C) = stat_view st g C"
  by (induction tbs arbitrary: C) (simp_all add: table_step_view)

lemma kswapd_step_view: "stat_view st g (kswapd_step I C) = stat_view st g C"
proof -
  have "snd (scanArray m S) (stat_series st g) = snd S (stat_series st g)" for m S
    by (cases S; cases st) (auto simp: scanArray_def add_to_def Let_def split: option.split)
  then show ?thesis
    by (cases st) (simp_all add: stat_view_def kswapd_step_def case_prod_unfold Let_def)
qed

lemma entry_admin [simp]: "admin (memory_entry H e C) = admin C" "admin (psi_entry H e C) = admin C"
  by (auto simp: memory_entry_def psi_entry_def Let_def split: prod.split sum.split option.split)

lemma updateMemory_view:
  assumes "visits_all (mem_order I) (allowed C)" and "allowed C g = Some dir" and "g \<noteq> target_cgid (cfg0 (admin C))"
  shows "stat_view st g (updateMemory I C) =
    (if from_memory st then after_reading (stat_value st (files I) dir) (stat_view st g C) else stat_view st g C)"
  unfolding updateMemory_def
  by (rule fold_keyed [where P = "\<lambda>D. admin D = admin C" and k = g and v = dir
        and upd = "\<lambda>x. if from_memory st then after_reading (stat_value st (files I) dir) x else x"])
    (use assms in \<open>auto simp: visits_all_def memory_entry_view memory_entry_other\<close>)

lemma updatePSI_view:
  assumes "visits_all (psi_order I) (allowed C)" and "allowed C g = Some dir" and "g \<noteq> target_cgid (cfg0 (admin C))"
  shows "stat_view st g (updatePSI I C) =
    (if from_memory st then stat_view st g C else after_reading (stat_value st (files I) dir) (stat_view st g C))"
  unfolding updatePSI_def
  by (rule fold_keyed [where P = "\<lambda>D. admin D = admin C" and k = g and v = dir
        and upd = "\<lambda>x. if from_memory st then x else after_reading (stat_value st (files I) dir) x"])
    (use assms in \<open>auto simp: visits_all_def psi_entry_view psi_entry_other\<close>)

lemma tick_view:
  assumes "orders_ok I C" and "listed I C g = Some dir" and "g \<noteq> target_cgid (cfg0 (admin C))"
  shows "stat_view st g (tick names I C) = after_reading (stat_value st (files I) dir) (stat_view st g C)"
proof -
  let ?R = "refresh_step (host_env.truncate (files I)) C"
  let ?K = "kswapd_step I (fold (table_step names I) [MapPF, MapS, MapC, MapL, MapNs, MapEvt, MapPages, MapBytes] ?R)"
  have "good_step ?R ?K"
    using good_step_trans [OF tables_good kswapd_step_good] .
  then have K: "allowed ?K = listed I C" "admin ?K = admin C"
    unfolding good_step_def refresh_step_fields listed_def by blast+
  have M: "allowed (updateMemory I ?K) = listed I C" "admin (updateMemory I ?K) = admin C"
    using updateMemory_good [of I ?K] assms(1) K by (auto simp: good_step_def orders_ok_def)
  have "stat_view st g ?K = stat_view st g C"
    using assms(2) by (simp add: kswapd_step_view table_step_view refresh_view listed_def)
  then show ?thesis
    using assms K M by (simp add: tick_def updatePSI_view updateMemory_view orders_ok_def del: fold_simps)
qed

definition tick_ok :: "u64 \<Rightarrow> tick_input \<Rightarrow> collector_state \<Rightarrow> bool" where
  "tick_ok g I C \<longleftrightarrow> orders_ok I C \<and> listed I C g \<noteq> None \<and> g \<noteq> target_cgid (cfg0 (admin C))"

definition stat_reading :: "stat \<Rightarrow> u64 \<Rightarrow> tick_input \<Rightarrow> collector_state \<Rightarrow> nat option" where
  "stat_reading st g I C = stat_value st (files I) (the (listed I C g))"

interpretation stats: read_counter "tick names" "tick_ok g" "stat_reading st g" "stat_view st g"
  for names g st
proof unfold_locales
  fix I J C
  assume ok: "tick_ok g I C"
  then have I: "orders_ok I C"
    by (simp add: tick_ok_def)
  show "stat_view st g (tick names I C) = (case stat_reading st g I C of None \<Rightarrow> stat_view st g C
      | Some v \<Rightarrow> (Some v, snd (stat_view st g C) + (case fst (stat_view st g C) of None \<Rightarrow> 0 | Some p \<Rightarrow> v - p)))"
    using ok tick_view [OF I, of g] by (auto simp: tick_ok_def stat_reading_def after_reading_def)
  show "tick_ok g J (tick names I C) = tick_ok g J C"
    by (simp add: tick_ok_def tick_same [OF I] tick_fields [OF I])
  show "stat_reading st g J (tick names I C) = stat_reading st g J C"
    by (simp add: stat_reading_def tick_same [OF I])
qed

text \<open>The readings of a series that the ticks make, after the one known at the beginning.\<close>

definition stat_readings :: "stat \<Rightarrow> u64 \<Rightarrow> tick_input list \<Rightarrow> collector_state \<Rightarrow> nat list" where
  "stat_readings st g Is C =
     (case stat_last st g C of None \<Rightarrow> [] | Some p \<Rightarrow> [p]) @ List.map_filter (\<lambda>I. stat_reading st g I C) Is"


section \<open>The formats\<close>

text \<open>
  What the kernel writes: in \<open>memory.stat\<close> a line with a name and a total for each
  counter; in a pressure file one line \<open>some\<close> and one line \<open>full\<close>, with averages
  before the total.
\<close>

definition memory_stat_text :: "(string \<times> nat) list \<Rightarrow> string" where
  "memory_stat_text es = text_of (map (\<lambda>(name, v). [name, dec v]) es)"

definition total_token :: "nat \<Rightarrow> string" where
  "total_token v = ''total='' @ dec v"

definition pressure_text :: "string list \<Rightarrow> nat \<Rightarrow> string list \<Rightarrow> nat \<Rightarrow> string" where
  "pressure_text avgs some avgs' full =
     text_of [''some'' # avgs @ [total_token some], ''full'' # avgs' @ [total_token full]]"

definition lines_short :: "string list list \<Rightarrow> bool" where
  "lines_short wss \<longleftrightarrow> (\<forall>ws \<in> set wss. length (line_of ws) < 65536)"

definition is_average :: "string \<Rightarrow> bool" where
  "is_average w \<longleftrightarrow> is_word w \<and> take 6 w \<noteq> ''total=''"

lemma fold_psi_averages: "\<forall>w \<in> set ws. is_average w \<Longrightarrow> fold (psi_token level) ws acc = acc"
  by (induction ws arbitrary: acc) (simp_all add: is_average_def psi_token_def)

lemma is_word_total: "is_word (total_token v)"
  using is_word_dec [of v] by (auto simp: total_token_def is_word_def is_space_def is_blank_def newline_def)

lemma memory_line:
  assumes "is_word name" and "v < 2 ^ 64"
  shows "memory_stat_line (line_of [name, dec v]) acc =
    (if name = ''pgfault'' then (v, snd acc) else if name = ''pgmajfault'' then (fst acc, v) else acc)"
  using assms Fields_line_of [of "[name, dec v]"]
  by (simp add: memory_stat_line_def is_word_dec ParseUint_dec)

lemma memory_lines:
  assumes "\<forall>(name, v) \<in> set es. is_word name \<and> v < 2 ^ 64" and "distinct (map fst es)"
  shows "fold (\<lambda>(name, v). memory_stat_line (line_of [name, dec v])) es acc =
    (case map_of es ''pgfault'' of None \<Rightarrow> fst acc | Some v \<Rightarrow> v,
     case map_of es ''pgmajfault'' of None \<Rightarrow> snd acc | Some v \<Rightarrow> v)"
  using assms
proof (induction es arbitrary: acc)
  case (Cons e es)
  obtain name v where e: "e = (name, v)"
    by (cases e)
  then have "map_of es name = None"
    using Cons.prems(2) by (simp add: map_of_eq_None_iff)
  then show ?case
    using Cons e by (auto simp: memory_line split: option.split)
qed simp

lemma pressure_line:
  assumes "\<forall>w \<in> set avgs. is_average w" and "is_word level" and "v < 2 ^ 64"
  shows "psi_line (line_of (level # avgs @ [total_token v])) acc =
    (if level = ''some'' then (v, snd acc) else if level = ''full'' then (fst acc, v) else acc)"
proof -
  have words: "\<forall>w \<in> set (level # avgs @ [total_token v]). is_word w"
    using assms(1,2) is_word_total by (auto simp: is_average_def)
  show ?thesis
    unfolding psi_line_def Fields_line_of [OF words]
    using assms(1,3) by (simp add: fold_psi_averages) (simp add: psi_token_def total_token_def ParseUint_dec)
qed

lemma pressure_read:
  assumes "read_file H file = Inr (pressure_text avgs some avgs' full)"
    and "\<forall>w \<in> set (avgs @ avgs'). is_average w" and "some < 2 ^ 64" and "full < 2 ^ 64"
    and "lines_short [''some'' # avgs @ [total_token some], ''full'' # avgs' @ [total_token full]]"
  shows "readPSI H file = Inr (some, full)"
proof -
  have words: "is_word ''some''" "is_word ''full''"
    by (simp_all add: is_word_def is_space_def is_blank_def newline_def)
  have "scan_lines (pressure_text avgs some avgs' full) =
      Some [line_of (''some'' # avgs @ [total_token some]), line_of (''full'' # avgs' @ [total_token full])]"
    unfolding pressure_text_def using assms(2,5) words is_word_total
    by (subst scan_lines_text) (auto simp: lines_short_def is_average_def)
  then show ?thesis
    using assms(2-4) words by (simp add: readPSI_def read_lines_def assms(1) pressure_line)
qed

text \<open>
  C32: the readers read what the kernel writes.  From a \<open>memory.stat\<close> file with any
  counters in any order, the two fault totals are read (a missing one as 0); from a
  pressure file, with whatever averages, the two stall totals.
\<close>

theorem stat_files_read_back:
  assumes "read_file H (Join [dir, ''memory.stat'']) = Inr (memory_stat_text es)"
    and "\<forall>(name, v) \<in> set es. is_word name \<and> v < 2 ^ 64" and "distinct (map fst es)"
    and "lines_short (map (\<lambda>(name, v). [name, dec v]) es)"
    and "read_file H file = Inr (pressure_text avgs some avgs' full)"
    and "\<forall>w \<in> set (avgs @ avgs'). is_average w" and "some < 2 ^ 64" and "full < 2 ^ 64"
    and "lines_short [''some'' # avgs @ [total_token some], ''full'' # avgs' @ [total_token full]]"
  shows "readMemoryStat H dir = Inr (case map_of es ''pgfault'' of None \<Rightarrow> 0 | Some v \<Rightarrow> v,
           case map_of es ''pgmajfault'' of None \<Rightarrow> 0 | Some v \<Rightarrow> v) \<and>
    readPSI H file = Inr (some, full)"
proof
  have "scan_lines (memory_stat_text es) = Some (map (\<lambda>(name, v). line_of [name, dec v]) es)"
    unfolding memory_stat_text_def using assms(2,4)
    by (subst scan_lines_text) (auto simp: is_word_dec lines_short_def case_prod_unfold)
  then show "readMemoryStat H dir = Inr (case map_of es ''pgfault'' of None \<Rightarrow> 0 | Some v \<Rightarrow> v,
      case map_of es ''pgmajfault'' of None \<Rightarrow> 0 | Some v \<Rightarrow> v)"
    using memory_lines [OF assms(2,3), of "(0, 0)"]
    by (simp add: readMemoryStat_def read_lines_def assms(1) fold_map comp_def case_prod_unfold cong: option.case_cong)
  show "readPSI H file = Inr (some, full)"
    using assms(5-9) by (rule pressure_read)
qed

section \<open>Witnesses\<close>

definition demo_files :: "nat \<Rightarrow> host_files" where
  "demo_files n = \<lparr>environ = (\<lambda>_. []), on_cgroup2 = (\<lambda>_. True),
     inode_of = (\<lambda>p. if p = ''/t'' then Inr 9 else if p = ''/t/a'' then Inr 5 else Inl 2),
     read_dir = (\<lambda>_. Inr [(''a'', True)]),
     read_file = (\<lambda>p. if p = ''/t/a/memory.stat'' then Inr (memory_stat_text [(''pgfault'', 10), (''pgmajfault'', n)])
       else if p = ''/t/a/cpu.pressure'' then Inr (pressure_text [''avg10=0.00''] n [] 1) else Inl 2)\<rparr>"

definition demo_order :: "(u64 \<rightharpoonup> string) \<Rightarrow> (u64 \<times> string) list" where
  "demo_order al = (if al = [9 \<mapsto> ''/t'', 5 \<mapsto> ''/t/a''] then [(5, ''/t/a''), (9, ''/t'')] else [])"

definition demo_tick :: "nat \<Rightarrow> tick_input" where
  "demo_tick n = \<lparr>files = demo_files n, entries = (\<lambda>_. None), kswapd_slots = None,
     mem_order = demo_order, psi_order = demo_order\<rparr>"

definition demo_collector :: collector_state where
  "demo_collector = \<lparr>admin = \<lparr>cfg0 = \<lparr>sample_rate = 1, enable_filter = 1, target_level = 1, target_cgid = 9\<rparr>,
       modules_of = \<lparr>cfg_pf = None, cfg_sched = None, cfg_sys = None, cfg_cpu = None, cfg_mem = None\<rparr>\<rparr>,
     targetPath = ''/t'', allowed = Map.empty, lasts = (\<lambda>_. Map.empty), lastKswapd = 0, memoryLast = Map.empty,
     psiLastCPU = Map.empty, psiLastIO = Map.empty, psiLastMem = Map.empty, shown = (\<lambda>_. 0)\<rparr>"

lemma demo_join: "Join [''/t'', ''a''] = ''/t/a''" "Join [''/t/a'', ''memory.stat''] = ''/t/a/memory.stat''"
  "Join [''/t/a'', ''cpu.pressure''] = ''/t/a/cpu.pressure''"
  by code_simp+

lemma demo_listed: "listed (demo_tick n) demo_collector = [9 \<mapsto> ''/t'', 5 \<mapsto> ''/t/a'']"
  by (auto simp: listed_def demo_tick_def demo_files_def demo_collector_def refreshAllowed_def collectAllowed_def
      host_env.truncate_def demo_join fun_eq_iff Let_def)

lemma demo_orders: "orders_ok (demo_tick n) demo_collector"
  by (auto simp: orders_ok_def visits_all_def demo_listed) (simp_all add: demo_tick_def demo_order_def fun_eq_iff)

lemma demo_dec: "dec 3 = ''3''" "dec 7 = ''7''" "dec (Suc 0) = ''1''" "dec 10 = ''10''"
  by code_simp+

theorem stat_files_read_back_witness:
  "readMemoryStat (demo_files 7) ''/t/a'' = Inr (10, 7) \<and> readPSI (demo_files 7) ''/t/a/cpu.pressure'' = Inr (7, 1)"
  using stat_files_read_back [of "demo_files 7" "''/t/a''" "[(''pgfault'', 10), (''pgmajfault'', 7)]"
      "''/t/a/cpu.pressure''" "[''avg10=0.00'']" 7 "[]" 1]
  by (simp add: demo_join demo_files_def is_word_def is_space_def is_blank_def newline_def lines_short_def
      is_average_def line_of_def demo_dec total_token_def)

lemma demo_read:
  "n < 10 \<Longrightarrow> ok_of (readPSI (demo_files n) ''/t/a/cpu.pressure'') = Some (n, 1)"
  using pressure_read [of "demo_files n" "''/t/a/cpu.pressure''" "[''avg10=0.00'']" n "[]" 1]
  by (simp add: demo_files_def is_word_def is_space_def is_blank_def newline_def lines_short_def
      is_average_def line_of_def demo_dec total_token_def dec_small ok_of_def)

lemma demo_tick_files: "files (demo_tick n) = demo_files n"
  by (simp add: demo_tick_def)

lemma demo_readings: "stat_readings Cpu_some 5 [demo_tick 3, demo_tick 7] demo_collector = [3, 7]"
  by (simp add: stat_readings_def stat_reading_def List.map_filter_simps demo_listed demo_join demo_read demo_tick_files)
    (simp add: demo_collector_def)



end
