(* ===== verification/Ipam.thy ===== *)
theory Ipam
  imports Go_Text "HOL-Library.AList" "HOL-Library.Word"
begin

unbundle bit_operations_syntax

text \<open>
  \<open>internal/network/ipam.go\<close>: container addresses.  The first part models the
  address functions of the file with what it uses of Go's \<open>net\<close> package, the second
  the allocation file and the allocator.  The constants are those of
  \<open>internal/config/constants.go\<close>.
\<close>

section \<open>Addresses\<close>

text \<open>\<open>net.IP\<close>: 4 or 16 bytes.\<close>

type_synonym ip = "8 word list"

text \<open>\<open>net.ParseIP\<close>; the IPv6 notation is left to the parameter \<open>parse6\<close>.\<close>

definition octet :: "string \<Rightarrow> 8 word option" where
  "octet s = (case parse_dec s of
      None \<Rightarrow> None
    | Some v \<Rightarrow> if v \<le> 255 \<and> (length s = 1 \<or> hd s \<noteq> CHR ''0'') then Some (of_nat v) else None)"

definition parse_ipv4 :: "string \<Rightarrow> ip option" where
  "parse_ipv4 s = (case map octet (split_on CHR ''.'' s) of
      [Some a, Some b, Some c, Some d] \<Rightarrow> Some [a, b, c, d]
    | _ \<Rightarrow> None)"

definition v4_prefix :: ip where
  "v4_prefix = replicate 10 0 @ [255, 255]"

definition to4 :: "ip \<Rightarrow> ip option" where
  "to4 a = (if length a = 4 then Some a
     else if length a = 16 \<and> take 12 a = v4_prefix then Some (drop 12 a) else None)"

definition parse_ip :: "(string \<Rightarrow> ip option) \<Rightarrow> string \<Rightarrow> ip option" where
  "parse_ip parse6 s =
     (case List.find (\<lambda>c. c = CHR ''.'' \<or> c = CHR '':'' \<or> c = CHR ''%'') s of
        None \<Rightarrow> None
      | Some c \<Rightarrow>
          if c = CHR ''.'' then map_option ((@) v4_prefix) (parse_ipv4 s)
          else if c = CHR '':'' then parse6 s else None)"

text \<open>\<open>net.ParseCIDR\<close> for a dotted address: the address, the network and the mask.\<close>

fun cidr_mask :: "nat \<Rightarrow> nat \<Rightarrow> ip" where
  "cidr_mask n 0 = []"
| "cidr_mask n (Suc k) =
     (if n \<ge> 8 then 255 # cidr_mask (n - 8) k else NOT (drop_bit n 255) # cidr_mask 0 k)"

record ipnet =
  net_ip :: ip
  net_mask :: ip

definition parse_cidr :: "string \<Rightarrow> (ip \<times> ipnet) option" where
  "parse_cidr s =
     (case split_on CHR ''/'' s of
        [a, b] \<Rightarrow>
          (case (parse_ipv4 a, parse_dec b) of
             (Some ip4, Some n) \<Rightarrow>
               if n \<le> 32
               then (let m = cidr_mask n 4
                     in Some (v4_prefix @ ip4, \<lparr>net_ip = map2 (AND) ip4 m, net_mask = m\<rparr>))
               else None
           | _ \<Rightarrow> None)
      | _ \<Rightarrow> None)"

text \<open>\<open>IPNet.Contains\<close>, \<open>IP.Equal\<close> and \<open>IP.String\<close> (the code only prints addresses
  that have an IPv4 form).\<close>

definition subnet_contains :: "ipnet \<Rightarrow> ip \<Rightarrow> bool" where
  "subnet_contains n a =
     (let x = (case to4 a of Some y \<Rightarrow> y | None \<Rightarrow> a)
      in length x = length (net_ip n) \<and>
         list_all (\<lambda>(p, m, q). p AND m = q AND m) (zip (net_ip n) (zip (net_mask n) x)))"

definition ip_equal :: "ip \<Rightarrow> ip \<Rightarrow> bool" where
  "ip_equal a b = (a = b \<or> (length a = 4 \<and> length b = 16 \<and> b = v4_prefix @ a) \<or>
     (length a = 16 \<and> length b = 4 \<and> a = v4_prefix @ b))"

definition dotted :: "ip \<Rightarrow> string" where
  "dotted a = concat (map (\<lambda>(i, b). (if i = 0 then '''' else ''.'') @ dec (unat b)) (List.enumerate 0 a))"

definition ip_string :: "ip \<Rightarrow> string" where
  "ip_string a = (case to4 a of Some v \<Rightarrow> dotted v | None \<Rightarrow> [])"

text \<open>The address functions of the file.\<close>

fun inc_bytes :: "ip \<Rightarrow> ip" where
  "inc_bytes [] = []"
| "inc_bytes (b # bs) = (if b + 1 \<noteq> 0 then (b + 1) # bs else (b + 1) # inc_bytes bs)"

definition nextIP :: "ip \<Rightarrow> ip" where
  "nextIP a = rev (inc_bytes (rev a))"

definition broadcastIP :: "ipnet \<Rightarrow> ip" where
  "broadcastIP n = map2 (\<lambda>b m. b OR NOT m) (net_ip n) (net_mask n)"

definition NetworkCIDR :: string where
  "NetworkCIDR = ''10.20.0.0/24''"

definition BridgeIP :: string where
  "BridgeIP = ''10.20.0.1/24''"

definition GatewayIP :: string where
  "GatewayIP = ''10.20.0.1''"

definition buildReservedIPs :: "(string \<Rightarrow> ip option) \<Rightarrow> ipnet \<Rightarrow> string list" where
  "buildReservedIPs parse6 subnet =
     (case parse_ip parse6 GatewayIP of None \<Rightarrow> [] | Some a \<Rightarrow> [ip_string a]) @
     (case parse_cidr BridgeIP of None \<Rightarrow> [] | Some (a, _) \<Rightarrow> [ip_string a]) @
     [ip_string (net_ip subnet), ip_string (broadcastIP subnet)]"

section \<open>The allocation file\<close>

text \<open>
  \<open>ContainerToIP\<close> as an association list.  A file is missing, empty, holds an
  encoded state, or holds something that does not decode.
\<close>

type_synonym alloc = "(string \<times> string) list"

datatype alloc_file = Missing | Blank | Garbled | Saved alloc

record disk =
  allocations :: alloc_file
  tmp_file :: alloc_file

text \<open>Which of the file operations of one call succeed.\<close>

record io =
  mkdir_ok :: bool
  read_ok :: bool
  save_mkdir_ok :: bool
  open_ok :: bool
  write_ok :: bool
  sync_ok :: bool
  rename_ok :: bool

datatype ipam_error = StateDir | ReadFile | ParseFile | OpenTemp | WriteTemp | SyncTemp | ReplaceFile
  | ParseNetwork | NoAddress

definition loadIPAllocationState :: "io \<Rightarrow> disk \<Rightarrow> ipam_error + alloc" where
  "loadIPAllocationState io D =
     (if \<not> mkdir_ok io then Inl StateDir
      else if allocations D = Missing then Inr []
      else if \<not> read_ok io then Inl ReadFile
      else (case allocations D of
              Blank \<Rightarrow> Inr []
            | Saved m \<Rightarrow> Inr m
            | _ \<Rightarrow> Inl ParseFile))"

definition saveIPAllocationState :: "io \<Rightarrow> alloc \<Rightarrow> disk \<Rightarrow> ipam_error option \<times> disk" where
  "saveIPAllocationState io m D =
     (if \<not> save_mkdir_ok io then (Some StateDir, D)
      else if \<not> open_ok io then (Some OpenTemp, D)
      else if \<not> write_ok io then (Some WriteTemp, D\<lparr>tmp_file := Garbled\<rparr>)
      else if \<not> sync_ok io then (Some SyncTemp, D\<lparr>tmp_file := Saved m\<rparr>)
      else if \<not> rename_ok io then (Some ReplaceFile, D\<lparr>tmp_file := Saved m\<rparr>)
      else (None, D\<lparr>allocations := Saved m, tmp_file := Missing\<rparr>))"

section \<open>The allocator\<close>

text \<open>The requested address, when it parses and is free to use.\<close>

definition requested :: "(string \<Rightarrow> ip option) \<Rightarrow> ipnet \<Rightarrow> string list \<Rightarrow> string list \<Rightarrow> string \<Rightarrow> string option" where
  "requested parse6 subnet reserved used req =
     (if req = [] then None
      else (case parse_ip parse6 req of
              None \<Rightarrow> None
            | Some a \<Rightarrow>
                if subnet_contains subnet a \<and> \<not> ip_equal a (net_ip subnet) \<and> \<not> ip_equal a (broadcastIP subnet)
                then (if ip_string a \<notin> set reserved \<and> ip_string a \<notin> set used then Some (ip_string a) else None)
                else None))"

text \<open>The search loop; \<open>None\<close> is a loop that does not end, \<open>Some None\<close> one that finds nothing.\<close>

partial_function (option) pick :: "ipnet \<Rightarrow> string list \<Rightarrow> string list \<Rightarrow> ip \<Rightarrow> string option option" where
  "pick subnet reserved used candidate =
     (if \<not> subnet_contains subnet candidate then Some None
      else if ip_equal candidate (broadcastIP subnet) then pick subnet reserved used (nextIP candidate)
      else if ip_string candidate \<in> set reserved then pick subnet reserved used (nextIP candidate)
      else if ip_string candidate \<in> set used then pick subnet reserved used (nextIP candidate)
      else Some (Some (ip_string candidate)))"

text \<open>What \<open>AllocateContainerIP\<close> decides before it writes anything.\<close>

definition choose_ip :: "(string \<Rightarrow> ip option) \<Rightarrow> alloc \<Rightarrow> string \<Rightarrow> (ipam_error + string) option" where
  "choose_ip parse6 m req =
     (case parse_cidr NetworkCIDR of
        None \<Rightarrow> Some (Inl ParseNetwork)
      | Some (_, subnet) \<Rightarrow>
          (let used = map snd m; reserved = buildReservedIPs parse6 subnet
           in case requested parse6 subnet reserved used req of
                Some a \<Rightarrow> Some (Inr a)
              | None \<Rightarrow>
                  map_option (\<lambda>r. case r of None \<Rightarrow> Inl NoAddress | Some a \<Rightarrow> Inr a)
                    (pick subnet reserved used (nextIP (net_ip subnet)))))"

definition AllocateContainerIP ::
  "(string \<Rightarrow> ip option) \<Rightarrow> io \<Rightarrow> string \<Rightarrow> string \<Rightarrow> disk \<Rightarrow> ((ipam_error + string) \<times> disk) option" where
  "AllocateContainerIP parse6 io cid req D =
     (case loadIPAllocationState io D of
        Inl e \<Rightarrow> Some (Inl e, D)
      | Inr m \<Rightarrow>
          (case map_of m cid of
             Some a \<Rightarrow> Some (Inr a, D)
           | None \<Rightarrow>
               (case choose_ip parse6 m req of
                  None \<Rightarrow> None
                | Some (Inl e) \<Rightarrow> Some (Inl e, D)
                | Some (Inr a) \<Rightarrow>
                    (case saveIPAllocationState io (AList.update cid a m) D of
                       (Some e, D') \<Rightarrow> Some (Inl e, D')
                     | (None, D') \<Rightarrow> Some (Inr a, D')))))"

definition ReleaseContainerIP :: "io \<Rightarrow> string \<Rightarrow> disk \<Rightarrow> ipam_error option \<times> disk" where
  "ReleaseContainerIP io cid D =
     (case loadIPAllocationState io D of
        Inl e \<Rightarrow> (Some e, D)
      | Inr m \<Rightarrow>
          (case map_of m cid of
             None \<Rightarrow> (None, D)
           | Some _ \<Rightarrow> saveIPAllocationState io (AList.delete cid m) D))"

definition CleanupContainerNetwork :: "io \<Rightarrow> string \<Rightarrow> disk \<Rightarrow> ipam_error option \<times> disk" where
  "CleanupContainerNetwork io cid D = ReleaseContainerIP io cid D"

definition GetAllocatedIP :: "io \<Rightarrow> string \<Rightarrow> disk \<Rightarrow> ipam_error + string" where
  "GetAllocatedIP io cid D =
     (case loadIPAllocationState io D of
        Inl e \<Rightarrow> Inl e
      | Inr m \<Rightarrow> Inr (case map_of m cid of None \<Rightarrow> [] | Some a \<Rightarrow> a))"

section \<open>The configured network\<close>

definition the_net :: ipnet where
  "the_net = \<lparr>net_ip = [10, 20, 0, 0], net_mask = [255, 255, 255, 0]\<rparr>"

definition host :: "nat \<Rightarrow> ip" where
  "host h = [10, 20, 0, of_nat h]"

definition hostname :: "nat \<Rightarrow> string" where
  "hostname h = ''10.20.0.'' @ dec h"

text \<open>The addresses that containers may have.\<close>

definition usable :: "nat set" where
  "usable = {2..254}"

lemma hostname_inj [simp]: "hostname g = hostname h \<longleftrightarrow> g = h"
  by (simp add: hostname_def)

lemma parse_network: "parse_cidr NetworkCIDR = Some (v4_prefix @ [10, 20, 0, 0], the_net)"
  by code_simp

lemma broadcast_the_net: "broadcastIP the_net = [10, 20, 0, 255]"
  by code_simp

lemma to4_four [simp]: "to4 [a, b, c, d] = Some [a, b, c, d]"
  by (simp add: to4_def)

lemma dec_consts: "dec 10 = ''10''" "dec 20 = ''20''" "dec 0 = ''0''"
  by code_simp+

lemma dotted_host: "dotted [10, 20, 0, x] = hostname (unat x)"
  by (simp add: dotted_def hostname_def dec_consts)

lemma ip_string_host: "h < 256 \<Longrightarrow> ip_string (host h) = hostname h"
  by (simp add: ip_string_def host_def dotted_host unat_of_nat)

lemma reserved_the_net:
  "set (buildReservedIPs parse6 the_net) = {hostname 0, hostname 1, hostname 255}"
proof -
  have "parse_ip parse6 GatewayIP = Some (v4_prefix @ [10, 20, 0, 1])"
    "parse_cidr BridgeIP = Some (v4_prefix @ [10, 20, 0, 1], the_net)"
    "ip_string (v4_prefix @ [10, 20, 0, 1]) = hostname 1"
    "ip_string (net_ip the_net) = hostname 0" "ip_string (broadcastIP the_net) = hostname 255"
    by code_simp+
  then show ?thesis
    by (auto simp: buildReservedIPs_def)
qed

lemma contains_host [simp]: "subnet_contains the_net (host h)"
  by (simp add: subnet_contains_def the_net_def host_def)

lemma not_contains_next: "\<not> subnet_contains the_net [10, 20, 1, 0]"
  by code_simp

lemma nextIP_host: "h < 255 \<Longrightarrow> nextIP (host h) = host (Suc h)"
  by (auto simp: nextIP_def host_def word_unat_eq_iff unat_of_nat unat_word_ariths)

lemma nextIP_last: "nextIP (host 255) = [10, 20, 1, 0]"
  by code_simp

lemma byte_eq_255: "h < 256 \<Longrightarrow> (of_nat h :: 8 word) = 255 \<longleftrightarrow> h = 255"
  by (auto simp: word_unat_eq_iff unat_of_nat)

lemma equal_broadcast: "h < 256 \<Longrightarrow> ip_equal (host h) (broadcastIP the_net) \<longleftrightarrow> h = 255"
  by (simp add: ip_equal_def host_def broadcast_the_net byte_eq_255)

lemma pick_past_end: "pick the_net reserved used [10, 20, 1, 0] = Some None"
  by (simp add: pick.simps not_contains_next)

text \<open>The search ends and finds the first host that is neither reserved nor used.\<close>

lemma pick_host:
  assumes "h \<le> 255"
  shows "pick the_net reserved used (host h) =
    Some (map_option hostname (List.find (\<lambda>g. hostname g \<notin> set reserved \<and> hostname g \<notin> set used) [h..<255]))"
  using assms
proof (induction "255 - h" arbitrary: h)
  case 0
  then have h: "h = 255"
    by simp
  have "pick the_net reserved used (host 255) = pick the_net reserved used (nextIP (host 255))"
    by (subst pick.simps) (simp add: equal_broadcast)
  then show ?case
    by (simp add: h nextIP_last pick_past_end)
next
  case (Suc n)
  then have lt: "h < 255"
    by simp
  have step: "pick the_net reserved used (host h) =
      (if hostname h \<in> set reserved \<or> hostname h \<in> set used then pick the_net reserved used (host (Suc h))
       else Some (Some (hostname h)))"
    using lt by (subst pick.simps) (simp add: equal_broadcast ip_string_host nextIP_host)
  have IH: "pick the_net reserved used (host (Suc h)) = Some (map_option hostname
      (List.find (\<lambda>g. hostname g \<notin> set reserved \<and> hostname g \<notin> set used) [Suc h..<255]))"
    using Suc by simp
  show ?case
    unfolding step IH using lt by (simp add: upt_conv_Cons)
qed

text \<open>A requested address is only granted when it is a free host of the network.\<close>

lemma and_mask [simp]: "(x :: 8 word) AND 255 = x"
proof -
  have "(255 :: 8 word) = - 1"
    by simp
  then show ?thesis
    by (simp only: and.right_neutral)
qed

lemma contains_the_net:
  assumes "subnet_contains the_net a"
  shows "\<exists>x. to4 a = Some [10, 20, 0, x]"
proof -
  obtain y where y: "to4 a = Some y"
    using assms by (cases "to4 a") (auto simp: subnet_contains_def the_net_def to4_def split: if_splits)
  then have "length y = 4"
    using assms by (simp add: subnet_contains_def the_net_def)
  then obtain p q r x where "y = [p, q, r, x]"
    by (auto simp: numeral_eq_Suc length_Suc_conv)
  then show ?thesis
    using assms y by (simp add: subnet_contains_def the_net_def)
qed

lemma requested_host:
  assumes "requested parse6 the_net (buildReservedIPs parse6 the_net) used req = Some a"
  shows "a \<notin> set used \<and> (\<exists>h \<in> usable. a = hostname h)"
proof -
  obtain b where b: "subnet_contains the_net b" "a = ip_string b"
      "a \<notin> {hostname 0, hostname 1, hostname 255}" "a \<notin> set used"
    using assms by (auto simp: requested_def reserved_the_net split: if_splits option.splits)
  obtain x where "to4 b = Some [10, 20, 0, x]"
    using contains_the_net [OF b(1)] by blast
  then have "a = hostname (unat x)"
    using b(2) by (simp add: ip_string_def dotted_host)
  moreover have "unat x < 256"
  proof -
    have "unat x < 2 ^ LENGTH(8)"
      by (rule unsigned_less)
    then show ?thesis
      by simp
  qed
  ultimately have "unat x \<in> usable"
    using b(3) by (auto simp: usable_def)
  then show ?thesis
    using \<open>a = hostname (unat x)\<close> b(4) by blast
qed

lemma digit_char_zero: "d < 10 \<Longrightarrow> digit_char d = CHR ''0'' \<longleftrightarrow> d = 0"
proof -
  have "digit_char 0 = CHR ''0''"
    by code_simp
  then show "d < 10 \<Longrightarrow> ?thesis"
    by (metis digit_char(2) zero_less_numeral)
qed

lemma dec_head: "0 < n \<Longrightarrow> hd (dec n) \<noteq> CHR ''0''"
proof (induction n rule: dec.induct)
  case (1 n)
  then show ?case
    by (cases "n < 10") (auto simp: dec_small dec_large digit_char_zero)
qed

lemma octet_dec: "n < 256 \<Longrightarrow> octet (dec n) = Some (of_nat n)"
proof -
  have "octet (dec 0) = Some 0"
    by code_simp
  then show "n < 256 \<Longrightarrow> ?thesis"
    by (cases "n = 0") (auto simp: octet_def dec_head)
qed

lemma dec_no_dot [simp]: "CHR ''.'' \<notin> set (dec n)"
  by (rule dec_no_char) (simp add: is_digit_def)

lemma parse_hostname:
  assumes "h < 256"
  shows "parse_ip parse6 (hostname h) = Some (v4_prefix @ host h)"
proof -
  have "octet ''10'' = Some 10" "octet ''20'' = Some 20" "octet ''0'' = Some 0"
    by code_simp+
  then show ?thesis
    by (simp add: parse_ip_def hostname_def parse_ipv4_def split_on_none octet_dec [OF assms] host_def)
qed

lemma requested_ok:
  assumes "q \<in> usable" and "hostname q \<notin> set used"
  shows "requested parse6 the_net (buildReservedIPs parse6 the_net) used (hostname q) = Some (hostname q)"
proof -
  have q: "q < 256" "q \<noteq> 0" "q \<noteq> 1" "q \<noteq> 255"
    using assms(1) by (auto simp: usable_def)
  have to4: "to4 (v4_prefix @ host q) = Some (host q)"
    by (simp add: to4_def v4_prefix_def host_def)
  have ip: "parse_ip parse6 (hostname q) = Some (v4_prefix @ host q)"
      "ip_string (v4_prefix @ host q) = hostname q" "subnet_contains the_net (v4_prefix @ host q)"
    using to4 contains_host [of q] q(1) ip_string_host [of q]
    by (simp_all add: parse_hostname ip_string_def subnet_contains_def host_def)
  have ne: "\<not> ip_equal (v4_prefix @ host q) (net_ip the_net)"
    "\<not> ip_equal (v4_prefix @ host q) (broadcastIP the_net)"
    using q by (simp_all add: ip_equal_def broadcast_the_net v4_prefix_def host_def byte_eq_255)
      (simp_all add: the_net_def word_unat_eq_iff unat_of_nat)
  show ?thesis
    using assms(2) q by (simp add: requested_def ip ne reserved_the_net, simp add: hostname_def)
qed

section \<open>What the allocator chooses\<close>

lemma usable_reserved:
  "h \<in> set [1..<255] \<Longrightarrow> hostname h \<notin> set (buildReservedIPs parse6 the_net) \<longleftrightarrow> h \<in> usable"
  by (auto simp: reserved_the_net usable_def)

lemma first_host:
  "nextIP (net_ip the_net) = host 1"
  by code_simp

text \<open>The search loop of \<open>AllocateContainerIP\<close>, from its first candidate on.\<close>

lemma pick_first:
  obtains h where "h \<in> usable" "hostname h \<notin> set used" "\<forall>g \<in> usable. g < h \<longrightarrow> hostname g \<in> set used"
      "pick the_net (buildReservedIPs parse6 the_net) used (host 1) = Some (Some (hostname h))"
  | "\<forall>g \<in> usable. hostname g \<in> set used"
      "pick the_net (buildReservedIPs parse6 the_net) used (host 1) = Some None"
proof (cases "List.find (\<lambda>g. hostname g \<notin> set (buildReservedIPs parse6 the_net) \<and> hostname g \<notin> set used) [1..<255]")
  case None
  have "hostname g \<in> set used" if "g \<in> usable" for g
  proof -
    have "g \<in> set [1..<255]"
      using that by (simp add: usable_def)
    then show ?thesis
      using None usable_reserved [of g parse6] that by (metis (mono_tags, lifting) find_None_iff)
  qed
  then show ?thesis
    using that(2) pick_host [of 1] None by simp
next
  case (Some h)
  then obtain i where i: "i < 254" "h = Suc i" "hostname h \<notin> set (buildReservedIPs parse6 the_net)"
      "hostname h \<notin> set used"
      "\<forall>j<i. \<not> (hostname (Suc j) \<notin> set (buildReservedIPs parse6 the_net) \<and> hostname (Suc j) \<notin> set used)"
    by (auto simp: find_Some_iff)
  have "h \<in> usable"
    using usable_reserved [of h parse6] i by simp
  moreover have "hostname g \<in> set used" if "g \<in> usable" "g < h" for g
    using i(5) [rule_format, of "g - 1"] usable_reserved [of g parse6] that i(2) by (auto simp: usable_def)
  ultimately show ?thesis
    using that(1) [of h] i(4) pick_host [of 1] Some by simp
qed

text \<open>The choice always ends; it is a free host, or there is none.\<close>

lemma choose_cases:
  obtains h where "h \<in> usable" "hostname h \<notin> snd ` set m" "choose_ip parse6 m req = Some (Inr (hostname h))"
      "req = [] \<Longrightarrow> \<forall>g \<in> usable. g < h \<longrightarrow> hostname g \<in> snd ` set m"
      "\<And>q. q \<in> usable \<Longrightarrow> req = hostname q \<Longrightarrow> hostname q \<notin> snd ` set m \<Longrightarrow> h = q"
  | "\<forall>g \<in> usable. hostname g \<in> snd ` set m" "choose_ip parse6 m req = Some (Inl NoAddress)"
proof (cases "requested parse6 the_net (buildReservedIPs parse6 the_net) (map snd m) req")
  case (Some a)
  then obtain h where h: "h \<in> usable" "a = hostname h" "a \<notin> snd ` set m"
    using requested_host [OF Some] by auto
  show ?thesis
  proof (rule that(1) [of h])
    show "choose_ip parse6 m req = Some (Inr (hostname h))"
      using Some h by (simp add: choose_ip_def parse_network Let_def)
    show "h = q" if "q \<in> usable" "req = hostname q" "hostname q \<notin> snd ` set m" for q
      using requested_ok [of q "map snd m" parse6] that Some h(2) by simp
  qed (use h Some in \<open>auto simp: requested_def\<close>)
next
  case None
  note choose = choose_ip_def [of parse6 m req] parse_network None first_host
  show ?thesis
  proof (cases rule: pick_first [of "map snd m" parse6])
    case (1 h)
    show ?thesis
    proof (rule that(1) [of h])
      show "h = q" if "q \<in> usable" "req = hostname q" "hostname q \<notin> snd ` set m" for q
        using requested_ok [of q "map snd m" parse6] that None by simp
    qed (use 1 in \<open>auto simp: choose\<close>)
  next
    case 2
    then show ?thesis
      using that(2) by (simp add: choose)
  qed
qed

text \<open>Every file operation succeeds.\<close>

definition io_ok :: "io \<Rightarrow> bool" where
  "io_ok io \<longleftrightarrow> mkdir_ok io \<and> read_ok io \<and> save_mkdir_ok io \<and> open_ok io \<and> write_ok io \<and> sync_ok io \<and> rename_ok io"

text \<open>A failed save leaves the allocation file as it was.\<close>

lemma save_failed:
  "fst (saveIPAllocationState io m D) = Some e \<Longrightarrow>
     e \<noteq> NoAddress \<and> \<not> io_ok io \<and> (\<exists>t. snd (saveIPAllocationState io m D) = D\<lparr>tmp_file := t\<rparr>)"
  by (cases D) (auto simp: saveIPAllocationState_def io_ok_def split: if_splits)

lemma save_done:
  "fst (saveIPAllocationState io m D) = None \<Longrightarrow>
     snd (saveIPAllocationState io m D) = D\<lparr>allocations := Saved m, tmp_file := Missing\<rparr>"
  by (auto simp: saveIPAllocationState_def split: if_splits)

lemma save_cases:
  obtains "saveIPAllocationState io m D = (None, D\<lparr>allocations := Saved m, tmp_file := Missing\<rparr>)"
  | e t where "saveIPAllocationState io m D = (Some e, D\<lparr>tmp_file := t\<rparr>)" "e \<noteq> NoAddress" "\<not> io_ok io"
  using save_done [of io m D] save_failed [of io m D]
  by (cases "saveIPAllocationState io m D"; cases "fst (saveIPAllocationState io m D)") auto

lemma update_new: "map_of m k = None \<Longrightarrow> AList.update k v m = m @ [(k, v)]"
  by (induction m) (auto split: if_splits)

section \<open>Properties of the allocator\<close>

lemma allocate_cases:
  assumes "loadIPAllocationState io D = Inr m" and "map_of m cid = None"
  obtains h where "h \<in> usable" "hostname h \<notin> snd ` set m"
      "AllocateContainerIP parse6 io cid req D =
         Some (Inr (hostname h), D\<lparr>allocations := Saved (m @ [(cid, hostname h)]), tmp_file := Missing\<rparr>)"
      "req = [] \<Longrightarrow> \<forall>g \<in> usable. g < h \<longrightarrow> hostname g \<in> snd ` set m"
      "\<And>q. q \<in> usable \<Longrightarrow> req = hostname q \<Longrightarrow> hostname q \<notin> snd ` set m \<Longrightarrow> h = q"
  | e t where "AllocateContainerIP parse6 io cid req D = Some (Inl e, D\<lparr>tmp_file := t\<rparr>)" "e \<noteq> NoAddress" "\<not> io_ok io"
  | "\<forall>g \<in> usable. hostname g \<in> snd ` set m" "AllocateContainerIP parse6 io cid req D = Some (Inl NoAddress, D)"
proof (cases rule: choose_cases [of m parse6 req])
  case (1 h)
  note alloc = AllocateContainerIP_def assms update_new 1(3)
  show ?thesis
  proof (cases rule: save_cases [of io "m @ [(cid, hostname h)]" D])
    case saved: 1
    show ?thesis
      by (rule that(1) [OF 1(1,2) _ 1(4,5)]) (simp_all add: alloc saved)
  next
    case (2 e t)
    then show ?thesis
      by (intro that(2) [of e t]) (simp_all add: alloc)
  qed
next
  case 2
  then show ?thesis
    using that(3) assms by (simp add: AllocateContainerIP_def)
qed

text \<open>The invariant of the allocation file.\<close>

definition alloc_ok :: "alloc \<Rightarrow> bool" where
  "alloc_ok m \<longleftrightarrow> distinct (map fst m) \<and> distinct (map snd m) \<and> snd ` set m \<subseteq> hostname ` usable"

definition disk_ok :: "disk \<Rightarrow> bool" where
  "disk_ok D \<longleftrightarrow> allocations D = Missing \<or> (\<exists>m. allocations D = Saved m \<and> alloc_ok m)"

lemma disk_ok_tmp [simp]: "disk_ok (D\<lparr>tmp_file := t\<rparr>) = disk_ok D"
  by (simp add: disk_ok_def)

lemma load_ok: "disk_ok D \<Longrightarrow> loadIPAllocationState io D = Inr m \<Longrightarrow> alloc_ok m"
  by (auto simp: disk_ok_def loadIPAllocationState_def alloc_ok_def split: if_splits)

lemma alloc_ok_insert:
  "alloc_ok m \<Longrightarrow> map_of m c = None \<Longrightarrow> a \<notin> snd ` set m \<Longrightarrow> a \<in> hostname ` usable \<Longrightarrow> alloc_ok (m @ [(c, a)])"
  by (auto simp: alloc_ok_def map_of_eq_None_iff)

lemma alloc_ok_delete: "alloc_ok m \<Longrightarrow> alloc_ok (AList.delete c m)"
  by (auto simp: alloc_ok_def AList.delete_eq distinct_map inj_on_def)

lemma allocate_ok:
  assumes "disk_ok D"
  shows "\<exists>r D'. AllocateContainerIP parse6 io cid req D = Some (r, D') \<and> disk_ok D'"
proof (cases "loadIPAllocationState io D")
  case (Inl e)
  then show ?thesis
    using assms by (simp add: AllocateContainerIP_def)
next
  case (Inr m)
  note m = load_ok [OF assms Inr]
  show ?thesis
  proof (cases "map_of m cid")
    case None
    then show ?thesis
    proof (cases rule: allocate_cases [OF Inr None, of parse6 req])
      case (1 h)
      then show ?thesis
        using alloc_ok_insert [OF m None, of "hostname h"] by (simp add: disk_ok_def)
    qed (use assms in auto)
  next
    case (Some a)
    then show ?thesis
      using assms Inr by (simp add: AllocateContainerIP_def)
  qed
qed

lemma release_ok:
  assumes "disk_ok D"
  shows "disk_ok (snd (ReleaseContainerIP io cid D))"
proof (cases "loadIPAllocationState io D")
  case (Inr m)
  have "alloc_ok (AList.delete cid m)"
    using load_ok [OF assms Inr] by (rule alloc_ok_delete)
  then have "disk_ok (snd (saveIPAllocationState io (AList.delete cid m) D))"
    by (cases rule: save_cases [of io "AList.delete cid m" D]) (use assms in \<open>auto simp: disk_ok_def\<close>)
  then show ?thesis
    using assms Inr by (simp add: ReleaseContainerIP_def split: option.split)
qed (use assms in \<open>simp add: ReleaseContainerIP_def\<close>)

datatype ipam_op = Allocate io string string | Release io string

definition ipam_step :: "(string \<Rightarrow> ip option) \<Rightarrow> ipam_op \<Rightarrow> disk \<Rightarrow> disk option" where
  "ipam_step parse6 op D =
     (case op of
        Allocate io cid req \<Rightarrow> map_option snd (AllocateContainerIP parse6 io cid req D)
      | Release io cid \<Rightarrow> Some (snd (CleanupContainerNetwork io cid D)))"

fun ipam_run :: "(string \<Rightarrow> ip option) \<Rightarrow> ipam_op list \<Rightarrow> disk \<Rightarrow> disk option" where
  "ipam_run parse6 [] D = Some D"
| "ipam_run parse6 (op # ops) D = Option.bind (ipam_step parse6 op D) (ipam_run parse6 ops)"

lemma ipam_run_ok: "disk_ok D \<Longrightarrow> \<exists>D'. ipam_run parse6 ops D = Some D' \<and> disk_ok D'"
proof (induction ops arbitrary: D)
  case (Cons op ops)
  have "\<exists>D'. ipam_step parse6 op D = Some D' \<and> disk_ok D'"
    using allocate_ok [OF Cons.prems] release_ok [OF Cons.prems]
    by (cases op) (force simp: ipam_step_def CleanupContainerNetwork_def)+
  then show ?case
    using Cons.IH by auto
qed simp

text \<open>
  C23: the allocations of one process are sound.  Whatever containers come and go,
  whatever addresses they ask for and whichever file operations fail, every call
  ends, and the allocation file always decodes to a state where no container has
  two addresses, no two containers share one, and each address is a host of
  10.20.0.0/24 other than the network, the bridge and the broadcast address.
\<close>

theorem addresses_unique:
  "\<exists>D'. ipam_run parse6 ops \<lparr>allocations = Missing, tmp_file = Missing\<rparr> = Some D' \<and>
    (allocations D' = Missing \<or>
     (\<exists>m. allocations D' = Saved m \<and> distinct (map fst m) \<and> distinct (map snd m) \<and>
        snd ` set m \<subseteq> hostname ` {2..254}))"
  using ipam_run_ok [of "\<lparr>allocations = Missing, tmp_file = Missing\<rparr>" parse6 ops]
  by (auto simp: disk_ok_def alloc_ok_def usable_def)

text \<open>
  C24: what \<open>AllocateContainerIP\<close> returns, on every branch.  A container that has an
  address keeps it.  Otherwise a requested host is granted when it is free, no
  request gets the lowest free host, and the file then holds the old state and the
  new entry.  The call fails for want of addresses only when all 253 hosts are
  taken, and a failed call leaves the allocation file as it was.
\<close>

theorem allocate_exact:
  assumes "loadIPAllocationState io D = Inr m"
  shows "\<exists>r D'. AllocateContainerIP parse6 io cid req D = Some (r, D') \<and>
    (case map_of m cid of
       Some a \<Rightarrow> r = Inr a \<and> D' = D
     | None \<Rightarrow>
         (case r of
            Inr a \<Rightarrow> allocations D' = Saved (m @ [(cid, a)]) \<and> a \<notin> snd ` set m \<and>
              (\<exists>h \<in> {2..254}. a = hostname h \<and>
                 (req = [] \<longrightarrow> (\<forall>g \<in> {2..<h}. hostname g \<in> snd ` set m)) \<and>
                 (\<forall>q \<in> {2..254}. req = hostname q \<and> hostname q \<notin> snd ` set m \<longrightarrow> h = q))
          | Inl e \<Rightarrow> allocations D' = allocations D \<and>
              (if e = NoAddress then \<forall>g \<in> {2..254}. hostname g \<in> snd ` set m else \<not> io_ok io)))"
proof (cases "map_of m cid")
  case (Some a)
  then show ?thesis
    using assms by (simp add: AllocateContainerIP_def)
next
  case None
  show ?thesis
  proof (cases rule: allocate_cases [OF assms None, of parse6 req])
    case (1 h)
    have free: "\<exists>k \<in> {2..254}. hostname h = hostname k \<and>
        (req = [] \<longrightarrow> (\<forall>g \<in> {2..<k}. hostname g \<in> snd ` set m)) \<and>
        (\<forall>q \<in> {2..254}. req = hostname q \<and> hostname q \<notin> snd ` set m \<longrightarrow> k = q)"
      using 1(1,4,5) by (intro bexI [of _ h] conjI) (auto simp: usable_def)
    show ?thesis
      unfolding 1(3) None option.case
      by (intro exI conjI, rule refl, unfold sum.case, intro conjI free) (use 1(2) in simp_all)
  next
    case (2 e t)
    then show ?thesis
      using None by simp
  next
    case 3
    then show ?thesis
      using None by (simp add: usable_def)
  qed
qed

definition demo_io :: io where
  "demo_io = \<lparr>mkdir_ok = True, read_ok = True, save_mkdir_ok = True, open_ok = True, write_ok = True,
     sync_ok = True, rename_ok = True\<rparr>"

theorem allocate_exact_witness:
  "\<exists>D'. AllocateContainerIP (\<lambda>_. None) demo_io ''c2'' (hostname 9)
     \<lparr>allocations = Saved [(''c1'', hostname 2)], tmp_file = Missing\<rparr> = Some (Inr (hostname 9), D') \<and>
     allocations D' = Saved [(''c1'', hostname 2), (''c2'', hostname 9)]"
proof -
  let ?D = "\<lparr>allocations = Saved [(''c1'', hostname 2)], tmp_file = Missing\<rparr>"
  have "loadIPAllocationState demo_io ?D = Inr [(''c1'', hostname 2)]" "io_ok demo_io"
    by (simp_all add: loadIPAllocationState_def demo_io_def io_ok_def)
  moreover have "\<not> (\<forall>g \<in> {2..254}. g = (2 :: nat))" "(9 :: nat) \<in> {2..254}"
    by (simp_all add: Bex_def [symmetric]) (rule bexI [of _ 3]; simp)
  ultimately show ?thesis
    using allocate_exact [of demo_io ?D "[(''c1'', hostname 2)]" "\<lambda>_. None" "''c2''" "hostname 9"]
    by (fastforce split: sum.splits if_splits)
qed

section \<open>Two processes\<close>

text \<open>
  \<open>ipamMu\<close> is a mutex of one process, and each \<open>gocker run\<close> is a process of its own:
  between them a call is two steps, the load with the choice, and the save.
\<close>

datatype plan = Answer "ipam_error + string" | Save alloc string

definition plan_allocation :: "(string \<Rightarrow> ip option) \<Rightarrow> io \<Rightarrow> string \<Rightarrow> string \<Rightarrow> disk \<Rightarrow> plan option" where
  "plan_allocation parse6 io cid req D =
     (case loadIPAllocationState io D of
        Inl e \<Rightarrow> Some (Answer (Inl e))
      | Inr m \<Rightarrow>
          (case map_of m cid of
             Some a \<Rightarrow> Some (Answer (Inr a))
           | None \<Rightarrow> map_option (\<lambda>r. case r of Inl e \<Rightarrow> Answer (Inl e)
                | Inr a \<Rightarrow> Save (AList.update cid a m) a) (choose_ip parse6 m req)))"

definition commit_allocation :: "io \<Rightarrow> plan \<Rightarrow> disk \<Rightarrow> (ipam_error + string) \<times> disk" where
  "commit_allocation io p D =
     (case p of
        Answer r \<Rightarrow> (r, D)
      | Save m a \<Rightarrow>
          (case saveIPAllocationState io m D of (Some e, D') \<Rightarrow> (Inl e, D') | (None, D') \<Rightarrow> (Inr a, D')))"

text \<open>Within one process the two steps are the call.\<close>

lemma allocate_split:
  "AllocateContainerIP parse6 io cid req D =
     map_option (\<lambda>p. commit_allocation io p D) (plan_allocation parse6 io cid req D)"
  by (simp add: AllocateContainerIP_def plan_allocation_def commit_allocation_def
      split: sum.split option.split prod.split)

lemma save_io_ok:
  "io_ok io \<Longrightarrow> saveIPAllocationState io m D = (None, D\<lparr>allocations := Saved m, tmp_file := Missing\<rparr>)"
  by (simp add: io_ok_def saveIPAllocationState_def)

text \<open>
  Two \<open>gocker run\<close> at once can get the same address.  When both load the file
  before either saves, both are told that they have the same host, and the file in
  the end holds only the second container's entry, so the address is also free to
  be handed out again once that one is released.  Both calls succeed and no error
  is reported.
\<close>

lemma two_processes_same_address:
  assumes "io_ok io" and "allocations D = Saved m" and "map_of m c1 = None" and "map_of m c2 = None"
    and "h \<in> {2..254}" and "hostname h \<notin> snd ` set m"
  shows "\<exists>a p1 p2 D1 D2. plan_allocation parse6 io c1 [] D = Some p1 \<and> plan_allocation parse6 io c2 [] D = Some p2 \<and>
    commit_allocation io p1 D = (Inr a, D1) \<and> commit_allocation io p2 D1 = (Inr a, D2) \<and>
    allocations D2 = Saved (m @ [(c2, a)])"
proof -
  have load: "loadIPAllocationState io D = Inr m"
    using assms(1,2) by (simp add: io_ok_def loadIPAllocationState_def)
  obtain a where a: "choose_ip parse6 m [] = Some (Inr a)"
    using assms(5,6) by (cases rule: choose_cases [of m parse6 "[]"]) (auto simp: usable_def)
  note plan = plan_allocation_def load a assms(3,4) update_new
  have "plan_allocation parse6 io c1 [] D = Some (Save (m @ [(c1, a)]) a)"
    "plan_allocation parse6 io c2 [] D = Some (Save (m @ [(c2, a)]) a)"
    by (simp_all add: plan)
  then show ?thesis
    by (simp add: commit_allocation_def save_io_ok [OF assms(1)])
qed


end
