(* ===== verification/Container.thy ===== *)
theory Container
  imports Ipam "HOL-Library.Char_ord" "HOL-Library.List_Lexorder"
begin

text \<open>
  The container runtime: \<open>internal/runtime.go\<close>, \<open>internal/container/manager.go\<close>,
  \<open>internal/container/cgroup.go\<close>, \<open>internal/remove.go\<close> and what they use of
  \<open>pkg/common.go\<close>.  The state is the directory of container configurations, the
  allocation file of \<open>Ipam\<close>, the container cgroups and the child processes.  Which
  file operations and system calls succeed, process ids and times are arguments.
  \<open>RunContainer\<close> and \<open>Start\<close> block until the child exits; each is the part before
  the wait, which leaves a waiter, and the part after it.
\<close>

section \<open>Data\<close>

record limits =
  MemoryLimit :: int
  PidsLimit :: int
  CPULimit :: int

definition Running :: string where "Running = ''running''"
definition Stopped :: string where "Stopped = ''stopped''"
definition Created :: string where "Created = ''created''"

definition InvalidLimit :: int where "InvalidLimit = -1"

text \<open>\<open>ContainerInfo\<close>; the zero time is 0.\<close>

record container_info =
  ci_id :: string
  ci_pid :: int
  ci_name :: string
  ci_command :: string
  ci_status :: string
  ci_created :: nat
  ci_image :: string
  ci_mount :: string
  ci_requested :: string
  ci_ip :: string
  ci_finished :: nat
  ci_limits :: limits

text \<open>The fields of \<open>RunRequest\<close> that the runtime reads; the others go to the child.\<close>

record run_request =
  rq_image :: string
  rq_tag :: string
  rq_name :: string
  rq_command :: string
  rq_ip :: string
  rq_limits :: limits

text \<open>
  The storage directory in the order of \<open>os.ReadDir\<close> (sorted by name); \<open>None\<close> is a
  directory whose \<open>config.json\<close> is missing or does not decode.
\<close>

type_synonym storage = "(string \<times> container_info option) list"

text \<open>The limit files of one cgroup.\<close>

record cg_files =
  cpu_max :: "string option"
  memory_max :: "string option"
  pids_max :: "string option"
  cg_procs :: "int list"

text \<open>A waiter is a \<open>RunContainer\<close>, \<open>CreateAndRun\<close> or \<open>Start\<close> blocked in \<open>cmd.Wait\<close>,
  with its copy of the container's record.\<close>

datatype caller = By_run | By_daemon | By_start

record waiter =
  w_caller :: caller
  w_pid :: int
  w_info :: container_info

record world =
  containers :: storage
  ipam :: disk
  cgroups :: "string \<rightharpoonup> cg_files"
  processes :: "int \<rightharpoonup> string \<times> string"
  waiters :: "waiter list"

text \<open>A process is known by its container and the address it was given.\<close>

section \<open>The configuration files\<close>

fun put_dir :: "string \<Rightarrow> container_info option \<Rightarrow> storage \<Rightarrow> storage" where
  "put_dir d x [] = [(d, x)]"
| "put_dir d x ((d', y) # S) =
     (if d = d' then (d, x) # S else if d < d' then (d, x) # (d', y) # S else (d', y) # put_dir d x S)"

text \<open>\<open>os.MkdirAll\<close> of a container directory.\<close>

definition mkdir_container :: "string \<Rightarrow> storage \<Rightarrow> storage" where
  "mkdir_container d S = (if d \<in> fst ` set S then S else put_dir d None S)"

text \<open>\<open>WriteContainerInfo\<close>: the file cannot be created, is left incomplete, or is written.\<close>

datatype write_result = No_create | No_encode | Written

definition WriteContainerInfo :: "write_result \<Rightarrow> string \<Rightarrow> container_info \<Rightarrow> storage \<Rightarrow> bool \<times> storage" where
  "WriteContainerInfo w d info S =
     (if d \<notin> fst ` set S then (False, S)
      else (case w of
              No_create \<Rightarrow> (False, S)
            | No_encode \<Rightarrow> (False, put_dir d None S)
            | Written \<Rightarrow> (True, put_dir d (Some info) S)))"

text \<open>\<open>Parse\<close> of an image name.\<close>

definition Parse :: "string \<Rightarrow> string \<times> string" where
  "Parse input =
     (case split_on CHR '':'' input of
        [a] \<Rightarrow> (a, ''latest'')
      | [a, b] \<Rightarrow> (a, b)
      | _ \<Rightarrow> ([], []))"

text \<open>\<open>findContainerInfo\<close>: the first directory whose record matches.\<close>

definition matches :: "string \<Rightarrow> container_info \<Rightarrow> bool" where
  "matches identifier info \<longleftrightarrow>
     ci_id info = identifier \<or> ci_name info = identifier \<or>
     (length identifier \<le> length (ci_id info) \<and> take (length identifier) (ci_id info) = identifier)"

fun find_first :: "string \<Rightarrow> storage \<Rightarrow> container_info option" where
  "find_first identifier [] = None"
| "find_first identifier ((d, x) # S) =
     (case x of
        None \<Rightarrow> find_first identifier S
      | Some info \<Rightarrow> if matches identifier info then Some info else find_first identifier S)"

definition findContainerInfo :: "bool \<Rightarrow> string \<Rightarrow> storage \<Rightarrow> container_info option" where
  "findContainerInfo readdir_ok identifier S = (if readdir_ok then find_first identifier S else None)"

definition ListContainers :: "bool \<Rightarrow> storage \<Rightarrow> container_info list option" where
  "ListContainers readdir_ok S = (if readdir_ok then Some (List.map_filter snd S) else None)"

text \<open>\<open>ResolveContainer\<close>, the other lookup: an ambiguous identifier is an error.\<close>

definition ResolveContainer :: "bool \<Rightarrow> string \<Rightarrow> storage \<Rightarrow> container_info option" where
  "ResolveContainer readdir_ok identifier S =
     (case ListContainers readdir_ok S of
        None \<Rightarrow> None
      | Some cs \<Rightarrow> (case filter (matches identifier) cs of [c] \<Rightarrow> Some c | _ \<Rightarrow> None))"

section \<open>Cgroups\<close>

record cg_env =
  parent_ok :: bool
  dir_ok :: bool
  cpu_ok :: bool
  memory_ok :: bool
  pids_ok :: bool
  procs_ok :: bool
  cleanup_ok :: bool

definition itoa :: "int \<Rightarrow> string" where
  "itoa i = (if i < 0 then CHR ''-'' # dec (nat (- i)) else dec (nat i))"

text \<open>\<open>int\<close> arithmetic has 64 bits.\<close>

definition go_int :: "int \<Rightarrow> int" where
  "go_int i = sint (word_of_int i :: 64 word)"

definition cpu_text :: "int \<Rightarrow> string" where
  "cpu_text n = itoa (go_int (n * 100000)) @ '' 100000''"

definition setResourceLimits :: "cg_env \<Rightarrow> limits \<Rightarrow> cg_files \<Rightarrow> bool \<times> cg_files" where
  "setResourceLimits e l f =
     (if CPULimit l > 0 \<and> \<not> cpu_ok e then (False, f)
      else (let f1 = (if CPULimit l > 0 then f\<lparr>cpu_max := Some (cpu_text (CPULimit l))\<rparr> else f)
            in if MemoryLimit l > 0 \<and> \<not> memory_ok e then (False, f1)
               else (let f2 = (if MemoryLimit l > 0 then f1\<lparr>memory_max := Some (itoa (MemoryLimit l))\<rparr> else f1)
                     in if PidsLimit l > 0 \<and> \<not> pids_ok e then (False, f2)
                        else (True, if PidsLimit l > 0 then f2\<lparr>pids_max := Some (itoa (PidsLimit l))\<rparr> else f2))))"

definition new_cgroup :: cg_files where
  "new_cgroup = \<lparr>cpu_max = None, memory_max = None, pids_max = None, cg_procs = []\<rparr>"

definition CleanupCgroup :: "cg_env \<Rightarrow> string \<Rightarrow> (string \<rightharpoonup> cg_files) \<Rightarrow> bool \<times> (string \<rightharpoonup> cg_files)" where
  "CleanupCgroup e c G = (if cleanup_ok e then (True, G(c := None)) else (False, G))"

definition SetupCgroup :: "cg_env \<Rightarrow> limits \<Rightarrow> int \<Rightarrow> string \<Rightarrow> (string \<rightharpoonup> cg_files) \<Rightarrow> bool \<times> (string \<rightharpoonup> cg_files)" where
  "SetupCgroup e l pid c G =
     (if \<not> parent_ok e \<or> \<not> dir_ok e then (False, G)
      else (let f0 = (case G c of None \<Rightarrow> new_cgroup | Some f \<Rightarrow> f);
                (ok, f) = setResourceLimits e l f0
            in if \<not> ok then (False, snd (CleanupCgroup e c (G(c \<mapsto> f))))
               else if \<not> procs_ok e then (False, snd (CleanupCgroup e c (G(c \<mapsto> f))))
               else (True, G(c \<mapsto> f\<lparr>cg_procs := cg_procs f @ [pid]\<rparr>))))"

text \<open>\<open>cgroupPath\<close>: the directory of the container, or the old one named after its process.\<close>

definition cgroupPath :: "container_info \<Rightarrow> (string \<rightharpoonup> cg_files) \<Rightarrow> string option" where
  "cgroupPath info G =
     (if G (ci_id info) \<noteq> None then Some (ci_id info)
      else if ci_pid info > 0 \<and> G (itoa (ci_pid info)) \<noteq> None then Some (itoa (ci_pid info))
      else None)"

end
