(* ===== verification/Container_Run.thy ===== *)
theory Container_Run
  imports Container
begin

text \<open>
  The operations of the container runtime as functions of the world: run and start
  (each in two parts, before and after the wait for the child), stop, adjust and
  remove, and the sequences of operations that a host sees.
\<close>

section \<open>Run\<close>

datatype run_error = CgroupRoot | Random | Container_dir | Allocation ipam_error | Config | Pipe_error
  | Child | Cgroup_error | Veth | Pipe_write | Not_found | Bad_status | Attach | Signal | Cgroup_path | Limits_error

text \<open>What the outside does in one \<open>RunContainer\<close> or \<open>Start\<close>.\<close>

record run_env =
  root_ok :: bool
  rand_ok :: bool
  hex_id :: string
  storage_ok :: bool
  alloc_io :: io
  release_io :: io
  now :: nat
  write_created :: write_result
  pipe_ok :: bool
  start_ok :: bool
  child_pid :: int
  cg_env :: cg_env
  veth_ok :: bool
  encode_ok :: bool
  write_running :: write_result
  attach :: bool
  conn_ok :: bool

definition write_config :: "write_result \<Rightarrow> container_info \<Rightarrow> world \<Rightarrow> bool \<times> world" where
  "write_config w info W =
     (let (ok, S) = WriteContainerInfo w (ci_id info) info (containers W) in (ok, W\<lparr>containers := S\<rparr>))"

definition release :: "io \<Rightarrow> string \<Rightarrow> world \<Rightarrow> world" where
  "release io c W = W\<lparr>ipam := snd (ReleaseContainerIP io c (ipam W))\<rparr>"

definition kill_child :: "int \<Rightarrow> world \<Rightarrow> world" where
  "kill_child pid W = W\<lparr>processes := (processes W)(pid := None)\<rparr>"

text \<open>
  What \<open>RunContainer\<close> and the daemon's \<open>CreateAndRun\<close> both do from the first
  \<open>config.json\<close> on; \<open>deferred\<close> is what a failure runs: the release of the address in
  \<open>RunContainer\<close>, nothing in \<open>CreateAndRun\<close>.
\<close>

definition run_child :: "run_env \<Rightarrow> caller \<Rightarrow> (world \<Rightarrow> world) \<Rightarrow> string \<Rightarrow> string \<Rightarrow> container_info \<Rightarrow> world \<Rightarrow> (run_error + waiter) \<times> world" where
  "run_child e by deferred c a info W1 =
     (let fail = (\<lambda>x W. (Inl x, deferred W));
          (wrote, W2) = write_config (write_created e) info W1
      in if \<not> wrote then fail Config W2
         else if \<not> pipe_ok e then fail Pipe_error W2
         else if \<not> start_ok e then fail Child W2
         else
           (let pid = child_pid e;
                W3 = W2\<lparr>processes := (processes W2)(pid \<mapsto> (c, a))\<rparr>;
                (ok, G) = SetupCgroup (cg_env e) (ci_limits info) pid c (cgroups W3);
                W4 = W3\<lparr>cgroups := G\<rparr>
            in if \<not> ok then fail Cgroup_error (kill_child pid W4)
               else if \<not> veth_ok e then fail Veth (kill_child pid W4)
               else if \<not> encode_ok e then fail Pipe_write (kill_child pid W4)
               else
                 (let info' = info\<lparr>ci_pid := pid, ci_status := Running\<rparr>;
                      W5 = snd (write_config (write_running e) info' W4);
                      w = \<lparr>w_caller = by, w_pid = pid, w_info = info'\<rparr>
                  in (Inr w, W5\<lparr>waiters := waiters W5 @ [w]\<rparr>))))"

definition new_info :: "run_env \<Rightarrow> run_request \<Rightarrow> string \<Rightarrow> string \<Rightarrow> container_info" where
  "new_info e r req a =
     \<lparr>ci_id = hex_id e, ci_pid = 0, ci_name = (if rq_name r = [] then hex_id e else rq_name r),
      ci_command = rq_command r, ci_status = Created, ci_created = now e,
      ci_image = rq_image r @ '':'' @ rq_tag r,
      ci_mount = ''/var/lib/gocker/containers/'' @ hex_id e @ ''/rootfs'',
      ci_requested = req, ci_ip = a, ci_finished = 0, ci_limits = rq_limits r\<rparr>"

text \<open>\<open>RunContainer\<close> up to \<open>cmd.Wait\<close>.  The outer \<open>None\<close> is an allocation that does not return.\<close>

definition RunContainer :: "(string \<Rightarrow> ip option) \<Rightarrow> run_env \<Rightarrow> run_request \<Rightarrow> world \<Rightarrow> ((run_error + waiter) \<times> world) option" where
  "RunContainer parse6 e r W =
     (if \<not> root_ok e then Some (Inl CgroupRoot, W)
      else if \<not> rand_ok e then Some (Inl Random, W)
      else if \<not> storage_ok e then Some (Inl Container_dir, W)
      else
        (let c = hex_id e;
             W0 = W\<lparr>containers := mkdir_container c (containers W)\<rparr>
         in case AllocateContainerIP parse6 (alloc_io e) c (rq_ip r) (ipam W0) of
              None \<Rightarrow> None
            | Some (Inl x, D) \<Rightarrow> Some (Inl (Allocation x), W0\<lparr>ipam := D\<rparr>)
            | Some (Inr a, D) \<Rightarrow>
                Some (run_child e By_run (release (release_io e) c) c a (new_info e r (rq_ip r) a) (W0\<lparr>ipam := D\<rparr>))))"

text \<open>\<open>CreateAndRun\<close>, the daemon's run: no address is allocated, and the child gets none.\<close>

definition CreateAndRun :: "run_env \<Rightarrow> run_request \<Rightarrow> world \<Rightarrow> (run_error + waiter) \<times> world" where
  "CreateAndRun e r W =
     (if \<not> root_ok e then (Inl CgroupRoot, W)
      else if \<not> rand_ok e then (Inl Random, W)
      else if \<not> storage_ok e then (Inl Container_dir, W)
      else run_child e By_daemon (\<lambda>W. W) (hex_id e) [] (new_info e r [] [])
             (W\<lparr>containers := mkdir_container (hex_id e) (containers W)\<rparr>))"

text \<open>What a waiter does when its child has exited.\<close>

record finish_env =
  f_write :: write_result
  f_cg :: cg_env
  f_io :: io
  f_now :: nat

definition run_finish :: "finish_env \<Rightarrow> waiter \<Rightarrow> world \<Rightarrow> world" where
  "run_finish e w W =
     (let info = (w_info w)\<lparr>ci_pid := 0, ci_status := Stopped\<rparr>;
          W1 = snd (write_config (f_write e) info W);
          W2 = W1\<lparr>cgroups := snd (CleanupCgroup (f_cg e) (ci_id info) (cgroups W1))\<rparr>
      in release (f_io e) (ci_id info) W2)"

definition daemon_finish :: "finish_env \<Rightarrow> waiter \<Rightarrow> world \<Rightarrow> world" where
  "daemon_finish e w W =
     (let info = (w_info w)\<lparr>ci_pid := 0, ci_status := Stopped, ci_finished := f_now e\<rparr>;
          W1 = snd (write_config (f_write e) info W)
      in W1\<lparr>cgroups := snd (CleanupCgroup (f_cg e) (ci_id info) (cgroups W1))\<rparr>)"

section \<open>Start\<close>

definition start_child :: "(string \<Rightarrow> ip option) \<Rightarrow> run_env \<Rightarrow> container_info \<Rightarrow> world \<Rightarrow> ((run_error + waiter) \<times> world) option" where
  "start_child parse6 e info W =
     (let pid = child_pid e; c = ci_id info;
          desired = (if ci_requested info \<noteq> [] then ci_requested info else ci_ip info);
          fail = (\<lambda>x W. (Inl x, release (release_io e) c W))
      in if \<not> veth_ok e then Some (Inl Veth, W)
         else case AllocateContainerIP parse6 (alloc_io e) c desired (ipam W) of
                None \<Rightarrow> None
              | Some (Inl x, D) \<Rightarrow> Some (Inl (Allocation x), W\<lparr>ipam := D\<rparr>)
              | Some (Inr a, D) \<Rightarrow>
                  Some
                   (let W1 = W\<lparr>ipam := D\<rparr>
                    in if \<not> encode_ok e then fail Pipe_write W1
                       else
                         (let W2 = W1\<lparr>processes := (processes W1)(pid \<mapsto> (c, a))\<rparr>;
                              info' = info\<lparr>ci_ip := a, ci_pid := pid, ci_status := Running, ci_finished := 0\<rparr>;
                              W3 = snd (write_config (write_running e) info' W2);
                              (ok, G) = SetupCgroup (cg_env e) (ci_limits info') pid c (cgroups W3);
                              W4 = W3\<lparr>cgroups := G\<rparr>;
                              w = \<lparr>w_caller = By_start, w_pid = pid, w_info = info'\<rparr>
                          in if \<not> ok then fail Cgroup_error (kill_child pid W4)
                             else (Inr w, W4\<lparr>waiters := waiters W4 @ [w]\<rparr>))))"

definition Start :: "(string \<Rightarrow> ip option) \<Rightarrow> run_env \<Rightarrow> string \<Rightarrow> world \<Rightarrow> ((run_error + waiter) \<times> world) option" where
  "Start parse6 e identifier W =
     (case findContainerInfo (storage_ok e) identifier (containers W) of
        None \<Rightarrow> Some (Inl Not_found, W)
      | Some info \<Rightarrow>
          if ci_status info = Running then Some (Inl Bad_status, W)
          else if ci_status info \<noteq> Stopped \<and> ci_status info \<noteq> Created then Some (Inl Bad_status, W)
          else if \<not> pipe_ok e then Some (Inl Pipe_error, W)
          else if attach e \<and> \<not> conn_ok e then Some (Inl Attach, W)
          else if \<not> start_ok e then Some (Inl Child, W)
          else start_child parse6 e info W)"

definition start_finish :: "finish_env \<Rightarrow> waiter \<Rightarrow> world \<Rightarrow> world" where
  "start_finish e w W =
     (let info = (w_info w)\<lparr>ci_pid := 0, ci_status := Stopped, ci_finished := f_now e\<rparr>;
          W1 = snd (write_config (f_write e) info W);
          W2 = W1\<lparr>cgroups := snd (CleanupCgroup (f_cg e) (ci_id info) (cgroups W1))\<rparr>
      in release (f_io e) (ci_id info) W2)"

section \<open>Stop, adjust and remove\<close>

text \<open>The answers of \<open>kill(pid, SIGTERM)\<close>.\<close>

datatype kill_result = Delivered | No_such_process | Refused

record stop_env =
  s_storage_ok :: bool
  s_kill :: kill_result
  s_now :: nat
  s_write :: write_result
  s_io :: io

definition StopContainer :: "stop_env \<Rightarrow> string \<Rightarrow> world \<Rightarrow> run_error option \<times> world" where
  "StopContainer e identifier W =
     (case findContainerInfo (s_storage_ok e) identifier (containers W) of
        None \<Rightarrow> (Some Not_found, W)
      | Some info \<Rightarrow>
          if ci_status info \<noteq> Running then (Some Bad_status, W)
          else if s_kill e = Refused then (Some Signal, W)
          else
            (let info' = info\<lparr>ci_status := Stopped, ci_pid := 0, ci_finished := s_now e\<rparr>;
                 (wrote, W1) = write_config (s_write e) info' W
             in if \<not> wrote then (Some Config, W1)
                else (None, W1\<lparr>ipam := snd (CleanupContainerNetwork (s_io e) (ci_id info) (ipam W1))\<rparr>)))"

definition AdjustResourceLimits :: "bool \<Rightarrow> cg_env \<Rightarrow> write_result \<Rightarrow> string \<Rightarrow> limits \<Rightarrow> world \<Rightarrow> run_error option \<times> world" where
  "AdjustResourceLimits readdir_ok e w identifier l W =
     (case findContainerInfo readdir_ok identifier (containers W) of
        None \<Rightarrow> (Some Not_found, W)
      | Some info \<Rightarrow>
          if ci_status info \<noteq> Running then (Some Bad_status, W)
          else
            (let old = ci_limits info;
                 l1 = (if CPULimit l = InvalidLimit then l\<lparr>CPULimit := CPULimit old\<rparr> else l);
                 l2 = (if MemoryLimit l1 = InvalidLimit then l1\<lparr>MemoryLimit := MemoryLimit old\<rparr> else l1);
                 l3 = (if PidsLimit l2 = InvalidLimit then l2\<lparr>PidsLimit := PidsLimit old\<rparr> else l2)
             in case cgroupPath info (cgroups W) of
                  None \<Rightarrow> (Some Cgroup_path, W)
                | Some g \<Rightarrow>
                    (let (ok, f) = setResourceLimits e l3 (case cgroups W g of None \<Rightarrow> new_cgroup | Some f \<Rightarrow> f);
                         W1 = W\<lparr>cgroups := (cgroups W)(g \<mapsto> f)\<rparr>
                     in if \<not> ok then (Some Limits_error, W1)
                        else
                          (let (wrote, W2) = write_config w (info\<lparr>ci_limits := l3\<rparr>) W1
                           in (if wrote then None else Some Config, W2)))))"

record remove_env =
  r_read_ok :: bool
  r_cg_ok :: bool
  r_dir_ok :: bool

definition removeContainer :: "remove_env \<Rightarrow> string \<Rightarrow> world \<Rightarrow> run_error option \<times> world" where
  "removeContainer e c W =
     (if \<not> r_read_ok e then (Some Not_found, W)
      else (case map_of (containers W) c of
              None \<Rightarrow> (Some Not_found, W)
            | Some None \<Rightarrow> (Some Config, W)
            | Some (Some info) \<Rightarrow>
                if ci_status info = Running then (Some Bad_status, W)
                else if \<not> r_cg_ok e then (Some Cgroup_error, W)
                else
                  (let W1 = W\<lparr>cgroups := (cgroups W)(ci_id info := None)\<rparr>
                   in if \<not> r_dir_ok e then (Some Container_dir, W1)
                      else (None, W1\<lparr>containers := filter (\<lambda>(d, _). d \<noteq> c) (containers W1)\<rparr>))))"

text \<open>
  \<open>StopAllContainers\<close> goes over a listing taken at the start; the log line slices the
  identifier to 12 bytes, which panics (the outer \<open>None\<close>) when it is shorter.
\<close>

fun stop_each :: "(string \<Rightarrow> stop_env) \<Rightarrow> container_info list \<Rightarrow> nat \<Rightarrow> world \<Rightarrow> (nat \<times> world) option" where
  "stop_each env [] n W = Some (n, W)"
| "stop_each env (c # cs) n W =
     (if ci_status c \<noteq> Running then stop_each env cs n W
      else if length (ci_id c) < 12 then None
      else (case StopContainer (env (ci_id c)) (ci_id c) W of
              (None, W') \<Rightarrow> stop_each env cs (n + 1) W'
            | (Some _, W') \<Rightarrow> stop_each env cs n W'))"

definition StopAllContainers :: "bool \<Rightarrow> (string \<Rightarrow> stop_env) \<Rightarrow> world \<Rightarrow> ((run_error + nat) \<times> world) option" where
  "StopAllContainers readdir_ok env W =
     (case ListContainers readdir_ok (containers W) of
        None \<Rightarrow> Some (Inl Not_found, W)
      | Some cs \<Rightarrow> map_option (\<lambda>(n, W'). (Inr n, W')) (stop_each env cs 0 W))"

text \<open>\<open>RemoveAllContainers\<close>, with the line that the user answers; \<open>None\<close> is a failed read.\<close>

definition lower_char :: "char \<Rightarrow> char" where
  "lower_char c = (if 65 \<le> (of_char c :: nat) \<and> (of_char c :: nat) \<le> 90 then char_of ((of_char c :: nat) + 32) else c)"

fun remove_each :: "(string \<Rightarrow> remove_env) \<Rightarrow> container_info list \<Rightarrow> nat \<Rightarrow> world \<Rightarrow> nat \<times> world" where
  "remove_each env [] n W = (n, W)"
| "remove_each env (c # cs) n W =
     (case removeContainer (env (ci_id c)) (ci_id c) W of
        (None, W') \<Rightarrow> remove_each env cs (n + 1) W'
      | (Some _, W') \<Rightarrow> remove_each env cs n W')"

definition RemoveAllContainers :: "bool \<Rightarrow> string option \<Rightarrow> (string \<Rightarrow> remove_env) \<Rightarrow> world \<Rightarrow> (run_error + nat) \<times> world" where
  "RemoveAllContainers readdir_ok answer env W =
     (case ListContainers readdir_ok (containers W) of
        None \<Rightarrow> (Inl Not_found, W)
      | Some cs \<Rightarrow>
          if cs = [] then (Inr 0, W)
          else (case answer of
                  None \<Rightarrow> (Inl Config, W)
                | Some a \<Rightarrow>
                    if trim_space (map lower_char a) \<notin> {''y'', ''yes''} then (Inr 0, W)
                    else (let (n, W') = remove_each env cs 0 W in (Inr n, W'))))"

section \<open>Sequences of operations\<close>

text \<open>
  A child exits by itself or by a signal at any time.  A waiter's end is taken only
  when its child is gone.
\<close>

datatype world_op = Run run_env run_request | Daemon_run run_env run_request | Restart run_env string | Child_exit int
  | Wait_end finish_env waiter | Stop stop_env string
  | Adjust bool cg_env write_result string limits | Remove remove_env string

definition wait_end :: "finish_env \<Rightarrow> waiter \<Rightarrow> world \<Rightarrow> world" where
  "wait_end e w W =
     (if w \<in> set (waiters W) \<and> processes W (w_pid w) = None
      then (let W1 = W\<lparr>waiters := remove1 w (waiters W)\<rparr>
            in case w_caller w of
                 By_run \<Rightarrow> run_finish e w W1
               | By_daemon \<Rightarrow> daemon_finish e w W1
               | By_start \<Rightarrow> start_finish e w W1)
      else W)"

fun world_step :: "(string \<Rightarrow> ip option) \<Rightarrow> world_op \<Rightarrow> world \<Rightarrow> world option" where
  "world_step parse6 (Run e r) W = map_option snd (RunContainer parse6 e r W)"
| "world_step parse6 (Daemon_run e r) W = Some (snd (CreateAndRun e r W))"
| "world_step parse6 (Restart e i) W = map_option snd (Start parse6 e i W)"
| "world_step parse6 (Child_exit pid) W = Some (kill_child pid W)"
| "world_step parse6 (Wait_end e w) W = Some (wait_end e w W)"
| "world_step parse6 (Stop e i) W = Some (snd (StopContainer e i W))"
| "world_step parse6 (Adjust b e w i l) W = Some (snd (AdjustResourceLimits b e w i l W))"
| "world_step parse6 (Remove e c) W = Some (snd (removeContainer e c W))"

fun world_run :: "(string \<Rightarrow> ip option) \<Rightarrow> world_op list \<Rightarrow> world \<Rightarrow> world option" where
  "world_run parse6 [] W = Some W"
| "world_run parse6 (op # ops) W = Option.bind (world_step parse6 op W) (world_run parse6 ops)"

definition empty_world :: world where
  "empty_world = \<lparr>containers = [], ipam = \<lparr>allocations = Missing, tmp_file = Missing\<rparr>, cgroups = Map.empty,
     processes = Map.empty, waiters = []\<rparr>"

end
