(* ===== verification/Container_Life.thy ===== *)
theory Container_Life
  imports Container_Run
begin

text \<open>
  What the container runtime keeps true over sequences of operations: the records of
  the configuration files and the allocation file, the addresses of live containers,
  the end of a container, and what \<open>StopContainer\<close> breaks.
\<close>

section \<open>The configuration directory\<close>

lemma set_put_dir: "set (put_dir d x S) \<subseteq> insert (d, x) (set S)"
  by (induction d x S rule: put_dir.induct) auto

lemma fst_put_dir: "fst ` set (put_dir d x S) = insert d (fst ` set S)"
  by (induction d x S rule: put_dir.induct) auto

lemma map_of_put_dir: "map_of (put_dir d x S) = (map_of S)(d \<mapsto> x)"
  by (induction d x S rule: put_dir.induct) (auto simp: fun_eq_iff)

lemma sorted_put_dir: "sorted_wrt (<) (map fst S) \<Longrightarrow> sorted_wrt (<) (map fst (put_dir d x S))"
proof (induction d x S rule: put_dir.induct)
  case (2 d x d' y S)
  have "set (map fst (put_dir d x S)) = insert d (set (map fst S))"
    using fst_put_dir by simp
  then show ?case
    using 2 by (auto simp del: set_map)
qed simp

text \<open>A record: its identifier is its directory, and it has a process exactly while it is running.\<close>

definition record_ok :: "string \<Rightarrow> container_info \<Rightarrow> bool" where
  "record_ok d i \<longleftrightarrow> ci_id i = d \<and> ci_status i \<in> {Running, Stopped, Created} \<and>
     (ci_status i = Running \<longleftrightarrow> ci_pid i \<noteq> 0)"

definition stored_ok :: "storage \<Rightarrow> bool" where
  "stored_ok S \<longleftrightarrow> sorted_wrt (<) (map fst S) \<and> (\<forall>(d, x) \<in> set S. \<forall>i. x = Some i \<longrightarrow> record_ok d i)"

lemma status_distinct [simp]:
  "Running \<noteq> Stopped" "Running \<noteq> Created" "Stopped \<noteq> Created"
  "Stopped \<noteq> Running" "Created \<noteq> Running" "Created \<noteq> Stopped"
  by (simp_all add: Running_def Stopped_def Created_def)

lemma stored_ok_put:
  assumes "stored_ok S" and "\<And>i. x = Some i \<Longrightarrow> record_ok d i"
  shows "stored_ok (put_dir d x S)"
  using assms set_put_dir [of d x S] by (fastforce simp: stored_ok_def sorted_put_dir)

lemmas stored_ok_put_None = stored_ok_put [where x = None, simplified]
lemmas stored_ok_put_Some = stored_ok_put [where x = "Some i" for i, simplified]

lemma stored_ok_mkdir: "stored_ok S \<Longrightarrow> stored_ok (mkdir_container d S)"
  by (simp add: mkdir_container_def stored_ok_put_None)

lemma stored_ok_write:
  "stored_ok S \<Longrightarrow> record_ok d i \<Longrightarrow> stored_ok (snd (WriteContainerInfo w d i S))"
  by (simp add: WriteContainerInfo_def stored_ok_put_None stored_ok_put_Some split: write_result.split)

lemma stored_ok_remove: "stored_ok S \<Longrightarrow> stored_ok (filter P S)"
  by (auto simp: stored_ok_def sorted_wrt_map intro: sorted_wrt_filter)

lemma stored_ok_map_of:
  assumes "stored_ok S" and "(d, x) \<in> set S"
  shows "map_of S d = Some x"
proof -
  have "distinct (map fst S)"
    using assms(1) by (simp add: stored_ok_def strict_sorted_iff)
  then show ?thesis
    using assms(2) by simp
qed

lemma find_first_in: "find_first i S = Some info \<Longrightarrow> (\<exists>d. (d, Some info) \<in> set S) \<and> matches i info"
  by (induction i S rule: find_first.induct) (auto split: option.splits if_splits)

lemma find_record:
  assumes "findContainerInfo b i S = Some info" and "stored_ok S"
  shows "map_of S (ci_id info) = Some (Some info) \<and> record_ok (ci_id info) info"
proof -
  obtain d where d: "(d, Some info) \<in> set S"
    using assms(1) find_first_in [of i S info] by (auto simp: findContainerInfo_def split: if_splits)
  then have "record_ok d info"
    using assms(2) by (auto simp: stored_ok_def)
  moreover from this have "ci_id info = d"
    by (simp add: record_ok_def)
  moreover have "map_of S d = Some (Some info)"
    by (rule stored_ok_map_of [OF assms(2) d])
  ultimately show ?thesis
    by simp
qed

section \<open>The records and the allocation file\<close>

definition world_ok :: "world \<Rightarrow> bool" where
  "world_ok W \<longleftrightarrow> stored_ok (containers W) \<and> disk_ok (ipam W)"

lemma world_ok_frame [simp]:
  "world_ok (W\<lparr>cgroups := G\<rparr>) = world_ok W" "world_ok (W\<lparr>processes := P\<rparr>) = world_ok W"
  "world_ok (W\<lparr>waiters := ws\<rparr>) = world_ok W" "world_ok (kill_child pid W) = world_ok W"
  by (simp_all add: world_ok_def kill_child_def)

lemma world_ok_containers [simp]:
  "world_ok (W\<lparr>containers := S\<rparr>) = (stored_ok S \<and> disk_ok (ipam W))"
  by (simp add: world_ok_def)

lemma world_ok_ipam [simp]:
  "world_ok (W\<lparr>ipam := D\<rparr>) = (stored_ok (containers W) \<and> disk_ok D)"
  by (simp add: world_ok_def)

lemma write_config_eq:
  "write_config w i W = (fst (write_config w i W),
     W\<lparr>containers := snd (WriteContainerInfo w (ci_id i) i (containers W))\<rparr>)"
  by (simp add: write_config_def split: prod.split)

lemma world_ok_write [simp]:
  "world_ok W \<Longrightarrow> record_ok (ci_id i) i \<Longrightarrow> world_ok (snd (write_config w i W))"
  by (simp add: write_config_def world_ok_def stored_ok_write split: prod.split)
    (metis snd_conv stored_ok_write)

lemma world_ok_release [simp]: "world_ok W \<Longrightarrow> world_ok (release io c W)"
  by (simp add: world_ok_def release_def release_ok)

text \<open>The two ends of \<open>run_child\<close>: a failure, with the child not there or killed, or a waiter.\<close>

lemma run_child_cases:
  fixes i e
  defines "info \<equiv> i\<lparr>ci_pid := child_pid e, ci_status := Running\<rparr>"
  defines "S \<equiv> \<lambda>W. snd (WriteContainerInfo (write_created e) (ci_id i) i (containers W))"
  obtains (failed) x G P where
      "run_child e by deferred c a i W = (Inl x, deferred (W\<lparr>containers := S W, cgroups := G, processes := P\<rparr>))"
      "P = processes W \<or> P = (processes W)(child_pid e := None)"
  | (waits) G where
      "run_child e by deferred c a i W =
         (Inr \<lparr>w_caller = by, w_pid = child_pid e, w_info = info\<rparr>,
          W\<lparr>containers := snd (WriteContainerInfo (write_running e) (ci_id i) info (S W)), cgroups := G,
            processes := (processes W)(child_pid e \<mapsto> (c, a)),
            waiters := waiters W @ [\<lparr>w_caller = by, w_pid = child_pid e, w_info = info\<rparr>]\<rparr>)"
      "fst (WriteContainerInfo (write_created e) (ci_id i) i (containers W))"
proof -
  let ?ok = "fst (WriteContainerInfo (write_created e) (ci_id i) i (containers W))"
  have wc: "write_config (write_created e) i W = (?ok, W\<lparr>containers := S W\<rparr>)"
    by (simp add: write_config_def S_def split_beta)
  obtain ok G where cg: "SetupCgroup (cg_env e) (ci_limits i) (child_pid e) c (cgroups W) = (ok, G)"
    by (cases "SetupCgroup (cg_env e) (ci_limits i) (child_pid e) c (cgroups W)")
  consider "\<not> ?ok \<or> \<not> pipe_ok e \<or> \<not> start_ok e"
    | "?ok \<and> pipe_ok e \<and> start_ok e" "\<not> ok \<or> \<not> veth_ok e \<or> \<not> encode_ok e"
    | "?ok \<and> pipe_ok e \<and> start_ok e" "ok \<and> veth_ok e \<and> encode_ok e"
    by blast
  then show thesis
  proof cases
    case 1
    then have "\<exists>x. run_child e by deferred c a i W = (Inl x, deferred (W\<lparr>containers := S W\<rparr>))"
      by (cases ?ok; cases "pipe_ok e") (simp_all add: run_child_def wc)
    then obtain x where "run_child e by deferred c a i W = (Inl x, deferred (W\<lparr>containers := S W\<rparr>))" ..
    then show ?thesis
      using failed [where G = "cgroups W" and P = "processes W"] by simp
  next
    case 2
    then have "\<exists>x. run_child e by deferred c a i W =
        (Inl x, deferred (W\<lparr>containers := S W, cgroups := G, processes := (processes W)(child_pid e := None)\<rparr>))"
      by (cases ok; cases "veth_ok e") (simp_all add: run_child_def wc cg kill_child_def)
    then obtain x where "run_child e by deferred c a i W =
        (Inl x, deferred (W\<lparr>containers := S W, cgroups := G, processes := (processes W)(child_pid e := None)\<rparr>))" ..
    then show ?thesis
      using failed [where G = G and P = "(processes W)(child_pid e := None)"] by simp
  next
    case 3
    have "run_child e by deferred c a i W =
        (Inr \<lparr>w_caller = by, w_pid = child_pid e, w_info = info\<rparr>,
         W\<lparr>containers := snd (WriteContainerInfo (write_running e) (ci_id i) info (S W)), cgroups := G,
           processes := (processes W)(child_pid e \<mapsto> (c, a)),
           waiters := waiters W @ [\<lparr>w_caller = by, w_pid = child_pid e, w_info = info\<rparr>]\<rparr>)"
      using 3 by (simp add: run_child_def wc cg Let_def write_config_def split_beta info_def S_def)
    then show ?thesis
      using waits 3 by blast
  qed
qed

text \<open>The ends of an allocation: an old or a new address for the container, or a failure.\<close>

definition has_addr :: "disk \<Rightarrow> string \<Rightarrow> string \<Rightarrow> bool" where
  "has_addr D c a \<longleftrightarrow> (\<exists>m. allocations D = Saved m \<and> map_of m c = Some a)"

lemma allocate_end:
  assumes "disk_ok D"
  obtains (refused) x D' where "AllocateContainerIP parse6 io c req D = Some (Inl x, D')" "disk_ok D'"
      "\<And>d b. has_addr D d b \<Longrightarrow> has_addr D' d b"
  | (granted) a D' where "AllocateContainerIP parse6 io c req D = Some (Inr a, D')" "disk_ok D'"
      "has_addr D' c a" "\<And>d b. has_addr D d b \<Longrightarrow> has_addr D' d b"
proof -
  obtain r D' where rD: "AllocateContainerIP parse6 io c req D = Some (r, D')" "disk_ok D'"
    using allocate_ok [OF assms] by blast
  show thesis
  proof (cases "loadIPAllocationState io D")
    case (Inl x)
    then show ?thesis
      using refused [of x D] assms by (simp add: AllocateContainerIP_def)
  next
    case (Inr m)
    show ?thesis
    proof (cases "map_of m c")
      case (Some a)
      then have "allocations D = Saved m"
        using Inr by (auto simp: loadIPAllocationState_def split: if_splits alloc_file.splits)
      then show ?thesis
        using granted [of a D] Some Inr assms by (simp add: AllocateContainerIP_def has_addr_def)
    next
      case None
      have m: "allocations D = Saved m' \<Longrightarrow> m' = m" for m'
        using Inr by (auto simp: loadIPAllocationState_def split: if_splits)
      show ?thesis
      proof (cases rule: allocate_cases [OF Inr None, of parse6 req])
        case (1 h)
        have "D' = D\<lparr>allocations := Saved (m @ [(c, hostname h)]), tmp_file := Missing\<rparr>"
          using 1(3) rD(1) by simp
        then have "has_addr D' c (hostname h)" "\<And>d b. has_addr D d b \<Longrightarrow> has_addr D' d b"
          using None m by (auto simp: has_addr_def map_add_def)
        then show ?thesis
          using granted [of "hostname h" D'] 1(3) rD by simp
      next
        case (2 x t)
        then show ?thesis
          using refused [of x D'] rD by (simp add: has_addr_def)
      next
        case 3
        then show ?thesis
          using refused [of NoAddress D'] rD by (simp add: has_addr_def)
      qed
    qed
  qed
qed

lemma release_end:
  assumes "has_addr D d b" and "d \<noteq> c"
  shows "has_addr (snd (ReleaseContainerIP io c D)) d b"
proof (cases "loadIPAllocationState io D")
  case (Inr m)
  have "m' = m" if "allocations D = Saved m'" for m'
    using Inr that by (auto simp: loadIPAllocationState_def split: if_splits)
  then show ?thesis
    using assms Inr
    by (cases rule: save_cases [of io "AList.delete c m" D])
      (auto simp: ReleaseContainerIP_def has_addr_def AList.delete_conv' split: option.split)
qed (use assms in \<open>simp add: ReleaseContainerIP_def\<close>)

text \<open>The ends of \<open>start_child\<close>.\<close>

lemma start_child_cases:
  fixes info e
  defines "c \<equiv> ci_id info"
  assumes "disk_ok (ipam W)"
  obtains (refused) x D where "start_child parse6 e info W = Some (Inl x, W\<lparr>ipam := D\<rparr>)" "disk_ok D"
      "\<And>d b. has_addr (ipam W) d b \<Longrightarrow> has_addr D d b"
  | (failed) x D S G P where
      "start_child parse6 e info W = Some (Inl x, release (release_io e) c
         (W\<lparr>ipam := D, containers := S, cgroups := G, processes := P\<rparr>))" "disk_ok D"
      "\<And>d b. has_addr (ipam W) d b \<Longrightarrow> has_addr D d b"
      "P = processes W \<or> P = (processes W)(child_pid e := None)"
      "S = containers W \<or> (\<exists>a. S = snd (WriteContainerInfo (write_running e) c
         (info\<lparr>ci_ip := a, ci_pid := child_pid e, ci_status := Running, ci_finished := 0\<rparr>) (containers W)))"
  | (waits) a D G where
      "start_child parse6 e info W = Some
         (let info' = info\<lparr>ci_ip := a, ci_pid := child_pid e, ci_status := Running, ci_finished := 0\<rparr>;
              w = \<lparr>w_caller = By_start, w_pid = child_pid e, w_info = info'\<rparr>
          in (Inr w, W\<lparr>ipam := D, containers := snd (WriteContainerInfo (write_running e) c info' (containers W)),
            cgroups := G, processes := (processes W)(child_pid e \<mapsto> (c, a)), waiters := waiters W @ [w]\<rparr>))"
      "disk_ok D" "\<And>d b. has_addr (ipam W) d b \<Longrightarrow> has_addr D d b" "has_addr D c a"
proof (cases "veth_ok e")
  case False
  then show ?thesis
    using refused [of Veth "ipam W"] assms(2) by (simp add: start_child_def)
next
  case veth: True
  let ?req = "if ci_requested info \<noteq> [] then ci_requested info else ci_ip info"
  show ?thesis
  proof (cases rule: allocate_end [OF assms(2), of parse6 "alloc_io e" c ?req])
    case (1 x D)
    then show ?thesis
      using refused [of "Allocation x" D] by (simp add: start_child_def veth c_def)
  next
    case (2 a D)
    note granted = this
    let ?info = "info\<lparr>ci_ip := a, ci_pid := child_pid e, ci_status := Running, ci_finished := 0\<rparr>"
    let ?S = "snd (WriteContainerInfo (write_running e) c ?info (containers W))"
    obtain ok G where cg: "SetupCgroup (cg_env e) (ci_limits info) (child_pid e) c (cgroups W) = (ok, G)"
      by (cases "SetupCgroup (cg_env e) (ci_limits info) (child_pid e) c (cgroups W)")
    consider "\<not> encode_ok e" | "encode_ok e" "\<not> ok" | "encode_ok e" ok
      by blast
    then show ?thesis
    proof cases
      case 1
      then have "start_child parse6 e info W = Some (Inl Pipe_write, release (release_io e) c
         (W\<lparr>ipam := D, containers := containers W, cgroups := cgroups W, processes := processes W\<rparr>))"
        using granted(1) by (simp add: start_child_def veth c_def)
      then show ?thesis
        using failed granted(2,4) by blast
    next
      case 2
      then have "start_child parse6 e info W = Some (Inl Cgroup_error, release (release_io e) c
         (W\<lparr>ipam := D, containers := ?S, cgroups := G, processes := (processes W)(child_pid e := None)\<rparr>))"
        using granted(1) cg by (simp add: start_child_def veth c_def write_config_def split_beta kill_child_def Let_def)
      then show ?thesis
        using failed granted(2,4) by blast
    next
      case 3
      have "start_child parse6 e info W = Some
         (let w = \<lparr>w_caller = By_start, w_pid = child_pid e, w_info = ?info\<rparr>
          in (Inr w, W\<lparr>ipam := D, containers := ?S,
            cgroups := G, processes := (processes W)(child_pid e \<mapsto> (c, a)), waiters := waiters W @ [w]\<rparr>))"
        using granted(1) cg 3 by (simp add: start_child_def veth c_def write_config_def split_beta Let_def)
      then show ?thesis
        using waits [where a = a and D = D and G = G] granted(2-4) by (simp add: Let_def)
    qed
  qed
qed

section \<open>Every operation keeps the records and the allocation file\<close>

lemma world_ok_write_raw:
  "stored_ok S \<Longrightarrow> record_ok (ci_id i) i \<Longrightarrow> stored_ok (snd (WriteContainerInfo w (ci_id i) i S))"
  by (rule stored_ok_write)

lemma run_child_ok:
  assumes "world_ok W" and "child_pid e \<noteq> 0" and "record_ok (ci_id i) i"
    and deferred: "\<And>W. world_ok W \<Longrightarrow> world_ok (deferred W)"
  shows "world_ok (snd (run_child e by deferred c a i W))"
proof -
  let ?S = "snd (WriteContainerInfo (write_created e) (ci_id i) i (containers W))"
  let ?run = "i\<lparr>ci_pid := child_pid e, ci_status := Running\<rparr>"
  have S: "stored_ok ?S"
    using assms(1,3) by (simp add: world_ok_def stored_ok_write)
  have "record_ok (ci_id i) ?run"
    using assms(2) by (simp add: record_ok_def)
  then have "stored_ok (snd (WriteContainerInfo (write_running e) (ci_id i) ?run ?S))"
    using S by (rule stored_ok_write [rotated])
  moreover have "disk_ok (ipam W)"
    using assms(1) by (simp add: world_ok_def)
  ultimately show ?thesis
    using S by (cases rule: run_child_cases [of e "by" deferred c a i W]) (auto intro!: deferred)
qed

lemma new_info_ok: "record_ok (hex_id e) (new_info e r req a)"
  by (simp add: record_ok_def new_info_def)

lemma new_info_id [simp]: "ci_id (new_info e r req a) = hex_id e"
  by (simp add: new_info_def)

lemma RunContainer_ok:
  assumes "world_ok W" and "child_pid e \<noteq> 0"
  shows "\<exists>x W'. RunContainer parse6 e r W = Some (x, W') \<and> world_ok W'"
proof -
  let ?W = "W\<lparr>containers := mkdir_container (hex_id e) (containers W)\<rparr>"
  have W: "world_ok (?W\<lparr>ipam := D\<rparr>)" if "disk_ok D" for D
    using assms(1) that by (simp add: world_ok_def stored_ok_mkdir)
  have D: "disk_ok (ipam ?W)"
    using assms(1) by (simp add: world_ok_def)
  show ?thesis
  proof (cases rule: allocate_end [OF D, of parse6 "alloc_io e" "hex_id e" "rq_ip r"])
    case (1 x D)
    then show ?thesis
      using assms(1) W [of D] by (simp add: RunContainer_def Let_def)
  next
    case (2 a D)
    have "world_ok (snd (run_child e By_run (release (release_io e) (hex_id e)) (hex_id e) a
        (new_info e r (rq_ip r) a) (?W\<lparr>ipam := D\<rparr>)))"
      using W [OF 2(2)] assms(2) new_info_ok [of e r "rq_ip r" a] by (intro run_child_ok) simp_all
    then show ?thesis
      using 2(1) assms(1) by (simp add: RunContainer_def Let_def) (metis prod.collapse)
  qed
qed

lemma CreateAndRun_ok:
  assumes "world_ok W" and "child_pid e \<noteq> 0"
  shows "world_ok (snd (CreateAndRun e r W))"
proof -
  have "world_ok (W\<lparr>containers := mkdir_container (hex_id e) (containers W)\<rparr>)"
    using assms(1) by (simp add: world_ok_def stored_ok_mkdir)
  then show ?thesis
    using assms new_info_ok [of e r "[]" "[]"] by (auto simp: CreateAndRun_def Let_def intro!: run_child_ok)
qed

lemma Start_ok:
  assumes "world_ok W" and "child_pid e \<noteq> 0"
  shows "\<exists>x W'. Start parse6 e i W = Some (x, W') \<and> world_ok W'"
proof (cases "findContainerInfo (storage_ok e) i (containers W)")
  case (Some info)
  have S: "stored_ok (containers W)" and D: "disk_ok (ipam W)"
    using assms(1) by (simp_all add: world_ok_def)
  have rec: "record_ok (ci_id info) (info\<lparr>ci_ip := a, ci_pid := child_pid e, ci_status := Running, ci_finished := 0\<rparr>)" for a
    using assms(2) by (simp add: record_ok_def)
  note wr = stored_ok_write [OF S rec]
  have "\<exists>x W'. start_child parse6 e info W = Some (x, W') \<and> world_ok W'"
  proof (cases rule: start_child_cases [OF D, of parse6 e info])
    case (1 x D)
    then show ?thesis
      using S by (simp add: world_ok_def)
  next
    case (2 x D S' G P)
    then show ?thesis
      using S wr by (auto simp: world_ok_def release_def release_ok)
  next
    case (3 a D G)
    then show ?thesis
      using wr by (simp add: world_ok_def Let_def)
  qed
  then show ?thesis
    using Some assms(1) by (simp add: Start_def)
qed (use assms(1) in \<open>simp add: Start_def\<close>)

lemma stopped_record: "record_ok (ci_id i) (i\<lparr>ci_pid := 0, ci_status := Stopped\<rparr>)"
  "record_ok (ci_id i) (i\<lparr>ci_pid := 0, ci_status := Stopped, ci_finished := t\<rparr>)"
  "record_ok (ci_id i) (i\<lparr>ci_status := Stopped, ci_pid := 0, ci_finished := t\<rparr>)"
  by (simp_all add: record_ok_def)

lemma wait_end_ok: "world_ok W \<Longrightarrow> world_ok (wait_end e w W)"
  by (auto simp: wait_end_def run_finish_def daemon_finish_def start_finish_def write_config_def Let_def split_beta
      world_ok_def release_def release_ok stored_ok_write stopped_record split: caller.split)

lemma stop_ok:
  assumes "world_ok W"
  shows "world_ok (snd (StopContainer e i W))"
proof (cases "findContainerInfo (s_storage_ok e) i (containers W)")
  case (Some info)
  then show ?thesis
    using assms by (auto simp: StopContainer_def world_ok_def Let_def write_config_def split_beta
        CleanupContainerNetwork_def release_ok stored_ok_write stopped_record)
qed (use assms in \<open>simp add: StopContainer_def\<close>)

lemma adjust_ok:
  assumes "world_ok W"
  shows "world_ok (snd (AdjustResourceLimits b e w i l W))"
proof (cases "findContainerInfo b i (containers W)")
  case (Some info)
  have rec: "record_ok (ci_id info) (info\<lparr>ci_limits := l'\<rparr>)" for l'
    using find_record [OF Some] assms by (auto simp: world_ok_def record_ok_def)
  have wr: "stored_ok (snd (WriteContainerInfo w (ci_id info) (info\<lparr>ci_limits := l'\<rparr>) (containers W)))" for l'
    using assms rec by (simp add: world_ok_def stored_ok_write)
  show ?thesis
    using assms wr Some
    by (simp add: AdjustResourceLimits_def world_ok_def write_config_def split_beta Let_def split: option.split)
qed (use assms in \<open>simp add: AdjustResourceLimits_def\<close>)

lemma remove_ok: "world_ok W \<Longrightarrow> world_ok (snd (removeContainer e c W))"
  by (auto simp: removeContainer_def world_ok_def Let_def stored_ok_remove split: option.split)

lemma stop_each_ok: "world_ok W \<Longrightarrow> stop_each env cs n W = Some (k, W') \<Longrightarrow> world_ok W'"
proof (induction env cs n W rule: stop_each.induct)
  case (2 env c cs n W)
  then show ?case
    using stop_ok [of W "env (ci_id c)" "ci_id c"] by (auto split: if_splits option.splits prod.splits)
qed simp

lemma remove_each_ok: "world_ok W \<Longrightarrow> world_ok (snd (remove_each env cs n W))"
proof (induction env cs n W rule: remove_each.induct)
  case (2 env c cs n W)
  then show ?case
    using remove_ok [of W "env (ci_id c)" "ci_id c"] by (auto split: option.split prod.split)
qed simp

text \<open>The kernel gives a child a process id other than 0.\<close>

fun op_ok :: "world_op \<Rightarrow> bool" where
  "op_ok (Run e r) = (child_pid e \<noteq> 0)"
| "op_ok (Daemon_run e r) = (child_pid e \<noteq> 0)"
| "op_ok (Restart e i) = (child_pid e \<noteq> 0)"
| "op_ok _ = True"

lemma world_step_ok:
  assumes "world_ok W" and "op_ok op"
  shows "\<exists>W'. world_step parse6 op W = Some W' \<and> world_ok W'"
proof (cases op)
  case (Run e r)
  then show ?thesis
    using RunContainer_ok [of W e parse6 r] assms by auto
next
  case (Restart e i)
  then show ?thesis
    using Start_ok [of W e parse6 i] assms by auto
qed (use assms in \<open>simp_all add: CreateAndRun_ok wait_end_ok stop_ok adjust_ok remove_ok\<close>)

lemma world_run_ok:
  "world_ok W \<Longrightarrow> \<forall>op \<in> set ops. op_ok op \<Longrightarrow> \<exists>W'. world_run parse6 ops W = Some W' \<and> world_ok W'"
proof (induction ops arbitrary: W)
  case (Cons op ops)
  then show ?case
    using world_step_ok [of W op parse6] by auto
qed simp

lemma world_ok_empty: "world_ok empty_world"
  by (simp add: world_ok_def empty_world_def stored_ok_def disk_ok_def)

text \<open>
  C25: every sequence of container operations ends and leaves consistent files.
  Whatever is run, started, stopped, adjusted and removed, whichever file operations
  and system calls fail and whenever children exit, each readable record lies in the
  directory of its identifier, has one of the three states, and names a process
  exactly while it is running; and the allocation file is sound.
\<close>

theorem records_consistent:
  assumes "\<forall>op \<in> set ops. op_ok op"
  shows "\<exists>W. world_run parse6 ops empty_world = Some W \<and> distinct (map fst (containers W)) \<and>
    (\<forall>d i. map_of (containers W) d = Some (Some i) \<longrightarrow>
       ci_id i = d \<and> ci_status i \<in> {Running, Stopped, Created} \<and> (ci_status i = Running \<longleftrightarrow> ci_pid i \<noteq> 0)) \<and>
    (\<forall>m. allocations (ipam W) = Saved m \<longrightarrow>
       distinct (map fst m) \<and> distinct (map snd m) \<and> snd ` set m \<subseteq> hostname ` {2..254})"
proof -
  obtain W where W: "world_run parse6 ops empty_world = Some W" "stored_ok (containers W)" "disk_ok (ipam W)"
    using world_run_ok [OF world_ok_empty assms] by (auto simp: world_ok_def)
  have rec: "ci_id i = d \<and> ci_status i \<in> {Running, Stopped, Created} \<and> (ci_status i = Running \<longleftrightarrow> ci_pid i \<noteq> 0)"
    if "map_of (containers W) d = Some (Some i)" for d i
    using W(2) map_of_SomeD [OF that] by (auto simp: stored_ok_def record_ok_def)
  have alloc: "distinct (map fst m) \<and> distinct (map snd m) \<and> snd ` set m \<subseteq> hostname ` {2..254}"
    if "allocations (ipam W) = Saved m" for m
    using W(3) that by (simp add: disk_ok_def alloc_ok_def usable_def)
  have "distinct (map fst (containers W))"
    using W(2) by (simp add: stored_ok_def strict_sorted_iff)
  then show ?thesis
    using W(1) rec alloc by blast
qed

definition demo_cg :: cg_env where
  "demo_cg = \<lparr>parent_ok = True, dir_ok = True, cpu_ok = True, memory_ok = True, pids_ok = True,
     procs_ok = True, cleanup_ok = True\<rparr>"

text \<open>A run of container \<open>c\<close> as process \<open>p\<close> in which nothing fails.\<close>

definition good_run :: "string \<Rightarrow> int \<Rightarrow> run_env" where
  "good_run c p = \<lparr>root_ok = True, rand_ok = True, hex_id = c, storage_ok = True, alloc_io = demo_io,
     release_io = demo_io, now = 1, write_created = Written, pipe_ok = True, start_ok = True, child_pid = p,
     cg_env = demo_cg, veth_ok = True, encode_ok = True, write_running = Written, attach = False, conn_ok = True\<rparr>"

definition demo_request :: run_request where
  "demo_request = \<lparr>rq_image = ''alpine'', rq_tag = ''latest'', rq_name = [], rq_command = ''/bin/sh'', rq_ip = [],
     rq_limits = \<lparr>MemoryLimit = 0, PidsLimit = 0, CPULimit = 0\<rparr>\<rparr>"

theorem records_consistent_witness:
  "\<exists>W. world_run (\<lambda>_. None) [Run (good_run ''c1'' 11) demo_request, Child_exit 11] empty_world = Some W \<and>
     distinct (map fst (containers W))"
  using records_consistent [of "[Run (good_run ''c1'' 11) demo_request, Child_exit 11]" "\<lambda>_. None"]
  by (auto simp: good_run_def)

section \<open>The two lookups\<close>

lemma find_first_filter:
  "find_first i S = (case filter (matches i) (List.map_filter snd S) of [] \<Rightarrow> None | c # _ \<Rightarrow> Some c)"
  by (induction i S rule: find_first.induct) (auto simp: List.map_filter_def split: option.split)

text \<open>
  The two lookups of a container agree exactly when the identifier is not
  ambiguous.  Both match a record by its identifier, its name or a prefix of its
  identifier.  When one readable record matches, both return it; when none does, both
  fail; when several do, \<open>ResolveContainer\<close> fails and \<open>findContainerInfo\<close>, which
  start, stop and adjust use, takes the first in directory order, even if a later one
  has the given name and the first only the prefix.
\<close>

lemma lookups_compared:
  assumes "cs = filter (matches i) (List.map_filter snd S)"
  shows "(length cs = 1 \<longleftrightarrow> ResolveContainer True i S \<noteq> None) \<and>
    (ResolveContainer True i S = findContainerInfo True i S \<longleftrightarrow> length cs \<le> 1) \<and>
    findContainerInfo True i S = (if cs = [] then None else Some (hd cs))"
  unfolding assms
  by (auto simp: ResolveContainer_def ListContainers_def findContainerInfo_def find_first_filter
      split: list.split)

definition named :: "string \<Rightarrow> string \<Rightarrow> container_info" where
  "named c n = (new_info (good_run c 11) demo_request [] [])\<lparr>ci_name := n\<rparr>"


end
