(* ===== verification/Container_Addresses.thy ===== *)
theory Container_Addresses
  imports Container_Life
begin

text \<open>
  Addresses of live containers.  Without \<open>StopContainer\<close> no two live children share an
  address, and every container can be brought to its end, where its address is free;
  \<open>StopContainer\<close> does not wait for the child and breaks the first.
\<close>

section \<open>The invariant of worlds without a stop\<close>

text \<open>The record of a container that is not to be started or removed.\<close>

definition guarded :: "storage \<Rightarrow> string \<Rightarrow> bool" where
  "guarded S c \<longleftrightarrow> (case map_of S c of
      None \<Rightarrow> False
    | Some None \<Rightarrow> True
    | Some (Some i) \<Rightarrow> ci_status i = Running)"

abbreviation waiter_id :: "waiter \<Rightarrow> string" where
  "waiter_id w \<equiv> ci_id (w_info w)"

definition live_ok :: "world \<Rightarrow> bool" where
  "live_ok W \<longleftrightarrow> world_ok W \<and> distinct (map w_pid (waiters W)) \<and> distinct (map waiter_id (waiters W)) \<and>
     (\<forall>w \<in> set (waiters W). guarded (containers W) (waiter_id w)) \<and>
     (\<forall>p c a. processes W p = Some (c, a) \<longrightarrow>
        (\<exists>w \<in> set (waiters W). w_pid w = p \<and> waiter_id w = c) \<and> (a \<noteq> [] \<longrightarrow> has_addr (ipam W) c a))"

text \<open>An operation that adds no waiter.\<close>

lemma live_ok_same:
  assumes "live_ok W" and "world_ok W'" and "waiters W' = waiters W"
    and "\<And>p v. processes W' p = Some v \<Longrightarrow> processes W p = Some v"
    and "\<And>c. c \<in> waiter_id ` set (waiters W) \<Longrightarrow> guarded (containers W) c \<Longrightarrow> guarded (containers W') c"
    and "\<And>c a. c \<in> waiter_id ` set (waiters W) \<Longrightarrow> has_addr (ipam W) c a \<Longrightarrow> has_addr (ipam W') c a"
  shows "live_ok W'"
proof -
  note W = assms(1) [unfolded live_ok_def]
  have "(\<exists>w \<in> set (waiters W). w_pid w = p \<and> waiter_id w = c) \<and> (a \<noteq> [] \<longrightarrow> has_addr (ipam W') c a)"
    if p: "processes W' p = Some (c, a)" for p c a
  proof -
    obtain w where "w \<in> set (waiters W)" "w_pid w = p" "waiter_id w = c" "a \<noteq> [] \<longrightarrow> has_addr (ipam W) c a"
      using W assms(4) [OF p] by blast
    then show ?thesis
      using assms(6) [of c a] by auto
  qed
  moreover have "\<forall>w \<in> set (waiters W). guarded (containers W') (waiter_id w)"
    using W assms(5) by simp
  ultimately show ?thesis
    unfolding live_ok_def using W assms(2,3) by simp
qed

text \<open>An operation that adds one.\<close>

lemma live_ok_add:
  assumes "live_ok W" and "world_ok W'" and "waiters W' = waiters W @ [w]"
    and "w_pid w \<notin> w_pid ` set (waiters W)" and "waiter_id w \<notin> waiter_id ` set (waiters W)"
    and "processes W' = (processes W)(w_pid w \<mapsto> (waiter_id w, a))"
    and "\<And>c. c \<in> waiter_id ` set (waiters W) \<Longrightarrow> guarded (containers W) c \<Longrightarrow> guarded (containers W') c"
    and "guarded (containers W') (waiter_id w)"
    and "\<And>c b. c \<in> waiter_id ` set (waiters W) \<Longrightarrow> has_addr (ipam W) c b \<Longrightarrow> has_addr (ipam W') c b"
    and "a \<noteq> [] \<Longrightarrow> has_addr (ipam W') (waiter_id w) a"
  shows "live_ok W'"
proof -
  note W = assms(1) [unfolded live_ok_def]
  have "(\<exists>v \<in> set (waiters W'). w_pid v = p \<and> waiter_id v = c) \<and> (b \<noteq> [] \<longrightarrow> has_addr (ipam W') c b)"
    if "processes W' p = Some (c, b)" for p c b
  proof (cases "p = w_pid w")
    case True
    then show ?thesis
      using that assms(3,6,10) by auto
  next
    case False
    then have "processes W p = Some (c, b)"
      using that assms(6) by simp
    then obtain v where "v \<in> set (waiters W)" "w_pid v = p" "waiter_id v = c" "b \<noteq> [] \<longrightarrow> has_addr (ipam W) c b"
      using W by blast
    then show ?thesis
      using assms(3,9) by auto
  qed
  moreover have "\<forall>v \<in> set (waiters W'). guarded (containers W') (waiter_id v)"
    using W assms(3,7,8) by auto
  ultimately show ?thesis
    unfolding live_ok_def using W assms(2-5) by simp
qed

text \<open>Guarded records under the file operations.\<close>

lemma guarded_dom: "guarded S c \<Longrightarrow> c \<in> fst ` set S"
  by (auto simp: guarded_def split: option.splits dest: map_of_SomeD intro: rev_image_eqI)

lemma guarded_mkdir: "guarded S c \<Longrightarrow> guarded (mkdir_container d S) c"
  using guarded_dom [of S c] by (auto simp: mkdir_container_def guarded_def map_of_put_dir)

lemma guarded_other: "c \<noteq> d \<Longrightarrow> guarded (snd (WriteContainerInfo w d i S)) c = guarded S c"
  by (auto simp: WriteContainerInfo_def guarded_def map_of_put_dir split: write_result.split)

lemma guarded_running:
  "ci_status i = Running \<Longrightarrow> guarded S c \<Longrightarrow> guarded (snd (WriteContainerInfo w d i S)) c"
  by (auto simp: WriteContainerInfo_def guarded_def map_of_put_dir split: write_result.split)

lemma guarded_written:
  "ci_status i = Running \<Longrightarrow> w \<noteq> No_create \<Longrightarrow> d \<in> fst ` set S \<Longrightarrow> guarded (snd (WriteContainerInfo w d i S)) d"
  by (auto simp: WriteContainerInfo_def guarded_def map_of_put_dir split: write_result.split)

lemma write_dom: "d \<in> fst ` set S \<Longrightarrow> d \<in> fst ` set (snd (WriteContainerInfo w e i S))"
  by (auto simp: WriteContainerInfo_def fst_put_dir split: write_result.split)

lemma written_dom: "fst (WriteContainerInfo w d i S) \<Longrightarrow> d \<in> fst ` set S"
  by (auto simp: WriteContainerInfo_def split: if_splits)

section \<open>Each operation keeps it\<close>

text \<open>A child that the kernel can start now, and whose running state is recorded.\<close>

definition child_fresh :: "run_env \<Rightarrow> world \<Rightarrow> bool" where
  "child_fresh e W \<longleftrightarrow> child_pid e \<noteq> 0 \<and> child_pid e \<notin> w_pid ` set (waiters W) \<and> write_running e \<noteq> No_create"

lemma live_ok_worldD: "live_ok W \<Longrightarrow> world_ok W"
  by (simp add: live_ok_def)

lemma live_ok_waiter_dom: "live_ok W \<Longrightarrow> c \<in> waiter_id ` set (waiters W) \<Longrightarrow> c \<in> fst ` set (containers W)"
  by (auto simp: live_ok_def dest: guarded_dom)

text \<open>Run and the daemon's run, from the first record on.\<close>

lemma live_ok_run_child:
  assumes "live_ok W" and "child_fresh e W" and "hex_id e \<notin> waiter_id ` set (waiters W)"
    and "a \<noteq> [] \<Longrightarrow> has_addr (ipam W) (hex_id e) a"
    and deferred: "\<And>V. live_ok V \<Longrightarrow> waiters V = waiters W \<Longrightarrow> live_ok (deferred V)"
    and deferred_ok: "\<And>V. world_ok V \<Longrightarrow> world_ok (deferred V)"
  shows "live_ok (snd (run_child e by deferred (hex_id e) a (new_info e r req b) W))"
proof -
  let ?i = "new_info e r req b"
  let ?run = "?i\<lparr>ci_pid := child_pid e, ci_status := Running\<rparr>"
  let ?S = "snd (WriteContainerInfo (write_created e) (hex_id e) ?i (containers W))"
  have pid: "child_pid e \<noteq> 0" "child_pid e \<notin> w_pid ` set (waiters W)" "write_running e \<noteq> No_create"
    using assms(2) by (simp_all add: child_fresh_def)
  have other: "c \<noteq> hex_id e" if "c \<in> waiter_id ` set (waiters W)" for c
    using assms(3) that by blast
  have W: "world_ok W"
    by (rule live_ok_worldD [OF assms(1)])
  have ok: "world_ok (snd (run_child e by deferred (hex_id e) a ?i W))"
    using run_child_ok [OF W pid(1), of ?i deferred] new_info_ok [of e r req b] deferred_ok by simp
  show ?thesis
  proof (cases rule: run_child_cases [of e "by" deferred "hex_id e" a ?i W])
    case (failed x G P)
    let ?V = "W\<lparr>containers := ?S, cgroups := G, processes := P\<rparr>"
    have "live_ok ?V"
    proof (rule live_ok_same [OF assms(1)])
      show "world_ok ?V"
        using W new_info_ok [of e r req b] by (simp add: world_ok_def stored_ok_write)
    qed (use failed(2) other in \<open>auto simp: guarded_other split: if_splits\<close>)
    then show ?thesis
      using failed(1) deferred [of ?V] by simp
  next
    case (waits G)
    have "hex_id e \<in> fst ` set ?S"
      using written_dom [OF waits(2)] by (simp add: write_dom)
    then have "guarded (snd (WriteContainerInfo (write_running e) (hex_id e) ?run ?S)) (hex_id e)"
      using pid(3) by (intro guarded_written) simp_all
    then show ?thesis
      by (intro live_ok_add [OF assms(1) ok, of "\<lparr>w_caller = by, w_pid = child_pid e, w_info = ?run\<rparr>" a])
        (use waits pid other assms(3,4) in \<open>auto simp: guarded_other\<close>)
  qed
qed

lemma live_ok_release:
  assumes "live_ok V" and "c \<notin> waiter_id ` set (waiters V)"
  shows "live_ok (release io c V)"
proof (rule live_ok_same [OF assms(1)])
  show "world_ok (release io c V)"
    using live_ok_worldD [OF assms(1)] by simp
  show "has_addr (ipam (release io c V)) d a"
    if "d \<in> waiter_id ` set (waiters V)" "has_addr (ipam V) d a" for d a
    using release_end [OF that(2), of c] that(1) assms(2) by (auto simp: release_def)
qed (simp_all add: release_def)

lemma live_ok_mkdir_ipam:
  assumes "live_ok W" and "disk_ok D" and "\<And>c b. has_addr (ipam W) c b \<Longrightarrow> has_addr D c b"
  shows "live_ok (W\<lparr>containers := mkdir_container d (containers W), ipam := D\<rparr>)"
  by (rule live_ok_same [OF assms(1)])
    (use live_ok_worldD [OF assms(1)] assms(2,3) in \<open>simp_all add: world_ok_def stored_ok_mkdir guarded_mkdir\<close>)

lemma live_ok_Run:
  assumes "live_ok W" and "child_fresh e W" and "hex_id e \<notin> fst ` set (containers W)"
    and "RunContainer parse6 e r W = Some (x, W')"
  shows "live_ok W'"
proof -
  let ?W = "W\<lparr>containers := mkdir_container (hex_id e) (containers W)\<rparr>"
  have D: "disk_ok (ipam W)"
    using live_ok_worldD [OF assms(1)] by (simp add: world_ok_def)
  have fresh: "hex_id e \<notin> waiter_id ` set (waiters W)"
    using live_ok_waiter_dom [OF assms(1)] assms(3) by blast
  show ?thesis
  proof (cases "root_ok e \<and> rand_ok e \<and> storage_ok e")
    case False
    then show ?thesis
      using assms(1,4) by (cases "root_ok e"; cases "rand_ok e") (auto simp: RunContainer_def)
  next
    case True
    show ?thesis
    proof (cases rule: allocate_end [OF D, of parse6 "alloc_io e" "hex_id e" "rq_ip r"])
      case (1 y D')
      then show ?thesis
        using assms(4) True live_ok_mkdir_ipam [OF assms(1) 1(2,3)] by (auto simp: RunContainer_def Let_def)
    next
      case (2 a D')
      let ?V = "W\<lparr>containers := mkdir_container (hex_id e) (containers W), ipam := D'\<rparr>"
      have "live_ok (snd (run_child e By_run (release (release_io e) (hex_id e)) (hex_id e) a
          (new_info e r (rq_ip r) a) ?V))"
        by (rule live_ok_run_child [OF live_ok_mkdir_ipam [OF assms(1) 2(2,4)]])
          (use assms(2) fresh 2(3) in \<open>auto simp: child_fresh_def intro: live_ok_release\<close>)
      then show ?thesis
        using assms(4) True 2(1) by (simp add: RunContainer_def Let_def)
    qed
  qed
qed

lemma live_ok_Daemon_run:
  assumes "live_ok W" and "child_fresh e W" and "hex_id e \<notin> fst ` set (containers W)"
  shows "live_ok (snd (CreateAndRun e r W))"
proof -
  let ?V = "W\<lparr>containers := mkdir_container (hex_id e) (containers W)\<rparr>"
  have "live_ok ?V"
    using live_ok_mkdir_ipam [OF assms(1), of "ipam W" "hex_id e"] live_ok_worldD [OF assms(1)]
    by (simp add: world_ok_def)
  moreover have "hex_id e \<notin> waiter_id ` set (waiters W)"
    using live_ok_waiter_dom [OF assms(1)] assms(3) by blast
  ultimately have "live_ok (snd (run_child e By_daemon (\<lambda>W. W) (hex_id e) [] (new_info e r [] []) ?V))"
    using assms(2) by (intro live_ok_run_child) (auto simp: child_fresh_def)
  then show ?thesis
    using assms(1) by (simp add: CreateAndRun_def Let_def)
qed

lemma not_guarded_fresh:
  assumes "live_ok W" and "map_of (containers W) c = Some (Some i)" and "ci_status i \<noteq> Running"
  shows "c \<notin> waiter_id ` set (waiters W)"
proof -
  have "\<not> guarded (containers W) c"
    using assms(2,3) by (simp add: guarded_def)
  then show ?thesis
    using assms(1) by (auto simp: live_ok_def)
qed

lemma live_ok_Start:
  assumes "live_ok W" and "child_fresh e W" and "Start parse6 e i W = Some (x, W')"
  shows "live_ok W'"
proof (cases "\<exists>info. findContainerInfo (storage_ok e) i (containers W) = Some info \<and> ci_status info \<noteq> Running \<and>
    Start parse6 e i W = start_child parse6 e info W")
  case False
  then show ?thesis
    using assms(1,3) by (auto simp: Start_def split: option.splits if_splits)
next
  case True
  then obtain info where info: "findContainerInfo (storage_ok e) i (containers W) = Some info"
      "ci_status info \<noteq> Running" "start_child parse6 e info W = Some (x, W')"
    using assms(3) by auto
  have W: "stored_ok (containers W)" "disk_ok (ipam W)"
    using live_ok_worldD [OF assms(1)] by (simp_all add: world_ok_def)
  let ?c = "ci_id info"
  note rec = find_record [OF info(1) W(1)]
  have fresh: "?c \<notin> waiter_id ` set (waiters W)"
    using not_guarded_fresh [OF assms(1)] rec info(2) by blast
  have pid: "child_pid e \<noteq> 0" "child_pid e \<notin> w_pid ` set (waiters W)" "write_running e \<noteq> No_create"
    using assms(2) by (simp_all add: child_fresh_def)
  have other: "d \<noteq> ?c" if "d \<in> waiter_id ` set (waiters W)" for d
    using fresh that by blast
  have W': "world_ok W'"
    using Start_ok [OF live_ok_worldD [OF assms(1)] pid(1), of parse6 i] assms(3) by auto
  let ?run = "\<lambda>a. info\<lparr>ci_ip := a, ci_pid := child_pid e, ci_status := Running, ci_finished := 0\<rparr>"
  show ?thesis
  proof (cases rule: start_child_cases [OF W(2), of parse6 e info])
    case (1 y D)
    then show ?thesis
      using info(3) W' by (auto intro!: live_ok_same [OF assms(1)])
  next
    case (2 y D S G P)
    let ?V = "W\<lparr>ipam := D, containers := S, cgroups := G, processes := P\<rparr>"
    have "stored_ok S"
      using 2(5) W(1) pid(1) by (auto intro!: stored_ok_write simp: record_ok_def)
    moreover have "guarded S d" if "d \<in> waiter_id ` set (waiters W)" "guarded (containers W) d" for d
      using 2(5) that fresh guarded_other [of d ?c] by (metis)
    ultimately have "live_ok ?V"
      using 2(2-4) by (intro live_ok_same [OF assms(1)]) (auto simp: world_ok_def split: if_splits)
    then have "live_ok (release (release_io e) ?c ?V)"
      using fresh by (simp add: live_ok_release)
    then show ?thesis
      using info(3) 2(1) by simp
  next
    case (3 a D G)
    have "?c \<in> fst ` set (containers W)"
      using rec map_of_SomeD [of "containers W" ?c] by force
    then have "guarded (snd (WriteContainerInfo (write_running e) ?c (?run a) (containers W))) ?c"
      using pid(3) by (intro guarded_written) simp_all
    then show ?thesis
      by (intro live_ok_add [OF assms(1) W', of "\<lparr>w_caller = By_start, w_pid = child_pid e, w_info = ?run a\<rparr>" a])
        (use info(3) 3 pid fresh other in \<open>auto simp: Let_def guarded_other\<close>)
  qed
qed

text \<open>The end of a wait: the child is gone, and no other waiter has the container.\<close>

lemma wait_end_eq:
  obtains i where "wait_end e w W = (if w \<in> set (waiters W) \<and> processes W (w_pid w) = None
      then W\<lparr>waiters := remove1 w (waiters W),
        containers := snd (WriteContainerInfo (f_write e) (waiter_id w) i (containers W)),
        cgroups := snd (CleanupCgroup (f_cg e) (waiter_id w) (cgroups W)),
        ipam := if w_caller w = By_daemon then ipam W else snd (ReleaseContainerIP (f_io e) (waiter_id w) (ipam W))\<rparr>
      else W)"
    "ci_id i = waiter_id w" "ci_status i = Stopped" "ci_pid i = 0"
proof (cases "w_caller w")
  case By_run
  show ?thesis
    by (rule that [of "(w_info w)\<lparr>ci_pid := 0, ci_status := Stopped\<rparr>"])
      (simp_all add: wait_end_def run_finish_def write_config_def release_def Let_def split_beta By_run)
next
  case By_daemon
  show ?thesis
    by (rule that [of "(w_info w)\<lparr>ci_pid := 0, ci_status := Stopped, ci_finished := f_now e\<rparr>"]; cases W)
      (simp_all add: wait_end_def daemon_finish_def write_config_def Let_def split_beta By_daemon)
next
  case By_start
  show ?thesis
    by (rule that [of "(w_info w)\<lparr>ci_pid := 0, ci_status := Stopped, ci_finished := f_now e\<rparr>"])
      (simp_all add: wait_end_def start_finish_def write_config_def release_def Let_def split_beta By_start)
qed

text \<open>A process that is running while a waiter ends belongs to another waiter and container.\<close>

lemma live_ok_wait_end:
  assumes "live_ok W"
  shows "live_ok (wait_end e w W)"
proof (cases "w \<in> set (waiters W) \<and> processes W (w_pid w) = None")
  case False
  then show ?thesis
    using assms by (auto simp: wait_end_def)
next
  case True
  obtain i where end_: "wait_end e w W = W\<lparr>waiters := remove1 w (waiters W),
        containers := snd (WriteContainerInfo (f_write e) (waiter_id w) i (containers W)),
        cgroups := snd (CleanupCgroup (f_cg e) (waiter_id w) (cgroups W)),
        ipam := if w_caller w = By_daemon then ipam W else snd (ReleaseContainerIP (f_io e) (waiter_id w) (ipam W))\<rparr>"
    by (cases rule: wait_end_eq [of e w W]) (use True in simp)
  let ?V = "wait_end e w W"
  note W = assms [unfolded live_ok_def]
  have rest: "set (waiters ?V) = set (waiters W) - {w}"
    using W by (simp add: end_ distinct_map)
  have other: "waiter_id v \<noteq> waiter_id w" if "v \<in> set (waiters ?V)" for v
    using W that True by (auto simp: rest distinct_map inj_on_def)
  have addr: "has_addr (ipam ?V) c a" if "has_addr (ipam W) c a" "c \<noteq> waiter_id w" for c a
    using that release_end [OF that] by (simp add: end_)
  have "(\<exists>v \<in> set (waiters ?V). w_pid v = p \<and> waiter_id v = c) \<and> (a \<noteq> [] \<longrightarrow> has_addr (ipam ?V) c a)"
    if p: "processes ?V p = Some (c, a)" for p c a
  proof -
    have pW: "processes W p = Some (c, a)"
      using p by (simp add: end_)
    then obtain v where v: "v \<in> set (waiters W)" "w_pid v = p" "waiter_id v = c" "a \<noteq> [] \<longrightarrow> has_addr (ipam W) c a"
      using W by blast
    then have "v \<in> set (waiters ?V)"
      using pW True by (auto simp: rest)
    then show ?thesis
      using v other addr by blast
  qed
  moreover have "\<forall>v \<in> set (waiters ?V). guarded (containers ?V) (waiter_id v)"
    using W other rest by (auto simp: end_ guarded_other)
  moreover have "distinct (map w_pid (waiters ?V))" "distinct (map waiter_id (waiters ?V))"
    using W by (simp_all add: end_ distinct_map inj_on_def set_remove1_eq)
  moreover have "world_ok ?V"
    using W by (simp add: wait_end_ok)
  ultimately show ?thesis
    unfolding live_ok_def by blast
qed

lemma live_ok_exit: "live_ok W \<Longrightarrow> live_ok (kill_child p W)"
  by (rule live_ok_same) (auto simp: kill_child_def live_ok_worldD split: if_splits)

lemma live_ok_adjust:
  assumes "live_ok W"
  shows "live_ok (snd (AdjustResourceLimits b e w i l W))"
proof (cases "\<exists>info. findContainerInfo b i (containers W) = Some info \<and> ci_status info = Running")
  case False
  then show ?thesis
    using assms by (auto simp: AdjustResourceLimits_def split: option.split)
next
  case True
  then obtain info where info: "findContainerInfo b i (containers W) = Some info" "ci_status info = Running"
    by blast
  let ?W = "snd (AdjustResourceLimits b e w i l W)"
  have "waiters ?W = waiters W \<and> processes ?W = processes W \<and> ipam ?W = ipam W \<and>
      (containers ?W = containers W \<or>
       (\<exists>l'. containers ?W = snd (WriteContainerInfo w (ci_id info) (info\<lparr>ci_limits := l'\<rparr>) (containers W))))"
    using info by (simp add: AdjustResourceLimits_def Let_def write_config_def split_beta split: option.split) blast
  then show ?thesis
    using adjust_ok [OF live_ok_worldD [OF assms], of b e w i l] info(2)
    by (intro live_ok_same [OF assms]) (auto simp: guarded_running)
qed

lemma map_of_remove_dir: "d \<noteq> c \<Longrightarrow> map_of (filter (\<lambda>(d, _). d \<noteq> c) S) d = map_of S d"
  by (induction S) auto

lemma live_ok_remove:
  assumes "live_ok W"
  shows "live_ok (snd (removeContainer e c W))"
proof -
  let ?W = "snd (removeContainer e c W)"
  have "containers ?W = containers W \<or>
      (containers ?W = filter (\<lambda>(d, _). d \<noteq> c) (containers W) \<and> c \<notin> waiter_id ` set (waiters W))"
    using not_guarded_fresh [OF assms, of c]
    by (auto simp: removeContainer_def Let_def split: option.split)
  then have "guarded (containers ?W) d" if "guarded (containers W) d" "d \<in> waiter_id ` set (waiters W)" for d
  proof
    assume "containers ?W = filter (\<lambda>(d, _). d \<noteq> c) (containers W) \<and> c \<notin> waiter_id ` set (waiters W)"
    moreover from this have "d \<noteq> c"
      using that(2) by blast
    ultimately show ?thesis
      using that(1) by (simp add: guarded_def map_of_remove_dir)
  qed (use that(1) in simp)
  moreover have "waiters ?W = waiters W \<and> processes ?W = processes W \<and> ipam ?W = ipam W"
    by (simp add: removeContainer_def Let_def split: option.split)
  ultimately show ?thesis
    using remove_ok [OF live_ok_worldD [OF assms], of e c] by (intro live_ok_same [OF assms]) auto
qed

section \<open>Worlds reached without a stop\<close>

text \<open>
  A new container has a new identifier, a new child an identifier that no waiter's
  child has, and the record that says that a child is running can be created.
\<close>

fun op_fresh :: "world_op \<Rightarrow> world \<Rightarrow> bool" where
  "op_fresh (Run e r) W = (child_fresh e W \<and> hex_id e \<notin> fst ` set (containers W))"
| "op_fresh (Daemon_run e r) W = (child_fresh e W \<and> hex_id e \<notin> fst ` set (containers W))"
| "op_fresh (Restart e i) W = child_fresh e W"
| "op_fresh (Stop e i) W = False"
| "op_fresh _ W = True"

inductive reached :: "(string \<Rightarrow> ip option) \<Rightarrow> world \<Rightarrow> bool" for parse6 where
  reached_start: "reached parse6 empty_world"
| reached_step: "reached parse6 W \<Longrightarrow> op_fresh op W \<Longrightarrow> world_step parse6 op W = Some W' \<Longrightarrow> reached parse6 W'"

lemma live_ok_step:
  assumes "live_ok W" and "op_fresh op W" and "world_step parse6 op W = Some W'"
  shows "live_ok W'"
  using assms
  by (cases op) (auto intro: live_ok_Run live_ok_Daemon_run live_ok_Start live_ok_exit live_ok_wait_end
      live_ok_adjust live_ok_remove)

lemma reached_live_ok: "reached parse6 W \<Longrightarrow> live_ok W"
proof (induction rule: reached.induct)
  case reached_start
  show ?case
    using world_ok_empty by (simp add: live_ok_def empty_world_def)
next
  case (reached_step W op W')
  then show ?case
    using live_ok_step by blast
qed

text \<open>
  C26: without \<open>StopContainer\<close>, two live containers never share an address.  In any
  world that runs, restarts, exits, ends of waits, limit adjustments and removals can
  reach, with any failures but that of creating the running record, two different live
  children have different addresses, unless they have none (the daemon's run).
\<close>

theorem live_addresses_distinct:
  assumes "reached parse6 W" and "processes W p = Some (c, a)" and "processes W q = Some (d, a)" and "a \<noteq> []"
  shows "p = q"
proof -
  have W: "live_ok W"
    by (rule reached_live_ok [OF assms(1)])
  then obtain v w where vw: "v \<in> set (waiters W)" "w_pid v = p" "waiter_id v = c" "has_addr (ipam W) c a"
      "w \<in> set (waiters W)" "w_pid w = q" "waiter_id w = d" "has_addr (ipam W) d a"
    using assms(2-4) unfolding live_ok_def by blast
  then obtain m where m: "allocations (ipam W) = Saved m" "map_of m c = Some a" "map_of m d = Some a"
    by (auto simp: has_addr_def)
  have "distinct (map snd m)"
    using live_ok_worldD [OF W] m(1) by (auto simp: world_ok_def disk_ok_def alloc_ok_def)
  then have "c = d"
    using map_of_SomeD [OF m(2)] map_of_SomeD [OF m(3)] inj_onD [of snd "set m" "(c, a)" "(d, a)"]
    by (simp add: distinct_map)
  then have "v = w"
    using W vw by (auto simp: live_ok_def distinct_map inj_on_def)
  then show ?thesis
    using vw by simp
qed

section \<open>Every container can be brought to its end\<close>

definition good_finish :: finish_env where
  "good_finish = \<lparr>f_write = Written, f_cg = demo_cg, f_io = demo_io, f_now = 3\<rparr>"

text \<open>What the end of a wait leaves: a stopped record, no cgroup and no address.\<close>

definition ended :: "world \<Rightarrow> waiter \<Rightarrow> bool" where
  "ended W w \<longleftrightarrow> (\<exists>i. map_of (containers W) (waiter_id w) = Some (Some i) \<and> ci_status i = Stopped \<and> ci_pid i = 0) \<and>
     cgroups W (waiter_id w) = None \<and> (w_caller w \<noteq> By_daemon \<longrightarrow> (\<forall>a. \<not> has_addr (ipam W) (waiter_id w) a))"

lemma release_good:
  assumes "disk_ok D"
  shows "has_addr (snd (ReleaseContainerIP demo_io c D)) d a \<longleftrightarrow> d \<noteq> c \<and> has_addr D d a"
proof (cases "allocations D")
  case (Saved m)
  have io: "io_ok demo_io"
    by (simp add: io_ok_def demo_io_def)
  then have "loadIPAllocationState demo_io D = Inr m"
    using Saved by (simp add: loadIPAllocationState_def io_ok_def)
  then show ?thesis
    using Saved by (cases "map_of m c") (auto simp: ReleaseContainerIP_def save_io_ok [OF io] has_addr_def AList.delete_conv')
qed (use assms in \<open>auto simp: disk_ok_def has_addr_def ReleaseContainerIP_def loadIPAllocationState_def demo_io_def\<close>)

lemma end_one:
  assumes "live_ok W" and "w \<in> set (waiters W)"
  defines "W' \<equiv> wait_end good_finish w (kill_child (w_pid w) W)"
  shows "waiters W' = remove1 w (waiters W)" and "ended W' w"
    and "waiter_id v \<noteq> waiter_id w \<Longrightarrow> ended W v \<Longrightarrow> ended W' v"
proof -
  obtain i where i: "W' = W\<lparr>processes := (processes W)(w_pid w := None), waiters := remove1 w (waiters W),
        containers := snd (WriteContainerInfo Written (waiter_id w) i (containers W)),
        cgroups := (cgroups W)(waiter_id w := None),
        ipam := if w_caller w = By_daemon then ipam W else snd (ReleaseContainerIP demo_io (waiter_id w) (ipam W))\<rparr>"
      "ci_status i = Stopped" "ci_pid i = 0"
    unfolding W'_def
    by (cases rule: wait_end_eq [of good_finish w "kill_child (w_pid w) W"])
      (use assms(2) in \<open>simp add: kill_child_def good_finish_def CleanupCgroup_def demo_cg_def cong: if_cong\<close>)
  have "waiter_id w \<in> fst ` set (containers W)"
    using assms(1,2) by (auto simp: live_ok_def dest: guarded_dom)
  then have map: "map_of (containers W') = (map_of (containers W))(waiter_id w \<mapsto> Some i)"
    by (simp add: i(1) WriteContainerInfo_def map_of_put_dir)
  have D: "disk_ok (ipam W)"
    using assms(1) by (simp add: live_ok_def world_ok_def)
  show "waiters W' = remove1 w (waiters W)"
    by (simp add: i(1))
  show "ended W' w"
    unfolding ended_def map using i(2,3) D by (simp add: i(1) release_good)
  show "ended W' v" if "waiter_id v \<noteq> waiter_id w" "ended W v"
    using that D unfolding ended_def map by (simp add: i(1) release_good)
qed

lemma all_end:
  assumes "reached parse6 W"
  shows "\<exists>ops W'. world_run parse6 ops W = Some W' \<and> reached parse6 W' \<and> waiters W' = [] \<and>
    (\<forall>w \<in> set (waiters W). ended W' w) \<and>
    (\<forall>v. waiter_id v \<notin> waiter_id ` set (waiters W) \<longrightarrow> ended W v \<longrightarrow> ended W' v)"
  using assms
proof (induction "length (waiters W)" arbitrary: W)
  case 0
  then show ?case
    by (intro exI [of _ "[]"] exI [of _ W]) simp
next
  case (Suc n)
  then obtain w ws where w: "waiters W = w # ws"
    by (cases "waiters W") auto
  note live = reached_live_ok [OF Suc.prems]
  let ?K = "kill_child (w_pid w) W"
  let ?V = "wait_end good_finish w ?K"
  have V: "waiters ?V = ws" "ended ?V w" "\<And>v. waiter_id v \<noteq> waiter_id w \<Longrightarrow> ended W v \<Longrightarrow> ended ?V v"
    using end_one [OF live, of w] w by simp_all
  have "reached parse6 ?K"
    using reached_step [OF Suc.prems, of "Child_exit (w_pid w)"] by simp
  then have "reached parse6 ?V"
    using reached_step [of parse6 ?K "Wait_end good_finish w"] by simp
  then obtain ops W' where W': "world_run parse6 ops ?V = Some W'" "reached parse6 W'" "waiters W' = []"
      "\<forall>u \<in> set ws. ended W' u" "\<forall>v. waiter_id v \<notin> waiter_id ` set ws \<longrightarrow> ended ?V v \<longrightarrow> ended W' v"
    using Suc.hyps(1) [of ?V] Suc.hyps(2) V(1) w by auto
  have "waiter_id w \<notin> waiter_id ` set ws"
    using live w by (simp add: live_ok_def)
  then have "ended W' w"
    using W'(5) V(2) by blast
  moreover have "world_run parse6 (Child_exit (w_pid w) # Wait_end good_finish w # ops) W = Some W'"
    using W'(1) by simp
  ultimately show ?case
    using W'(2-5) V(3) w by (intro exI [of _ "Child_exit (w_pid w) # Wait_end good_finish w # ops"] exI [of _ W']) auto
qed


section \<open>What a stop breaks\<close>

lemma choose_first: "hostname 2 \<notin> snd ` set m \<Longrightarrow> choose_ip parse6 m [] = Some (Inr (hostname 2))"
  by (cases rule: choose_cases [of m parse6 "[]"]) (force simp: usable_def)+

lemma choose_wanted:
  "q \<in> usable \<Longrightarrow> hostname q \<notin> snd ` set m \<Longrightarrow> choose_ip parse6 m (hostname q) = Some (Inr (hostname q))"
  by (cases rule: choose_cases [of m parse6 "hostname q"]) auto

lemma hostname_nonempty [simp]: "hostname q \<noteq> []"
  by (simp add: hostname_def)

definition good_stop :: stop_env where
  "good_stop = \<lparr>s_storage_ok = True, s_kill = Delivered, s_now = 2, s_write = Written, s_io = demo_io\<rparr>"

lemmas eval_run = RunContainer_def run_child_def AllocateContainerIP_def loadIPAllocationState_def saveIPAllocationState_def
  good_run_def demo_request_def demo_io_def demo_cg_def empty_world_def mkdir_container_def new_info_def write_config_def
  WriteContainerInfo_def SetupCgroup_def setResourceLimits_def Let_def

lemmas eval_stop = StopContainer_def findContainerInfo_def matches_def good_stop_def CleanupContainerNetwork_def
  ReleaseContainerIP_def

lemmas eval_start = Start_def start_child_def good_run_def wait_end_def run_finish_def good_finish_def CleanupCgroup_def
  kill_child_def release_def

definition first_waiter :: waiter where
  "first_waiter = \<lparr>w_caller = By_run, w_pid = 11,
     w_info = (new_info (good_run ''c1'' 11) demo_request [] (hostname 2))\<lparr>ci_pid := 11, ci_status := Running\<rparr>\<rparr>"


lemma run_c1:
  "\<exists>W. world_step parse6 (Run (good_run ''c1'' 11) demo_request) empty_world = Some W \<and> reached parse6 W \<and>
     processes W 11 = Some (''c1'', hostname 2) \<and> waiters W = [first_waiter]"
proof -
  have "op_fresh (Run (good_run ''c1'' 11) demo_request) empty_world"
    by (simp add: child_fresh_def good_run_def empty_world_def)
  moreover have "\<exists>W. world_step parse6 (Run (good_run ''c1'' 11) demo_request) empty_world = Some W \<and>
     processes W 11 = Some (''c1'', hostname 2) \<and> waiters W = [first_waiter]"
    by (simp add: eval_run choose_first first_waiter_def)
  ultimately show ?thesis
    using reached_step [OF reached_start] by blast
qed

theorem live_addresses_distinct_witness:
  "\<exists>W :: world. processes W 11 = Some (''c1'', hostname 2) \<and>
     (\<forall>q d. processes W q = Some (d, hostname 2) \<longrightarrow> 11 = q)"
proof -
  obtain W where W: "reached (\<lambda>_. None) W" "processes W 11 = Some (''c1'', hostname 2)"
    using run_c1 by blast
  have "11 = q" if "processes W q = Some (d, hostname 2)" for q d
    using live_addresses_distinct [OF W that hostname_nonempty] .
  then show ?thesis
    using W(2) by (intro exI [of _ W] conjI allI impI)
qed

lemma first_waiter_id: "ci_id (w_info first_waiter) = ''c1''"
  by (simp add: first_waiter_def good_run_def)


end
