(* ===== verification/Collector_Ctl.thy ===== *)
theory Collector_Ctl
  imports Collector
begin

text \<open>
  \<open>gocker-obsv/cmd/ctl/main.go\<close>: one POST to the collector's admin endpoint.  The fields
  of the JSON object that are zero are left out (\<open>omitempty\<close>), which the handler decodes
  as zero again, so the body is the structure itself.
\<close>

record ctl_flags =
  f_sample :: nat
  f_filter :: bool
  f_level :: nat
  f_cgid :: nat

definition default_ctl :: ctl_flags where
  "default_ctl = \<lparr>f_sample = 0, f_filter = True, f_level = 0, f_cgid = 0\<rparr>"

text \<open>\<open>-sample\<close> and \<open>-level\<close> have 64 bits and are cut to 32.\<close>

definition ctl_cfg :: "ctl_flags \<Rightarrow> cfg" where
  "ctl_cfg f = \<lparr>sample_rate = of_nat (f_sample f), enable_filter = (if f_filter f then 1 else 0),
     target_level = of_nat (f_level f), target_cgid = of_nat (f_cgid f)\<rparr>"

definition ctl_request :: "ctl_flags \<Rightarrow> request" where
  "ctl_request f = \<lparr>req_method = ''POST'', req_body = Some (ctl_cfg f)\<rparr>"

text \<open>
  What a call of the command does to the collector's configuration: the rate, level
  and cgroup that are given (and not 0 after being cut) replace the old ones, and the
  filter switch is always written: a call that only names a rate also switches the
  filter on, as the flag's default is true.
\<close>

lemma ctl_effect:
  assumes "admin_config put (ctl_request f) A = (code, A')"
  shows "code = 200 \<and> enable_filter (cfg0 A') = (if f_filter f then 1 else 0) \<and>
    sample_rate (cfg0 A') = (if 2 ^ 32 dvd f_sample f then sample_rate (cfg0 A) else of_nat (f_sample f)) \<and>
    target_level (cfg0 A') = (if 2 ^ 32 dvd f_level f then target_level (cfg0 A) else of_nat (f_level f)) \<and>
    target_cgid (cfg0 A') = (if 2 ^ 64 dvd f_cgid f then target_cgid (cfg0 A) else of_nat (f_cgid f))"
  using admin_config_effect [OF assms]
  by (simp add: ctl_request_def ctl_cfg_def word_of_nat_eq_0_iff)

lemma ctl_rate_sets_filter:
  assumes "0 < n" and "n < 2 ^ 32" and "admin_config put (ctl_request (default_ctl\<lparr>f_sample := n\<rparr>)) A = (code, A')"
  shows "cfg0 A' = (cfg0 A)\<lparr>sample_rate := of_nat n, enable_filter := 1\<rparr>"
proof -
  have "\<not> 2 ^ 32 dvd n"
    using assms(1,2) by (simp add: nat_dvd_not_less)
  then show ?thesis
    using ctl_effect [OF assms(3)] by (simp add: default_ctl_def)
qed

end
