(* ===== verification/Image.thy ===== *)
theory Image
  imports Go_Path Container
begin

text \<open>
  The images: \<open>internal/image/manager.go\<close> (pulling, unpacking, the manifest) and
  \<open>findImageRootfsPath\<close> of \<open>internal/container/rootfs.go\<close>, which looks an image up for a
  container.  Registry access is the crane package; what it returns, and which file
  operations succeed, are arguments.
\<close>

section \<open>The manifest\<close>

definition ImagesDir :: string where
  "ImagesDir = ''/var/lib/gocker/images''"

record image_manifest =
  ImageID :: string
  RepoTag :: string

text \<open>The file \<open>manifest.json\<close> by what reading and decoding it gives.\<close>

datatype manifest_file = No_manifest | Unreadable | Undecodable | Manifest "image_manifest list"

text \<open>\<open>os.WriteFile\<close>: the file cannot be opened, is left incomplete, or is written.\<close>

datatype write_file = Not_opened | Cut_short | All_written

text \<open>The first entry with the tag gets the new image; without one an entry is added.\<close>

fun set_tag :: "string \<Rightarrow> string \<Rightarrow> image_manifest list \<Rightarrow> image_manifest list" where
  "set_tag repoTag imageID [] = [\<lparr>ImageID = imageID, RepoTag = repoTag\<rparr>]"
| "set_tag repoTag imageID (x # xs) =
     (if RepoTag x = repoTag then x\<lparr>ImageID := imageID\<rparr> # xs else x # set_tag repoTag imageID xs)"

definition updateManifest :: "write_file \<Rightarrow> string \<Rightarrow> string \<Rightarrow> manifest_file \<Rightarrow> bool \<times> manifest_file" where
  "updateManifest w repoTag imageID mf =
     (let save = (\<lambda>ms. case w of
            Not_opened \<Rightarrow> (False, mf)
          | Cut_short \<Rightarrow> (False, Undecodable)
          | All_written \<Rightarrow> (True, Manifest (set_tag repoTag imageID ms)))
      in case mf of
           No_manifest \<Rightarrow> save []
         | Unreadable \<Rightarrow> (False, mf)
         | Undecodable \<Rightarrow> (False, mf)
         | Manifest ms \<Rightarrow> save ms)"

definition ListImages :: "manifest_file \<Rightarrow> string list option" where
  "ListImages mf =
     (case mf of
        No_manifest \<Rightarrow> Some []
      | Unreadable \<Rightarrow> None
      | Undecodable \<Rightarrow> None
      | Manifest ms \<Rightarrow> Some (map RepoTag ms))"

fun find_tag :: "string \<Rightarrow> image_manifest list \<Rightarrow> string option" where
  "find_tag searchName [] = None"
| "find_tag searchName (x # xs) =
     (if RepoTag x = searchName then Some (Join [ImagesDir, ImageID x, ''rootfs'']) else find_tag searchName xs)"

definition findImageRootfsPath :: "string \<Rightarrow> string \<Rightarrow> manifest_file \<Rightarrow> string option" where
  "findImageRootfsPath imageName imageTag mf =
     (case mf of Manifest ms \<Rightarrow> find_tag (imageName @ '':'' @ imageTag) ms | _ \<Rightarrow> None)"

text \<open>The other lookup, by a file name that no operation creates.\<close>

fun replace_first :: "char \<Rightarrow> char \<Rightarrow> string \<Rightarrow> string" where
  "replace_first a b [] = []"
| "replace_first a b (c # s) = (if c = a then b # s else c # replace_first a b s)"

definition sanitizeImageName :: "string \<Rightarrow> string" where
  "sanitizeImageName imageName = replace_first CHR '':'' CHR ''_'' imageName"

definition GetImagePath :: "string \<Rightarrow> string" where
  "GetImagePath imageName = Join [ImagesDir, sanitizeImageName imageName @ ''.tar'']"

definition Exists :: "(string \<Rightarrow> bool) \<Rightarrow> string \<Rightarrow> bool" where
  "Exists stat_ok imageName = stat_ok (GetImagePath imageName)"

section \<open>Unpacking\<close>

datatype tar_type = TypeDir | TypeReg | TypeSymlink | Other_type

record tar_header =
  h_name :: string
  h_type :: tar_type
  h_mode :: nat
  h_link :: string

text \<open>What the reader delivers next: a header, or an error.\<close>

datatype tar_item = Header tar_header | Bad_archive

text \<open>The file operations, with the paths they act on.\<close>

datatype fs_op = Make_dir string nat | Write_file string nat | Make_symlink string string

fun op_path :: "fs_op \<Rightarrow> string" where
  "op_path (Make_dir p _) = p"
| "op_path (Write_file p _) = p"
| "op_path (Make_symlink _ p) = p"

text \<open>
  The loop of \<open>Untar\<close>; \<open>writable\<close> says which files can be opened for writing.  The
  result is whether it returned no error and the operations in order.
\<close>

fun untar_loop :: "(string \<Rightarrow> bool) \<Rightarrow> string \<Rightarrow> tar_item list \<Rightarrow> bool \<times> fs_op list" where
  "untar_loop writable destPath [] = (True, [])"
| "untar_loop writable destPath (Bad_archive # is) = (False, [])"
| "untar_loop writable destPath (Header h # is) =
     (let target = Join [destPath, h_name h]; (ok, ops) = untar_loop writable destPath is
      in case h_type h of
           TypeDir \<Rightarrow> (ok, Make_dir target (h_mode h) # ops)
         | TypeReg \<Rightarrow> (if writable target then (ok, Write_file target (h_mode h) # ops) else (False, []))
         | TypeSymlink \<Rightarrow> (ok, Make_symlink (h_link h) target # ops)
         | Other_type \<Rightarrow> (ok, ops))"

text \<open>\<open>Untar\<close>; the archive is \<open>None\<close> when it cannot be opened.\<close>

definition Untar :: "(string \<Rightarrow> bool) \<Rightarrow> tar_item list option \<Rightarrow> string \<Rightarrow> bool \<times> fs_op list" where
  "Untar writable tar destPath =
     (case tar of
        None \<Rightarrow> (False, [Make_dir destPath 493])
      | Some is \<Rightarrow> (let (ok, ops) = untar_loop writable destPath is in (ok, Make_dir destPath 493 # ops)))"

section \<open>Pulling\<close>

text \<open>
  What a pull meets: whether the package returns the image, its digest, which file
  operations succeed, the exported archive, and the writing of the manifest.
\<close>

record pull_env =
  pull_ok :: bool
  digest :: "string option"
  store_ok :: bool
  create_ok :: bool
  export_ok :: bool
  archive :: "tar_item list option"
  can_open :: "string \<Rightarrow> bool"
  manifest_write :: write_file

datatype pull_result = Pull_error | Pull_panic | Pulled

definition trim_prefix :: "string \<Rightarrow> string \<Rightarrow> string" where
  "trim_prefix p s = (if take (length p) s = p then drop (length p) s else s)"

text \<open>The slice \<open>[:12]\<close> of a shorter text panics.\<close>

definition PullImage :: "pull_env \<Rightarrow> string \<Rightarrow> manifest_file \<Rightarrow> pull_result \<times> manifest_file \<times> fs_op list" where
  "PullImage E imageName mf =
     (if \<not> pull_ok E then (Pull_error, mf, [])
      else (case digest E of
              None \<Rightarrow> (Pull_error, mf, [])
            | Some d \<Rightarrow>
                (let hex = trim_prefix ''sha256:'' d
                 in if length hex < 12 then (Pull_panic, mf, [])
                    else (let imageID = take 12 hex;
                              imageStorePath = Join [ImagesDir, imageID];
                              imageTarPath = Join [imageStorePath, ''image.tar'']
                          in if \<not> store_ok E then (Pull_error, mf, [])
                             else if \<not> create_ok E then (Pull_error, mf, [Make_dir imageStorePath 493])
                             else if \<not> export_ok E
                                  then (Pull_error, mf, [Make_dir imageStorePath 493, Write_file imageTarPath 438])
                             else (let rootfsPath = Join [imageStorePath, ''rootfs''];
                                       (ok, ops) = Untar (can_open E) (archive E) rootfsPath;
                                       made = [Make_dir imageStorePath 493, Write_file imageTarPath 438] @ ops
                                   in if \<not> ok then (Pull_error, mf, made)
                                      else (let (ok', mf') = updateManifest (manifest_write E) imageName imageID mf
                                            in (if ok' then Pulled else Pull_error, mf', made)))))))"

section \<open>What the images promise\<close>

lemma find_set_tag_same: "find_tag t (set_tag t i ms) = Some (Join [ImagesDir, i, ''rootfs''])"
  by (induction t i ms rule: set_tag.induct) auto

lemma find_set_tag_other: "t' \<noteq> t \<Longrightarrow> find_tag t' (set_tag t i ms) = find_tag t' ms"
  by (induction t i ms rule: set_tag.induct) auto

lemma set_tag_tags: "set (map RepoTag (set_tag t i ms)) = insert t (set (map RepoTag ms))"
  by (induction t i ms rule: set_tag.induct) auto

lemma set_tag_distinct: "distinct (map RepoTag ms) \<Longrightarrow> distinct (map RepoTag (set_tag t i ms))"
proof (induction t i ms rule: set_tag.induct)
  case (2 t i x xs)
  then show ?case
    using set_tag_tags [of t i xs] by auto
qed simp

lemma updateManifest_done:
  "updateManifest w t i mf = (True, mf') \<Longrightarrow>
    (\<exists>ms. (mf = Manifest ms \<or> mf = No_manifest \<and> ms = []) \<and> mf' = Manifest (set_tag t i ms))"
  by (auto simp: updateManifest_def Let_def split: manifest_file.splits write_file.splits)

lemma untar_loop_ops:
  "op \<in> set (snd (untar_loop writable dest is)) \<Longrightarrow> \<exists>h. Header h \<in> set is \<and> op_path op = Join [dest, h_name h]"
  by (induction writable dest "is" rule: untar_loop.induct)
    (auto simp: Let_def split: prod.splits tar_type.splits if_splits)

lemma Untar_ops:
  assumes "op \<in> set (snd (Untar writable tar dest))"
  shows "op = Make_dir dest 493 \<or> (\<exists>is h. tar = Some is \<and> Header h \<in> set is \<and> op_path op = Join [dest, h_name h])"
proof (cases tar)
  case (Some "is")
  then have "op = Make_dir dest 493 \<or> op \<in> set (snd (untar_loop writable dest is))"
    using assms by (auto simp: Untar_def Let_def split: prod.splits)
  then show ?thesis
    using untar_loop_ops [of op writable dest "is"] Some by blast
qed (use assms in \<open>simp add: Untar_def\<close>)

definition rootfs_dir :: "string \<Rightarrow> string" where
  "rootfs_dir hex = Join [ImagesDir, take 12 hex, ''rootfs'']"

definition is_hex :: "string \<Rightarrow> bool" where
  "is_hex s \<longleftrightarrow> set s \<subseteq> set ''0123456789abcdef''"

lemma images_path:
  assumes "is_hex hex" and "12 \<le> length hex"
  shows "Join [Join [ImagesDir, take 12 hex], ''rootfs''] = rootfs_dir hex"
    and "rootfs_dir hex = abs_path [''var'', ''lib'', ''gocker'', ''images'', take 12 hex, ''rootfs'']"
proof -
  let ?ds = "[''var'', ''lib'', ''gocker'', ''images'']"
  let ?i = "take 12 hex"
  have i: "set ?i \<subseteq> set ''0123456789abcdef''" "?i \<noteq> []" "length ?i = 12"
    using assms set_take_subset [of 12 hex] by (auto simp: is_hex_def)
  have i_plain: "plain ?i"
    using i by (auto simp: plain_def sep_def)
  have ds: "\<forall>s \<in> set ?ds. plain s" and dsi: "\<forall>s \<in> set (?ds @ [?i]). plain s"
    using i_plain by (simp_all add: plain_def sep_def)
  have images: "ImagesDir = abs_path ?ds"
    by (simp add: ImagesDir_def abs_path_def sep_def)
  have i_up: "''..'' \<notin> set [?i]" "''..'' \<notin> set [?i, ''rootfs'']"
    using i_plain by (auto simp: plain_def)
  have one: "path_names ?i = [?i]" "path_names ''rootfs'' = [''rootfs'']"
    using i_plain by (simp_all add: path_names_def split_on_none plain_def sep_def)
  have two: "path_names (?i @ sep # ''rootfs'') = [?i, ''rootfs'']"
    using i_plain unfolding path_names_def by (simp add: split_on_append split_on_none plain_def sep_def)
  have "Join [ImagesDir, ?i] = abs_path (?ds @ [?i])"
    using Join_abs_path [OF ds, of ?i 0 "[?i]"] i_up one by (simp add: images)
  moreover have "Join [abs_path (?ds @ [?i]), ''rootfs''] = abs_path (?ds @ [?i, ''rootfs''])"
    using Join_abs_path [OF dsi, of "''rootfs''" 0 "[''rootfs'']"] one by simp
  moreover have "rootfs_dir hex = Join [ImagesDir, ?i @ sep # ''rootfs'']"
    using i(2) by (simp add: rootfs_dir_def Join_def ImagesDir_def)
  moreover have "Join [abs_path ?ds, ?i @ sep # ''rootfs''] = abs_path (?ds @ [?i, ''rootfs''])"
    using Join_abs_path [OF ds, of "?i @ sep # ''rootfs''" 0 "[?i, ''rootfs'']"] two i_up by simp
  ultimately show "Join [Join [ImagesDir, ?i], ''rootfs''] = rootfs_dir hex"
    and "rootfs_dir hex = abs_path [''var'', ''lib'', ''gocker'', ''images'', ?i, ''rootfs'']"
    by (simp_all add: images)
qed

lemma updateManifest_find:
  assumes "updateManifest w ref i mf = (True, mf')"
  shows "findImageRootfsPath name tag mf' =
    (if name @ '':'' @ tag = ref then Some (Join [ImagesDir, i, ''rootfs'']) else findImageRootfsPath name tag mf)"
  using updateManifest_done [OF assms] find_set_tag_same find_set_tag_other
  by (auto simp: findImageRootfsPath_def)

lemma pulled_image_listed:
  assumes "PullImage E ref mf = (Pulled, mf', ops)"
  shows "\<exists>refs. ListImages mf' = Some refs \<and> ref \<in> set refs"
proof -
  obtain w i where "updateManifest w ref i mf = (True, mf')"
    using assms by (auto simp: PullImage_def Let_def split: if_splits prod.splits option.splits)
  from updateManifest_done [OF this] show ?thesis
    using set_tag_tags [of ref i] by (auto simp: ListImages_def)
qed

text \<open>The reference that \<open>run\<close> looks up is the pulled one exactly when there is one colon.\<close>

lemma split_count: "length (split_on c s) = Suc (count_list s c)"
proof (induction s)
  case (Cons x s)
  then show ?case
    by (cases "split_on c s") auto
qed simp

lemma Parse_reference:
  assumes "Parse ref = (n, t)"
  shows "n @ '':'' @ t = ref \<longleftrightarrow> count_list ref CHR '':'' = 1"
proof -
  have join: "join_on CHR '':'' (split_on CHR '':'' ref) = ref"
    by simp
  have count: "length (split_on CHR '':'' ref) = Suc (count_list ref CHR '':'')"
    by (rule split_count)
  show ?thesis
  proof (cases "split_on CHR '':'' ref")
    case (Cons a as)
    show ?thesis
    proof (cases as)
      case Nil
      then show ?thesis
        using assms join count Cons by (auto simp: Parse_def)
    next
      case as: (Cons b bs)
      then show ?thesis
        using assms join count Cons by (cases bs) (auto simp: Parse_def)
    qed
  qed simp
qed

text \<open>
  A container finds the image that was pulled.  After a successful pull the
  reference is found at the directory that this pull unpacked into, and every other
  one is found where it was before.  What \<open>run\<close> looks up for the same reference is
  that directory exactly when the reference is written with a tag: one without is
  stored as it is but looked up as \<open>name:latest\<close>.
\<close>

lemma pulled_image_found:
  assumes "PullImage E ref mf = (Pulled, mf', ops)" and "digest E = Some (''sha256:'' @ hex)" and "is_hex hex"
  shows "set (snd (Untar (can_open E) (archive E) (rootfs_dir hex))) \<subseteq> set ops \<and>
    (\<forall>name tag. findImageRootfsPath name tag mf' =
       (if name @ '':'' @ tag = ref then Some (rootfs_dir hex) else findImageRootfsPath name tag mf)) \<and>
    (\<forall>name tag. Parse ref = (name, tag) \<longrightarrow>
       findImageRootfsPath name tag mf' =
         (if count_list ref CHR '':'' = 1 then Some (rootfs_dir hex) else findImageRootfsPath name tag mf))"
proof -
  have len: "12 \<le> length hex"
    using assms(1,2) by (auto simp: PullImage_def trim_prefix_def Let_def split: if_splits)
  then have dir: "Join [Join [ImagesDir, take 12 hex], ''rootfs''] = rootfs_dir hex"
    by (rule images_path(1) [OF assms(3)])
  have "updateManifest (manifest_write E) ref (take 12 hex) mf = (True, mf') \<and>
      set (snd (Untar (can_open E) (archive E) (rootfs_dir hex))) \<subseteq> set ops"
    using assms(1,2) len
    by (auto simp: PullImage_def trim_prefix_def Let_def dir split: if_splits prod.splits)
  then show ?thesis
    using updateManifest_find [of "manifest_write E" ref "take 12 hex" mf mf'] Parse_reference [of ref]
    by (simp add: rootfs_dir_def)
qed


section \<open>Two pulls at once\<close>

text \<open>
  \<open>updateManifest\<close> is a read and a write.  The daemon's goroutines take no lock: when two
  pulls read before either writes, both succeed and the first one's reference is found
  where it was before, or nowhere.
\<close>

definition read_manifest :: "manifest_file \<Rightarrow> image_manifest list option" where
  "read_manifest mf =
     (case mf of No_manifest \<Rightarrow> Some [] | Unreadable \<Rightarrow> None | Undecodable \<Rightarrow> None | Manifest ms \<Rightarrow> Some ms)"

definition write_manifest ::
  "write_file \<Rightarrow> string \<Rightarrow> string \<Rightarrow> image_manifest list \<Rightarrow> manifest_file \<Rightarrow> bool \<times> manifest_file" where
  "write_manifest w repoTag imageID ms mf =
     (case w of Not_opened \<Rightarrow> (False, mf) | Cut_short \<Rightarrow> (False, Undecodable)
      | All_written \<Rightarrow> (True, Manifest (set_tag repoTag imageID ms)))"

lemma updateManifest_split:
  "updateManifest w t i mf = (case read_manifest mf of None \<Rightarrow> (False, mf) | Some ms \<Rightarrow> write_manifest w t i ms mf)"
  by (cases mf) (simp_all add: updateManifest_def read_manifest_def write_manifest_def)

lemma overlapping_pulls_lose:
  assumes "read_manifest mf = Some ms" and "name @ '':'' @ tag = t1" and "t2 \<noteq> t1"
    and "write_manifest All_written t1 i1 ms mf = (ok1, mf1)" and "write_manifest All_written t2 i2 ms mf1 = (ok2, mf2)"
  shows "ok1 \<and> ok2 \<and> findImageRootfsPath name tag mf2 = findImageRootfsPath name tag mf"
  using assms find_set_tag_other [of t1 t2 i2 ms]
  by (auto simp: read_manifest_def write_manifest_def findImageRootfsPath_def split: manifest_file.splits)

section \<open>Witnesses\<close>

definition demo_hex :: string where
  "demo_hex = ''0123456789abcdef''"

definition demo_header :: tar_header where
  "demo_header = \<lparr>h_name = ''../../../../../../etc/passwd'', h_type = TypeReg, h_mode = 420, h_link = []\<rparr>"

definition demo_pull :: pull_env where
  "demo_pull = \<lparr>pull_ok = True, digest = Some (''sha256:'' @ demo_hex), store_ok = True, create_ok = True,
     export_ok = True, archive = Some [Header demo_header], can_open = (\<lambda>_. True), manifest_write = All_written\<rparr>"

lemma demo_is_hex: "is_hex demo_hex"
  by (simp add: is_hex_def demo_hex_def)



end
