(* ===== verification/Daemon.thy ===== *)
theory Daemon
  imports Container_Life Image
begin

text \<open>
  The daemon: \<open>internal/daemon/daemon.go\<close> and \<open>handlers.go\<close>.  It accepts connections, and
  one goroutine per connection reads requests, calls the container and image managers
  and answers.  A \<open>start\<close> returns only when the container has exited, so a connection
  can be blocked while others go on; here every step is one event: a connection is
  accepted, one reads its next request, a blocked one goes on, or something outside the
  daemon happens to the world of \<open>Container_Run\<close>.
\<close>

section \<open>Requests and responses\<close>

record start_request =
  sr_container :: string
  sr_attach :: bool
  sr_tty :: bool

record exec_request =
  er_container :: string
  er_command :: "string list"
  er_tty :: bool

text \<open>
  A request: the command, and what decoding the payload for it gives (\<open>None\<close> is an
  error).
\<close>

record daemon_request =
  dr_command :: string
  as_run :: "run_request option"
  as_start :: "start_request option"
  as_exec :: "exec_request option"
  as_pull :: "string option"

text \<open>The errors by their cause, the successes by what they carry.\<close>

datatype daemon_error = Bad_payload | Run_failed run_error | List_failed | Encoding_failed
  | Start_failed run_error | Images_failed | Pull_failed | Unknown_command string

datatype response = Failure daemon_error | Ran string | Containers "container_info list"
  | Started string | Images "string list" | Pulled_image string

text \<open>What the decoder delivers on a connection.\<close>

datatype item = Request daemon_request | Broken | End_of_input

section \<open>The state\<close>

text \<open>
  A connection reads, is blocked in a \<open>start\<close> (with the container's name and whether it
  is attached), or has ended; what it has read and sent is kept for the properties, as
  are the file operations of the pulls.
\<close>

datatype mode = Reading | In_start waiter string bool | Ended

record conn =
  c_mode :: mode
  c_read :: "item list"
  c_sent :: "response list"

record daemon =
  d_world :: world
  d_manifest :: manifest_file
  d_files :: "fs_op list"
  d_conns :: "nat \<rightharpoonup> conn"
  d_execs :: "(int \<times> string list) list"

text \<open>What the outside does while one request is handled.\<close>

record handle_env =
  h_run :: run_env
  h_list_ok :: bool
  h_encode_ok :: bool
  h_pull :: pull_env
  h_proc_gone :: bool

section \<open>The handlers\<close>

definition handleRun :: "handle_env \<Rightarrow> run_request option \<Rightarrow> daemon \<Rightarrow> response \<times> daemon" where
  "handleRun e payload D =
     (case payload of
        None \<Rightarrow> (Failure Bad_payload, D)
      | Some r \<Rightarrow>
          (case CreateAndRun (h_run e) r (d_world D) of
             (Inl x, W) \<Rightarrow> (Failure (Run_failed x), D\<lparr>d_world := W\<rparr>)
           | (Inr w, W) \<Rightarrow> (Ran (ci_id (w_info w)), D\<lparr>d_world := W\<rparr>)))"

definition handlePs :: "handle_env \<Rightarrow> daemon \<Rightarrow> response" where
  "handlePs e D =
     (case ListContainers (h_list_ok e) (containers (d_world D)) of
        None \<Rightarrow> Failure List_failed
      | Some cs \<Rightarrow> if h_encode_ok e then Containers cs else Failure Encoding_failed)"

definition handleImages :: "handle_env \<Rightarrow> daemon \<Rightarrow> response" where
  "handleImages e D =
     (case ListImages (d_manifest D) of
        None \<Rightarrow> Failure Images_failed
      | Some is \<Rightarrow> if h_encode_ok e then Images is else Failure Encoding_failed)"

text \<open>A panic in a goroutine ends the whole daemon; the pull of a short digest is the only one.\<close>

definition handlePull :: "handle_env \<Rightarrow> string option \<Rightarrow> daemon \<Rightarrow> (response \<times> daemon) option" where
  "handlePull e payload D =
     (case payload of
        None \<Rightarrow> Some (Failure Bad_payload, D)
      | Some ref \<Rightarrow>
          (case PullImage (h_pull e) ref (d_manifest D) of
             (Pull_error, mf, ops) \<Rightarrow> Some (Failure Pull_failed, D\<lparr>d_manifest := mf, d_files := d_files D @ ops\<rparr>)
           | (Pull_panic, mf, ops) \<Rightarrow> None
           | (Pulled, mf, ops) \<Rightarrow> Some (Pulled_image ref, D\<lparr>d_manifest := mf, d_files := d_files D @ ops\<rparr>)))"

text \<open>The process that an \<open>exec\<close> enters, if it enters one.\<close>

definition exec_target :: "handle_env \<Rightarrow> exec_request option \<Rightarrow> daemon \<Rightarrow> int option" where
  "exec_target e payload D =
     (case payload of
        None \<Rightarrow> None
      | Some r \<Rightarrow>
          (case findContainerInfo (h_list_ok e) (er_container r) (containers (d_world D)) of
             None \<Rightarrow> None
           | Some info \<Rightarrow>
               if ci_status info \<noteq> Running \<or> ci_pid info = 0 then None
               else if h_proc_gone e then None
               else Some (ci_pid info)))"

definition handleExec :: "handle_env \<Rightarrow> exec_request option \<Rightarrow> daemon \<Rightarrow> daemon" where
  "handleExec e payload D =
     (case (exec_target e payload D, payload) of
        (Some pid, Some r) \<Rightarrow> D\<lparr>d_execs := d_execs D @ [(pid, er_command r)]\<rparr>
      | _ \<Rightarrow> D)"

text \<open>
  \<open>handleStart\<close>: \<open>Start\<close> with the options the request gives.  The result says how the
  connection goes on: with an error response, ended, or blocked.  The outer \<open>None\<close> is a
  \<open>Start\<close> that does not return.
\<close>

datatype after_start = Answer response | Hang_up | Block waiter bool

definition handleStart ::
  "(string \<Rightarrow> ip option) \<Rightarrow> handle_env \<Rightarrow> start_request option \<Rightarrow> daemon \<Rightarrow> (after_start \<times> daemon) option" where
  "handleStart parse6 e payload D =
     (case payload of
        None \<Rightarrow> Some (Answer (Failure Bad_payload), D)
      | Some r \<Rightarrow>
          (case Start parse6 ((h_run e)\<lparr>attach := sr_attach r\<rparr>) (sr_container r) (d_world D) of
             None \<Rightarrow> None
           | Some (Inl x, W) \<Rightarrow>
               Some (if sr_attach r then Hang_up else Answer (Failure (Start_failed x)), D\<lparr>d_world := W\<rparr>)
           | Some (Inr w, W) \<Rightarrow> Some (Block w (sr_attach r), D\<lparr>d_world := W\<rparr>)))"

section \<open>Events\<close>

text \<open>
  \<open>handleConnection\<close> between two reads: \<open>respond\<close> sends a response and goes on reading.
\<close>

definition set_conn :: "nat \<Rightarrow> conn \<Rightarrow> daemon \<Rightarrow> daemon" where
  "set_conn n c D = D\<lparr>d_conns := (d_conns D)(n \<mapsto> c)\<rparr>"

definition respond :: "nat \<Rightarrow> conn \<Rightarrow> response \<times> daemon \<Rightarrow> daemon" where
  "respond n c x = set_conn n (c\<lparr>c_mode := Reading, c_sent := c_sent c @ [fst x]\<rparr>) (snd x)"

definition handle_request ::
  "(string \<Rightarrow> ip option) \<Rightarrow> handle_env \<Rightarrow> nat \<Rightarrow> conn \<Rightarrow> daemon_request \<Rightarrow> daemon \<Rightarrow> daemon option" where
  "handle_request parse6 e n c r D =
     (if dr_command r = ''exec'' then Some (set_conn n (c\<lparr>c_mode := Ended\<rparr>) (handleExec e (as_exec r) D))
      else if dr_command r = ''run'' then Some (respond n c (handleRun e (as_run r) D))
      else if dr_command r = ''ps'' then Some (respond n c (handlePs e D, D))
      else if dr_command r = ''start'' then
        (case handleStart parse6 e (as_start r) D of
           None \<Rightarrow> None
         | Some (Answer x, D') \<Rightarrow> Some (respond n c (x, D'))
         | Some (Hang_up, D') \<Rightarrow> Some (set_conn n (c\<lparr>c_mode := Ended\<rparr>) D')
         | Some (Block w att, D') \<Rightarrow>
             Some (set_conn n (c\<lparr>c_mode := In_start w (case as_start r of None \<Rightarrow> [] | Some q \<Rightarrow> sr_container q) att\<rparr>) D'))
      else if dr_command r = ''images'' then Some (respond n c (handleImages e D, D))
      else if dr_command r = ''pull'' then map_option (respond n c) (handlePull e (as_pull r) D)
      else Some (respond n c (Failure (Unknown_command (dr_command r)), D)))"

definition receive :: "(string \<Rightarrow> ip option) \<Rightarrow> handle_env \<Rightarrow> nat \<Rightarrow> item \<Rightarrow> daemon \<Rightarrow> daemon option" where
  "receive parse6 e n i D =
     (case d_conns D n of
        None \<Rightarrow> Some D
      | Some c0 \<Rightarrow>
          if c_mode c0 \<noteq> Reading then Some D
          else (let c = c0\<lparr>c_read := c_read c0 @ [i]\<rparr>
                in case i of
                     Request r \<Rightarrow> handle_request parse6 e n c r D
                   | Broken \<Rightarrow> Some (set_conn n (c\<lparr>c_mode := Ended\<rparr>) D)
                   | End_of_input \<Rightarrow> Some (set_conn n (c\<lparr>c_mode := Ended\<rparr>) D)))"

text \<open>A blocked connection goes on when its child is gone.\<close>

definition unblock :: "finish_env \<Rightarrow> nat \<Rightarrow> daemon \<Rightarrow> daemon" where
  "unblock e n D =
     (case d_conns D n of
        None \<Rightarrow> D
      | Some c \<Rightarrow>
          (case c_mode c of
             In_start w name att \<Rightarrow>
               if processes (d_world D) (w_pid w) \<noteq> None then D
               else (let D' = D\<lparr>d_world := wait_end e w (d_world D)\<rparr>
                     in if att then set_conn n (c\<lparr>c_mode := Ended\<rparr>) D' else respond n c (Started name, D'))
           | _ \<Rightarrow> D))"

text \<open>
  Outside the daemon: \<open>gocker run\<close>, \<open>stop\<close>, \<open>adjust\<close> and \<open>rm\<close> work without it, children
  exit, and the ends of waits other than those of a \<open>start\<close> happen by themselves.
\<close>

datatype daemon_event = Accept nat | Receive nat item handle_env | Unblock nat finish_env | Outside world_op

fun outside_op :: "world_op \<Rightarrow> bool" where
  "outside_op (Restart _ _) = False"
| "outside_op (Daemon_run _ _) = False"
| "outside_op (Wait_end _ w) = (w_caller w \<noteq> By_start)"
| "outside_op _ = True"

fun daemon_step :: "(string \<Rightarrow> ip option) \<Rightarrow> daemon_event \<Rightarrow> daemon \<Rightarrow> daemon option" where
  "daemon_step parse6 (Accept n) D =
     Some (if d_conns D n = None then set_conn n \<lparr>c_mode = Reading, c_read = [], c_sent = []\<rparr> D else D)"
| "daemon_step parse6 (Receive n i e) D = receive parse6 e n i D"
| "daemon_step parse6 (Unblock n e) D = Some (unblock e n D)"
| "daemon_step parse6 (Outside op) D =
     (if outside_op op then map_option (\<lambda>W. D\<lparr>d_world := W\<rparr>) (world_step parse6 op (d_world D)) else Some D)"

fun daemon_run :: "(string \<Rightarrow> ip option) \<Rightarrow> daemon_event list \<Rightarrow> daemon \<Rightarrow> daemon option" where
  "daemon_run parse6 [] D = Some D"
| "daemon_run parse6 (ev # evs) D = Option.bind (daemon_step parse6 ev D) (daemon_run parse6 evs)"

definition new_daemon :: "world \<Rightarrow> manifest_file \<Rightarrow> daemon" where
  "new_daemon W mf = \<lparr>d_world = W, d_manifest = mf, d_files = [], d_conns = Map.empty, d_execs = []\<rparr>"

section \<open>What a connection promises\<close>

text \<open>The requests that take the connection over, and the items after which nothing is read.\<close>

fun attached_start :: "daemon_request \<Rightarrow> bool" where
  "attached_start r = (dr_command r = ''start'' \<and> (case as_start r of None \<Rightarrow> False | Some q \<Rightarrow> sr_attach q))"

fun expects :: "item \<Rightarrow> bool" where
  "expects (Request r) = (dr_command r \<noteq> ''exec'' \<and> \<not> attached_start r)"
| "expects Broken = False"
| "expects End_of_input = False"

text \<open>The responses that fit a request.\<close>

definition fits_run :: "daemon_request \<Rightarrow> response \<Rightarrow> bool" where
  "fits_run r x \<longleftrightarrow> (as_run r = None \<and> x = Failure Bad_payload) \<or>
     (as_run r \<noteq> None \<and> ((\<exists>y. x = Failure (Run_failed y)) \<or> (\<exists>c. x = Ran c)))"

definition fits_start :: "daemon_request \<Rightarrow> response \<Rightarrow> bool" where
  "fits_start r x \<longleftrightarrow> (case as_start r of
       None \<Rightarrow> x = Failure Bad_payload
     | Some q \<Rightarrow> (\<exists>y. x = Failure (Start_failed y)) \<or> x = Started (sr_container q))"

definition fits_pull :: "daemon_request \<Rightarrow> response \<Rightarrow> bool" where
  "fits_pull r x \<longleftrightarrow> (case as_pull r of
       None \<Rightarrow> x = Failure Bad_payload
     | Some ref \<Rightarrow> x = Failure Pull_failed \<or> x = Pulled_image ref)"

definition fits_list :: "bool \<Rightarrow> response \<Rightarrow> bool" where
  "fits_list imgs x \<longleftrightarrow> x = Failure Encoding_failed \<or>
     (if imgs then x = Failure Images_failed \<or> (\<exists>is. x = Images is)
      else x = Failure List_failed \<or> (\<exists>cs. x = Containers cs))"

fun fits :: "item \<Rightarrow> response \<Rightarrow> bool" where
  "fits (Request r) x =
     (if dr_command r = ''run'' then fits_run r x
      else if dr_command r = ''ps'' then fits_list False x
      else if dr_command r = ''start'' then fits_start r x
      else if dr_command r = ''images'' then fits_list True x
      else if dr_command r = ''pull'' then fits_pull r x
      else x = Failure (Unknown_command (dr_command r)))"
| "fits _ x = False"

definition pending :: "conn \<Rightarrow> item list" where
  "pending c = (case c_mode c of In_start w name False \<Rightarrow> [List.last (c_read c)] | _ \<Rightarrow> [])"

text \<open>
  What holds of a connection: its answers are those to the requests it has read that
  expect one, in order, up to the one it is blocked in; and nothing is read after an
  item that takes the connection over or ends it.
\<close>

definition conn_ok :: "conn \<Rightarrow> bool" where
  "conn_ok c \<longleftrightarrow>
     (\<exists>answered. filter expects (c_read c) = answered @ pending c \<and> list_all2 fits answered (c_sent c)) \<and>
     (\<forall>i \<in> set (butlast (c_read c)). expects i) \<and>
     (c_mode c = Reading \<longrightarrow> (\<forall>i \<in> set (c_read c). expects i)) \<and>
     (\<forall>w name. c_mode c = In_start w name False \<longrightarrow>
        c_read c \<noteq> [] \<and> expects (List.last (c_read c)) \<and> fits (List.last (c_read c)) (Started name))"

lemma conn_ok_new: "conn_ok \<lparr>c_mode = Reading, c_read = [], c_sent = []\<rparr>"
  by (simp add: conn_ok_def pending_def)

lemma reading_answered:
  assumes "conn_ok c" and "c_mode c = Reading"
  shows "list_all2 fits (c_read c) (c_sent c)" and "\<forall>i \<in> set (c_read c). expects i"
  using assms by (auto simp: conn_ok_def pending_def filter_id_conv)

lemma conn_ok_respond:
  assumes "conn_ok c" and "c_mode c = Reading" and "expects i" and "fits i x"
  shows "conn_ok (c\<lparr>c_read := c_read c @ [i], c_mode := Reading, c_sent := c_sent c @ [x]\<rparr>)"
  using reading_answered [OF assms(1,2)] assms(3,4)
  by (auto simp: conn_ok_def pending_def filter_id_conv intro!: list_all2_appendI)

lemma conn_ok_end:
  assumes "conn_ok c" and "c_mode c = Reading" and "\<not> expects i"
  shows "conn_ok (c\<lparr>c_read := c_read c @ [i], c_mode := Ended\<rparr>)"
  using reading_answered [OF assms(1,2)] assms(3)
  by (auto simp: conn_ok_def pending_def filter_id_conv)

lemma conn_ok_block:
  assumes "conn_ok c" and "c_mode c = Reading" and "expects i \<longleftrightarrow> \<not> att" and "\<not> att \<longrightarrow> fits i (Started name)"
  shows "conn_ok (c\<lparr>c_read := c_read c @ [i], c_mode := In_start w name att\<rparr>)"
  using reading_answered [OF assms(1,2)] assms(3,4)
  by (cases att) (auto simp: conn_ok_def pending_def filter_id_conv)

lemma conn_ok_unblock:
  assumes "conn_ok c" and "c_mode c = In_start w name att"
  shows "conn_ok (if att then c\<lparr>c_mode := Ended\<rparr> else c\<lparr>c_mode := Reading, c_sent := c_sent c @ [Started name]\<rparr>)"
proof (cases att)
  case True
  then show ?thesis
    using assms by (simp add: conn_ok_def pending_def)
next
  case False
  obtain front l where read: "c_read c = front @ [l]"
    using assms False by (cases "c_read c" rule: rev_cases) (auto simp: conn_ok_def)
  then show ?thesis
    using assms False by (auto simp: conn_ok_def pending_def filter_id_conv intro!: list_all2_appendI)
qed

definition conns_ok :: "daemon \<Rightarrow> bool" where
  "conns_ok D \<longleftrightarrow> (\<forall>n c. d_conns D n = Some c \<longrightarrow> conn_ok c)"

lemma conns_ok_set: "conns_ok D \<Longrightarrow> conn_ok c \<Longrightarrow> conns_ok (set_conn n c D)"
  by (simp add: conns_ok_def set_conn_def)

lemma conns_ok_other: "d_conns D' = d_conns D \<Longrightarrow> conns_ok D' = conns_ok D"
  by (simp add: conns_ok_def)

lemma handleRun_conns [simp]: "d_conns (snd (handleRun e p D)) = d_conns D"
  by (simp add: handleRun_def split: option.split sum.split prod.split)

lemma handleExec_conns [simp]: "d_conns (handleExec e q D) = d_conns D"
  by (simp add: handleExec_def split: option.split)

lemma handlePull_conns: "handlePull e s D = Some y \<Longrightarrow> d_conns (snd y) = d_conns D"
  by (auto simp: handlePull_def split: option.splits prod.splits pull_result.splits)

lemma handleStart_conns: "handleStart parse6 e u D = Some y \<Longrightarrow> d_conns (snd y) = d_conns D"
  by (auto simp: handleStart_def split: option.splits sum.splits prod.splits)

text \<open>The answers fit the requests.\<close>

lemma handleRun_fits: "fits_run r (fst (handleRun e (as_run r) D))"
  by (auto simp: handleRun_def fits_run_def split: option.split sum.split prod.split)

lemma handlePs_fits: "fits_list False (handlePs e D)"
  by (auto simp: handlePs_def fits_list_def split: option.split)

lemma handleImages_fits: "fits_list True (handleImages e D)"
  by (auto simp: handleImages_def fits_list_def split: option.split)

lemma handlePull_fits: "handlePull e (as_pull r) D = Some y \<Longrightarrow> fits_pull r (fst y)"
  by (auto simp: handlePull_def fits_pull_def split: option.splits prod.splits pull_result.splits)

lemma handleStart_result:
  assumes "handleStart parse6 e (as_start r) D = Some y"
  shows "case fst y of
      Answer x \<Rightarrow> \<not> (\<exists>q. as_start r = Some q \<and> sr_attach q) \<and> fits_start r x
    | Hang_up \<Rightarrow> \<exists>q. as_start r = Some q \<and> sr_attach q
    | Block w att \<Rightarrow> \<exists>q. as_start r = Some q \<and> att = sr_attach q \<and> fits_start r (Started (sr_container q))"
  using assms by (auto simp: handleStart_def fits_start_def split: option.splits sum.splits prod.splits)

lemma conns_ok_respond:
  assumes "conns_ok D" and "conn_ok c" and "c_mode c = Reading"
    and "expects i" and "fits i (fst y)" and "d_conns (snd y) = d_conns D"
  shows "conns_ok (respond n (c\<lparr>c_read := c_read c @ [i]\<rparr>) y)"
proof -
  have "conns_ok (snd y)"
    using conns_ok_other [OF assms(6)] assms(1) by blast
  then show ?thesis
    using conns_ok_set [OF _ conn_ok_respond [OF assms(2-5)]] by (simp add: respond_def)
qed

lemma conns_ok_end:
  assumes "conns_ok D" and "conn_ok c" and "c_mode c = Reading" and "\<not> expects i" and "d_conns E = d_conns D"
  shows "conns_ok (set_conn n (c\<lparr>c_read := c_read c @ [i], c_mode := Ended\<rparr>) E)"
proof -
  have "conns_ok E"
    using conns_ok_other [OF assms(5)] assms(1) by blast
  then show ?thesis
    by (rule conns_ok_set [OF _ conn_ok_end [OF assms(2-4)]])
qed

lemma conns_ok_block:
  assumes "conns_ok D" and "conn_ok c" and "c_mode c = Reading" and "expects i \<longleftrightarrow> \<not> att"
    and "\<not> att \<longrightarrow> fits i (Started name)" and "d_conns E = d_conns D"
  shows "conns_ok (set_conn n (c\<lparr>c_read := c_read c @ [i], c_mode := In_start w name att\<rparr>) E)"
proof -
  have "conns_ok E"
    using conns_ok_other [OF assms(6)] assms(1) by blast
  then show ?thesis
    by (rule conns_ok_set [OF _ conn_ok_block [OF assms(2-5)]])
qed

lemma handle_request_conns:
  assumes "conns_ok D" and "conn_ok c" and "c_mode c = Reading"
    and "handle_request parse6 e n (c\<lparr>c_read := c_read c @ [Request r]\<rparr>) r D = Some D'"
  shows "conns_ok D'"
proof -
  let ?c = "c\<lparr>c_read := c_read c @ [Request r]\<rparr>"
  note respond = conns_ok_respond [OF assms(1-3), of "Request r"]
    and ending = conns_ok_end [OF assms(1-3), of "Request r"]
    and block = conns_ok_block [OF assms(1-3), of "Request r"]
  consider "dr_command r = ''start''" | "dr_command r = ''pull''" | "dr_command r \<noteq> ''start''" "dr_command r \<noteq> ''pull''"
    by blast
  then show ?thesis
  proof cases
    case 1
    then obtain y where y: "handleStart parse6 e (as_start r) D = Some y"
      using assms(4) by (auto simp: handle_request_def split: option.splits)
    note res = handleStart_result [OF y] and same = handleStart_conns [OF y]
    show ?thesis
    proof (cases "fst y")
      case (Answer x)
      then show ?thesis
        using assms(4) 1 y res same respond [of "(x, snd y)"]
        by (cases y) (auto simp: handle_request_def split: option.splits)
    next
      case Hang_up
      then show ?thesis
        using assms(4) 1 y res same ending [of "snd y"]
        by (cases y) (auto simp: handle_request_def)
    next
      case (Block w att)
      then obtain q where q: "as_start r = Some q" "att = sr_attach q" "fits_start r (Started (sr_container q))"
        using res by auto
      then show ?thesis
        using assms(4) 1 y same Block q block [of att "sr_container q" "snd y" n w]
        by (cases y) (auto simp: handle_request_def)
    qed
  next
    case 2
    then obtain y where y: "handlePull e (as_pull r) D = Some y" "D' = respond n ?c y"
      using assms(4) by (auto simp: handle_request_def)
    then show ?thesis
      using 2 respond handlePull_fits [OF y(1)] handlePull_conns [OF y(1)] by simp
  next
    case 3
    then show ?thesis
      using assms(4) respond [of "handleRun e (as_run r) D" n] respond [of "(handlePs e D, D)" n]
        respond [of "(handleImages e D, D)" n] respond [of "(Failure (Unknown_command (dr_command r)), D)" n]
        ending [of "handleExec e (as_exec r) D" n]
      by (simp add: handle_request_def handleRun_fits handlePs_fits handleImages_fits split: if_splits)
  qed
qed

text \<open>The kernel gives a child a process id other than 0, and digests are at least 12 digits long.\<close>

definition long_digest :: "pull_env \<Rightarrow> bool" where
  "long_digest E = (case digest E of None \<Rightarrow> True | Some d \<Rightarrow> 12 \<le> length (trim_prefix ''sha256:'' d))"

fun event_ok :: "daemon_event \<Rightarrow> bool" where
  "event_ok (Receive n i e) = (child_pid (h_run e) \<noteq> 0 \<and> long_digest (h_pull e))"
| "event_ok (Outside op) = op_ok op"
| "event_ok _ = True"

lemma receive_conns:
  assumes "conns_ok D" and "receive parse6 e n i D = Some D'"
  shows "conns_ok D'"
proof (cases "d_conns D n")
  case (Some c)
  have c: "conn_ok c"
    using assms(1) Some by (simp add: conns_ok_def)
  show ?thesis
  proof (cases "c_mode c = Reading")
    case reading: True
    show ?thesis
    proof (cases i)
      case (Request r)
      then show ?thesis
        using handle_request_conns [OF assms(1) c reading] assms(2) Some reading
        by (simp add: receive_def Let_def)
    qed (use assms Some reading conns_ok_end [OF assms(1) c reading] in \<open>auto simp: receive_def Let_def\<close>)
  qed (use assms Some in \<open>simp add: receive_def\<close>)
qed (use assms in \<open>simp add: receive_def\<close>)

lemma unblock_conns:
  assumes "conns_ok D"
  shows "conns_ok (unblock e n D)"
proof (cases "\<exists>c w name att. d_conns D n = Some c \<and> c_mode c = In_start w name att")
  case True
  then obtain c w name att where c: "d_conns D n = Some c" "c_mode c = In_start w name att"
    by blast
  have ok: "conn_ok c"
    using assms c(1) by (simp add: conns_ok_def)
  have "conns_ok (D\<lparr>d_world := V\<rparr>)" for V
    using assms by (simp add: conns_ok_def)
  then show ?thesis
    using c conn_ok_unblock [OF ok c(2)] assms
    by (cases att) (simp_all add: unblock_def Let_def respond_def conns_ok_set)
next
  case False
  then have "unblock e n D = D"
    by (auto simp: unblock_def split: option.split mode.split)
  then show ?thesis
    using assms by simp
qed

lemma daemon_step_conns:
  assumes "conns_ok D" and "daemon_step parse6 ev D = Some D'"
  shows "conns_ok D'"
proof (cases ev)
  case (Accept n)
  then show ?thesis
    using assms by (auto simp: conns_ok_set conn_ok_new split: if_splits)
next
  case (Receive n i e)
  then show ?thesis
    using receive_conns [OF assms(1), of parse6 e n i] assms(2) by simp
next
  case (Unblock n e)
  then show ?thesis
    using unblock_conns [OF assms(1), of e n] assms(2) by simp
next
  case (Outside op)
  then show ?thesis
    using assms by (auto simp: conns_ok_def split: if_splits)
qed

section \<open>The daemon and the world\<close>

text \<open>One step of the daemon is no step or one operation of the world.\<close>

definition world_moves :: "(string \<Rightarrow> ip option) \<Rightarrow> daemon \<Rightarrow> daemon \<Rightarrow> world_op list \<Rightarrow> bool" where
  "world_moves parse6 D D' ops \<longleftrightarrow> (\<forall>op \<in> set ops. op_ok op) \<and> world_run parse6 ops (d_world D) = Some (d_world D')"

lemma no_move: "d_world D' = d_world D \<Longrightarrow> world_moves parse6 D D' []"
  by (simp add: world_moves_def)

lemma one_move: "op_ok op \<Longrightarrow> world_step parse6 op (d_world D) = Some (d_world D') \<Longrightarrow> world_moves parse6 D D' [op]"
  by (simp add: world_moves_def)

lemma world_run_append:
  "world_run parse6 (xs @ ys) W = Option.bind (world_run parse6 xs W) (world_run parse6 ys)"
  by (induction xs arbitrary: W) (simp_all add: bind_assoc split: Option.bind_split)

lemma moves_trans: "world_moves parse6 D E xs \<Longrightarrow> world_moves parse6 E F ys \<Longrightarrow> world_moves parse6 D F (xs @ ys)"
  by (auto simp: world_moves_def world_run_append)

lemma PullImage_no_panic: "long_digest E \<Longrightarrow> PullImage E ref mf \<noteq> (Pull_panic, y)"
  by (auto simp: PullImage_def long_digest_def Let_def split: option.split prod.split)

lemma handlePull_world:
  assumes "long_digest (h_pull e)"
  shows "\<exists>y. handlePull e s D = Some y \<and> d_world (snd y) = d_world D"
proof (cases s)
  case (Some ref)
  obtain x mf ops where pull: "PullImage (h_pull e) ref (d_manifest D) = (x, mf, ops)"
    by (cases "PullImage (h_pull e) ref (d_manifest D)")
  then have "x \<noteq> Pull_panic"
    using PullImage_no_panic [OF assms, of ref "d_manifest D"] by auto
  then show ?thesis
    using Some pull by (cases x) (simp_all add: handlePull_def)
qed (simp add: handlePull_def)

lemma handleRun_world:
  assumes "child_pid (h_run e) \<noteq> 0"
  shows "\<exists>ops. world_moves parse6 D (snd (handleRun e p D)) ops"
proof (cases p)
  case (Some r)
  have "d_world (snd (handleRun e p D)) = snd (CreateAndRun (h_run e) r (d_world D))"
    by (simp add: handleRun_def Some split: sum.split prod.split)
  then have "world_moves parse6 D (snd (handleRun e p D)) [Daemon_run (h_run e) r]"
    using assms by (simp add: one_move)
  then show ?thesis ..
qed (auto simp: handleRun_def intro!: no_move)

lemma handleStart_world:
  assumes "child_pid (h_run e) \<noteq> 0" and "world_ok (d_world D)"
  shows "\<exists>y ops. handleStart parse6 e u D = Some y \<and> world_moves parse6 D (snd y) ops"
proof (cases u)
  case (Some r)
  let ?e = "(h_run e)\<lparr>attach := sr_attach r\<rparr>"
  obtain x W where W: "Start parse6 ?e (sr_container r) (d_world D) = Some (x, W)"
    using Start_ok [OF assms(2), of ?e parse6 "sr_container r"] assms(1) by auto
  have "world_moves parse6 D (D\<lparr>d_world := W\<rparr>) [Restart ?e (sr_container r)]"
    using assms(1) W by (simp add: one_move)
  moreover have "\<exists>y. handleStart parse6 e u D = Some y \<and> snd y = D\<lparr>d_world := W\<rparr>"
    using W by (cases x) (simp_all add: handleStart_def Some)
  ultimately show ?thesis
    by metis
qed (auto simp: handleStart_def intro!: no_move)

lemma set_conn_world [simp]: "d_world (set_conn n c D) = d_world D"
  by (simp add: set_conn_def)

lemma respond_world [simp]: "d_world (respond n c y) = d_world (snd y)"
  by (simp add: respond_def)

lemma handleExec_world [simp]: "d_world (handleExec e q D) = d_world D"
  by (simp add: handleExec_def split: option.split)

lemma world_moves_cong: "d_world E = d_world F \<Longrightarrow> world_moves parse6 D E ops = world_moves parse6 D F ops"
  by (simp add: world_moves_def)

lemma handle_request_world:
  assumes "child_pid (h_run e) \<noteq> 0" and "long_digest (h_pull e)" and "world_ok (d_world D)"
  shows "\<exists>D' ops. handle_request parse6 e n c r D = Some D' \<and> world_moves parse6 D D' ops"
proof -
  consider "dr_command r = ''start''" | "dr_command r = ''pull''" | "dr_command r = ''run''"
    | "dr_command r \<notin> {''start'', ''pull'', ''run''}"
    by blast
  then show ?thesis
  proof cases
    case 1
    obtain y ops where y: "handleStart parse6 e (as_start r) D = Some y" "world_moves parse6 D (snd y) ops"
      using handleStart_world [OF assms(1,3)] by blast
    have "\<exists>D'. handle_request parse6 e n c r D = Some D' \<and> d_world D' = d_world (snd y)"
      using 1 y(1) by (cases y; cases "fst y") (auto simp: handle_request_def)
    then show ?thesis
      using y(2) world_moves_cong by blast
  next
    case 2
    obtain y where "handlePull e (as_pull r) D = Some y" "d_world (snd y) = d_world D"
      using handlePull_world [OF assms(2)] by blast
    then show ?thesis
      using 2 no_move [of "respond n c y" D parse6] by (auto simp: handle_request_def)
  next
    case 3
    obtain ops where "world_moves parse6 D (snd (handleRun e (as_run r) D)) ops"
      using handleRun_world [OF assms(1)] by blast
    then have "world_moves parse6 D (respond n c (handleRun e (as_run r) D)) ops"
      by (simp add: world_moves_def)
    then show ?thesis
      using 3 by (auto simp: handle_request_def)
  next
    case 4
    then have "\<exists>D'. handle_request parse6 e n c r D = Some D' \<and> d_world D' = d_world D"
      by (simp add: handle_request_def)
    then show ?thesis
      using no_move by blast
  qed
qed

lemma receive_cases:
  obtains "receive parse6 e n i D = Some D"
    | c where "receive parse6 e n i D = Some (set_conn n c D)"
    | c r where "receive parse6 e n i D = handle_request parse6 e n c r D"
proof (cases "d_conns D n")
  case (Some c)
  show ?thesis
  proof (cases "c_mode c = Reading")
    case True
    then show ?thesis
      using Some that by (cases i) (simp_all add: receive_def Let_def)
  qed (use Some that(1) in \<open>simp add: receive_def\<close>)
qed (use that(1) in \<open>simp add: receive_def\<close>)

lemma daemon_step_world:
  assumes "event_ok ev" and "world_ok (d_world D)"
  shows "\<exists>D' ops. daemon_step parse6 ev D = Some D' \<and> world_moves parse6 D D' ops"
proof (cases ev)
  case (Accept n)
  then show ?thesis
    using no_move [of "set_conn n \<lparr>c_mode = Reading, c_read = [], c_sent = []\<rparr> D" D] no_move [of D D] by auto
next
  case (Receive n i e)
  have "\<exists>D' ops. receive parse6 e n i D = Some D' \<and> world_moves parse6 D D' ops"
  proof (cases rule: receive_cases [of parse6 e n i D])
    case 1
    then show ?thesis
      using no_move [of D D] by auto
  next
    case (2 c)
    then show ?thesis
      using no_move [of "set_conn n c D" D] by auto
  next
    case (3 c r)
    then show ?thesis
      using handle_request_world [of e D parse6 n c r] assms Receive by simp
  qed
  then show ?thesis
    using Receive by simp
next
  case (Unblock n e)
  have "d_world (unblock e n D) = d_world D \<or> (\<exists>w. d_world (unblock e n D) = wait_end e w (d_world D))"
    by (cases "d_conns D n"; cases "c_mode (the (d_conns D n))") (auto simp: unblock_def Let_def)
  then consider "d_world (unblock e n D) = d_world D" | w where "d_world (unblock e n D) = wait_end e w (d_world D)"
    by blast
  then have "\<exists>ops. world_moves parse6 D (unblock e n D) ops"
  proof cases
    case 2
    then show ?thesis
      using one_move [of "Wait_end e _" parse6 D "unblock e n D"] by auto
  qed (blast intro: no_move)
  then show ?thesis
    using Unblock by simp
next
  case (Outside op)
  then obtain W where W: "world_step parse6 op (d_world D) = Some W"
    using world_step_ok [OF assms(2), of op parse6] assms(1) by auto
  have "world_moves parse6 D (D\<lparr>d_world := W\<rparr>) [op]"
    using assms(1) Outside W by (simp add: one_move)
  then show ?thesis
    using Outside W no_move [of D D] by auto
qed

lemma daemon_run_world:
  assumes "\<forall>ev \<in> set evs. event_ok ev" and "world_ok (d_world D)"
  shows "\<exists>D' ops. daemon_run parse6 evs D = Some D' \<and> world_moves parse6 D D' ops"
  using assms
proof (induction evs arbitrary: D)
  case Nil
  then show ?case
    using no_move [of D D] by auto
next
  case (Cons ev evs)
  obtain E xs where E: "daemon_step parse6 ev D = Some E" "world_moves parse6 D E xs"
    using daemon_step_world [of ev D parse6] Cons.prems by auto
  then have "world_ok (d_world E)"
    using world_run_ok [OF Cons.prems(2), of xs parse6] by (auto simp: world_moves_def)
  then obtain F ys where "daemon_run parse6 evs E = Some F" "world_moves parse6 E F ys"
    using Cons.IH Cons.prems(1) by fastforce
  then show ?case
    using E moves_trans by fastforce
qed

lemma daemon_run_conns: "conns_ok D \<Longrightarrow> daemon_run parse6 evs D = Some D' \<Longrightarrow> conns_ok D'"
proof (induction evs arbitrary: D)
  case (Cons ev evs)
  then obtain E where E: "daemon_step parse6 ev D = Some E" "daemon_run parse6 evs E = Some D'"
    by (auto simp: bind_eq_Some_conv)
  show ?case
    by (rule Cons.IH [OF daemon_step_conns [OF Cons.prems(1) E(1)] E(2)])
qed simp

section \<open>The promises\<close>

lemma new_daemon_ok: "conns_ok (new_daemon W mf)"
  by (simp add: conns_ok_def new_daemon_def)



section \<open>Witnesses\<close>

definition demo_handle :: "run_env \<Rightarrow> handle_env" where
  "demo_handle e = \<lparr>h_run = e, h_list_ok = True, h_encode_ok = True, h_pull = demo_pull, h_proc_gone = False\<rparr>"

definition bare_request :: "string \<Rightarrow> daemon_request" where
  "bare_request c = \<lparr>dr_command = c, as_run = None, as_start = None, as_exec = None, as_pull = None\<rparr>"

text \<open>A run, a start that has to wait, a listing on another connection, and the end of the container.\<close>

definition demo_events :: "daemon_event list" where
  "demo_events =
     [Accept 1, Accept 2,
      Receive 1 (Request ((bare_request ''run'')\<lparr>as_run := Some demo_request\<rparr>)) (demo_handle (good_run ''c1'' 11)),
      Outside (Child_exit 11),
      Outside (Stop \<lparr>s_storage_ok = True, s_kill = No_such_process, s_now = 2, s_write = Written, s_io = demo_io\<rparr> ''c1''),
      Receive 1 (Request ((bare_request ''start'')\<lparr>as_start := Some \<lparr>sr_container = ''c1'', sr_attach = False, sr_tty = False\<rparr>\<rparr>))
        (demo_handle (good_run ''c1'' 12)),
      Receive 2 (Request (bare_request ''ps'')) (demo_handle (good_run ''c1'' 13)),
      Receive 1 (Request (bare_request ''images'')) (demo_handle (good_run ''c1'' 13))]"

lemma demo_events_ok: "\<forall>ev \<in> set demo_events. event_ok ev"
  by (simp add: demo_events_def demo_handle_def good_run_def demo_pull_def demo_hex_def long_digest_def trim_prefix_def)



text \<open>The first four events and the listing, evaluated.\<close>

lemma demo_events_run:
  "map_option (\<lambda>D. map_option c_sent (d_conns D 2))
     (daemon_run (\<lambda>_. None) (take 4 demo_events @ [demo_events ! 6]) (new_daemon empty_world No_manifest)) =
   Some (Some [Containers [(new_info (good_run ''c1'' 11) demo_request [] [])\<lparr>ci_pid := 11, ci_status := Running\<rparr>]])"
  by code_simp

end
