(* ===== verification/Container_Records.thy ===== *)
theory Container_Records
  imports Container_Life
begin

text \<open>
  What a record keeps of the request that made the container: over any sequence of
  operations its identifier, name, command, image, mount point and requested address
  are those that \<open>RunContainer\<close> or \<open>CreateAndRun\<close> wrote first.
\<close>

definition core :: "container_info \<Rightarrow> string \<times> string \<times> string \<times> string \<times> string \<times> string" where
  "core i = (ci_id i, ci_name i, ci_command i, ci_image i, ci_mount i, ci_requested i)"

lemma core_update [simp]:
  "core (i\<lparr>ci_pid := p\<rparr>) = core i" "core (i\<lparr>ci_status := s\<rparr>) = core i" "core (i\<lparr>ci_ip := a\<rparr>) = core i"
  "core (i\<lparr>ci_finished := t\<rparr>) = core i" "core (i\<lparr>ci_limits := l\<rparr>) = core i"
  by (simp_all add: core_def)

text \<open>The records of a world: those in the configuration files and the waiters' copies.\<close>

definition stored :: "storage \<Rightarrow> container_info set" where
  "stored S = {i. \<exists>d. (d, Some i) \<in> set S}"

definition cores :: "world \<Rightarrow> (string \<times> string \<times> string \<times> string \<times> string \<times> string) set" where
  "cores W = core ` (stored (containers W) \<union> w_info ` set (waiters W))"

text \<open>The records that an operation makes.\<close>

fun made :: "world_op \<Rightarrow> container_info set" where
  "made (Run e r) = {new_info e r (rq_ip r) a | a. True}"
| "made (Daemon_run e r) = {new_info e r [] []}"
| "made _ = {}"

lemma stored_put: "stored (put_dir d x S) \<subseteq> stored S \<union> set_option x"
  using set_put_dir [of d x S] by (auto simp: stored_def)

lemma stored_mkdir: "stored (mkdir_container d S) \<subseteq> stored S"
  using stored_put [of d None S] by (auto simp: mkdir_container_def)

lemma stored_write: "stored (snd (WriteContainerInfo w d i S)) \<subseteq> insert i (stored S)"
  using stored_put [of d None S] stored_put [of d "Some i" S]
  by (auto simp: WriteContainerInfo_def split: write_result.split)

lemma stored_write2:
  "stored (snd (WriteContainerInfo w d i (snd (WriteContainerInfo w' d' i' S)))) \<subseteq> {i, i'} \<union> stored S"
  using stored_write [of w d i "snd (WriteContainerInfo w' d' i' S)"] stored_write [of w' d' i' S] by auto

lemma find_stored: "findContainerInfo b i S = Some info \<Longrightarrow> info \<in> stored S"
  using find_first_in [of i S info] by (auto simp: findContainerInfo_def stored_def split: if_splits)

lemma cores_mono:
  assumes "stored (containers W') \<subseteq> X \<union> stored (containers W)" and "set (waiters W') \<subseteq> V \<union> set (waiters W)"
    and "core ` X \<subseteq> C" and "core ` w_info ` V \<subseteq> C" and "cores W \<subseteq> C"
  shows "cores W' \<subseteq> C"
proof -
  have "stored (containers W') \<union> w_info ` set (waiters W') \<subseteq>
      (X \<union> w_info ` V) \<union> (stored (containers W) \<union> w_info ` set (waiters W))"
    using assms(1,2) by auto
  then have "cores W' \<subseteq> core ` X \<union> core ` w_info ` V \<union> cores W"
    unfolding cores_def image_Un [symmetric] by (rule image_mono)
  then show ?thesis
    using assms(3-5) by blast
qed

lemma release_containers [simp]: "containers (release io c W) = containers W" "waiters (release io c W) = waiters W"
  by (simp_all add: release_def)

lemma run_child_cores:
  assumes same: "\<And>W. containers (deferred W) = containers W \<and> waiters (deferred W) = waiters W"
  shows "cores (snd (run_child e by deferred c a i W)) \<subseteq> insert (core i) (cores W)"
proof (cases rule: run_child_cases [of e "by" deferred c a i W])
  case (failed x G P)
  show ?thesis
    by (rule cores_mono [where W = W and X = "{i}" and V = "{}"])
      (use failed same stored_write [of "write_created e" "ci_id i" i "containers W"] in auto)
next
  case (waits G)
  let ?i = "i\<lparr>ci_pid := child_pid e, ci_status := Running\<rparr>"
  show ?thesis
    by (rule cores_mono [where W = W and X = "{?i, i}" and V = "{\<lparr>w_caller = by, w_pid = child_pid e, w_info = ?i\<rparr>}"])
      (use waits stored_write2 [of "write_running e" "ci_id i" ?i "write_created e" "ci_id i" i "containers W"] in auto)
qed

lemma cores_storage: "stored S \<subseteq> stored (containers W) \<Longrightarrow> cores (W\<lparr>containers := S\<rparr>) \<subseteq> cores W"
  by (auto simp: cores_def)

lemma cores_mkdir: "cores (W\<lparr>containers := mkdir_container d (containers W)\<rparr>) \<subseteq> cores W"
  by (rule cores_storage [OF stored_mkdir])

lemma cores_frame [simp]:
  "cores (W\<lparr>ipam := D\<rparr>) = cores W" "cores (W\<lparr>cgroups := G\<rparr>) = cores W" "cores (W\<lparr>processes := P\<rparr>) = cores W"
  "cores (release io c W) = cores W" "cores (kill_child p W) = cores W"
  by (simp_all add: cores_def release_def kill_child_def)

lemma cores_write:
  "cores (snd (write_config w i W)) \<subseteq> insert (core i) (cores W)"
  using stored_write [of w "ci_id i" i "containers W"] by (auto simp: write_config_def cores_def split_beta)

lemma cores_write_known: "core i \<in> cores W \<Longrightarrow> cores (snd (write_config w i W)) \<subseteq> cores W"
  using cores_write [of w i W] by auto

lemma found_core: "findContainerInfo b i (containers W) = Some info \<Longrightarrow> core info \<in> cores W"
  using find_stored [of b i "containers W" info] by (auto simp: cores_def)

section \<open>Every operation\<close>

lemma RunContainer_cores:
  assumes "RunContainer parse6 e r W = Some (x, W')" and "world_ok W"
  shows "cores W' \<subseteq> cores W \<union> core ` made (Run e r)"
proof -
  let ?W = "W\<lparr>containers := mkdir_container (hex_id e) (containers W)\<rparr>"
  have W: "cores (?W\<lparr>ipam := D\<rparr>) \<subseteq> cores W" for D
    using cores_mkdir [of "hex_id e" W] by (simp add: cores_def)
  have D: "disk_ok (ipam ?W)"
    using assms(2) by (simp add: world_ok_def)
  show ?thesis
  proof (cases rule: allocate_end [OF D, of parse6 "alloc_io e" "hex_id e" "rq_ip r"])
    case (1 y D)
    then show ?thesis
      using assms(1) W [of D] by (auto simp: RunContainer_def Let_def split: if_splits)
  next
    case (2 a D)
    have "cores (snd (run_child e By_run (release (release_io e) (hex_id e)) (hex_id e) a
        (new_info e r (rq_ip r) a) (?W\<lparr>ipam := D\<rparr>))) \<subseteq> insert (core (new_info e r (rq_ip r) a)) (cores W)"
      by (rule subset_trans [OF run_child_cores]) (use W [of D] in auto)
    then show ?thesis
      using assms(1) 2(1) by (auto simp: RunContainer_def Let_def split: if_splits)
  qed
qed

lemma CreateAndRun_cores: "cores (snd (CreateAndRun e r W)) \<subseteq> cores W \<union> core ` made (Daemon_run e r)"
proof -
  have "cores (snd (run_child e By_daemon (\<lambda>W. W) (hex_id e) [] (new_info e r [] [])
      (W\<lparr>containers := mkdir_container (hex_id e) (containers W)\<rparr>))) \<subseteq> insert (core (new_info e r [] [])) (cores W)"
    by (rule subset_trans [OF run_child_cores]) (use cores_mkdir in auto)
  then show ?thesis
    by (auto simp: CreateAndRun_def Let_def)
qed

lemma Start_cores:
  assumes "Start parse6 e i W = Some (x, W')" and "world_ok W"
  shows "cores W' \<subseteq> cores W"
proof (cases "findContainerInfo (storage_ok e) i (containers W)")
  case (Some info)
  have known: "core info \<in> cores W"
    by (rule found_core [OF Some])
  have D: "disk_ok (ipam W)"
    using assms(2) by (simp add: world_ok_def)
  have child: "cores V \<subseteq> cores W" if "start_child parse6 e info W = Some (y, V)" for y V
  proof (cases rule: start_child_cases [OF D, of parse6 e info])
    case (1 z D)
    then show ?thesis
      using that by auto
  next
    case (2 z D S G P)
    have "\<exists>j. core j = core info \<and> stored S \<subseteq> insert j (stored (containers W))"
    proof (cases "S = containers W")
      case False
      then obtain a where "S = snd (WriteContainerInfo (write_running e) (ci_id info)
          (info\<lparr>ci_ip := a, ci_pid := child_pid e, ci_status := Running, ci_finished := 0\<rparr>) (containers W))"
        using 2(5) by blast
      then show ?thesis
        using stored_write by (intro exI [where x = "info\<lparr>ci_ip := a, ci_pid := child_pid e, ci_status := Running, ci_finished := 0\<rparr>"]) simp
    qed auto
    then obtain j where "core j = core info" "stored S \<subseteq> insert j (stored (containers W))"
      by blast
    then show ?thesis
      using that 2(1) known by (auto simp: cores_def)
  next
    case (3 a D G)
    let ?j = "info\<lparr>ci_ip := a, ci_pid := child_pid e, ci_status := Running, ci_finished := 0\<rparr>"
    show ?thesis
      by (rule cores_mono [where W = W and X = "{?j}" and V = "{\<lparr>w_caller = By_start, w_pid = child_pid e, w_info = ?j\<rparr>}"])
        (use that 3(1) known stored_write [of "write_running e" "ci_id info" ?j "containers W"] in \<open>auto simp: Let_def\<close>)
  qed
  show ?thesis
    using assms(1) Some child by (auto simp: Start_def split: if_splits)
qed (use assms(1) in \<open>simp add: Start_def\<close>)

lemma finish_cores:
  assumes "core (w_info w) \<in> cores W"
  shows "cores (run_finish e w W) \<subseteq> cores W" and "cores (daemon_finish e w W) \<subseteq> cores W"
    and "cores (start_finish e w W) \<subseteq> cores W"
  using assms cores_write_known by (simp_all add: run_finish_def daemon_finish_def start_finish_def Let_def)

lemma wait_end_cores: "cores (wait_end e w W) \<subseteq> cores W"
proof (cases "w \<in> set (waiters W) \<and> processes W (w_pid w) = None")
  case True
  let ?W = "W\<lparr>waiters := remove1 w (waiters W)\<rparr>"
  have sub: "cores ?W \<subseteq> cores W"
    using set_remove1_subset [of w "waiters W"] by (auto simp: cores_def)
  have "core (w_info w) \<in> cores W"
    using True by (auto simp: cores_def)
  have fin: "cores (snd (write_config wr i ?W)) \<subseteq> cores W" if "core i = core (w_info w)" for wr i
    using cores_write [of wr i ?W] sub \<open>core (w_info w) \<in> cores W\<close> that by auto
  show ?thesis
    using True fin
    by (cases "w_caller w") (simp_all add: wait_end_def run_finish_def daemon_finish_def start_finish_def Let_def)
qed (auto simp: wait_end_def simp del: split_paired_Ex not_None_eq)

lemma stop_cores: "cores (snd (StopContainer e i W)) \<subseteq> cores W"
proof (cases "findContainerInfo (s_storage_ok e) i (containers W)")
  case (Some info)
  then have "core info \<in> cores W"
    by (rule found_core)
  then show ?thesis
    using cores_write_known [of "info\<lparr>ci_status := Stopped, ci_pid := 0, ci_finished := s_now e\<rparr>" W "s_write e"] Some
    by (auto simp: StopContainer_def Let_def split_beta)
qed (simp add: StopContainer_def)

lemma adjust_cores: "cores (snd (AdjustResourceLimits b e w i l W)) \<subseteq> cores W"
proof (cases "findContainerInfo b i (containers W)")
  case (Some info)
  have "cores (snd (write_config w (info\<lparr>ci_limits := l'\<rparr>) (W\<lparr>cgroups := G\<rparr>))) \<subseteq> cores W" for l' G
    using cores_write_known [of "info\<lparr>ci_limits := l'\<rparr>" "W\<lparr>cgroups := G\<rparr>" w] found_core [OF Some] by simp
  then show ?thesis
    using Some by (simp add: AdjustResourceLimits_def split_beta Let_def split: option.split)
qed (simp add: AdjustResourceLimits_def)

lemma remove_cores: "cores (snd (removeContainer e c W)) \<subseteq> cores W"
  by (auto simp: removeContainer_def Let_def cores_def stored_def split: option.split)

lemma world_step_cores:
  assumes "world_step parse6 op W = Some W'" and "world_ok W"
  shows "cores W' \<subseteq> cores W \<union> core ` made op"
proof (cases op)
  case (Run e r)
  then show ?thesis
    using assms RunContainer_cores by fastforce
next
  case (Restart e i)
  then show ?thesis
    using assms Start_cores by fastforce
next
  case (Daemon_run e r)
  then show ?thesis
    using assms CreateAndRun_cores [of e r W] by simp
next
  case (Wait_end e w)
  then show ?thesis
    using assms(1) wait_end_cores [of e w W] by simp
next
  case (Stop e i)
  then show ?thesis
    using assms(1) stop_cores [of e i W] by simp
next
  case (Adjust b e w i l)
  then show ?thesis
    using assms(1) adjust_cores [of b e w i l W] by simp
next
  case (Remove e c)
  then show ?thesis
    using assms(1) remove_cores [of e c W] by simp
qed (use assms in auto)

lemma world_run_cores:
  "world_run parse6 ops W = Some W' \<Longrightarrow> world_ok W \<Longrightarrow> \<forall>op \<in> set ops. op_ok op \<Longrightarrow>
    cores W' \<subseteq> cores W \<union> (\<Union>op \<in> set ops. core ` made op)"
proof (induction ops arbitrary: W)
  case (Cons op ops)
  then obtain V where V: "world_step parse6 op W = Some V" "world_run parse6 ops V = Some W'"
    by (auto simp: bind_eq_Some_conv)
  have "world_ok V"
    using world_step_ok [of W op parse6] Cons.prems V(1) by auto
  then have "cores W' \<subseteq> cores V \<union> (\<Union>op \<in> set ops. core ` made op)"
    using Cons.IH [OF V(2)] Cons.prems(3) by simp
  moreover have "cores V \<subseteq> cores W \<union> core ` made op"
    by (rule world_step_cores [OF V(1) Cons.prems(2)])
  ultimately show ?case
    by auto
qed simp

text \<open>Each record that a run of the system finds was made by one of its runs.\<close>

lemma record_origin:
  assumes "world_run parse6 ops empty_world = Some W" and "\<forall>op \<in> set ops. op_ok op"
    and "findContainerInfo b i (containers W) = Some info"
  obtains e r req a where "Run e r \<in> set ops \<or> Daemon_run e r \<in> set ops" and "core info = core (new_info e r req a)"
proof -
  have "cores empty_world = {}"
    by (simp add: cores_def stored_def empty_world_def)
  then have "core info \<in> (\<Union>op \<in> set ops. core ` made op)"
    using world_run_cores [OF assms(1) world_ok_empty assms(2)] found_core [OF assms(3)] by blast
  then obtain op where op: "op \<in> set ops" "core info \<in> core ` made op"
    by blast
  show thesis
  proof (cases op)
    case (Run e r)
    then show thesis
      using op that by auto
  next
    case (Daemon_run e r)
    then show thesis
      using op that by auto
  qed (use op in auto)
qed

end
