(* ===== verification/Container_Init.thy ===== *)
theory Container_Init
  imports Image "HOL-Library.Sublist"
begin

text \<open>
  The child's side of a run: \<open>internal/container/init.go\<close>, \<open>internal/container/rootfs.go\<close>,
  \<open>internal/network/container.go\<close> and \<open>internal/network/dns.go\<close>.  The child reads its
  request from the pipe, builds its root file system, configures its network, runs the
  initialisation commands and replaces itself by the user's command.

  The program is a sequence of system calls and calls of packages, each of which
  succeeds or fails.  Here every call is an \<open>action\<close>; the run of the program is the list
  of the actions it made with their error numbers (0 for none), and which error an
  action gives is an argument.
\<close>

section \<open>Actions\<close>

datatype mount_flag = MS_PRIVATE | MS_REC | MS_BIND

datatype action =
    Read_request
  | Set_hostname string
  | Read_file_at string
  | Make_directory string nat
  | Mount string string string "mount_flag list" string
  | Get_executable
  | Open_file string
  | Create_file string
  | Copy_contents
  | Pivot_root string string
  | Change_dir string
  | Unmount_detach string
  | Remove_all string
  | Remove_one string
  | Link_symbolic string string
  | Set_umask nat
  | Make_node string nat nat
  | Change_mode string nat
  | Write_text string string
  | Find_link string
  | Rename_link string string
  | Parse_address string
  | Add_address string string
  | Set_link_up string
  | Add_default_route string
  | Run_shell string
  | Look_path string
  | Append_file string
  | Start_command string
  | Exec_command string "string list"

type_synonym trace = "(action \<times> int) list"

text \<open>The fields of \<open>RunRequest\<close> that the child reads.\<close>

record child_request =
  cr_image :: string
  cr_tag :: string
  cr_name :: string
  cr_command :: string
  cr_args :: "string list"
  cr_mount :: string
  cr_peer :: string
  cr_init :: "string list"
  cr_ip :: string

text \<open>
  What the run meets: the error of each action by its place, and what the successful
  reads give: the request, the manifest, \<open>/proc/mounts\<close>, the path of the executable
  (after following links), the variable \<open>PWD\<close> and the path of the command.
\<close>

record child_env =
  errno_at :: "nat \<Rightarrow> int"
  the_request :: child_request
  the_manifest :: manifest_file
  proc_mounts :: string
  own_path :: string
  pwd :: string
  command_path :: string
  ipv6 :: "string \<Rightarrow> ip option"
  old_umask :: nat

text \<open>
  A part of the program is given its continuation; it returns whether the command was
  executed, and the trace.  \<open>must\<close> is a call whose error ends the run, \<open>attempt\<close> one
  whose error is ignored, and \<open>give_up\<close> an error return.
\<close>

type_synonym script = "child_env \<Rightarrow> trace \<Rightarrow> bool \<times> trace"

definition must :: "action \<Rightarrow> script \<Rightarrow> script" where
  "must a k = (\<lambda>E tr. let r = errno_at E (length tr); tr' = tr @ [(a, r)] in if r = 0 then k E tr' else (False, tr'))"

definition attempt :: "action \<Rightarrow> script \<Rightarrow> script" where
  "attempt a k = (\<lambda>E tr. k E (tr @ [(a, errno_at E (length tr))]))"

definition attempt_then :: "action \<Rightarrow> (bool \<Rightarrow> script) \<Rightarrow> script" where
  "attempt_then a k = (\<lambda>E tr. let r = errno_at E (length tr) in k (r = 0) E (tr @ [(a, r)]))"

definition give_up :: script where
  "give_up = (\<lambda>E tr. (False, tr))"

text \<open>A script that depends on what was read.\<close>

definition with_env :: "(child_env \<Rightarrow> script) \<Rightarrow> script" where
  "with_env k = (\<lambda>E. k E E)"

fun all_of :: "(script \<Rightarrow> script) list \<Rightarrow> script \<Rightarrow> script" where
  "all_of [] k = k"
| "all_of (p # ps) k = p (all_of ps k)"

section \<open>The root file system\<close>

text \<open>\<open>PivotRoot\<close>\<close>

definition PivotRoot :: "string \<Rightarrow> script \<Rightarrow> script" where
  "PivotRoot newRoot k =
     all_of [must (Mount [] ''/'' [] [MS_PRIVATE, MS_REC] []),
             must (Mount newRoot newRoot [] [MS_BIND, MS_REC] []),
             must (Make_directory (Join [newRoot, ''.old_root'']) 448),
             must (Pivot_root newRoot (Join [newRoot, ''.old_root''])),
             must (Change_dir ''/''),
             must (Unmount_detach ''/.old_root''),
             attempt (Remove_all ''/.old_root'')] k"

text \<open>\<open>checkFSType\<close>: the first line of \<open>/proc/mounts\<close> for the mount point decides.\<close>

fun mounted_as :: "string \<Rightarrow> string \<Rightarrow> string list \<Rightarrow> bool" where
  "mounted_as mountPoint fstype [] = False"
| "mounted_as mountPoint fstype (line # lines) =
     (let fields = Fields line
      in if length fields \<ge> 3 \<and> fields ! 1 = mountPoint then fields ! 2 = fstype
         else mounted_as mountPoint fstype lines)"

definition checkFSType :: "string \<Rightarrow> string \<Rightarrow> (bool \<Rightarrow> script) \<Rightarrow> script" where
  "checkFSType mountPoint fstype k =
     attempt_then (Read_file_at ''/proc/mounts'') (\<lambda>ok. with_env (\<lambda>E.
       k (ok \<and> mounted_as mountPoint fstype (split_on newline (proc_mounts E)))))"

definition EBUSY :: int where
  "EBUSY = 16"

text \<open>The overlay mount, which is skipped when the overlay is already there.\<close>

definition mount_overlay :: "string \<Rightarrow> string \<Rightarrow> script \<Rightarrow> script" where
  "mount_overlay mountPoint opts k = (\<lambda>E tr.
     let r = errno_at E (length tr); tr' = tr @ [(Mount ''overlay'' mountPoint ''overlay'' [] opts, r)]
     in if r = 0 then k E tr'
        else if r = EBUSY
             then checkFSType mountPoint ''overlay'' (\<lambda>there. if there then k else give_up) E tr'
             else (False, tr'))"

definition BPFServiceExeHost :: string where
  "BPFServiceExeHost = ''ebpf-sched-monitor''"

definition BPFServiceExeContainer :: string where
  "BPFServiceExeContainer = ''/usr/bin/ebpf-sched-monitor''"

definition BPFServiceOutputLog :: string where
  "BPFServiceOutputLog = ''/var/log/ebpf-sched-monitor.log''"

text \<open>The monitor is copied into the container (\<open>O_TRUNC\<close>, mode 0755).\<close>

definition copy_monitor :: "string \<Rightarrow> script \<Rightarrow> script" where
  "copy_monitor mountPoint k =
     attempt_then Get_executable (\<lambda>ok. with_env (\<lambda>E.
       let exe = (if ok then own_path E else pwd E);
           srcPath = Join [Dir exe, BPFServiceExeHost];
           dstPath = Join [mountPoint, BPFServiceExeContainer]
       in all_of [attempt (Make_directory (Dir dstPath) 493), must (Open_file srcPath), must (Create_file dstPath),
                  must Copy_contents] k))"

definition char_device :: nat where
  "char_device = 8192 + 438"

text \<open>
  Package \<open>os\<close> passes on the nine permission bits of a mode; its sticky bit is another
  one than that of the octal notation, so \<open>01777\<close> (1023) is passed on as \<open>0777\<close>.
\<close>

definition file_mode :: "nat \<Rightarrow> nat" where
  "file_mode m = m mod 512"

definition restore_umask :: "script \<Rightarrow> script" where
  "restore_umask k = with_env (\<lambda>E. attempt (Set_umask (old_umask E)) k)"

text \<open>The virtual file systems and the device nodes.\<close>

definition mount_virtual :: "script \<Rightarrow> script" where
  "mount_virtual k =
     all_of [must (Mount ''proc'' ''/proc'' ''proc'' [] []),
             must (Mount ''sysfs'' ''/sys'' ''sysfs'' [] []),
             attempt (Make_directory ''/dev'' 493),
             attempt (Mount ''tmpfs'' ''/dev'' ''tmpfs'' [] ''mode=0755''),
             attempt (Make_directory ''/dev/pts'' 493),
             attempt (Make_directory ''/dev/shm'' 493),
             attempt (Make_directory ''/tmp'' (file_mode 1023)),
             attempt (Make_directory ''/run'' 493),
             attempt (Mount ''devpts'' ''/dev/pts'' ''devpts'' [] ''newinstance,ptmxmode=0666,mode=0620,gid=5''),
             attempt (Remove_one ''/dev/ptmx''),
             attempt (Link_symbolic ''pts/ptmx'' ''/dev/ptmx''),
             attempt (Mount ''tmpfs'' ''/tmp'' ''tmpfs'' [] ''mode=1777''),
             attempt (Mount ''tmpfs'' ''/run'' ''tmpfs'' [] ''mode=0755''),
             attempt (Mount ''tmpfs'' ''/dev/shm'' ''tmpfs'' [] ''mode=1777''),
             attempt (Set_umask 0),
             attempt (Make_node ''/dev/null'' char_device 259),
             attempt (Make_node ''/dev/zero'' char_device 261),
             attempt (Make_node ''/dev/full'' char_device 263),
             attempt (Make_node ''/dev/random'' char_device 264),
             attempt (Make_node ''/dev/urandom'' char_device 265),
             attempt (Make_node ''/dev/tty'' char_device 1280),
             restore_umask,
             attempt (Change_mode ''/tmp'' (file_mode 1023)),
             attempt (Change_mode ''/dev/shm'' (file_mode 1023))] k"

definition SetupRootfs :: "string \<Rightarrow> string \<Rightarrow> string \<Rightarrow> script \<Rightarrow> script" where
  "SetupRootfs mountPoint imageName imageTag k =
     must (Read_file_at (Join [ImagesDir, ''manifest.json''])) (with_env (\<lambda>E.
       case findImageRootfsPath imageName imageTag (the_manifest E) of
         None \<Rightarrow> give_up
       | Some imageRootfsPath \<Rightarrow>
           (let base = Dir mountPoint; upperdir = Join [base, ''upper'']; workdir = Join [base, ''work''];
                opts = ''lowerdir='' @ imageRootfsPath @ '',upperdir='' @ upperdir @ '',workdir='' @ workdir
            in all_of [must (Make_directory mountPoint 493), must (Make_directory upperdir 493),
                       must (Make_directory workdir 493), mount_overlay mountPoint opts,
                       copy_monitor mountPoint, PivotRoot mountPoint, mount_virtual] k)))"

section \<open>The network and the start of the command\<close>

definition indent :: string where
  "indent = CHR 0x09 # replicate 14 CHR '' ''"

definition DNSServers :: string where
  "DNSServers = ''nameserver 8.8.8.8'' @ [newline] @ indent @ ''nameserver 1.1.1.1'' @ [newline] @
     indent @ ''nameserver 8.8.4.4'' @ [newline] @ replicate 4 CHR 0x09 @ '' ''"

definition SetupDNS :: "script \<Rightarrow> script" where
  "SetupDNS k = must (Write_text ''/etc/resolv.conf'' DNSServers) k"

text \<open>\<open>IPMask.Size\<close>: the number of leading ones.\<close>

definition mask_bits :: "ip \<Rightarrow> bool list" where
  "mask_bits m = concat (map (\<lambda>b. map (bit b) [7, 6, 5, 4, 3, 2, 1, 0]) m)"

definition mask_size :: "ip \<Rightarrow> nat" where
  "mask_size m =
     (let bs = mask_bits m; ones = takeWhile id bs
      in if True \<in> set (drop (length ones) bs) then 0 else length ones)"

text \<open>The link is found by its name and keeps being the same link when it is renamed.\<close>

definition ConfigureContainerNetwork :: "string \<Rightarrow> string \<Rightarrow> script \<Rightarrow> script" where
  "ConfigureContainerNetwork peerName ipAddress k =
     must (Find_link peerName)
      (if ipAddress = [] then give_up
       else must (Rename_link peerName ''eth0'')
        (case parse_cidr NetworkCIDR of
           None \<Rightarrow> give_up
         | Some (_, subnet) \<Rightarrow>
             (let addr = ipAddress @ ''/'' @ dec (mask_size (net_mask subnet))
              in must (Parse_address addr) (must (Add_address peerName addr) (must (Set_link_up peerName)
                (with_env (\<lambda>E.
                   case parse_ip (ipv6 E) GatewayIP of
                     None \<Rightarrow> give_up
                   | Some gw \<Rightarrow>
                       must (Add_default_route (ip_string gw))
                         (attempt (Find_link ''lo'') (attempt (Set_link_up ''lo'') k)))))))))"

definition InitContainer :: script where
  "InitContainer =
     must Read_request (with_env (\<lambda>E.
       let req = the_request E
       in must (Set_hostname (cr_name req))
            (SetupRootfs (cr_mount req) (cr_image req) (cr_tag req)
              (SetupDNS
                (ConfigureContainerNetwork (cr_peer req) (cr_ip req)
                  (all_of (map (\<lambda>c. must (Run_shell c)) (cr_init req))
                    (must (Look_path (cr_command req))
                      (must (Append_file BPFServiceOutputLog)
                        (attempt (Start_command BPFServiceExeContainer)
                          (must (Exec_command (command_path E) (cr_command req # cr_args req))
                            (\<lambda>E tr. (True, tr))))))))))))"

definition child_run :: "child_env \<Rightarrow> bool \<times> trace" where
  "child_run E = InitContainer E []"

section \<open>What has happened before an action\<close>

definition succeeded :: "trace \<Rightarrow> action list" where
  "succeeded tr = map fst (filter (\<lambda>(a, r). r = 0) tr)"

lemma succeeded_append [simp]: "succeeded (tr @ tr') = succeeded tr @ succeeded tr'"
  by (simp add: succeeded_def)

lemma succeeded_one [simp]: "succeeded [] = []" "succeeded [(a, r)] = (if r = 0 then [a] else [])"
  by (simp_all add: succeeded_def)

text \<open>
  \<open>guarded N E req p\<close>: when the actions \<open>req\<close> have succeeded in this order, the script
  only adds actions for which \<open>N\<close> is satisfied: what \<open>N\<close> asks for an action has
  succeeded, in order, before it.
\<close>

definition guarded :: "(action \<Rightarrow> action list option) \<Rightarrow> child_env \<Rightarrow> action list \<Rightarrow> script \<Rightarrow> bool" where
  "guarded N E req p \<longleftrightarrow> (\<forall>tr. subseq req (succeeded tr) \<longrightarrow>
     (\<exists>ext. snd (p E tr) = tr @ ext \<and>
       (\<forall>e1 a r e2 need. ext = e1 @ (a, r) # e2 \<and> N a = Some need \<longrightarrow> subseq need (succeeded (tr @ e1)))))"

lemma guarded_run:
  assumes "guarded N E [] p" and "snd (p E []) = e1 @ (a, r) # e2" and "N a = Some need"
  shows "subseq need (succeeded e1)"
  using assms(1) [unfolded guarded_def, rule_format, of "[]"] assms(2,3) by auto

named_theorems guarded_rules \<open>how a script keeps what is asked of its actions\<close>

lemma subseq_append_right: "subseq xs ys \<Longrightarrow> subseq xs (ys @ zs)"
  using subseq_order.trans by auto

lemma guarded_step:
  assumes "\<And>need. N a = Some need \<Longrightarrow> subseq need req"
    and "guarded N E req' k" and "subseq req (succeeded tr)" and "subseq req' (succeeded (tr @ [(a, r)]))"
  shows "\<exists>ext. snd (k E (tr @ [(a, r)])) = tr @ ext \<and>
    (\<forall>e1 b s e2 need. ext = e1 @ (b, s) # e2 \<and> N b = Some need \<longrightarrow> subseq need (succeeded (tr @ e1)))"
proof -
  obtain ext where ext: "snd (k E (tr @ [(a, r)])) = (tr @ [(a, r)]) @ ext"
    "\<And>e1 b s e2 need. ext = e1 @ (b, s) # e2 \<Longrightarrow> N b = Some need \<Longrightarrow> subseq need (succeeded ((tr @ [(a, r)]) @ e1))"
    using assms(2,4) unfolding guarded_def by blast
  have "subseq need (succeeded (tr @ e1))"
    if "(a, r) # ext = e1 @ (b, s) # e2" "N b = Some need" for e1 b s e2 need
  proof (cases e1)
    case Nil
    then show ?thesis
      using that assms(1,3) subseq_order.trans by auto
  next
    case (Cons x e1')
    then show ?thesis
      using that ext(2) [of e1' b s e2 need] by simp
  qed
  then show ?thesis
    using ext(1) by (intro exI [where x = "(a, r) # ext"]) simp
qed

lemma guarded_must [guarded_rules]:
  assumes "\<And>need. N a = Some need \<Longrightarrow> subseq need req" and "guarded N E (req @ [a]) k"
  shows "guarded N E req (must a k)"
  unfolding guarded_def
proof (intro allI impI)
  fix tr
  assume req: "subseq req (succeeded tr)"
  show "\<exists>ext. snd (must a k E tr) = tr @ ext \<and>
    (\<forall>e1 b s e2 need. ext = e1 @ (b, s) # e2 \<and> N b = Some need \<longrightarrow> subseq need (succeeded (tr @ e1)))"
  proof (cases "errno_at E (length tr) = 0")
    case True
    then show ?thesis
      using guarded_step [where r = 0, OF assms req] req by (simp add: must_def list_emb_append_mono)
  next
    case False
    then show ?thesis
      using assms(1) req subseq_order.trans
      by (intro exI [where x = "[(a, errno_at E (length tr))]"]) (auto simp: must_def Let_def Cons_eq_append_conv)
  qed
qed

lemma guarded_attempt [guarded_rules]:
  assumes "\<And>need. N a = Some need \<Longrightarrow> subseq need req" and "guarded N E req k"
  shows "guarded N E req (attempt a k)"
  unfolding guarded_def attempt_def
proof (intro allI impI)
  fix tr
  assume "subseq req (succeeded tr)"
  then show "\<exists>ext. snd (k E (tr @ [(a, errno_at E (length tr))])) = tr @ ext \<and>
    (\<forall>e1 b s e2 need. ext = e1 @ (b, s) # e2 \<and> N b = Some need \<longrightarrow> subseq need (succeeded (tr @ e1)))"
    by (intro guarded_step [where N = N, OF assms]) (simp_all add: subseq_append_right)
qed

lemma guarded_attempt_then [guarded_rules]:
  assumes "\<And>need. N a = Some need \<Longrightarrow> subseq need req" and "\<And>ok. guarded N E req (k ok)"
  shows "guarded N E req (attempt_then a k)"
  unfolding guarded_def attempt_then_def Let_def
proof (intro allI impI)
  fix tr
  assume "subseq req (succeeded tr)"
  then show "\<exists>ext. snd (k (errno_at E (length tr) = 0) E (tr @ [(a, errno_at E (length tr))])) = tr @ ext \<and>
    (\<forall>e1 b s e2 need. ext = e1 @ (b, s) # e2 \<and> N b = Some need \<longrightarrow> subseq need (succeeded (tr @ e1)))"
    by (intro guarded_step [where N = N, OF assms]) (simp_all add: subseq_append_right)
qed

lemma guarded_with_env [guarded_rules]: "guarded N E req (k E) \<Longrightarrow> guarded N E req (with_env k)"
  by (simp add: guarded_def with_env_def)

lemma guarded_end [guarded_rules]: "guarded N E req give_up" "guarded N E req (\<lambda>E tr. (True, tr))"
  by (simp_all add: guarded_def give_up_def)

text \<open>The parts of the program that the user controls, and what must have happened before them.\<close>

definition isolation :: "child_env \<Rightarrow> action list" where
  "isolation E =
     (let req = the_request E; mp = cr_mount req
      in [Set_hostname (cr_name req),
          Mount [] ''/'' [] [MS_PRIVATE, MS_REC] [],
          Mount mp mp [] [MS_BIND, MS_REC] [],
          Pivot_root mp (Join [mp, ''.old_root'']),
          Change_dir ''/'',
          Unmount_detach ''/.old_root'',
          Mount ''proc'' ''/proc'' ''proc'' [] [],
          Mount ''sysfs'' ''/sys'' ''sysfs'' [] [],
          Rename_link (cr_peer req) ''eth0'',
          Add_address (cr_peer req) (cr_ip req @ ''/24''),
          Set_link_up (cr_peer req),
          Add_default_route ''10.20.0.1''])"

fun needed :: "child_env \<Rightarrow> action \<Rightarrow> action list option" where
  "needed E (Run_shell c) = Some (isolation E)"
| "needed E (Start_command c) = Some (isolation E @ map Run_shell (cr_init (the_request E)))"
| "needed E (Exec_command c args) = Some (isolation E @ map Run_shell (cr_init (the_request E)))"
| "needed E a = None"

lemma guarded_all_of: "guarded N E req (all_of [] k) = guarded N E req k"
  "guarded N E req (all_of (p # ps) k) = guarded N E req (p (all_of ps k))"
  by simp_all

lemma guarded_checkFSType [guarded_rules]:
  "(\<And>ok. guarded (needed E) E req (k ok)) \<Longrightarrow> guarded (needed E) E req (checkFSType mp fs k)"
  unfolding checkFSType_def by (intro guarded_rules) simp_all

lemma guarded_overlay [guarded_rules]:
  assumes "guarded (needed E) E req k"
  shows "guarded (needed E) E req (mount_overlay mp opts k)"
proof -
  let ?c = "checkFSType mp ''overlay'' (\<lambda>there. if there then k else give_up)"
  have c: "guarded (needed E) E req ?c"
    using assms guarded_end(1) by (intro guarded_rules) simp
  show ?thesis
    unfolding guarded_def
  proof (intro allI impI)
    fix tr :: trace
    let ?a = "Mount ''overlay'' mp ''overlay'' [] opts" and ?r = "errno_at E (length tr)"
    let ?k = "if ?r = 0 then k else if ?r = EBUSY then ?c else give_up"
    assume "subseq req (succeeded tr)"
    moreover have "guarded (needed E) E req ?k"
      using assms c guarded_end(1) by simp
    moreover have "mount_overlay mp opts k E tr = ?k E (tr @ [(?a, ?r)])"
      by (simp add: mount_overlay_def Let_def give_up_def)
    ultimately show "\<exists>ext. snd (mount_overlay mp opts k E tr) = tr @ ext \<and>
      (\<forall>e1 b s e2 need. ext = e1 @ (b, s) # e2 \<and> needed E b = Some need \<longrightarrow> subseq need (succeeded (tr @ e1)))"
      using guarded_step [where N = "needed E" and a = ?a and r = ?r and k = ?k] by (simp add: subseq_append_right)
  qed
qed

lemma guarded_more: "guarded N E req p \<Longrightarrow> subseq req req' \<Longrightarrow> guarded N E req' p"
  unfolding guarded_def by (meson subseq_order.trans)

lemma guarded_must_drop:
  "(\<And>need. N a = Some need \<Longrightarrow> subseq need req) \<Longrightarrow> guarded N E req k \<Longrightarrow> guarded N E req (must a k)"
  by (rule guarded_must) (auto intro: guarded_more simp: subseq_append_right)

lemma guarded_copy_monitor:
  "guarded (needed E) E req k \<Longrightarrow> guarded (needed E) E req (copy_monitor mp k)"
  unfolding copy_monitor_def Let_def all_of.simps
  by (intro guarded_must_drop guarded_attempt guarded_attempt_then guarded_with_env) simp_all

lemma guarded_inits:
  assumes "subseq (isolation E) req" and "guarded (needed E) E (req @ map Run_shell cs) k"
  shows "guarded (needed E) E req (all_of (map (\<lambda>c. must (Run_shell c)) cs) k)"
  using assms
proof (induction cs arbitrary: req)
  case (Cons c cs)
  have "guarded (needed E) E (req @ [Run_shell c]) (all_of (map (\<lambda>c. must (Run_shell c)) cs) k)"
    using Cons.prems by (intro Cons.IH) (simp_all add: subseq_append_right)
  then show ?case
    using Cons.prems(1) by (auto intro!: guarded_must)
qed simp

lemma network_constants:
  "dec (mask_size (net_mask the_net)) = ''24''"
  "parse_ip parse6 GatewayIP = Some (v4_prefix @ [10, 20, 0, 1])" "ip_string (v4_prefix @ [10, 20, 0, 1]) = ''10.20.0.1''"
  by code_simp+

definition pivot_steps :: "string \<Rightarrow> action list" where
  "pivot_steps mp = [Mount [] ''/'' [] [MS_PRIVATE, MS_REC] [], Mount mp mp [] [MS_BIND, MS_REC] [],
     Make_directory (Join [mp, ''.old_root'']) 448, Pivot_root mp (Join [mp, ''.old_root'']), Change_dir ''/'',
     Unmount_detach ''/.old_root'']"

lemma guarded_PivotRoot:
  "guarded (needed E) E (req @ pivot_steps mp) k \<Longrightarrow> guarded (needed E) E req (PivotRoot mp k)"
  unfolding PivotRoot_def all_of.simps
  by (intro guarded_rules) (simp_all add: pivot_steps_def)

definition virtual_steps :: "action list" where
  "virtual_steps = [Mount ''proc'' ''/proc'' ''proc'' [] [], Mount ''sysfs'' ''/sys'' ''sysfs'' [] []]"

lemma guarded_virtual:
  "guarded (needed E) E (req @ virtual_steps) k \<Longrightarrow> guarded (needed E) E req (mount_virtual k)"
  unfolding mount_virtual_def restore_umask_def all_of.simps
  by (intro guarded_rules) (simp_all add: virtual_steps_def)

definition network_steps :: "string \<Rightarrow> string \<Rightarrow> action list" where
  "network_steps peer ip = [Find_link peer, Rename_link peer ''eth0'', Parse_address (ip @ ''/24''),
     Add_address peer (ip @ ''/24''), Set_link_up peer, Add_default_route ''10.20.0.1'']"

lemma guarded_network:
  "guarded (needed E) E (req @ network_steps peer ip) k \<Longrightarrow>
    guarded (needed E) E req (ConfigureContainerNetwork peer ip k)"
  unfolding ConfigureContainerNetwork_def parse_network option.case prod.case Let_def network_constants
  by (cases "ip = []")
    (simp_all only: if_True if_False, (intro guarded_rules; simp add: network_steps_def)+)

lemma guarded_rootfs:
  assumes "guarded (needed E) E (req @ pivot_steps mp @ virtual_steps) k"
  shows "guarded (needed E) E req (SetupRootfs mp name tag k)"
proof -
  have "guarded (needed E) E req (PivotRoot mp (mount_virtual k))"
    using assms by (intro guarded_PivotRoot guarded_virtual) simp
  then have "guarded (needed E) E req (mount_overlay mp opts (copy_monitor mp (PivotRoot mp (mount_virtual k))))" for opts
    by (intro guarded_overlay guarded_copy_monitor)
  then show ?thesis
    unfolding SetupRootfs_def all_of.simps Let_def
    by (intro guarded_must_drop guarded_with_env) (auto intro!: guarded_must_drop guarded_end split: option.split)
qed

definition child_steps :: "child_request \<Rightarrow> action list" where
  "child_steps req = [Set_hostname (cr_name req)] @ pivot_steps (cr_mount req) @ virtual_steps @
     network_steps (cr_peer req) (cr_ip req)"

lemma isolation_steps: "subseq (isolation E) (child_steps (the_request E))"
  by (simp add: isolation_def child_steps_def pivot_steps_def virtual_steps_def network_steps_def Let_def)

lemma guarded_child: "guarded (needed E) E [] InitContainer"
proof -
  let ?req = "the_request E"
  let ?exec = "must (Look_path (cr_command ?req)) (must (Append_file BPFServiceOutputLog)
    (attempt (Start_command BPFServiceExeContainer)
      (must (Exec_command (command_path E) (cr_command ?req # cr_args ?req)) (\<lambda>E tr. (True, tr)))))"
  let ?inits = "all_of (map (\<lambda>c. must (Run_shell c)) (cr_init ?req)) ?exec"
  let ?net = "SetupDNS (ConfigureContainerNetwork (cr_peer ?req) (cr_ip ?req) ?inits)"
  have "guarded (needed E) E (child_steps ?req @ map Run_shell (cr_init ?req)) ?exec"
    by (intro guarded_must_drop guarded_attempt guarded_end) (auto simp: isolation_steps)
  then have "guarded (needed E) E (child_steps ?req) ?inits"
    by (rule guarded_inits [OF isolation_steps])
  then have "guarded (needed E) E ([Set_hostname (cr_name ?req)] @ pivot_steps (cr_mount ?req) @ virtual_steps) ?net"
    unfolding SetupDNS_def by (intro guarded_must_drop guarded_network) (simp_all add: child_steps_def)
  then have "guarded (needed E) E [Set_hostname (cr_name ?req)] (SetupRootfs (cr_mount ?req) (cr_image ?req) (cr_tag ?req) ?net)"
    by (rule guarded_rootfs)
  then have "guarded (needed E) E [] (must (Set_hostname (cr_name ?req))
      (SetupRootfs (cr_mount ?req) (cr_image ?req) (cr_tag ?req) ?net))"
    by (intro guarded_must) simp_all
  then show ?thesis
    unfolding InitContainer_def Let_def by (rule guarded_must_drop [OF _ guarded_with_env, rotated]) simp
qed

text \<open>
  C35: nothing of the user's runs outside the container.  Whatever calls fail, when
  the child runs an initialisation command, the monitor or the user's command, it has
  by then, in this order, set its own host name, cut its mounts off from the host's,
  made the mount point its root, unmounted the old root, mounted its own \<open>/proc\<close> and
  \<open>/sys\<close>, and given its own end of the link its address and route; and before the
  monitor and the command, all initialisation commands have succeeded.
\<close>

theorem child_isolated:
  assumes "snd (child_run E) = before @ (a, r) # rest" and "needed E a = Some actions"
  shows "subseq actions (succeeded before)"
  using guarded_run [OF guarded_child] assms by (simp add: child_run_def)

section \<open>Witness\<close>

definition demo_child :: child_env where
  "demo_child = \<lparr>errno_at = (\<lambda>_. 0),
     the_request = \<lparr>cr_image = ''alpine'', cr_tag = ''3'', cr_name = ''web'', cr_command = ''sh'', cr_args = [''-l''],
       cr_mount = ''/c/1/rootfs'', cr_peer = ''peer-7'', cr_init = [''true''], cr_ip = ''10.20.0.2''\<rparr>,
     the_manifest = Manifest [\<lparr>ImageID = ''0123456789ab'', RepoTag = ''alpine:3''\<rparr>],
     proc_mounts = [], own_path = ''/usr/bin/gocker'', pwd = ''/'', command_path = ''/bin/sh'', ipv6 = (\<lambda>_. None),
     old_umask = 18\<rparr>"

lemma all_succeed:
  assumes "\<forall>n. errno_at E n = 0"
  shows "must a k E tr = k E (tr @ [(a, 0)])" and "attempt a k E tr = k E (tr @ [(a, 0)])"
    and "attempt_then a j E tr = j True E (tr @ [(a, 0)])"
    and "mount_overlay mp opts k E tr = k E (tr @ [(Mount ''overlay'' mp ''overlay'' [] opts, 0)])"
  using assms by (simp_all add: must_def attempt_def attempt_then_def mount_overlay_def)

lemma demo_image:
  "findImageRootfsPath ''alpine'' ''3'' (the_manifest demo_child) = Some (Join [ImagesDir, ''0123456789ab'', ''rootfs''])"
  by (simp add: findImageRootfsPath_def demo_child_def)

lemma demo_child_last:
  "snd (child_run demo_child) \<noteq> [] \<and> List.last (snd (child_run demo_child)) = (Exec_command ''/bin/sh'' [''sh'', ''-l''], 0)"
proof -
  have ok: "\<forall>n. errno_at demo_child n = 0"
    by (simp add: demo_child_def)
  have req: "the_request demo_child = \<lparr>cr_image = ''alpine'', cr_tag = ''3'', cr_name = ''web'', cr_command = ''sh'',
      cr_args = [''-l''], cr_mount = ''/c/1/rootfs'', cr_peer = ''peer-7'', cr_init = [''true''], cr_ip = ''10.20.0.2''\<rparr>"
    "command_path demo_child = ''/bin/sh''"
    by (simp_all add: demo_child_def)
  show ?thesis
    by (simp add: child_run_def InitContainer_def SetupRootfs_def with_env_def copy_monitor_def PivotRoot_def
        mount_virtual_def restore_umask_def SetupDNS_def ConfigureContainerNetwork_def Let_def req demo_image
        parse_network network_constants all_succeed [OF ok])
qed

theorem child_isolated_witness:
  "subseq (isolation demo_child @ [Run_shell ''true'']) (succeeded (butlast (snd (child_run demo_child))))"
proof -
  have "snd (child_run demo_child) = butlast (snd (child_run demo_child)) @ (Exec_command ''/bin/sh'' [''sh'', ''-l''], 0) # []"
    using demo_child_last by (metis append_butlast_last_id)
  then show ?thesis
    using child_isolated [of demo_child "butlast (snd (child_run demo_child))" "Exec_command ''/bin/sh'' [''sh'', ''-l'']" 0 "[]"]
    by (simp add: demo_child_def)
qed

end
