(* ===== verification/Cli_Run.thy ===== *)
theory Cli_Run
  imports Container_Records Container_Init
begin

text \<open>
  From the command line to the command in the container: \<open>cmd/run.go\<close>, the request that
  \<open>RunContainer\<close> and \<open>Start\<close> send to their child, and what the child of \<open>Container_Init\<close>
  makes of it.
\<close>

section \<open>The file of initialisation commands\<close>

text \<open>What opening and reading the file gives; the inner \<open>None\<close> is a read that fails.\<close>

datatype init_file = No_such_file | Cannot_open | Opened "string option"

datatype load_error = Not_exist | Load_failed

text \<open>The loop of \<open>loadInitCommands\<close>: trimmed, without blank lines and comments.\<close>

definition init_commands :: "string list \<Rightarrow> string list" where
  "init_commands lines = filter (\<lambda>line. \<not> (line = [] \<or> take 1 line = ''#'')) (map trim_space lines)"

definition loadInitCommands :: "init_file \<Rightarrow> load_error + string list" where
  "loadInitCommands f =
     (case f of
        No_such_file \<Rightarrow> Inl Not_exist
      | Cannot_open \<Rightarrow> Inl Load_failed
      | Opened None \<Rightarrow> Inl Load_failed
      | Opened (Some text) \<Rightarrow>
          (case scan_lines text of None \<Rightarrow> Inl Load_failed | Some lines \<Rightarrow> Inr (init_commands lines)))"

section \<open>The command\<close>

definition DefaultCommand :: string where "DefaultCommand = ''/bin/sh''"
definition DefaultCPULimit :: int where "DefaultCPULimit = 1"
definition DefaultMemoryLimit :: int where "DefaultMemoryLimit = 200 * 1024 * 1024"
definition DefaultPidsLimit :: int where "DefaultPidsLimit = 100"

text \<open>The flags, with their defaults.\<close>

record run_flags =
  fl_name :: string
  fl_pids :: int
  fl_memory :: int
  fl_cpus :: int
  fl_ip :: string
  fl_init_file :: string

definition default_flags :: run_flags where
  "default_flags = \<lparr>fl_name = [], fl_pids = DefaultPidsLimit, fl_memory = DefaultMemoryLimit,
     fl_cpus = DefaultCPULimit, fl_ip = [], fl_init_file = []\<rparr>"

text \<open>
  The request that \<open>run\<close> hands to \<open>RunContainer\<close>: what the runtime reads, the arguments
  and the initialisation commands.  \<open>None\<close> is a command that ends before: no image
  given, or a file of commands that exists and cannot be read.  \<open>disk\<close> is what the path
  of the flag holds.
\<close>

definition run_command :: "run_flags \<Rightarrow> (string \<Rightarrow> init_file) \<Rightarrow> string list \<Rightarrow> (run_request \<times> string list \<times> string list) option" where
  "run_command fl disk args =
     (case args of
        [] \<Rightarrow> None
      | image_arg # rest \<Rightarrow>
          (let (imageName, imageTag) = Parse image_arg;
               command = (case rest of [] \<Rightarrow> DefaultCommand | c # _ \<Rightarrow> c);
               r = \<lparr>rq_image = imageName, rq_tag = imageTag, rq_name = fl_name fl, rq_command = command,
                    rq_ip = fl_ip fl, rq_limits = \<lparr>MemoryLimit = fl_memory fl, PidsLimit = fl_pids fl, CPULimit = fl_cpus fl\<rparr>\<rparr>
           in if fl_init_file fl = [] then Some (r, drop 1 rest, [])
              else (case loadInitCommands (disk (fl_init_file fl)) of
                      Inr commands \<Rightarrow> Some (r, drop 1 rest, commands)
                    | Inl Not_exist \<Rightarrow> Some (r, drop 1 rest, [])
                    | Inl Load_failed \<Rightarrow> None)))"

section \<open>The requests of the two parents\<close>

text \<open>
  What \<open>RunContainer\<close> encodes for its child: the request with the name, the mount
  point, the address and the name of the link's other end filled in.
\<close>

definition run_child_request ::
  "run_env \<Rightarrow> run_request \<Rightarrow> string list \<Rightarrow> string list \<Rightarrow> string \<Rightarrow> string \<Rightarrow> child_request" where
  "run_child_request e r args inits peer a =
     \<lparr>cr_image = rq_image r, cr_tag = rq_tag r,
      cr_name = (if rq_name r = [] then hex_id e else rq_name r),
      cr_command = rq_command r, cr_args = args,
      cr_mount = ''/var/lib/gocker/containers/'' @ hex_id e @ ''/rootfs'',
      cr_peer = peer, cr_init = inits, cr_ip = a\<rparr>"

text \<open>What \<open>Start\<close> encodes: the request is rebuilt from the record.\<close>

definition start_child_request :: "container_info \<Rightarrow> string \<Rightarrow> string \<Rightarrow> child_request" where
  "start_child_request info peer a =
     (let (imageName, imageTag) = Parse (ci_image info)
      in \<lparr>cr_image = imageName, cr_tag = imageTag, cr_name = [], cr_command = ci_command info, cr_args = [],
          cr_mount = ci_mount info, cr_peer = peer, cr_init = [], cr_ip = a\<rparr>)"

section \<open>What the child runs of the user's, and on which root\<close>

fun user_action :: "action \<Rightarrow> bool" where
  "user_action (Run_shell c) = True"
| "user_action (Exec_command c args) = True"
| "user_action a = False"

text \<open>The other action of interest is the mount of the image's directory as the root.\<close>

fun root_mount :: "action \<Rightarrow> bool" where
  "root_mount (Mount source target fstype flags opts) = (fstype = ''overlay'')"
| "root_mount a = False"

definition overlay_of :: "string \<Rightarrow> string \<Rightarrow> action" where
  "overlay_of mp dir = Mount ''overlay'' mp ''overlay'' []
     (''lowerdir='' @ dir @ '',upperdir='' @ Join [Dir mp, ''upper''] @ '',workdir='' @ Join [Dir mp, ''work''])"

definition user_actions :: "trace \<Rightarrow> action list" where
  "user_actions tr = filter (\<lambda>a. user_action a \<or> root_mount a) (map fst tr)"

lemma user_actions_append [simp]: "user_actions (tr @ tr') = user_actions tr @ user_actions tr'"
  by (simp add: user_actions_def)

lemma user_actions_Cons [simp]:
  "user_actions [] = []"
  "user_actions ((a, r) # tr) = (if user_action a \<or> root_mount a then [a] else []) @ user_actions tr"
  by (simp_all add: user_actions_def)

text \<open>
  \<open>runs E us p\<close>: of these actions, the script makes a prefix of \<open>us\<close>, and all of \<open>us\<close> when
  it ends with the command executed.
\<close>

definition runs :: "child_env \<Rightarrow> action list \<Rightarrow> script \<Rightarrow> bool" where
  "runs E us p \<longleftrightarrow> (\<forall>tr. \<exists>ext. snd (p E tr) = tr @ ext \<and> prefix (user_actions ext) us \<and>
     (fst (p E tr) \<longrightarrow> user_actions ext = us))"

named_theorems runs_rules \<open>which of these actions a script makes\<close>

lemma runs_step:
  assumes "runs E us k" and "us' = (if user_action a \<or> root_mount a then [a] else []) @ us"
  shows "\<exists>ext. snd (k E (tr @ [(a, r)])) = tr @ ext \<and> prefix (user_actions ext) us' \<and>
    (fst (k E (tr @ [(a, r)])) \<longrightarrow> user_actions ext = us')"
proof -
  obtain ext where "snd (k E (tr @ [(a, r)])) = (tr @ [(a, r)]) @ ext" "prefix (user_actions ext) us"
    "fst (k E (tr @ [(a, r)])) \<longrightarrow> user_actions ext = us"
    using assms(1) unfolding runs_def by blast
  then show ?thesis
    using assms(2) by (intro exI [where x = "(a, r) # ext"]) simp
qed

lemma runs_end [runs_rules]: "runs E [] (\<lambda>E tr. (True, tr))" "runs E us give_up"
  by (simp_all add: runs_def give_up_def)

lemma runs_must_user:
  assumes "runs E us k" and "us' = (if user_action a \<or> root_mount a then [a] else []) @ us"
  shows "runs E us' (must a k)"
  unfolding runs_def
proof
  fix tr
  show "\<exists>ext. snd (must a k E tr) = tr @ ext \<and> prefix (user_actions ext) us' \<and>
    (fst (must a k E tr) \<longrightarrow> user_actions ext = us')"
  proof (cases "errno_at E (length tr) = 0")
    case True
    then show ?thesis
      using runs_step [OF assms, where r = 0] by (simp add: must_def)
  next
    case False
    then show ?thesis
      using assms(2) by (intro exI [where x = "[(a, errno_at E (length tr))]"]) (auto simp: must_def)
  qed
qed

lemma runs_must [runs_rules]: "runs E us k \<Longrightarrow> \<not> (user_action a \<or> root_mount a) \<Longrightarrow> runs E us (must a k)"
  by (rule runs_must_user) simp_all

text \<open>One action, and then some script with the property.\<close>

lemma runs_then:
  assumes "\<And>tr. \<exists>k r. p E tr = k E (tr @ [(a, r)]) \<and> runs E us k"
    and "us' = (if user_action a \<or> root_mount a then [a] else []) @ us"
  shows "runs E us' p"
  unfolding runs_def
proof
  fix tr
  obtain k r where k: "p E tr = k E (tr @ [(a, r)])" "runs E us k"
    using assms(1) by blast
  show "\<exists>ext. snd (p E tr) = tr @ ext \<and> prefix (user_actions ext) us' \<and> (fst (p E tr) \<longrightarrow> user_actions ext = us')"
    unfolding k(1) by (rule runs_step [OF k(2) assms(2)])
qed

lemma runs_after:
  assumes "\<And>tr. \<exists>k r. p E tr = k E (tr @ [(a, r)]) \<and> runs E us k" and "\<not> (user_action a \<or> root_mount a)"
  shows "runs E us p"
  using assms by (intro runs_then [where a = a and us = us]) simp_all

lemma runs_attempt [runs_rules]: "runs E us k \<Longrightarrow> \<not> (user_action a \<or> root_mount a) \<Longrightarrow> runs E us (attempt a k)"
  by (rule runs_after) (auto simp: attempt_def)

lemma runs_attempt_then [runs_rules]:
  assumes "\<And>ok. runs E us (k ok)" and "\<not> (user_action a \<or> root_mount a)"
  shows "runs E us (attempt_then a k)"
  by (rule runs_after [OF _ assms(2)]) (use assms(1) in \<open>auto simp: attempt_then_def Let_def\<close>)

lemma runs_with_env [runs_rules]: "runs E us (k E) \<Longrightarrow> runs E us (with_env k)"
  by (simp add: runs_def with_env_def)

lemma runs_if [runs_rules]: "runs E us p \<Longrightarrow> runs E us q \<Longrightarrow> runs E us (if b then p else q)"
  by simp

lemma runs_overlay:
  assumes "runs E us k"
  shows "runs E (Mount ''overlay'' mp ''overlay'' [] opts # us) (mount_overlay mp opts k)"
proof -
  let ?a = "Mount ''overlay'' mp ''overlay'' [] opts"
  let ?c = "checkFSType mp ''overlay'' (\<lambda>there. if there then k else give_up)"
  have c: "runs E us ?c"
    unfolding checkFSType_def using assms by (intro runs_rules) simp_all
  let ?k = "\<lambda>r. if r = 0 then k else if r = EBUSY then ?c else give_up"
  have "mount_overlay mp opts k E tr = ?k r E (tr @ [(?a, r)])" if "r = errno_at E (length tr)" for tr r
    using that by (simp add: mount_overlay_def Let_def give_up_def)
  moreover have "runs E us (?k r)" for r
    using assms c by (intro runs_rules)
  ultimately show ?thesis
    by (intro runs_then [where a = ?a]) (blast, simp)
qed

text \<open>The rest of the program's own parts make none of these actions.\<close>

lemma runs_copy_monitor [runs_rules]: "runs E us k \<Longrightarrow> runs E us (copy_monitor mp k)"
  unfolding copy_monitor_def Let_def all_of.simps by (intro runs_rules) simp_all

lemma runs_PivotRoot [runs_rules]: "runs E us k \<Longrightarrow> runs E us (PivotRoot mp k)"
  unfolding PivotRoot_def all_of.simps by (intro runs_rules) simp_all

lemma runs_virtual [runs_rules]: "runs E us k \<Longrightarrow> runs E us (mount_virtual k)"
  unfolding mount_virtual_def restore_umask_def all_of.simps by (intro runs_rules) simp_all

lemma runs_option [runs_rules]:
  "(x = None \<Longrightarrow> runs E us p) \<Longrightarrow> (\<And>y. x = Some y \<Longrightarrow> runs E us (q y)) \<Longrightarrow>
    runs E us (case x of None \<Rightarrow> p | Some y \<Rightarrow> q y)"
  by (cases x) simp_all

text \<open>The mount that \<open>SetupRootfs\<close> makes when the image is there.\<close>

definition image_mount :: "string \<Rightarrow> string \<Rightarrow> string \<Rightarrow> manifest_file \<Rightarrow> action list" where
  "image_mount mp name tag mf =
     (case findImageRootfsPath name tag mf of None \<Rightarrow> [] | Some dir \<Rightarrow> [overlay_of mp dir])"

lemma runs_SetupRootfs:
  assumes "runs E us k"
  shows "runs E (image_mount mp name tag (the_manifest E) @ us) (SetupRootfs mp name tag k)"
proof (cases "findImageRootfsPath name tag (the_manifest E)")
  case None
  then show ?thesis
    unfolding SetupRootfs_def by (intro runs_rules) (simp_all add: runs_rules)
next
  case (Some dir)
  have "runs E us (copy_monitor mp (PivotRoot mp (mount_virtual k)))"
    using assms by (intro runs_rules)
  from runs_overlay [OF this] show ?thesis
    unfolding SetupRootfs_def image_mount_def overlay_of_def Let_def all_of.simps
    by (intro runs_rules) (simp_all add: Some runs_must)
qed

lemma runs_network [runs_rules]: "runs E us k \<Longrightarrow> runs E us (ConfigureContainerNetwork peer ip k)"
  unfolding ConfigureContainerNetwork_def parse_network option.case prod.case Let_def
  by (intro runs_rules) simp_all

lemma runs_inits:
  "runs E us k \<Longrightarrow> runs E (map Run_shell cs @ us) (all_of (map (\<lambda>c. must (Run_shell c)) cs) k)"
proof (induction cs)
  case (Cons c cs)
  then show ?case
    by (simp add: runs_must_user [where a = "Run_shell c", OF Cons.IH])
qed simp

definition child_actions :: "child_env \<Rightarrow> action list" where
  "child_actions E =
     (let req = the_request E
      in image_mount (cr_mount req) (cr_image req) (cr_tag req) (the_manifest E) @ map Run_shell (cr_init req) @
         [Exec_command (command_path E) (cr_command req # cr_args req)])"

lemma runs_child: "runs E (child_actions E) InitContainer"
proof -
  let ?req = "the_request E"
  let ?exec = "Exec_command (command_path E) (cr_command ?req # cr_args ?req)"
  have "runs E [?exec] (must ?exec (\<lambda>E tr. (True, tr)))"
    by (rule runs_must_user [OF runs_end(1)]) simp
  then have "runs E [?exec] (must (Look_path (cr_command ?req)) (must (Append_file BPFServiceOutputLog)
      (attempt (Start_command BPFServiceExeContainer) (must ?exec (\<lambda>E tr. (True, tr))))))"
    by (intro runs_must [where a = "Look_path _"] runs_must [where a = "Append_file _"] runs_attempt) simp_all
  note inits = runs_inits [OF this, of "cr_init ?req"]
  show ?thesis
    unfolding InitContainer_def Let_def SetupDNS_def child_actions_def
    by (intro runs_must [where a = Read_request] runs_with_env runs_must [where a = "Set_hostname _"]
        runs_SetupRootfs runs_must [where a = "Write_text _ _"] runs_network inits) simp_all
qed

text \<open>When nothing fails, the command is executed.\<close>

lemma inits_succeed:
  "\<forall>n. errno_at E n = 0 \<Longrightarrow>
    all_of (map (\<lambda>c. must (Run_shell c)) cs) k E tr = k E (tr @ map (\<lambda>c. (Run_shell c, 0)) cs)"
  by (induction cs arbitrary: tr) (simp_all add: all_succeed)

lemma child_succeeds:
  assumes "\<forall>n. errno_at E n = 0" and "cr_ip (the_request E) \<noteq> []"
    and "findImageRootfsPath (cr_image (the_request E)) (cr_tag (the_request E)) (the_manifest E) = Some path"
  shows "fst (child_run E)" and "(Set_hostname (cr_name (the_request E)), 0) \<in> set (snd (child_run E))"
  using assms(2,3)
  by (simp_all add: child_run_def InitContainer_def SetupRootfs_def with_env_def copy_monitor_def PivotRoot_def
      mount_virtual_def restore_umask_def SetupDNS_def ConfigureContainerNetwork_def Let_def parse_network
      network_constants all_succeed [OF assms(1)] inits_succeed [OF assms(1)])

section \<open>A run and a restart, from the command line to the command\<close>

lemma split_on_parts: "p \<in> set (split_on c s) \<Longrightarrow> c \<notin> set p"
proof (induction s arbitrary: p)
  case (Cons x s)
  then show ?case
    by (cases "split_on c s") (auto split: if_splits)
qed simp

lemma Parse_parts: "Parse x = (n, t) \<Longrightarrow> CHR '':'' \<notin> set n \<and> CHR '':'' \<notin> set t"
  using split_on_parts [of _ "CHR '':''" x]
  by (auto simp: Parse_def split: list.splits)

lemma Parse_join:
  assumes "CHR '':'' \<notin> set n" and "CHR '':'' \<notin> set t"
  shows "Parse (n @ '':'' @ t) = (n, t)"
  using split_on_append [OF assms(1), of t] assms(2) by (simp add: Parse_def split_on_none)

lemma run_command_image:
  assumes "run_command fl disk args = Some (r, as, inits)"
  shows "Parse (rq_image r @ '':'' @ rq_tag r) = (rq_image r, rq_tag r)"
proof -
  obtain arg rest where "args = arg # rest"
    using assms by (cases args) (simp_all add: run_command_def)
  then have "Parse arg = (rq_image r, rq_tag r)"
    using assms by (auto simp: run_command_def Let_def split: prod.splits if_splits sum.splits load_error.splits)
  then show ?thesis
    using Parse_parts Parse_join by blast
qed

text \<open>The command line of the container as the arguments of \<open>run\<close> give it.\<close>

definition command_line :: "string list \<Rightarrow> string list" where
  "command_line args = (if length args \<le> 1 then [DefaultCommand] else List.tl args)"

definition file_commands :: "run_flags \<Rightarrow> (string \<Rightarrow> init_file) \<Rightarrow> string list" where
  "file_commands fl disk =
     (if fl_init_file fl = [] then []
      else (case disk (fl_init_file fl) of
              Opened (Some text) \<Rightarrow> (case scan_lines text of Some lines \<Rightarrow> init_commands lines | None \<Rightarrow> [])
            | _ \<Rightarrow> []))"

lemma run_command_parts:
  assumes "run_command fl disk args = Some (r, as, inits)"
  shows "rq_command r # as = command_line args" and "inits = file_commands fl disk"
proof -
  obtain arg rest where a: "args = arg # rest"
    using assms by (cases args) (simp_all add: run_command_def)
  show "rq_command r # as = command_line args"
    using assms a by (cases rest)
      (auto simp: run_command_def command_line_def Let_def split: prod.splits if_splits sum.splits load_error.splits)
  show "inits = file_commands fl disk"
    using assms a
    by (auto simp: run_command_def file_commands_def loadInitCommands_def Let_def
        split: prod.splits if_splits sum.splits load_error.splits init_file.splits option.splits)
qed

text \<open>The child of a run, by the command line and the image.\<close>

lemma runs_child_of_run:
  assumes "run_command fl disk args = Some (r, as, inits)"
    and "the_request E = run_child_request e r as inits peer a"
  defines "all \<equiv> image_mount (''/var/lib/gocker/containers/'' @ hex_id e @ ''/rootfs'') (rq_image r) (rq_tag r) (the_manifest E) @
      map Run_shell (file_commands fl disk) @ [Exec_command (command_path E) (command_line args)]"
  shows "prefix (user_actions (snd (child_run E))) all"
    and "fst (child_run E) \<Longrightarrow> user_actions (snd (child_run E)) = all"
    and "\<forall>n. errno_at E n = 0 \<Longrightarrow> a \<noteq> [] \<Longrightarrow> findImageRootfsPath (rq_image r) (rq_tag r) (the_manifest E) \<noteq> None \<Longrightarrow>
      fst (child_run E)"
proof -
  have req: "cr_init (the_request E) = file_commands fl disk"
    "cr_command (the_request E) # cr_args (the_request E) = command_line args"
    "cr_ip (the_request E) = a" "cr_image (the_request E) = rq_image r" "cr_tag (the_request E) = rq_tag r"
    "cr_mount (the_request E) = ''/var/lib/gocker/containers/'' @ hex_id e @ ''/rootfs''"
    using run_command_parts [OF assms(1)] assms(2) by (simp_all add: run_child_request_def)
  have all: "child_actions E = all"
    by (simp only: child_actions_def Let_def req all_def)
  show "prefix (user_actions (snd (child_run E))) all"
    and "fst (child_run E) \<Longrightarrow> user_actions (snd (child_run E)) = all"
    using runs_child [of E, unfolded runs_def all, rule_format, of "[]"] by (auto simp: child_run_def)
  show "fst (child_run E)"
    if "\<forall>n. errno_at E n = 0" "a \<noteq> []" "findImageRootfsPath (rq_image r) (rq_tag r) (the_manifest E) \<noteq> None"
    using child_succeeds(1) [of E] that unfolding req by auto
qed


text \<open>
  C39: a restarted container runs the bare command.  Whatever operations have led to
  the record that \<open>Start\<close> finds, it was made by a run of the same identifier; the
  child of the restart gets that run's command, mount point and image (again, when
  the run came from the command line), but neither its arguments nor its
  initialisation commands, and an empty host name: all it can do is to mount the image and
  to execute the command without arguments.
\<close>

theorem restart_runs_bare_command:
  assumes "world_run parse6 ops empty_world = Some W" and "\<forall>op \<in> set ops. op_ok op"
    and "findContainerInfo b i (containers W) = Some info"
    and "the_request E = start_child_request info peer a"
  shows "\<exists>e r. (Run e r \<in> set ops \<or> Daemon_run e r \<in> set ops) \<and> hex_id e = ci_id info \<and>
    cr_mount (the_request E) = ''/var/lib/gocker/containers/'' @ ci_id info @ ''/rootfs'' \<and>
    ((\<exists>fl disk args as inits. run_command fl disk args = Some (r, as, inits)) \<longrightarrow>
       cr_image (the_request E) = rq_image r \<and> cr_tag (the_request E) = rq_tag r) \<and>
    cr_name (the_request E) = [] \<and>
    prefix (user_actions (snd (child_run E)))
      (image_mount (cr_mount (the_request E)) (cr_image (the_request E)) (cr_tag (the_request E)) (the_manifest E) @
       [Exec_command (command_path E) [rq_command r]])"
proof -
  obtain e r req c where run: "Run e r \<in> set ops \<or> Daemon_run e r \<in> set ops" and same: "core info = core (new_info e r req c)"
    by (rule record_origin [OF assms(1-3)])
  have info: "hex_id e = ci_id info" "ci_command info = rq_command r" "ci_image info = rq_image r @ '':'' @ rq_tag r"
    "ci_mount info = ''/var/lib/gocker/containers/'' @ ci_id info @ ''/rootfs''"
    using same by (simp_all add: core_def new_info_def)
  have req: "cr_name (the_request E) = []" "cr_init (the_request E) = []" "cr_args (the_request E) = []"
    "cr_command (the_request E) = rq_command r" "cr_mount (the_request E) = ci_mount info"
    "(cr_image (the_request E), cr_tag (the_request E)) = Parse (ci_image info)"
    by (simp_all add: assms(4) start_child_request_def info split_beta)
  have image: "cr_image (the_request E) = rq_image r \<and> cr_tag (the_request E) = rq_tag r"
    if "run_command fl disk args = Some (r, as, inits)" for fl disk args as inits
    using run_command_image [OF that] req(6) by (simp add: info)
  have "child_actions E = image_mount (cr_mount (the_request E)) (cr_image (the_request E)) (cr_tag (the_request E))
      (the_manifest E) @ [Exec_command (command_path E) [rq_command r]]"
    by (simp add: child_actions_def Let_def req)
  then have "prefix (user_actions (snd (child_run E)))
      (image_mount (cr_mount (the_request E)) (cr_image (the_request E)) (cr_tag (the_request E)) (the_manifest E) @
       [Exec_command (command_path E) [rq_command r]])"
    using runs_child [of E, unfolded runs_def, rule_format, of "[]"] by (auto simp: child_run_def)
  moreover have "cr_mount (the_request E) = ''/var/lib/gocker/containers/'' @ ci_id info @ ''/rootfs''"
    unfolding req(5) by (rule info(4))
  ultimately show ?thesis
    using run image req(1) info(1) by blast
qed

section \<open>Witnesses\<close>

definition demo_file :: init_file where
  "demo_file = Opened (Some (''# set up'' @ [newline] @ ''  apk add curl '' @ [newline] @ [newline] @ ''true''))"

definition demo_flags :: run_flags where
  "demo_flags = default_flags\<lparr>fl_init_file := ''Gockerfile''\<rparr>"

definition demo_run_request :: run_request where
  "demo_run_request = \<lparr>rq_image = ''alpine'', rq_tag = ''3'', rq_name = [], rq_command = ''sh'', rq_ip = [],
     rq_limits = \<lparr>MemoryLimit = DefaultMemoryLimit, PidsLimit = DefaultPidsLimit, CPULimit = DefaultCPULimit\<rparr>\<rparr>"

lemma demo_file_lines:
  "scan_lines (''# set up'' @ [newline] @ ''  apk add curl '' @ [newline] @ [newline] @ ''true'') =
     Some [''# set up'', ''  apk add curl '', [], ''true'']"
  by (simp add: scan_lines_def newline_def drop_cr_def)

lemma demo_file_commands:
  "init_commands [''# set up'', ''  apk add curl '', [], ''true''] = [''apk add curl'', ''true'']"
  by code_simp

lemma demo_run_command:
  "run_command demo_flags (\<lambda>_. demo_file) [''alpine:3'', ''sh'', ''-l''] =
     Some (demo_run_request, [''-l''], [''apk add curl'', ''true''])"
  "file_commands demo_flags (\<lambda>_. demo_file) = [''apk add curl'', ''true'']"
  by (simp_all add: run_command_def file_commands_def loadInitCommands_def demo_flags_def demo_file_def
      demo_file_lines [simplified] demo_file_commands default_flags_def Parse_def demo_run_request_def)

definition demo_run_child :: child_env where
  "demo_run_child = demo_child\<lparr>the_request :=
     run_child_request (good_run ''c1'' 11) demo_run_request [''-l''] [''apk add curl'', ''true''] ''peer-7'' ''10.20.0.2''\<rparr>"

lemma demo_lower: "Join [ImagesDir, ''0123456789ab'', ''rootfs''] = ''/var/lib/gocker/images/0123456789ab/rootfs''"
  by code_simp


text \<open>A run, its end, and a start.\<close>

theorem restart_runs_bare_command_witness:
  "\<exists>W info. world_run (\<lambda>_. None) [Daemon_run (good_run ''c1'' 11) demo_request] empty_world = Some W \<and>
     findContainerInfo True ''c1'' (containers W) = Some info \<and>
     (\<forall>E. the_request E = start_child_request info ''peer-8'' ''10.20.0.2'' \<longrightarrow>
        prefix (user_actions (snd (child_run E)))
          (image_mount (cr_mount (the_request E)) (cr_image (the_request E)) (cr_tag (the_request E)) (the_manifest E) @
           [Exec_command (command_path E) [''/bin/sh'']]))"
proof -
  let ?ops = "[Daemon_run (good_run ''c1'' 11) demo_request]"
  have "map_option (\<lambda>W. findContainerInfo True ''c1'' (containers W) \<noteq> None) (world_run (\<lambda>_. None) ?ops empty_world) = Some True"
    by code_simp
  then obtain W info where W: "world_run (\<lambda>_. None) ?ops empty_world = Some W"
    "findContainerInfo True ''c1'' (containers W) = Some info"
    by auto
  have "prefix (user_actions (snd (child_run E)))
      (image_mount (cr_mount (the_request E)) (cr_image (the_request E)) (cr_tag (the_request E)) (the_manifest E) @
       [Exec_command (command_path E) [''/bin/sh'']])"
    if "the_request E = start_child_request info ''peer-8'' ''10.20.0.2''" for E
    using restart_runs_bare_command [OF W(1) _ W(2) that] by (auto simp: good_run_def demo_request_def)
  then show ?thesis
    using W by blast
qed

end
