(* ===== verification/Host_Network.thy ===== *)
theory Host_Network
  imports Container
begin

text \<open>
  The host's side of the network: \<open>internal/network/bridge.go\<close>, which every \<open>gocker\<close>
  command runs first, and \<open>internal/network/veth.go\<close>, which a parent runs for its child.
  The state is the host's links and filter rules; each call of the netlink package and
  of \<open>iptables\<close> succeeds or fails as an argument says, and a successful one has its
  documented effect.
\<close>

section \<open>Links and rules\<close>

text \<open>A link: its addresses, whether it is up, its bridge and its other end.\<close>

record link =
  l_addrs :: "string list"
  l_up :: bool
  l_master :: "string option"
  l_peer :: "string option"

record IPTablesRule =
  Table :: string
  Chain :: string
  Action :: string
  Args :: "string list"

text \<open>The host's links by name, the link moved into the namespace of a process, the rules.\<close>

record host_net =
  links :: "string \<rightharpoonup> link"
  moved :: "int \<rightharpoonup> string \<times> link"
  rules :: "IPTablesRule list"

definition new_link :: link where
  "new_link = \<lparr>l_addrs = [], l_up = False, l_master = None, l_peer = None\<rparr>"

definition BridgeName :: string where "BridgeName = ''gocker0''"

definition LinkByName :: "bool \<Rightarrow> string \<Rightarrow> host_net \<Rightarrow> bool" where
  "LinkByName ok name N \<longleftrightarrow> ok \<and> links N name \<noteq> None"

definition change_link :: "string \<Rightarrow> (link \<Rightarrow> link) \<Rightarrow> host_net \<Rightarrow> host_net" where
  "change_link name f N = N\<lparr>links := (links N)(name := map_option f (links N name))\<rparr>"

section \<open>The bridge\<close>

text \<open>Which calls of one \<open>SetupBridge\<close> succeed; the rules' calls by their place.\<close>

record bridge_env =
  look_ok :: bool
  add_ok :: bool
  look_ip_ok :: bool
  addr_ok :: bool
  look_up_ok :: bool
  up_ok :: bool
  list_ok :: bool
  check_ok :: "nat \<Rightarrow> bool"
  append_ok :: "nat \<Rightarrow> bool"

definition createBridge :: "bridge_env \<Rightarrow> host_net \<Rightarrow> bool \<times> host_net" where
  "createBridge e N =
     (if add_ok e \<and> links N BridgeName = None then (True, N\<lparr>links := (links N)(BridgeName \<mapsto> new_link)\<rparr>) else (False, N))"

definition AddrAdd :: "bool \<Rightarrow> string \<Rightarrow> string \<Rightarrow> host_net \<Rightarrow> bool \<times> host_net" where
  "AddrAdd ok name a N = (if ok then (True, change_link name (\<lambda>l. l\<lparr>l_addrs := l_addrs l @ [a]\<rparr>) N) else (False, N))"

definition setBridgeIP :: "bridge_env \<Rightarrow> host_net \<Rightarrow> bool \<times> host_net" where
  "setBridgeIP e N = (if \<not> LinkByName (look_ip_ok e) BridgeName N then (False, N) else AddrAdd (addr_ok e) BridgeName BridgeIP N)"

definition enableBridge :: "bridge_env \<Rightarrow> host_net \<Rightarrow> bool \<times> host_net" where
  "enableBridge e N =
     (if \<not> LinkByName (look_up_ok e) BridgeName N \<or> \<not> up_ok e then (False, N)
      else (True, change_link BridgeName (\<lambda>l. l\<lparr>l_up := True\<rparr>) N))"

definition ensureBridgeIP :: "bridge_env \<Rightarrow> host_net \<Rightarrow> bool \<times> host_net" where
  "ensureBridgeIP e N =
     (if \<not> list_ok e then (False, N)
      else if (case links N BridgeName of None \<Rightarrow> [] | Some l \<Rightarrow> l_addrs l) = [] then AddrAdd (addr_ok e) BridgeName BridgeIP N
      else (True, N))"

definition bridge_rules :: "IPTablesRule list" where
  "bridge_rules =
     [\<lparr>Table = ''nat'', Chain = ''POSTROUTING'', Action = ''MASQUERADE'',
       Args = [''-s'', ''10.20.0.0/24'', ''!'', ''-o'', BridgeName]\<rparr>,
      \<lparr>Table = [], Chain = ''FORWARD'', Action = ''ACCEPT'', Args = [''-i'', BridgeName]\<rparr>,
      \<lparr>Table = [], Chain = ''FORWARD'', Action = ''ACCEPT'', Args = [''-o'', BridgeName]\<rparr>]"

text \<open>\<open>Apply\<close>: a rule that the check does not find is appended.\<close>

definition Apply :: "bool \<Rightarrow> bool \<Rightarrow> IPTablesRule \<Rightarrow> host_net \<Rightarrow> bool \<times> host_net" where
  "Apply checked added r N =
     (if checked \<and> r \<in> set (rules N) then (True, N)
      else if added then (True, N\<lparr>rules := rules N @ [r]\<rparr>) else (False, N))"

fun apply_rules :: "bridge_env \<Rightarrow> nat \<Rightarrow> IPTablesRule list \<Rightarrow> host_net \<Rightarrow> host_net" where
  "apply_rules e n [] N = N"
| "apply_rules e n (r # rs) N = apply_rules e (n + 1) rs (snd (Apply (check_ok e n) (append_ok e n) r N))"

text \<open>A rule that cannot be added is only a warning.\<close>

definition setupIPTablesRules :: "bridge_env \<Rightarrow> host_net \<Rightarrow> bool \<times> host_net" where
  "setupIPTablesRules e N = (True, apply_rules e 0 bridge_rules N)"

definition and_then :: "(host_net \<Rightarrow> bool \<times> host_net) \<Rightarrow> (host_net \<Rightarrow> bool \<times> host_net) \<Rightarrow> host_net \<Rightarrow> bool \<times> host_net" where
  "and_then p q N = (case p N of (ok, N') \<Rightarrow> if ok then q N' else (False, N'))"

definition SetupBridge :: "bridge_env \<Rightarrow> host_net \<Rightarrow> bool \<times> host_net" where
  "SetupBridge e N =
     (if LinkByName (look_ok e) BridgeName N then ensureBridgeIP e N
      else and_then (createBridge e) (and_then (setBridgeIP e) (and_then (enableBridge e) (setupIPTablesRules e))) N)"

section \<open>The link of a container\<close>

record veth_env =
  pair_ok :: bool
  find_bridge_ok :: bool
  find_host_ok :: bool
  master_ok :: bool
  host_up_ok :: bool
  find_peer_ok :: bool
  move_ok :: bool

definition veth_name :: "int \<Rightarrow> string" where "veth_name pid = ''veth-'' @ itoa pid"
definition peer_name :: "int \<Rightarrow> string" where "peer_name pid = ''peer-'' @ itoa pid"

definition createVethPair :: "veth_env \<Rightarrow> string \<Rightarrow> string \<Rightarrow> host_net \<Rightarrow> bool \<times> host_net" where
  "createVethPair e v p N =
     (if pair_ok e \<and> links N v = None \<and> links N p = None
      then (True, N\<lparr>links := (links N)(v \<mapsto> new_link\<lparr>l_peer := Some p\<rparr>, p \<mapsto> new_link\<lparr>l_peer := Some v\<rparr>)\<rparr>) else (False, N))"

definition connectVethToBridge :: "veth_env \<Rightarrow> string \<Rightarrow> host_net \<Rightarrow> bool \<times> host_net" where
  "connectVethToBridge e v N =
     (if \<not> LinkByName (find_bridge_ok e) BridgeName N \<or> \<not> LinkByName (find_host_ok e) v N \<or> \<not> master_ok e then (False, N)
      else (let N' = change_link v (\<lambda>l. l\<lparr>l_master := Some BridgeName\<rparr>) N
            in if \<not> host_up_ok e then (False, N') else (True, change_link v (\<lambda>l. l\<lparr>l_up := True\<rparr>) N')))"

definition moveVethToContainer :: "veth_env \<Rightarrow> string \<Rightarrow> int \<Rightarrow> host_net \<Rightarrow> bool \<times> host_net" where
  "moveVethToContainer e p pid N =
     (case (LinkByName (find_peer_ok e) p N \<and> move_ok e, links N p) of
        (True, Some l) \<Rightarrow> (True, N\<lparr>links := (links N)(p := None), moved := (moved N)(pid \<mapsto> (p, l))\<rparr>)
      | _ \<Rightarrow> (False, N))"

definition SetupVeth :: "veth_env \<Rightarrow> int \<Rightarrow> host_net \<Rightarrow> bool \<times> host_net" where
  "SetupVeth e pid =
     and_then (createVethPair e (veth_name pid) (peer_name pid))
       (and_then (connectVethToBridge e (veth_name pid)) (moveVethToContainer e (peer_name pid) pid))"

text \<open>
  When the last process of a namespace is gone, its links go, and the other ends of
  these with them.
\<close>

definition namespace_gone :: "int \<Rightarrow> host_net \<Rightarrow> host_net" where
  "namespace_gone pid N =
     (case moved N pid of
        None \<Rightarrow> N
      | Some (p, l) \<Rightarrow>
          N\<lparr>moved := (moved N)(pid := None),
            links := (case l_peer l of None \<Rightarrow> links N | Some v \<Rightarrow> (links N)(v := None))\<rparr>)"

section \<open>What the bridge keeps\<close>

fun setup_runs :: "bridge_env list \<Rightarrow> host_net \<Rightarrow> host_net" where
  "setup_runs [] N = N"
| "setup_runs (e # es) N = setup_runs es (snd (SetupBridge e N))"

lemma setup_runs_append: "setup_runs (es @ fs) N = setup_runs fs (setup_runs es N)"
  by (induction es arbitrary: N) simp_all

text \<open>The host without the bridge's link and the rules.\<close>

definition bridge_ok :: "host_net \<Rightarrow> bool" where
  "bridge_ok N \<longleftrightarrow> (\<forall>b. links N BridgeName = Some b \<longrightarrow> l_addrs b = [] \<or> l_addrs b = [BridgeIP])"

lemma rules_links [simp]: "links (apply_rules e n rs N) = links N" "moved (apply_rules e n rs N) = moved N"
  by (induction rs arbitrary: n N) (simp_all add: Apply_def)

text \<open>The two ways through \<open>SetupBridge\<close>.\<close>

definition bridge_link :: "string list \<Rightarrow> bool \<Rightarrow> link" where
  "bridge_link addrs up = new_link\<lparr>l_addrs := addrs, l_up := up\<rparr>"

definition with_bridge :: "link \<Rightarrow> host_net \<Rightarrow> host_net" where
  "with_bridge l N = N\<lparr>links := (links N)(BridgeName \<mapsto> l)\<rparr>"

lemma setup_new:
  assumes "links N BridgeName = None"
  shows "SetupBridge e N =
    (if \<not> add_ok e then (False, N)
     else if \<not> (look_ip_ok e \<and> addr_ok e) then (False, with_bridge (bridge_link [] False) N)
     else if \<not> (look_up_ok e \<and> up_ok e) then (False, with_bridge (bridge_link [BridgeIP] False) N)
     else (True, apply_rules e 0 bridge_rules (with_bridge (bridge_link [BridgeIP] True) N)))"
  using assms
  by (simp add: SetupBridge_def LinkByName_def and_then_def createBridge_def setBridgeIP_def
      enableBridge_def setupIPTablesRules_def AddrAdd_def change_link_def new_link_def bridge_link_def with_bridge_def)

lemma setup_existing:
  assumes "links N BridgeName = Some b"
  shows "SetupBridge e N =
    (if \<not> look_ok e \<or> \<not> list_ok e then (False, N)
     else if l_addrs b = [] then
       (if addr_ok e then (True, with_bridge (b\<lparr>l_addrs := [BridgeIP]\<rparr>) N) else (False, N))
     else (True, N))"
  using assms
  by (simp add: SetupBridge_def LinkByName_def and_then_def createBridge_def ensureBridgeIP_def AddrAdd_def
      change_link_def with_bridge_def)

lemma with_bridge_simps [simp]:
  "links (with_bridge l N) n = (if n = BridgeName then Some l else links N n)"
  "rules (with_bridge l N) = rules N" "moved (with_bridge l N) = moved N"
  by (simp_all add: with_bridge_def)

lemma bridge_link_simps [simp]: "l_addrs (bridge_link as up) = as" "l_up (bridge_link as up) = up"
  by (simp_all add: bridge_link_def)

lemma setup_bridge_ok:
  assumes "bridge_ok N"
  shows "bridge_ok (snd (SetupBridge e N))"
    and "fst (SetupBridge e N) \<Longrightarrow> \<exists>b. links (snd (SetupBridge e N)) BridgeName = Some b \<and> l_addrs b = [BridgeIP]"
    and "n \<noteq> BridgeName \<Longrightarrow> links (snd (SetupBridge e N)) n = links N n"
proof -
  have "bridge_ok (snd (SetupBridge e N)) \<and>
      (fst (SetupBridge e N) \<longrightarrow> (\<exists>b. links (snd (SetupBridge e N)) BridgeName = Some b \<and> l_addrs b = [BridgeIP])) \<and>
      (n \<noteq> BridgeName \<longrightarrow> links (snd (SetupBridge e N)) n = links N n)"
  proof (cases "links N BridgeName")
    case None
    then show ?thesis
      by (auto simp: setup_new bridge_ok_def)
  next
    case (Some b)
    then show ?thesis
      using assms by (auto simp: setup_existing bridge_ok_def)
  qed
  then show "bridge_ok (snd (SetupBridge e N))"
    and "fst (SetupBridge e N) \<Longrightarrow> \<exists>b. links (snd (SetupBridge e N)) BridgeName = Some b \<and> l_addrs b = [BridgeIP]"
    and "n \<noteq> BridgeName \<Longrightarrow> links (snd (SetupBridge e N)) n = links N n"
    by auto
qed

lemma setup_runs_ok:
  assumes "bridge_ok N"
  shows "bridge_ok (setup_runs es N)" and "n \<noteq> BridgeName \<Longrightarrow> links (setup_runs es N) n = links N n"
  using assms by (induction es arbitrary: N) (simp_all add: setup_bridge_ok)

lemma setup_runs_again:
  "links N BridgeName = Some b \<Longrightarrow>
    rules (setup_runs es N) = rules N \<and> (\<exists>b'. links (setup_runs es N) BridgeName = Some b' \<and> l_up b' = l_up b)"
proof (induction es arbitrary: N b)
  case (Cons e es)
  have "rules (snd (SetupBridge e N)) = rules N \<and>
      (\<exists>b'. links (snd (SetupBridge e N)) BridgeName = Some b' \<and> l_up b' = l_up b)"
    using Cons.prems by (simp add: setup_existing)
  then obtain b' where "links (snd (SetupBridge e N)) BridgeName = Some b'" "l_up b' = l_up b"
    "rules (snd (SetupBridge e N)) = rules N"
    by blast
  then show ?case
    using Cons.IH [of "snd (SetupBridge e N)" b'] by simp
qed simp

text \<open>
  C40: what the bridge is after any sequence of commands.  On a host that had no
  bridge, whatever fails in them: the bridge has no address or exactly its own, other
  links are as before, and a command whose set-up succeeds leaves the bridge there with its
  address.  But whether it is up and which filter rules there are is decided by the
  command that creates the link: later commands only look at the address, so when the
  first one fails half-way, or a rule could not be added, nothing brings the bridge up
  or adds the rule afterwards, although every later set-up reports success.
\<close>

theorem bridge_after_commands:
  assumes "links N BridgeName = None" and "N' = setup_runs es N"
  shows "(\<forall>b. links N' BridgeName = Some b \<longrightarrow> l_addrs b = [] \<or> l_addrs b = [BridgeIP]) \<and>
    (\<forall>n. n \<noteq> BridgeName \<longrightarrow> links N' n = links N n) \<and>
    (fst (SetupBridge e N') \<longrightarrow>
       (\<exists>b. links (snd (SetupBridge e N')) BridgeName = Some b \<and> l_addrs b = [BridgeIP])) \<and>
    (\<forall>b fs. links N' BridgeName = Some b \<longrightarrow>
       rules (setup_runs fs N') = rules N' \<and>
       (\<exists>b'. links (setup_runs fs N') BridgeName = Some b' \<and> l_up b' = l_up b))"
proof -
  have "bridge_ok N"
    using assms(1) by (simp add: bridge_ok_def)
  then have "bridge_ok N'" "\<forall>n. n \<noteq> BridgeName \<longrightarrow> links N' n = links N n"
    unfolding assms(2) by (simp_all add: setup_runs_ok)
  then show ?thesis
    using setup_bridge_ok(2) [of N' e] setup_runs_again [of N'] by (auto simp: bridge_ok_def)
qed

section \<open>What the link of a container leaves\<close>

lemma veth_names [simp]:
  "veth_name pid \<noteq> peer_name pid'" "veth_name pid \<noteq> BridgeName" "peer_name pid \<noteq> BridgeName"
  "peer_name pid' \<noteq> veth_name pid" "BridgeName \<noteq> veth_name pid" "BridgeName \<noteq> peer_name pid"
  by (simp_all add: veth_name_def peer_name_def BridgeName_def)

definition paired :: "int \<Rightarrow> host_net \<Rightarrow> host_net" where
  "paired pid N = N\<lparr>links := (links N)(veth_name pid \<mapsto> new_link\<lparr>l_peer := Some (peer_name pid)\<rparr>,
     peer_name pid \<mapsto> new_link\<lparr>l_peer := Some (veth_name pid)\<rparr>)\<rparr>"

text \<open>After the pair is made: the whole, or a pair left on the host.\<close>

lemma veth_cases:
  assumes "links N (veth_name pid) = None" and "links N (peer_name pid) = None" and "pair_ok e"
  obtains (failed) l where "SetupVeth e pid N = (False, (paired pid N)\<lparr>links := (links (paired pid N))(veth_name pid \<mapsto> l)\<rparr>)"
  | (worked) "links N BridgeName \<noteq> None" "SetupVeth e pid N = (True, N\<lparr>
      links := (links N)(veth_name pid \<mapsto> new_link\<lparr>l_peer := Some (peer_name pid), l_master := Some BridgeName, l_up := True\<rparr>),
      moved := (moved N)(pid \<mapsto> (peer_name pid, new_link\<lparr>l_peer := Some (veth_name pid)\<rparr>))\<rparr>)"
proof -
  let ?v = "veth_name pid"
  have pair: "createVethPair e ?v (peer_name pid) N = (True, paired pid N)"
    using assms by (simp add: createVethPair_def paired_def)
  have v: "links (paired pid N) ?v = Some (new_link\<lparr>l_peer := Some (peer_name pid)\<rparr>)"
    by (simp add: paired_def)
  have keep: "paired pid N = (paired pid N)\<lparr>links := (links (paired pid N))(?v \<mapsto> new_link\<lparr>l_peer := Some (peer_name pid)\<rparr>)\<rparr>"
    using v by (simp add: map_upd_triv)
  let ?with = "\<lambda>l. (paired pid N)\<lparr>links := (links (paired pid N))(?v \<mapsto> l)\<rparr>"
  let ?l = "new_link\<lparr>l_peer := Some (peer_name pid), l_master := Some BridgeName, l_up := True\<rparr>"
  let ?rest = "and_then (connectVethToBridge e ?v) (moveVethToContainer e (peer_name pid) pid)"
  have whole: "SetupVeth e pid N = ?rest (paired pid N)"
    by (simp add: SetupVeth_def and_then_def pair)
  have bridge: "links (paired pid N) BridgeName = links N BridgeName"
    by (simp add: paired_def)
  let ?found = "find_bridge_ok e \<and> links N BridgeName \<noteq> None \<and> find_host_ok e \<and> master_ok e"
  consider "\<not> ?found" | "?found" "\<not> host_up_ok e" | "?found" "host_up_ok e" "\<not> (find_peer_ok e \<and> move_ok e)"
    | "?found" "host_up_ok e" "find_peer_ok e" "move_ok e"
    by blast
  then show thesis
  proof cases
    case 1
    then have "?rest (paired pid N) = (False, paired pid N)"
      by (auto simp: and_then_def connectVethToBridge_def LinkByName_def bridge)
    then show ?thesis
      using failed keep whole by metis
  next
    case 2
    then have "?rest (paired pid N) = (False, ?with (new_link\<lparr>l_peer := Some (peer_name pid), l_master := Some BridgeName\<rparr>))"
      by (simp add: and_then_def connectVethToBridge_def LinkByName_def bridge v change_link_def Let_def)
    then show ?thesis
      using failed whole by metis
  next
    case 3
    then have "?rest (paired pid N) = (False, ?with ?l)"
      by (auto simp: and_then_def connectVethToBridge_def LinkByName_def bridge v change_link_def Let_def moveVethToContainer_def)
    then show ?thesis
      using failed whole by metis
  next
    case 4
    have "links (paired pid N) (peer_name pid) = Some (new_link\<lparr>l_peer := Some (veth_name pid)\<rparr>)"
      by (simp add: paired_def)
    then have "?rest (paired pid N) = (True, N\<lparr>links := (links N)(?v \<mapsto> ?l),
        moved := (moved N)(pid \<mapsto> (peer_name pid, new_link\<lparr>l_peer := Some ?v\<rparr>))\<rparr>)"
      using 4 assms(2)
      by (simp add: and_then_def connectVethToBridge_def LinkByName_def bridge v change_link_def Let_def moveVethToContainer_def)
        (simp add: paired_def fun_eq_iff)
    then show ?thesis
      using worked 4 whole by simp
  qed
qed

text \<open>
  The link of a container.  On a host with a bridge and no link of these names, a
  successful \<open>SetupVeth\<close> leaves one end on the host, up and on the bridge, and the
  other one in the child's namespace, and both are gone with the child.  When it
  fails after the pair was made, the pair stays on the host for good, also when the
  child is gone, and every later attempt for a child with the same process id fails.
\<close>

lemma veth_setup:
  assumes "links N (veth_name pid) = None" and "links N (peer_name pid) = None" and "moved N pid = None"
    and "SetupVeth e pid N = (ok, N')"
  shows "(ok \<longrightarrow> links N BridgeName \<noteq> None \<and>
      links N' = (links N)(veth_name pid \<mapsto> \<lparr>l_addrs = [], l_up = True, l_master = Some BridgeName, l_peer = Some (peer_name pid)\<rparr>) \<and>
      moved N' pid = Some (peer_name pid, \<lparr>l_addrs = [], l_up = False, l_master = None, l_peer = Some (veth_name pid)\<rparr>) \<and>
      namespace_gone pid N' = N) \<and>
    (\<not> ok \<and> pair_ok e \<longrightarrow>
      links (namespace_gone pid N') (veth_name pid) \<noteq> None \<and> links (namespace_gone pid N') (peer_name pid) \<noteq> None \<and>
      (\<forall>e'. SetupVeth e' pid (namespace_gone pid N') = (False, namespace_gone pid N')))"
proof (cases "pair_ok e")
  case False
  then show ?thesis
    using assms(4) by (simp add: SetupVeth_def and_then_def createVethPair_def)
next
  case True
  show ?thesis
  proof (cases rule: veth_cases [OF assms(1,2) True])
    case (1 l)
    then have "ok = False" "N' = (paired pid N)\<lparr>links := (links (paired pid N))(veth_name pid \<mapsto> l)\<rparr>"
      using assms(4) by simp_all
    moreover from this have "namespace_gone pid N' = N'"
      using assms(3) by (simp add: namespace_gone_def paired_def)
    ultimately show ?thesis
      by (simp add: paired_def SetupVeth_def and_then_def createVethPair_def)
  next
    case 2
    then have "ok" "namespace_gone pid N' = N"
      using assms by (auto simp: namespace_gone_def new_link_def fun_eq_iff)
    then show ?thesis
      using 2 assms(4) by (auto simp: new_link_def)
  qed
qed

section \<open>Witnesses\<close>

definition bare_host :: host_net where
  "bare_host = \<lparr>links = Map.empty, moved = Map.empty, rules = []\<rparr>"

definition good_bridge :: bridge_env where
  "good_bridge = \<lparr>look_ok = True, add_ok = True, look_ip_ok = True, addr_ok = True, look_up_ok = True, up_ok = True,
     list_ok = True, check_ok = (\<lambda>_. True), append_ok = (\<lambda>_. True)\<rparr>"

text \<open>The first command does not get the bridge up; the next one reports success and it stays down.\<close>

theorem bridge_after_commands_witness:
  "fst (SetupBridge good_bridge (setup_runs [good_bridge\<lparr>up_ok := False\<rparr>] bare_host)) \<and>
   (\<exists>b. links (setup_runs [good_bridge] (setup_runs [good_bridge\<lparr>up_ok := False\<rparr>] bare_host)) BridgeName = Some b \<and> \<not> l_up b)"
proof -
  let ?N = "setup_runs [good_bridge\<lparr>up_ok := False\<rparr>] bare_host"
  have none: "links bare_host BridgeName = None"
    by (simp add: bare_host_def)
  have N: "links ?N BridgeName = Some (bridge_link [BridgeIP] False)"
    by (simp add: setup_new [OF none] good_bridge_def)
  have "\<exists>b'. links (setup_runs [good_bridge] ?N) BridgeName = Some b' \<and> l_up b' = l_up (bridge_link [BridgeIP] False)"
    using bridge_after_commands [OF none, of ?N "[good_bridge\<lparr>up_ok := False\<rparr>]" good_bridge] N by blast
  moreover have "fst (SetupBridge good_bridge ?N)"
    by (simp only: setup_existing [OF N]) (simp add: good_bridge_def)
  ultimately show ?thesis
    by simp
qed

definition good_veth :: veth_env where
  "good_veth = \<lparr>pair_ok = True, find_bridge_ok = True, find_host_ok = True, master_ok = True, host_up_ok = True,
     find_peer_ok = True, move_ok = True\<rparr>"

definition bridged_host :: host_net where
  "bridged_host = with_bridge (bridge_link [BridgeIP] True) bare_host"

lemma veth_setup_demo:
  "namespace_gone 7 (snd (SetupVeth good_veth 7 bridged_host)) = bridged_host \<and>
   \<not> fst (SetupVeth good_veth 7 (namespace_gone 7 (snd (SetupVeth (good_veth\<lparr>move_ok := False\<rparr>) 7 bridged_host))))"
proof -
  have names: "links bridged_host (veth_name 7) = None" "links bridged_host (peer_name 7) = None" "moved bridged_host 7 = None"
    by (simp_all add: bridged_host_def bare_host_def with_bridge_def)
  have "fst (SetupVeth good_veth 7 bridged_host)" "\<not> fst (SetupVeth (good_veth\<lparr>move_ok := False\<rparr>) 7 bridged_host)"
    by code_simp+
  moreover have "pair_ok (good_veth\<lparr>move_ok := False\<rparr>)"
    by (simp add: good_veth_def)
  ultimately show ?thesis
    using veth_setup [OF names surjective_pairing, of good_veth]
      veth_setup [OF names surjective_pairing, of "good_veth\<lparr>move_ok := False\<rparr>"]
    by simp
qed

end
