(* ===== verification/Cli.thy ===== *)
theory Cli
  imports Daemon Cli_Run Host_Network
begin

text \<open>
  The rest of the command line: the listings of \<open>cmd/images.go\<close> and \<open>cmd/ps.go\<close>, the request
  of \<open>cmd/start.go\<close>, and \<open>internal/tty/io.go\<close>, which forwards the terminal's input to an
  attached container.
\<close>

section \<open>Listings\<close>

text \<open>One row of \<open>gocker images\<close>: repository and tag.\<close>

definition images_row :: "string \<Rightarrow> string \<times> string" where
  "images_row imgName =
     (let parts = split_on CHR '':'' imgName
      in (parts ! 0, if length parts > 1 then parts ! 1 else ''latest''))"

text \<open>The rows of \<open>gocker ps\<close>; a record with a short identifier is left out.\<close>

definition ps_rows :: "container_info list \<Rightarrow> (string \<times> string \<times> string \<times> string \<times> string) list" where
  "ps_rows cs = map (\<lambda>c. (take 12 (ci_id c), ci_name c, ci_image c, ci_command c, ci_status c))
     (filter (\<lambda>c. \<not> length (ci_id c) < 12) cs)"

text \<open>
  The row of an image reads as the reference that \<open>run\<close> would look up, unless the
  reference has two colons, as one with a registry's port has: then the row names the
  port as the tag, and \<open>run\<close> looks up the empty name.
\<close>

lemma images_row_Parse:
  "images_row x = Parse x \<longleftrightarrow> count_list x CHR '':'' < 2 \<or> images_row x = ([], [])"
proof -
  consider a where "split_on CHR '':'' x = [a]" | a b where "split_on CHR '':'' x = [a, b]"
    | a b c ps where "split_on CHR '':'' x = a # b # c # ps"
    by (cases "split_on CHR '':'' x" rule: remdups_adj.cases) (auto, metis list.exhaust)
  then show ?thesis
    using split_count [of "CHR '':''" x] by cases (simp_all add: images_row_def Parse_def)
qed

section \<open>The request of start\<close>

text \<open>The flags default to true; without a terminal no pseudo-terminal is asked for.\<close>

definition start_command :: "bool \<Rightarrow> bool \<Rightarrow> bool \<Rightarrow> string \<Rightarrow> daemon_request" where
  "start_command startAttach startAllocateTTY is_terminal containerIdentifier =
     (let tty = (if startAttach \<and> startAllocateTTY \<and> \<not> is_terminal then False else startAllocateTTY)
      in \<lparr>dr_command = ''start'', as_run = None,
          as_start = Some \<lparr>sr_container = containerIdentifier, sr_attach = startAttach, sr_tty = tty\<rparr>,
          as_exec = None, as_pull = None\<rparr>)"

section \<open>The terminal's input\<close>

text \<open>
  One round of \<open>CopyInputUntilClosed\<close>: whether the connection is done, what \<open>poll\<close> tells
  (hung up or failed, input there), what \<open>read\<close> gives, and whether the write succeeds.
  A \<open>read\<close> at the end of a file gives no bytes and no error.
\<close>

datatype poll_result = Poll_interrupted | Poll_failed | Polled bool bool

datatype read_error = No_error | Try_again | Read_failed

record round =
  is_done :: bool
  polled :: poll_result
  bytes :: string
  read_error :: read_error
  write_ok :: bool

datatype copy_end = Connection_done | Poll_ended | Hung_up | Write_ended | Read_ended

text \<open>The rounds that are made, the bytes that are written, and the end (\<open>None\<close> when it goes on).\<close>

fun CopyInputUntilClosed :: "round list \<Rightarrow> string \<times> copy_end option" where
  "CopyInputUntilClosed [] = ([], None)"
| "CopyInputUntilClosed (r # rs) =
     (if is_done r then ([], Some Connection_done)
      else (case polled r of
              Poll_interrupted \<Rightarrow> CopyInputUntilClosed rs
            | Poll_failed \<Rightarrow> ([], Some Poll_ended)
            | Polled hup inp \<Rightarrow>
                if hup then ([], Some Hung_up)
                else if \<not> inp then CopyInputUntilClosed rs
                else if bytes r \<noteq> [] \<and> \<not> write_ok r then ([], Some Write_ended)
                else (case read_error r of
                        Read_failed \<Rightarrow> (bytes r, Some Read_ended)
                      | _ \<Rightarrow> (let (out, e) = CopyInputUntilClosed rs in (bytes r @ out, e)))))"

text \<open>A round that reads and forwards.\<close>

definition forwards :: "round \<Rightarrow> bool" where
  "forwards r \<longleftrightarrow> \<not> is_done r \<and> polled r = Polled False True \<and> (bytes r = [] \<or> write_ok r) \<and> read_error r \<noteq> Read_failed"

lemma copy_forwards:
  "\<forall>r \<in> set rs. forwards r \<Longrightarrow>
    CopyInputUntilClosed (rs @ rest) = (let (out, e) = CopyInputUntilClosed rest in (concat (map bytes rs) @ out, e))"
  by (induction rs) (auto simp: forwards_def split: read_error.split prod.split)

text \<open>
  The input is forwarded in order and complete as long as rounds forward; input that is
  there when the writer has hung up (\<open>echo hi | gocker start c\<close>) is not read any more;
  and at the end of a file the loop reads again and again, until the connection is done.
\<close>

lemma hang_up_loses_input:
  assumes "\<forall>r \<in> set rs. forwards r" and "\<not> is_done r" and "polled r = Polled True inp"
  shows "CopyInputUntilClosed (rs @ r # rest) = (concat (map bytes rs), Some Hung_up)"
  using copy_forwards [OF assms(1), of "r # rest"] assms(2,3) by simp

lemma end_of_file_spins:
  assumes "\<forall>r \<in> set rs. forwards r \<and> bytes r = []"
  shows "CopyInputUntilClosed rs = ([], None)"
  using copy_forwards [of rs "[]"] assms by simp

end
