(* ===== verification/Cli_Client.thy ===== *)
theory Cli_Client
  imports Cli
begin

text \<open>
  The commands that ask the daemon: \<open>SendRequest\<close> of \<open>internal/api/client.go\<close>, and
  \<open>cmd/pull.go\<close>, \<open>cmd/images.go\<close> and \<open>cmd/ps.go\<close> from the request to what they show,
  together with the daemon of \<open>Daemon\<close>, which serves others meanwhile.
\<close>

section \<open>One request\<close>

text \<open>
  What an exchange meets: whether the connection is made, the request sent and the
  response received and decoded, what the daemon's handler meets, and the daemon's
  other events before the request arrives and before the client closes the connection.
\<close>

record client_env =
  dialled :: bool
  delivered_request :: bool
  received :: bool
  handling :: handle_env
  earlier :: "daemon_event list"
  later :: "daemon_event list"

datatype client_error = No_connection | Not_sent | Not_received | Refused daemon_error | Bad_data

text \<open>
  \<open>n\<close> is the client's connection.  The end of the input is what the daemon reads when
  the client has closed it, a broken request when sending has failed.
\<close>

definition SendRequest ::
  "(string \<Rightarrow> ip option) \<Rightarrow> client_env \<Rightarrow> nat \<Rightarrow> daemon_request \<Rightarrow> daemon \<Rightarrow> ((client_error + response) \<times> daemon) option" where
  "SendRequest parse6 C n r D =
     (if \<not> dialled C then Some (Inl No_connection, D)
      else Option.bind (daemon_run parse6 (Accept n # earlier C) D) (\<lambda>D1.
        if \<not> delivered_request C
        then map_option (Pair (Inl Not_sent)) (daemon_run parse6 [Receive n Broken (handling C)] D1)
        else Option.bind (daemon_run parse6 (Receive n (Request r) (handling C) # later C) D1) (\<lambda>D2.
          let res = (case d_conns D2 n of
                       Some c \<Rightarrow> if received C \<and> c_sent c \<noteq> [] then Inr (hd (c_sent c)) else Inl Not_received
                     | None \<Rightarrow> Inl Not_received)
          in map_option (Pair res) (daemon_run parse6 [Receive n End_of_input (handling C)] D2))))"

section \<open>The commands\<close>

text \<open>A command ends with an error, or shows something.\<close>

datatype 'a outcome = Fatal client_error | Shows 'a

definition asks ::
  "(string \<Rightarrow> ip option) \<Rightarrow> client_env \<Rightarrow> nat \<Rightarrow> daemon_request \<Rightarrow> (response \<Rightarrow> 'a option) \<Rightarrow> daemon \<Rightarrow> ('a outcome \<times> daemon) option" where
  "asks parse6 C n r shown D =
     map_option (\<lambda>(res, D'). (case res of
         Inl x \<Rightarrow> Fatal x
       | Inr (Failure y) \<Rightarrow> Fatal (Refused y)
       | Inr x \<Rightarrow> (case shown x of None \<Rightarrow> Fatal Bad_data | Some a \<Rightarrow> Shows a), D'))
       (SendRequest parse6 C n r D)"

text \<open>A pull only looks at the status; the listings decode the data.\<close>

definition pull_command :: "(string \<Rightarrow> ip option) \<Rightarrow> client_env \<Rightarrow> nat \<Rightarrow> string \<Rightarrow> daemon \<Rightarrow> (string outcome \<times> daemon) option" where
  "pull_command parse6 C n imageName =
     asks parse6 C n ((bare_request ''pull'')\<lparr>as_pull := Some imageName\<rparr>) (\<lambda>_. Some imageName)"

definition images_command ::
  "(string \<Rightarrow> ip option) \<Rightarrow> client_env \<Rightarrow> nat \<Rightarrow> daemon \<Rightarrow> ((string \<times> string) list outcome \<times> daemon) option" where
  "images_command parse6 C n =
     asks parse6 C n (bare_request ''images'') (\<lambda>x. case x of Images is \<Rightarrow> Some (map images_row is) | _ \<Rightarrow> None)"

definition ps_command ::
  "(string \<Rightarrow> ip option) \<Rightarrow> client_env \<Rightarrow> nat \<Rightarrow> daemon \<Rightarrow>
     ((string \<times> string \<times> string \<times> string \<times> string) list outcome \<times> daemon) option" where
  "ps_command parse6 C n =
     asks parse6 C n (bare_request ''ps'') (\<lambda>x. case x of Containers cs \<Rightarrow> Some (ps_rows cs) | _ \<Rightarrow> None)"

section \<open>What others do meanwhile\<close>

fun elsewhere :: "nat \<Rightarrow> daemon_event \<Rightarrow> bool" where
  "elsewhere n (Accept m) = (m \<noteq> n)"
| "elsewhere n (Receive m i e) = (m \<noteq> n)"
| "elsewhere n (Unblock m e) = (m \<noteq> n)"
| "elsewhere n (Outside op) = True"

text \<open>No request to pull.\<close>

fun no_pull :: "daemon_event \<Rightarrow> bool" where
  "no_pull (Receive m (Request r) e) = (dr_command r \<noteq> ''pull'')"
| "no_pull _ = True"

text \<open>The images on the disk: the manifest, and the file operations that made their directories.\<close>

definition images_of :: "daemon \<Rightarrow> manifest_file \<times> fs_op list" where
  "images_of D = (d_manifest D, d_files D)"

lemma images_of_set_conn [simp]: "images_of (set_conn n c D) = images_of D"
  by (simp add: images_of_def set_conn_def)

lemma handlers_keep:
  "images_of (snd (handleRun e p D)) = images_of D" "images_of (handleExec e q D) = images_of D"
  "handleStart parse6 e u D = Some y \<Longrightarrow> images_of (snd y) = images_of D"
  by (auto simp: images_of_def handleRun_def handleExec_def handleStart_def split: option.splits sum.splits prod.splits)

lemma handle_request_parts:
  assumes "handle_request parse6 e n c r D = Some D'"
  shows "\<exists>c' E. D' = set_conn n c' E \<and> d_conns E = d_conns D \<and> (dr_command r \<noteq> ''pull'' \<longrightarrow> images_of E = images_of D)"
proof -
  consider "dr_command r = ''start''" | "dr_command r = ''pull''" | "dr_command r \<noteq> ''start''" "dr_command r \<noteq> ''pull''"
    by blast
  then show ?thesis
  proof cases
    case 1
    then obtain y where y: "handleStart parse6 e (as_start r) D = Some y"
      using assms by (auto simp: handle_request_def split: option.splits)
    show ?thesis
      using assms 1 y handleStart_conns [OF y] handlers_keep(3) [OF y]
      by (cases y; cases "fst y") (auto simp: handle_request_def respond_def)
  next
    case 2
    then obtain y where y: "handlePull e (as_pull r) D = Some y" "D' = respond n c y"
      using assms by (auto simp: handle_request_def)
    then show ?thesis
      using 2 handlePull_conns [OF y(1)] by (auto simp: respond_def)
  next
    case 3
    then consider "D' = set_conn n (c\<lparr>c_mode := Ended\<rparr>) (handleExec e (as_exec r) D)"
      | "D' = respond n c (handleRun e (as_run r) D)" | x where "D' = respond n c (x, D)"
      using assms by (auto simp: handle_request_def split: if_splits)
    then show ?thesis
      by cases (metis handleExec_conns handlers_keep(2), metis respond_def handleRun_conns handlers_keep(1),
        metis respond_def snd_conv)
  qed
qed

lemma receive_parts:
  assumes "receive parse6 e n i D = Some D'"
  shows "D' = D \<or> (\<exists>c' E. D' = set_conn n c' E \<and> d_conns E = d_conns D \<and>
    (no_pull (Receive n i e) \<longrightarrow> images_of E = images_of D))"
  using assms handle_request_parts [of parse6 e n _ _ D D']
  by (cases i) (fastforce simp: receive_def Let_def split: option.splits if_splits)+

lemma step_elsewhere:
  assumes "daemon_step parse6 ev D = Some D'" and "elsewhere n ev"
  shows "d_conns D' n = d_conns D n"
proof (cases ev)
  case (Receive m i e)
  then show ?thesis
    using assms receive_parts [of parse6 e m i D D'] by (auto simp: set_conn_def)
next
  case (Unblock m e)
  then show ?thesis
    using assms by (auto simp: unblock_def set_conn_def respond_def Let_def split: option.split mode.split)
qed (use assms in \<open>auto simp: set_conn_def split: if_splits\<close>)

lemma step_no_pull:
  assumes "daemon_step parse6 ev D = Some D'" and "no_pull ev"
  shows "images_of D' = images_of D"
proof (cases ev)
  case (Receive m i e)
  then show ?thesis
    using assms receive_parts [of parse6 e m i D D'] by auto
next
  case (Unblock m e)
  have "images_of (D\<lparr>d_world := W\<rparr>) = images_of D" for W
    by (simp add: images_of_def)
  then show ?thesis
    using assms Unblock by (auto simp: unblock_def respond_def Let_def split: option.split mode.split)
qed (use assms in \<open>auto simp: images_of_def set_conn_def split: if_splits\<close>)

lemma run_elsewhere:
  "daemon_run parse6 evs D = Some D' \<Longrightarrow> \<forall>ev \<in> set evs. elsewhere n ev \<Longrightarrow> d_conns D' n = d_conns D n"
  by (induction evs arbitrary: D) (auto simp: bind_eq_Some_conv dest: step_elsewhere)

lemma run_no_pull:
  "daemon_run parse6 evs D = Some D' \<Longrightarrow> \<forall>ev \<in> set evs. no_pull ev \<Longrightarrow> images_of D' = images_of D"
  by (induction evs arbitrary: D) (auto simp: bind_eq_Some_conv dest: step_no_pull)

section \<open>The exchange\<close>

text \<open>What the three commands are answered.\<close>

definition answer :: "handle_env \<Rightarrow> daemon_request \<Rightarrow> daemon \<Rightarrow> (response \<times> daemon) option" where
  "answer e r D =
     (if dr_command r = ''ps'' then Some (handlePs e D, D)
      else if dr_command r = ''images'' then Some (handleImages e D, D)
      else handlePull e (as_pull r) D)"

abbreviation new_conn :: conn where
  "new_conn \<equiv> \<lparr>c_mode = Reading, c_read = [], c_sent = []\<rparr>"

lemma handle_asked:
  assumes "dr_command r \<in> {''pull'', ''images'', ''ps''}"
  shows "handle_request parse6 e n c r D = map_option (respond n c) (answer e r D)"
  using assms by (auto simp: handle_request_def answer_def)

lemma answer_conns: "answer e r D = Some y \<Longrightarrow> d_conns (snd y) = d_conns D"
  by (auto simp: answer_def dest: handlePull_conns split: if_splits)

text \<open>
  The response that the client gets is the answer of the handler in the state that the
  earlier events have led to; after it only the later events change anything.
\<close>

lemma SendRequest_answered:
  assumes "SendRequest parse6 C n r D = Some (Inr x, D')" and "d_conns D n = None"
    and "\<forall>ev \<in> set (earlier C @ later C). elsewhere n ev" and "dr_command r \<in> {''pull'', ''images'', ''ps''}"
  obtains D1 D2 D3 c c' where "daemon_run parse6 (earlier C) (set_conn n new_conn D) = Some D1"
    and "answer (handling C) r D1 = Some (x, D2)"
    and "daemon_run parse6 (later C) (set_conn n c D2) = Some D3" and "D' = set_conn n c' D3"
proof -
  obtain D1 D3 where run: "dialled C" "delivered_request C" "daemon_run parse6 (Accept n # earlier C) D = Some D1"
    "daemon_run parse6 (Receive n (Request r) (handling C) # later C) D1 = Some D3"
    "d_conns D3 n \<noteq> None" "c_sent (the (d_conns D3 n)) \<noteq> []" "x = hd (c_sent (the (d_conns D3 n)))"
    "daemon_run parse6 [Receive n End_of_input (handling C)] D3 = Some D'"
    using assms(1) by (auto simp: SendRequest_def Let_def bind_eq_Some_conv split: if_splits option.splits)
  have D1: "daemon_run parse6 (earlier C) (set_conn n new_conn D) = Some D1"
    using run(3) assms(2) by simp
  have "d_conns D1 n = d_conns (set_conn n new_conn D) n"
    by (rule run_elsewhere [OF D1]) (use assms(3) in simp)
  then have new: "d_conns D1 n = Some new_conn"
    by (simp add: set_conn_def)
  let ?c = "new_conn\<lparr>c_read := [Request r]\<rparr>"
  have "receive parse6 (handling C) n (Request r) D1 = map_option (respond n ?c) (answer (handling C) r D1)"
    using new handle_asked [OF assms(4)] by (simp add: receive_def)
  then obtain y where y: "answer (handling C) r D1 = Some y" "daemon_run parse6 (later C) (respond n ?c y) = Some D3"
    using run(4) by (auto simp: bind_eq_Some_conv)
  let ?c' = "?c\<lparr>c_sent := [fst y]\<rparr>"
  have resp: "respond n ?c y = set_conn n ?c' (snd y)"
    by (simp add: respond_def)
  have "d_conns D3 n = d_conns (respond n ?c y) n"
    by (rule run_elsewhere [OF y(2)]) (use assms(3) in simp)
  then have D3: "d_conns D3 n = Some ?c'"
    by (simp add: respond_def set_conn_def)
  then have "x = fst y"
    using run(7) by simp
  moreover have "D' = set_conn n (?c'\<lparr>c_read := c_read ?c' @ [End_of_input], c_mode := Ended\<rparr>) D3"
    using run(8) D3 by (simp add: receive_def Let_def)
  ultimately show thesis
    using that [OF D1, of "snd y"] y unfolding resp by (cases y) auto
qed

text \<open>Every request ends, whatever fails: the daemon goes on.\<close>

lemma daemon_run_world_ok:
  assumes "\<forall>ev \<in> set evs. event_ok ev" and "world_ok (d_world D)"
  shows "\<exists>D'. daemon_run parse6 evs D = Some D' \<and> world_ok (d_world D')"
  using daemon_run_world [OF assms, of parse6] world_run_ok [OF assms(2), of _ parse6]
  by (fastforce simp: world_moves_def)

lemma SendRequest_ends:
  assumes "\<forall>ev \<in> set (earlier C @ later C). event_ok ev" and "\<forall>i. event_ok (Receive n i (handling C))"
    and "world_ok (d_world D)"
  shows "\<exists>res D'. SendRequest parse6 C n r D = Some (res, D') \<and> world_ok (d_world D')"
proof -
  obtain D1 where D1: "daemon_run parse6 (Accept n # earlier C) D = Some D1" "world_ok (d_world D1)"
    using daemon_run_world_ok [of "Accept n # earlier C" D parse6] assms by fastforce
  obtain E where E: "daemon_run parse6 [Receive n Broken (handling C)] D1 = Some E" "world_ok (d_world E)"
    using daemon_run_world_ok [of "[Receive n Broken (handling C)]" D1 parse6] assms(2) D1(2) by fastforce
  obtain D2 where D2: "daemon_run parse6 (Receive n (Request r) (handling C) # later C) D1 = Some D2" "world_ok (d_world D2)"
    using daemon_run_world_ok [of "Receive n (Request r) (handling C) # later C" D1 parse6] assms(1,2) D1(2) by fastforce
  obtain D3 where D3: "daemon_run parse6 [Receive n End_of_input (handling C)] D2 = Some D3" "world_ok (d_world D3)"
    using daemon_run_world_ok [of "[Receive n End_of_input (handling C)]" D2 parse6] assms(2) D2(2) by fastforce
  show ?thesis
    using D1 D2 D3 E assms(3) unfolding SendRequest_def Let_def by (simp del: daemon_run.simps)
qed

section \<open>What the commands show\<close>

lemma asks_shows:
  assumes "asks parse6 C n r shown D = Some (Shows v, D')"
  obtains x where "SendRequest parse6 C n r D = Some (Inr x, D')" and "\<forall>y. x \<noteq> Failure y" and "shown x = Some v"
proof -
  obtain res where res: "SendRequest parse6 C n r D = Some (res, D')"
    "(case res of Inl x \<Rightarrow> Fatal x | Inr (Failure y) \<Rightarrow> Fatal (Refused y)
      | Inr x \<Rightarrow> (case shown x of None \<Rightarrow> Fatal Bad_data | Some a \<Rightarrow> Shows a)) = Shows v"
    using assms by (auto simp: asks_def)
  then obtain x where x: "res = Inr x"
    by (cases res) simp_all
  have "(\<forall>y. x \<noteq> Failure y) \<and> shown x = Some v"
    using res(2) unfolding x by (cases x) (simp_all split: option.splits)
  then show thesis
    using that res(1) unfolding x by blast
qed

lemma asks_ends:
  assumes "\<forall>ev \<in> set (earlier C @ later C). event_ok ev" and "\<forall>i. event_ok (Receive n i (handling C))"
    and "world_ok (d_world D)"
  shows "\<exists>out D'. asks parse6 C n r shown D = Some (out, D') \<and> world_ok (d_world D')"
  using SendRequest_ends [OF assms, of parse6 r] by (auto simp: asks_def)

text \<open>
  \<open>gocker ps\<close> shows the readable records at the moment the daemon answers, and
  \<open>gocker images\<close> the references of the manifest, as rows.
\<close>

lemma ps_shows:
  assumes "ps_command parse6 C n D = Some (Shows rows, D')" and "d_conns D n = None"
    and "\<forall>ev \<in> set (earlier C @ later C). elsewhere n ev"
  shows "\<exists>D1 cs. daemon_run parse6 (earlier C) (set_conn n new_conn D) = Some D1 \<and>
    ListContainers (h_list_ok (handling C)) (containers (d_world D1)) = Some cs \<and> rows = ps_rows cs"
proof -
  obtain x where x: "SendRequest parse6 C n (bare_request ''ps'') D = Some (Inr x, D')" "\<forall>y. x \<noteq> Failure y"
    "(case x of Containers cs \<Rightarrow> Some (ps_rows cs) | _ \<Rightarrow> None) = Some rows"
    by (rule asks_shows [OF assms(1) [unfolded ps_command_def]])
  obtain D1 D2 where D1: "daemon_run parse6 (earlier C) (set_conn n new_conn D) = Some D1"
    "answer (handling C) (bare_request ''ps'') D1 = Some (x, D2)"
    by (rule SendRequest_answered [OF x(1) assms(2,3)]) (simp add: bare_request_def)
  then show ?thesis
    using x(2,3) by (auto simp: answer_def bare_request_def handlePs_def split: option.splits if_splits)
qed

lemma images_shows:
  assumes "images_command parse6 C n D = Some (Shows rows, D')" and "d_conns D n = None"
    and "\<forall>ev \<in> set (earlier C @ later C). elsewhere n ev"
  shows "\<exists>D1 refs. daemon_run parse6 (earlier C) (set_conn n new_conn D) = Some D1 \<and>
    ListImages (d_manifest D1) = Some refs \<and> rows = map images_row refs"
proof -
  obtain x where x: "SendRequest parse6 C n (bare_request ''images'') D = Some (Inr x, D')" "\<forall>y. x \<noteq> Failure y"
    "(case x of Images is \<Rightarrow> Some (map images_row is) | _ \<Rightarrow> None) = Some rows"
    by (rule asks_shows [OF assms(1) [unfolded images_command_def]])
  obtain D1 D2 where D1: "daemon_run parse6 (earlier C) (set_conn n new_conn D) = Some D1"
    "answer (handling C) (bare_request ''images'') D1 = Some (x, D2)"
    by (rule SendRequest_answered [OF x(1) assms(2,3)]) (simp add: bare_request_def)
  then show ?thesis
    using x(2,3) by (auto simp: answer_def bare_request_def handleImages_def split: option.splits if_splits)
qed

text \<open>A pull that reports success has succeeded, and its effect is still there.\<close>

lemma pull_shows:
  assumes "pull_command parse6 C n ref D = Some (Shows y, D')" and "d_conns D n = None"
    and "\<forall>ev \<in> set (earlier C @ later C). elsewhere n ev \<and> no_pull ev"
  shows "\<exists>ops. PullImage (h_pull (handling C)) ref (d_manifest D) = (Pulled, d_manifest D', ops) \<and>
    d_files D' = d_files D @ ops"
proof -
  let ?r = "(bare_request ''pull'')\<lparr>as_pull := Some ref\<rparr>"
  obtain x where x: "SendRequest parse6 C n ?r D = Some (Inr x, D')" "\<forall>y. x \<noteq> Failure y" "Some ref = Some y"
    by (rule asks_shows [OF assms(1) [unfolded pull_command_def]])
  obtain D1 D2 D3 c c' where D1: "daemon_run parse6 (earlier C) (set_conn n new_conn D) = Some D1"
    "answer (handling C) ?r D1 = Some (x, D2)"
    "daemon_run parse6 (later C) (set_conn n c D2) = Some D3" "D' = set_conn n c' D3"
    by (rule SendRequest_answered [OF x(1) assms(2)]) (use assms(3) in \<open>auto simp: bare_request_def\<close>)
  have "images_of D1 = images_of (set_conn n new_conn D)" and "images_of D3 = images_of (set_conn n c D2)"
    by (rule run_no_pull [OF D1(1)] run_no_pull [OF D1(3)], use assms(3) in simp)+
  then have same: "images_of D1 = images_of D" "images_of D' = images_of D2"
    using D1(4) by simp_all
  have "handlePull (handling C) (Some ref) D1 = Some (x, D2)"
    using D1(2) by (simp add: answer_def bare_request_def)
  then obtain mf ops where "PullImage (h_pull (handling C)) ref (d_manifest D1) = (Pulled, mf, ops)"
    "D2 = D1\<lparr>d_manifest := mf, d_files := d_files D1 @ ops\<rparr>"
    using x(2) by (auto simp: handlePull_def split: prod.splits pull_result.splits)
  then show ?thesis
    using same by (simp add: images_of_def)
qed

section \<open>From a pull to a run\<close>

text \<open>Every child of a \<open>run\<close> with these arguments gets this directory as its root.\<close>

definition runs_on :: "string list \<Rightarrow> manifest_file \<Rightarrow> string \<Rightarrow> bool" where
  "runs_on args mf dir \<longleftrightarrow>
     (\<forall>fl disk r as inits e peer a E.
        run_command fl disk args = Some (r, as, inits) \<and> the_request E = run_child_request e r as inits peer a \<and>
        the_manifest E = mf \<longrightarrow>
        (let all = overlay_of (''/var/lib/gocker/containers/'' @ hex_id e @ ''/rootfs'') dir #
               map Run_shell (file_commands fl disk) @ [Exec_command (command_path E) (command_line args)]
         in prefix (user_actions (snd (child_run E))) all \<and>
            (fst (child_run E) \<longrightarrow> user_actions (snd (child_run E)) = all) \<and>
            ((\<forall>k. errno_at E k = 0) \<and> a \<noteq> [] \<longrightarrow> fst (child_run E))))"

lemma runs_on_found:
  assumes "Parse ref = (name, tag)" and "findImageRootfsPath name tag mf = Some dir"
  shows "runs_on (ref # args) mf dir"
proof -
  have image: "rq_image r = name \<and> rq_tag r = tag" if "run_command fl disk (ref # args) = Some (r, as, inits)"
    for fl disk as inits and r :: run_request
    using that assms(1) by (auto simp: run_command_def Let_def split: if_splits sum.splits load_error.splits)
  show ?thesis
    unfolding runs_on_def Let_def
  proof (intro allI impI, elim conjE)
    fix fl disk r as inits e peer a and E :: child_env
    assume run: "run_command fl disk (ref # args) = Some (r, as, inits)"
      and req: "the_request E = run_child_request e r as inits peer a" and mf: "the_manifest E = mf"
    note run_child = runs_child_of_run [OF run req]
    show "prefix (user_actions (snd (child_run E)))
        (overlay_of (''/var/lib/gocker/containers/'' @ hex_id e @ ''/rootfs'') dir #
         map Run_shell (file_commands fl disk) @ [Exec_command (command_path E) (command_line (ref # args))]) \<and>
      (fst (child_run E) \<longrightarrow> user_actions (snd (child_run E)) =
        overlay_of (''/var/lib/gocker/containers/'' @ hex_id e @ ''/rootfs'') dir #
        map Run_shell (file_commands fl disk) @ [Exec_command (command_path E) (command_line (ref # args))]) \<and>
      ((\<forall>k. errno_at E k = 0) \<and> a \<noteq> [] \<longrightarrow> fst (child_run E))"
      using run_child image [OF run] assms(2) by (simp add: image_mount_def mf)
  qed
qed


section \<open>A concrete pull\<close>

text \<open>Another connection lists the containers before the puller has closed its own.\<close>

definition demo_exchange :: client_env where
  "demo_exchange = \<lparr>dialled = True, delivered_request = True, received = True, handling = demo_handle (good_run ''c1'' 11),
     earlier = [Accept 2], later = [Receive 2 (Request (bare_request ''ps'')) (demo_handle (good_run ''c1'' 11))]\<rparr>"


end
