(* ===== verification/Overlay_Setup.thy ===== *)
theory Overlay_Setup
  imports Image
begin

text \<open>
  \<open>internal/container/overlay.go\<close>: a set-up of the overlay that nothing in the repository
  calls; the child mounts its own (\<open>SetupRootfs\<close>).  It starts from an archive by a name
  under which no pull leaves one.
\<close>

section \<open>The set-up\<close>

definition ContainersDir :: string where
  "ContainersDir = ''/var/lib/gocker/containers''"

text \<open>What is attempted: a directory, unpacking and listing with \<open>tar\<close>, and the mount with its options.\<close>

datatype overlay_op = Make_layer string | Tar_extract string string | Tar_list string | Mount_layers string string

record overlay_env =
  random_bytes :: "u8 list option"
  stat_works :: "string \<Rightarrow> bool"
  layer_ok :: "string \<Rightarrow> bool"
  tar_ok :: bool
  layers_mounted :: bool

definition hex_digit :: "nat \<Rightarrow> char" where
  "hex_digit n = ''0123456789abcdef'' ! n"

definition hex_byte :: "u8 \<Rightarrow> string" where
  "hex_byte b = [hex_digit (unat b div 16), hex_digit (unat b mod 16)]"

definition generateContainerID :: "u8 list option \<Rightarrow> string option" where
  "generateContainerID = map_option (\<lambda>bytes. concat (map hex_byte bytes))"

fun make_layers :: "(string \<Rightarrow> bool) \<Rightarrow> string list \<Rightarrow> bool \<times> overlay_op list" where
  "make_layers ok [] = (True, [])"
| "make_layers ok (dir # dirs) =
     (if ok dir then (let (b, ops) = make_layers ok dirs in (b, Make_layer dir # ops)) else (False, [Make_layer dir]))"

definition extractImage :: "bool \<Rightarrow> string \<Rightarrow> string \<Rightarrow> bool \<times> overlay_op list" where
  "extractImage ok tarPath targetDir =
     (ok, if ok then [Tar_extract tarPath targetDir] else [Tar_extract tarPath targetDir, Tar_list tarPath])"

definition mountOverlay :: "bool \<Rightarrow> string \<Rightarrow> string \<Rightarrow> string \<Rightarrow> string \<Rightarrow> bool \<times> overlay_op list" where
  "mountOverlay ok lowerDir upperDir workDir mergedDir =
     (ok, [Mount_layers mergedDir (''lowerdir='' @ lowerDir @ '',upperdir='' @ upperDir @ '',workdir='' @ workDir)])"

definition SetupOverlayFS :: "overlay_env \<Rightarrow> string \<Rightarrow> string option \<times> overlay_op list" where
  "SetupOverlayFS E imageName =
     (case generateContainerID (random_bytes E) of
        None \<Rightarrow> (None, [])
      | Some containerID \<Rightarrow>
          if \<not> Exists (stat_works E) imageName then (None, [])
          else (let imageTarPath = GetImagePath imageName;
                    containerDir = Join [ContainersDir, containerID];
                    lowerDir = Join [containerDir, ''lower'']; upperDir = Join [containerDir, ''upper''];
                    workDir = Join [containerDir, ''work'']; mergedDir = Join [containerDir, ''merged''];
                    (made, ops) = make_layers (layer_ok E) [lowerDir, upperDir, workDir, mergedDir]
                in if \<not> made then (None, ops)
                   else (let (extracted, ops1) = extractImage (tar_ok E) imageTarPath lowerDir
                         in if \<not> extracted then (None, ops @ ops1)
                            else (let (mounted, ops2) = mountOverlay (layers_mounted E) lowerDir upperDir workDir mergedDir
                                  in (if mounted then Some mergedDir else None, ops @ ops1 @ ops2)))))"

section \<open>What it needs and does\<close>

lemma generateContainerID_length: "generateContainerID (Some bytes) = Some i \<Longrightarrow> length i = 2 * length bytes"
  by (auto simp: generateContainerID_def hex_byte_def length_concat comp_def sum_list_triv)

text \<open>A success has made the four directories, unpacked the archive below and mounted them.\<close>

lemma overlay_success:
  assumes "SetupOverlayFS E imageName = (Some merged, ops)"
  obtains d where "merged = Join [d, ''merged'']" and "Exists (stat_works E) imageName"
    and "ops = map (\<lambda>n. Make_layer (Join [d, n])) [''lower'', ''upper'', ''work'', ''merged''] @
      [Tar_extract (GetImagePath imageName) (Join [d, ''lower'']),
       Mount_layers merged (''lowerdir='' @ Join [d, ''lower''] @ '',upperdir='' @ Join [d, ''upper''] @ '',workdir='' @ Join [d, ''work''])]"
  using assms
  by (auto simp: SetupOverlayFS_def extractImage_def mountOverlay_def Let_def split: option.splits if_splits)

lemma overlay_needs_archive: "\<not> stat_works E (GetImagePath imageName) \<Longrightarrow> SetupOverlayFS E imageName = (None, [])"
  by (simp add: SetupOverlayFS_def Exists_def split: option.split)

text \<open>
  No pull of an archive whose entries stay below their destination creates the file that
  is looked for, when the image's name has no separator: whatever was pulled, the set-up
  then fails at once.
\<close>

lemma replace_first_set: "set (replace_first a b s) \<subseteq> insert b (set s)"
  by (induction s) auto

lemma archive_path:
  assumes "sep \<notin> set name"
  shows "GetImagePath name = abs_path [''var'', ''lib'', ''gocker'', ''images'', sanitizeImageName name @ ''.tar'']"
    and "plain (sanitizeImageName name @ ''.tar'')"
proof -
  let ?ds = "[''var'', ''lib'', ''gocker'', ''images'']" and ?f = "sanitizeImageName name @ ''.tar''"
  have ds: "\<forall>s \<in> set ?ds. plain s"
    by (simp add: plain_def sep_def)
  have no_sep: "sep \<notin> set ?f"
    using assms replace_first_set [of "CHR '':''" "CHR ''_''" name] by (auto simp: sanitizeImageName_def sep_def)
  have "length ?f \<noteq> 1 \<and> length ?f \<noteq> 2"
    by simp
  then have "?f \<noteq> ''.'' \<and> ?f \<noteq> ''..''"
    by (metis length_Cons list.size(3) One_nat_def numeral_2_eq_2)
  then show f: "plain ?f"
    using no_sep by (simp add: plain_def)
  have "path_names ?f = [?f]"
    using f by (simp add: path_names_def split_on_none plain_def)
  then show "GetImagePath name = abs_path [''var'', ''lib'', ''gocker'', ''images'', ?f]"
    using Join_abs_path [OF ds, of ?f 0 "[?f]"] f
    by (auto simp: GetImagePath_def ImagesDir_def abs_path_def sep_def plain_def)
qed

lemma store_paths:
  assumes "is_hex hex" and "12 \<le> length hex"
  defines "ds \<equiv> [''var'', ''lib'', ''gocker'', ''images'', take 12 hex]"
  shows "Join [ImagesDir, take 12 hex] = abs_path ds" and "Join [abs_path ds, ''image.tar''] = abs_path (ds @ [''image.tar''])"
    and "rootfs_dir hex = abs_path (ds @ [''rootfs''])" and "\<forall>s \<in> set (ds @ [''image.tar'', ''rootfs'']). plain s"
    and "CHR ''.'' \<notin> set (take 12 hex)"
proof -
  let ?ds = "[''var'', ''lib'', ''gocker'', ''images'']" and ?i = "take 12 hex"
  have i: "set ?i \<subseteq> set ''0123456789abcdef''" "length ?i = 12"
    using assms set_take_subset [of 12 hex] by (auto simp: is_hex_def)
  then have plain: "plain ?i"
    by (auto simp: plain_def sep_def)
  show ds: "\<forall>s \<in> set (ds @ [''image.tar'', ''rootfs'']). plain s"
    using plain by (simp add: ds_def plain_def sep_def)
  show "CHR ''.'' \<notin> set ?i"
    using i(1) by auto
  have "path_names ?i = [?i]" and tar: "path_names ''image.tar'' = [''image.tar'']"
    using plain by (simp_all add: path_names_def split_on_none plain_def sep_def)
  then show "Join [ImagesDir, ?i] = abs_path ds"
    using Join_abs_path [of ?ds ?i 0 "[?i]"] plain
    by (auto simp: ImagesDir_def abs_path_def ds_def sep_def plain_def)
  show "Join [abs_path ds, ''image.tar''] = abs_path (ds @ [''image.tar''])"
    using Join_abs_path [of ds "''image.tar''" 0 "[''image.tar'']"] ds tar by simp
  show "rootfs_dir hex = abs_path (ds @ [''rootfs''])"
    using images_path(2) [OF assms(1,2)] by (simp add: ds_def)
qed

lemma PullImage_ops:
  assumes "PullImage E ref mf = (res, mf', ops)" and "digest E = Some (''sha256:'' @ hex)" and "op \<in> set ops"
  shows "12 \<le> length hex" and "op = Make_dir (Join [ImagesDir, take 12 hex]) 493 \<or>
    op = Write_file (Join [Join [ImagesDir, take 12 hex], ''image.tar'']) 438 \<or>
    op \<in> set (snd (Untar (can_open E) (archive E) (Join [Join [ImagesDir, take 12 hex], ''rootfs''])))"
  using assms by (auto simp: PullImage_def trim_prefix_def Let_def split: if_splits prod.splits)

lemma pull_makes_no_archive:
  assumes "PullImage E ref mf = (res, mf', ops)" and "digest E = Some (''sha256:'' @ hex)" and "is_hex hex"
    and "\<forall>is h. archive E = Some is \<and> Header h \<in> set is \<longrightarrow> ''..'' \<notin> set (path_names (h_name h))"
    and "sep \<notin> set name" and "op \<in> set ops"
  shows "op_path op \<noteq> GetImagePath name"
proof -
  let ?ds = "[''var'', ''lib'', ''gocker'', ''images'']" and ?i = "take 12 hex" and ?f = "sanitizeImageName name @ ''.tar''"
  note cases = PullImage_ops [OF assms(1,2,6)]
  note paths = store_paths [OF assms(3) cases(1)]
  note tarfile = archive_path [OF assms(5)]
  have plain: "\<forall>s \<in> set (?ds @ [?f]). plain s"
    using tarfile(2) by (simp add: plain_def sep_def)
  have "\<exists>ns. op_path op = abs_path (?ds @ ?i # ns) \<and> (\<forall>s \<in> set (?ds @ ?i # ns). plain s)"
    using cases(2)
  proof (elim disjE)
    assume "op \<in> set (snd (Untar (can_open E) (archive E) (Join [Join [ImagesDir, ?i], ''rootfs''])))"
    then have "op \<in> set (snd (Untar (can_open E) (archive E) (abs_path (?ds @ [?i, ''rootfs'']))))"
      using images_path(1) [OF assms(3) cases(1)] paths(3) by simp
    from Untar_ops [OF this] show ?thesis
    proof (elim disjE exE conjE)
      fix "is" h
      assume h: "archive E = Some is" "Header h \<in> set is" "op_path op = Join [abs_path (?ds @ [?i, ''rootfs'']), h_name h]"
      let ?ns = "path_names (h_name h)"
      have up: "''..'' \<notin> set ?ns"
        using assms(4) h(1,2) by blast
      have "op_path op = abs_path (?ds @ [?i, ''rootfs''] @ ?ns)"
        using h(3) Join_abs_path [of "?ds @ [?i, ''rootfs'']" "h_name h" 0 ?ns] up paths(4) by simp
      moreover have "\<forall>s \<in> set ?ns. plain s"
        using up path_names_ok by metis
      ultimately show ?thesis
        using paths(4) by (intro exI [where x = "''rootfs'' # ?ns"]) simp
    qed (use paths(4) in \<open>intro exI [where x = "[''rootfs'']"], simp\<close>)
  next
    assume "op = Write_file (Join [Join [ImagesDir, ?i], ''image.tar'']) 438"
    then show ?thesis
      using paths(1,2,4) by (intro exI [where x = "[''image.tar'']"]) simp
  qed (use paths(1,4) in \<open>intro exI [where x = "[]"], simp\<close>)
  then obtain ns where ns: "op_path op = abs_path (?ds @ ?i # ns)" "\<forall>s \<in> set (?ds @ ?i # ns). plain s"
    by blast
  have "?i \<noteq> ?f"
    using paths(5) by (metis in_set_conv_decomp append_Cons)
  then show ?thesis
    using abs_path_inj [OF ns(2) plain] ns(1) tarfile(1) by simp
qed

end
