(* ===== verification/Spec2Isabelle.thy ===== *)
theory Spec2Isabelle
  imports Obsv_Export Sched_Monitor Sched_Monitor_Race Sched_Monitor_User Pf_Mvp Latency Kernel_Contexts Kernel_Mm_Types Collector_Stats Container_Addresses Collector_Ctl Cli_Client Overlay_Setup
begin

text \<open>
  Gocker is a small container runtime (Go: \<open>internal\<close>, \<open>cmd\<close>, \<open>pkg\<close>) with tools that
  observe containers through BPF programs (C) and user-space collectors (C and Go):
  \<open>gocker-obsv\<close> (five tracing modules and a collector), \<open>eBPF\<close> (a scheduler monitor that
  runs inside each container), \<open>eBPF/pf-mvp\<close> (a page-fault monitor) and \<open>eBPF/network\<close> (a
  packet-latency monitor).

  \<^bold>\<open>How the parts interact.\<close>  \<open>gocker run\<close> allocates an address (\<open>ipam.go\<close>), starts a
  child in new namespaces, puts it into the cgroup \<open>gocker/<id>\<close> with its limits and
  writes \<open>config.json\<close>; the child builds its root file system from the image that
  \<open>pull\<close> unpacked, configures its network, starts the scheduler monitor and executes the
  command.  The tracing programs run on kernel events of all tasks, filter by the
  ancestor cgroup at a level that user space computes from paths, and count in maps;
  the collector reads the maps and the files of the cgroups below \<open>gocker\<close> every second
  and exports the increments.

  \<^bold>\<open>Theories and sources.\<close>
  \<^item> \<open>Prelude\<close>: integer types, generic facts, folds over keyed entries.  \<open>Go_Text\<close>,
    \<open>Go_Path\<close>: what the Go parts use of \<open>strconv\<close>, \<open>strings\<close>, \<open>bufio\<close> and
    \<open>path/filepath\<close>, by their documented rules, with round trips.
  \<^item> \<open>Kernel\<close>: the boundary to the kernel.  What a helper returns is a field of \<open>task\<close>,
    map updates are parameters with the documented contracts as named predicates.
  \<^item> \<open>C_Layout\<close>: offsets and sizes of C structs, and the decoding by Go's \<open>binary.Read\<close>.
    \<open>Kernel_Tracepoint_Types\<close>, \<open>Kernel_Task_Types\<close>, \<open>Kernel_Cgroup_Types\<close>,
    \<open>Kernel_Map_Types\<close>, \<open>Kernel_Mm_Types\<close>, \<open>Kernel_Net_Types\<close>: the types of the two \<open>vmlinux.h\<close> that the
    programs read, with the types these contain by value; \<open>Kernel_Contexts\<close>: each member
    that a program reads lies where the program reads it.
  \<^item> \<open>Obsv_Common\<close> and \<open>Obsv_Pf\<close>, \<open>Obsv_Sched\<close>, \<open>Obsv_Cpu\<close>, \<open>Obsv_Mem\<close>, \<open>Obsv_Sys\<close>:
    \<open>gocker-obsv/bpf/*.bpf.c\<close>, one record of maps and one function per program.  The
    locales \<open>sampler\<close>, \<open>sampled\<close>, \<open>accounting\<close> and \<open>lru_cache\<close> state what the modules
    share; each module interprets them, and its totals over any run of events follow.
  \<^item> \<open>Sched_Monitor\<close> (\<open>eBPF/sched_monitor.bpf.c\<close>), \<open>Sched_Monitor_Race\<close> (its statistics
    routines as interleaved single accesses), \<open>Sched_Monitor_User\<close> (\<open>eBPF/main.c\<close>).
  \<^item> \<open>Pf_Mvp\<close> and \<open>Latency\<close>: the two other monitors, programs and exporters;
    \<open>Exporter_Start\<close>: environment, level and inode of the target cgroup.
  \<^item> \<open>Collector\<close> (configuration, admin endpoint, list of cgroups), \<open>Collector_Scan\<close> (labels
    and scans of the maps; locale \<open>counter\<close>), \<open>Collector_Stats\<close> (\<open>memory.stat\<close>, pressure
    files, one whole tick; locale \<open>read_counter\<close>): \<open>gocker-obsv/cmd/collector/main.go\<close>.
  \<^item> \<open>Syscall_Names\<close>: the table of system-call names; no two numbers have one label.
    \<open>Obsv_Export\<close>: the modules and the collector together, invocations of programs and
    scans of their maps in any order (locale \<open>exported\<close>, for each exported map).
  \<^item> \<open>Ipam\<close>: \<open>internal/network/ipam.go\<close>.  \<open>Container\<close> (data, configuration files, lookups,
    cgroups), \<open>Container_Run\<close> (the operations on a world of records, allocations,
    cgroups, processes and waiters), \<open>Container_Life\<close> and \<open>Container_Addresses\<close> (their
    properties): \<open>internal/runtime.go\<close>, \<open>internal/remove.go\<close>, \<open>internal/container/manager.go\<close>,
    \<open>cgroup.go\<close>, \<open>pkg/common.go\<close>.
  \<^item> \<open>Image\<close>: \<open>internal/image/manager.go\<close> and the image lookup of \<open>rootfs.go\<close>.
    \<open>Container_Init\<close>: the child, \<open>init.go\<close>, \<open>rootfs.go\<close>, \<open>internal/network/container.go\<close>,
    \<open>dns.go\<close>, as a sequence of calls each of which can fail.
  \<^item> \<open>Daemon\<close>: \<open>internal/daemon\<close>, connections and handlers, as events on the world of
    \<open>Container_Run\<close>.
  \<^item> \<open>Container_Records\<close> (what a record keeps of its run), \<open>Cli_Run\<close> (\<open>cmd/run.go\<close> and the
    requests of the two parents), \<open>Cli\<close> (the other commands, \<open>internal/tty/io.go\<close>),
    \<open>Cli_Client\<close> (\<open>internal/api/client.go\<close> and the commands that ask the daemon, composed
    with it), \<open>Overlay_Setup\<close> (\<open>internal/container/overlay.go\<close>, which nothing calls),
    \<open>Host_Network\<close> (\<open>internal/network/bridge.go\<close>, \<open>veth.go\<close>), \<open>Collector_Ctl\<close>
    (\<open>gocker-obsv/cmd/ctl/main.go\<close>).

  \<^bold>\<open>What the lemmas show.\<close>  For the programs: the counters after any run of events are
  exactly the charges the code's conditions allow, per CPU slot and modulo \<open>2^64\<close>; the
  five copies of the configuration code agree (below).  For the monitors: which records
  reach the ring buffer and what user space makes of them.  For the collector: every
  series grows by what the maps and files grew, only listed cgroups are reported, and
  composed with the programs by exactly what the kernel's events charge to the cgroup;
  the configuration never reaches the programs, whose map value has another size.  For
  the runtime: the records, the allocation file, the addresses and the processes stay
  consistent over any sequence of operations and failures, containers can always be
  brought to their end, and what \<open>StopContainer\<close> breaks; the child runs nothing of the
  user's before it is isolated, and runs exactly what the command line says; a restart
  only has the command; what a pull has unpacked is what a run of the same reference
  mounts.  For the daemon: each request gets its answer, and nothing happens but the
  operations of the runtime.

  \<^bold>\<open>Bounds and fuel.\<close>  Machine integers of the C parts and of Go's \<open>uint32\<close> and \<open>uint64\<close>
  are words and wrap.  The walk of \<open>eBPF/main.c\<close> ends by a measure on what is left of
  \<open>PATH_MAX\<close>.  The address search is a \<open>partial_function\<close>, as it does not end for every
  subnet; for the configured one it is proved to end.  The key iteration of the statistics
  (\<open>dump_loop\<close>, also a \<open>partial_function\<close>) follows the chain of keys that the kernel
  enumerates and is proved to end with it.  No definition has fuel.

  \<^bold>\<open>Not modelled.\<close>  The rest of the two generated \<open>vmlinux.h\<close>; the verifier and loading of
  BPF programs; cobra, JSON, terminals, nsenter and log output (calls of packages and
  commands, without decisions of their own beyond what is modelled); the values of the
  constants of \<open>golang.org/x/sys/unix\<close> (a parameter); dashboards, scripts and build files.
  Floating-point series values are the exact sums of the integers added.  Go's data races (the admin
  handler writes the configuration while the collector's loop reads it; the daemon's
  connections read and write the same files) are outside the model: handlers, ticks and
  requests happen one after the other, except that a \<open>start\<close> waits while others go on;
  what two overlapping pulls and two overlapping runs can do is shown for their steps in
  \<open>Image\<close> and \<open>Ipam\<close>.
\<close>

section \<open>The configuration across the modules\<close>


text \<open>
  The read-only constants have no effect.  \<open>cfg_map\<close> is an array map, whose
  single element exists from load time, so the fallback branch of \<open>load_cfg\<close> is
  never taken: before user space writes the element it reads as zero, which means
  rate 1 and no filter, whatever \<open>ENABLE_FILTER\<close> and \<open>TARGET_CGID\<close> say.
\<close>

lemma rodata_never_read:
  assumes "array1 (cfg_map s)"
  shows "load_cfg (s\<lparr>ro := r\<rparr>) = load_cfg s \<and>
    (cfg_map s = array1_init \<lparr>sample_rate = 0, enable_filter = 0, target_level = 0, target_cgid = 0\<rparr> \<longrightarrow>
     load_cfg s = (1, 0, 0, 0) \<and> in_target_subtree_current t s)"
proof -
  obtain c where "cfg_map s 0 = Some c"
    using array1_0 [OF assms] by blast
  then show ?thesis
    by (simp add: load_cfg_def in_target_subtree_current_def array1_init_def)
qed


end
